(* ===== verification/Prelude.thy ===== *)
theory Prelude
  imports Complex_Main
begin

text \<open>
  Shared vocabulary of the development: the JavaScript values that cross the borders of the
  services (\<open>json\<close>), the exceptions a handler can raise (\<open>exn\<close>), the state-and-exception
  type of an \<open>async\<close> method (\<open>act\<close>) with its combinators and proof rules, and the pieces of the
  JavaScript standard library the sources use (\<open>trim\<close>, \<open>Number\<close>, \<open>String\<close>, \<open>toISOString\<close>,
  property access).
\<close>

named_theorems act_simps \<open>how the combinators of \<open>act\<close> run\<close>
named_theorems keeps_rules \<open>when an action keeps a predicate of its state\<close>
named_theorems js_simps \<open>evaluation of the JavaScript helpers\<close>

section \<open>JavaScript values\<close>

text \<open>
  A value as the code sees it. \<open>JNum\<close> holds the mathematical value of a finite number, \<open>JNonFinite\<close>
  stands for \<open>NaN\<close> and the infinities, \<open>JDate\<close> is a \<open>Date\<close> (milliseconds since the epoch) and an
  object is the list of its own properties in insertion order. Integers beyond \<open>2^53\<close>, where a
  double loses precision, are not distinguished from their exact value.
\<close>

datatype json =
    JUndef
  | JNull
  | JBool bool
  | JNum rat
  | JNonFinite
  | JStr string
  | JDate int
  | JArr "json list"
  | JObj "(string \<times> json) list"

type_synonym jobject = "(string \<times> json) list"

fun nullish :: "json \<Rightarrow> bool" where
  "nullish JUndef = True"
| "nullish JNull = True"
| "nullish _ = False"

fun truthy :: "json \<Rightarrow> bool" where
  "truthy JUndef = False"
| "truthy JNull = False"
| "truthy (JBool b) = b"
| "truthy (JNum r) = (r \<noteq> 0)"
| "truthy JNonFinite = False"
| "truthy (JStr s) = (s \<noteq> [])"
| "truthy (JDate _) = True"
| "truthy (JArr _) = True"
| "truthy (JObj _) = True"

definition coalesce :: "json \<Rightarrow> json \<Rightarrow> json" where
  "coalesce a b = (if nullish a then b else a)"

definition obj_get :: "jobject \<Rightarrow> string \<Rightarrow> json" where
  "obj_get kvs k = (case map_of kvs k of None \<Rightarrow> JUndef | Some v \<Rightarrow> v)"

definition has_own :: "jobject \<Rightarrow> string \<Rightarrow> bool" where
  "has_own kvs k = (k \<in> set (map fst kvs))"

fun obj_set :: "string \<Rightarrow> json \<Rightarrow> jobject \<Rightarrow> jobject" where
  "obj_set k v [] = [(k, v)]"
| "obj_set k v ((k', v') # kvs) = (if k' = k then (k, v) # kvs else (k', v') # obj_set k v kvs)"

fun spread :: "jobject \<Rightarrow> jobject \<Rightarrow> jobject" where
  "spread base [] = base"
| "spread base ((k, v) # kvs) = spread (obj_set k v base) kvs"

fun get_prop :: "json \<Rightarrow> string \<Rightarrow> json" where
  "get_prop (JObj kvs) k = obj_get kvs k"
| "get_prop _ k = JUndef"

fun jopt :: "('a \<Rightarrow> json) \<Rightarrow> 'a option \<Rightarrow> json" where
  "jopt f None = JNull"
| "jopt f (Some a) = f a"

definition jint :: "int \<Rightarrow> json" where
  "jint n = JNum (of_int n)"

lemma jint_inject [simp]: "jint a = jint b \<longleftrightarrow> a = b"
  by (simp add: jint_def)

lemma obj_get_Nil [simp]: "obj_get [] k = JUndef"
  by (simp add: obj_get_def)

lemma obj_get_Cons [simp]: "obj_get ((k, v) # kvs) k' = (if k = k' then v else obj_get kvs k')"
  by (simp add: obj_get_def)

lemma has_own_Nil [simp]: "\<not> has_own [] k"
  by (simp add: has_own_def)

lemma has_own_Cons [simp]: "has_own ((k, v) # kvs) k' \<longleftrightarrow> k = k' \<or> has_own kvs k'"
  by (auto simp: has_own_def)

lemma obj_get_set [simp]: "obj_get (obj_set k v kvs) k' = (if k = k' then v else obj_get kvs k')"
  by (induction k v kvs rule: obj_set.induct) auto

lemma has_own_set [simp]: "has_own (obj_set k v kvs) k' \<longleftrightarrow> k = k' \<or> has_own kvs k'"
  by (induction k v kvs rule: obj_set.induct) auto

lemma fst_obj_set: "fst ` set (obj_set k v kvs) = insert k (fst ` set kvs)"
  by (induction k v kvs rule: obj_set.induct) auto

lemma distinct_obj_set: "distinct (map fst kvs) \<Longrightarrow> distinct (map fst (obj_set k v kvs))"
  by (induction k v kvs rule: obj_set.induct) (auto simp: fst_obj_set image_iff)

section \<open>Exceptions and actions\<close>

text \<open>
  \<open>HttpExn status message fields\<close> is a NestJS exception (\<open>BadRequestException\<close> 400,
  \<open>UnauthorizedException\<close> 401, \<open>ForbiddenException\<close> 403, \<open>NotFoundException\<close> 404,
  \<open>ConflictException\<close> 409, \<open>ServiceUnavailableException\<close> 503); the fields are those of an object
  response beside its message. \<open>PgErr\<close> is an error of PostgreSQL with its SQLSTATE code,
  \<open>JsErr\<close> a plain \<open>Error\<close>, \<open>WsErr\<close> a \<open>WsException\<close> with its payload.
\<close>

datatype exn =
    HttpExn nat string jobject
  | PgErr string
  | JsErr string
  | WsErr json

abbreviation BadRequest :: "string \<Rightarrow> exn" where "BadRequest m \<equiv> HttpExn 400 m []"
abbreviation Unauthorized :: "string \<Rightarrow> exn" where "Unauthorized m \<equiv> HttpExn 401 m []"
abbreviation Forbidden :: "string \<Rightarrow> exn" where "Forbidden m \<equiv> HttpExn 403 m []"
abbreviation NotFound :: "string \<Rightarrow> exn" where "NotFound m \<equiv> HttpExn 404 m []"
abbreviation Conflict :: "string \<Rightarrow> exn" where "Conflict m \<equiv> HttpExn 409 m []"
abbreviation ServiceUnavailable :: "string \<Rightarrow> exn" where
  "ServiceUnavailable m \<equiv> HttpExn 503 m []"

text \<open>
  An \<open>async\<close> method: from the state to a result or an exception, and the state it leaves. The state
  is returned beside an exception too, since what was written before a \<open>throw\<close> stays written.
\<close>

type_synonym ('s, 'a) act = "'s \<Rightarrow> (exn + 'a) \<times> 's"

definition ret :: "'a \<Rightarrow> ('s, 'a) act" where
  "ret a = (\<lambda>s. (Inr a, s))"

definition throw :: "exn \<Rightarrow> ('s, 'a) act" where
  "throw e = (\<lambda>s. (Inl e, s))"

definition gets :: "('s \<Rightarrow> 'a) \<Rightarrow> ('s, 'a) act" where
  "gets f = (\<lambda>s. (Inr (f s), s))"

definition modify :: "('s \<Rightarrow> 's) \<Rightarrow> ('s, unit) act" where
  "modify f = (\<lambda>s. (Inr (), f s))"

definition andThen :: "('s, 'a) act \<Rightarrow> ('a \<Rightarrow> ('s, 'b) act) \<Rightarrow> ('s, 'b) act" where
  "andThen m k = (\<lambda>s. case m s of (Inl e, s') \<Rightarrow> (Inl e, s') | (Inr a, s') \<Rightarrow> k a s')"

definition tryCatch :: "('s, 'a) act \<Rightarrow> (exn \<Rightarrow> ('s, 'a) act) \<Rightarrow> ('s, 'a) act" where
  "tryCatch m h = (\<lambda>s. case m s of (Inl e, s') \<Rightarrow> h e s' | (Inr a, s') \<Rightarrow> (Inr a, s'))"

definition unless :: "bool \<Rightarrow> exn \<Rightarrow> ('s, unit) act" where
  "unless ok e = (if ok then ret () else throw e)"

fun forEach :: "'a list \<Rightarrow> ('a \<Rightarrow> ('s, unit) act) \<Rightarrow> ('s, unit) act" where
  "forEach [] f = ret ()"
| "forEach (x # xs) f = andThen (f x) (\<lambda>_. forEach xs f)"

lemma ret_run [simp, act_simps]: "ret a s = (Inr a, s)"
  by (simp add: ret_def)

lemma throw_run [simp, act_simps]: "throw e s = (Inl e, s)"
  by (simp add: throw_def)

lemma gets_run [simp, act_simps]: "gets f s = (Inr (f s), s)"
  by (simp add: gets_def)

lemma modify_run [simp, act_simps]: "modify f s = (Inr (), f s)"
  by (simp add: modify_def)

lemma andThen_run [act_simps]:
  "andThen m k s = (case m s of (Inl e, s') \<Rightarrow> (Inl e, s') | (Inr a, s') \<Rightarrow> k a s')"
  by (simp add: andThen_def)

lemma tryCatch_run [act_simps]:
  "tryCatch m h s = (case m s of (Inl e, s') \<Rightarrow> h e s' | (Inr a, s') \<Rightarrow> (Inr a, s'))"
  by (simp add: tryCatch_def)

lemma unless_run [act_simps]: "unless ok e s = (if ok then (Inr (), s) else (Inl e, s))"
  by (simp add: unless_def)

lemma andThen_ret [simp]: "andThen (ret a) k = k a"
  by (simp add: fun_eq_iff andThen_run)

lemma andThen_throw [simp]: "andThen (throw e) k = throw e"
  by (simp add: fun_eq_iff andThen_run)

lemma andThen_gets_run [simp]: "andThen (gets f) k s = k (f s) s"
  by (simp add: andThen_run)

lemma andThen_modify_run [simp]: "andThen (modify f) k s = k () (f s)"
  by (simp add: andThen_run)

lemma andThen_assoc: "andThen (andThen m f) g = andThen m (\<lambda>a. andThen (f a) g)"
  by (auto simp: fun_eq_iff andThen_run split: prod.splits sum.splits)

lemma andThen_InrE:
  assumes "andThen m k s = (Inr b, t)"
  obtains a s' where "m s = (Inr a, s')" and "k a s' = (Inr b, t)"
  using assms by (auto simp: andThen_run split: prod.splits sum.splits)

lemma unless_InrE:
  assumes "unless ok e s = (Inr a, t)"
  obtains "ok" and "t = s"
  using assms by (auto simp: unless_run split: if_splits)

subsection \<open>Invariants of actions\<close>

text \<open>
  \<open>keeps I m\<close>: whatever the outcome of \<open>m\<close>, the predicate \<open>I\<close> survives it. \<open>reads m\<close>: \<open>m\<close> leaves the
  state as it found it.
\<close>

definition keeps :: "('s \<Rightarrow> bool) \<Rightarrow> ('s, 'a) act \<Rightarrow> bool" where
  "keeps I m \<longleftrightarrow> (\<forall>s. I s \<longrightarrow> I (snd (m s)))"

definition reads :: "('s, 'a) act \<Rightarrow> bool" where
  "reads m \<longleftrightarrow> (\<forall>s. snd (m s) = s)"

lemma keepsI: "(\<And>s. I s \<Longrightarrow> I (snd (m s))) \<Longrightarrow> keeps I m"
  by (simp add: keeps_def)

lemma keepsD: "keeps I m \<Longrightarrow> I s \<Longrightarrow> m s = (r, t) \<Longrightarrow> I t"
  by (force simp: keeps_def)

lemma readsD: "reads m \<Longrightarrow> m s = (r, t) \<Longrightarrow> t = s"
  unfolding reads_def by (metis snd_conv)

lemma reads_keeps: "reads m \<Longrightarrow> keeps I m"
  by (simp add: keeps_def reads_def)

lemma keeps_ret [keeps_rules]: "keeps I (ret a)"
  by (simp add: keeps_def)

lemma keeps_throw [keeps_rules]: "keeps I (throw e)"
  by (simp add: keeps_def)

lemma keeps_gets [keeps_rules]: "keeps I (gets f)"
  by (simp add: keeps_def)

lemma keeps_unless [keeps_rules]: "keeps I (unless ok e)"
  by (simp add: keeps_def unless_run)

lemma keeps_modify: "(\<And>s. I s \<Longrightarrow> I (f s)) \<Longrightarrow> keeps I (modify f)"
  by (simp add: keeps_def)

lemma keeps_andThen [keeps_rules]:
  "keeps I m \<Longrightarrow> (\<And>a. keeps I (k a)) \<Longrightarrow> keeps I (andThen m k)"
  by (fastforce simp: keeps_def andThen_run split: prod.splits sum.splits)

lemma keeps_tryCatch [keeps_rules]:
  "keeps I m \<Longrightarrow> (\<And>e. keeps I (h e)) \<Longrightarrow> keeps I (tryCatch m h)"
  by (fastforce simp: keeps_def tryCatch_run split: prod.splits sum.splits)

lemma keeps_if [keeps_rules]:
  "(b \<Longrightarrow> keeps I m) \<Longrightarrow> (\<not> b \<Longrightarrow> keeps I n) \<Longrightarrow> keeps I (if b then m else n)"
  by simp

lemma keeps_option [keeps_rules]:
  "(x = None \<Longrightarrow> keeps I m) \<Longrightarrow> (\<And>a. x = Some a \<Longrightarrow> keeps I (k a)) \<Longrightarrow>
   keeps I (case x of None \<Rightarrow> m | Some a \<Rightarrow> k a)"
  by (cases x) simp_all

lemma keeps_list [keeps_rules]:
  "(x = [] \<Longrightarrow> keeps I m) \<Longrightarrow> (\<And>a as. x = a # as \<Longrightarrow> keeps I (k a as)) \<Longrightarrow>
   keeps I (case x of [] \<Rightarrow> m | a # as \<Rightarrow> k a as)"
  by (cases x) simp_all

lemma keeps_prod [keeps_rules]:
  "(\<And>a b. x = (a, b) \<Longrightarrow> keeps I (k a b)) \<Longrightarrow> keeps I (case x of (a, b) \<Rightarrow> k a b)"
  by (cases x) simp_all

lemma keeps_forEach [keeps_rules]:
  "(\<And>x. x \<in> set xs \<Longrightarrow> keeps I (f x)) \<Longrightarrow> keeps I (forEach xs f)"
  by (induction xs) (auto intro: keeps_rules)

lemma reads_ret [simp]: "reads (ret a)"
  by (simp add: reads_def)

lemma reads_throw [simp]: "reads (throw e)"
  by (simp add: reads_def)

lemma reads_gets [simp]: "reads (gets f)"
  by (simp add: reads_def)

lemma reads_unless [simp]: "reads (unless ok e)"
  by (simp add: reads_def unless_run)

lemma reads_andThen:
  assumes "reads m" and "\<And>a. reads (k a)"
  shows "reads (andThen m k)"
  unfolding reads_def
proof
  fix s
  obtain r t where m: "m s = (r, t)" by (cases "m s")
  with assms(1) have "t = s" by (rule readsD)
  with m assms(2) show "snd (andThen m k s) = s"
    by (auto simp: andThen_run reads_def split: sum.splits)
qed

lemma reads_forEach: "(\<And>x. reads (f x)) \<Longrightarrow> reads (forEach xs f)"
  by (induction xs) (simp_all add: reads_andThen)

lemma forEach_Inr:
  assumes "forEach xs f s = (Inr u, t)" and "\<And>x. reads (f x)"
  shows "t = s \<and> (\<forall>x \<in> set xs. \<exists>v. f x s = (Inr v, s))"
  using assms(1)
proof (induction xs arbitrary: s)
  case Nil
  then show ?case by simp
next
  case (Cons x xs)
  from Cons.prems have "andThen (f x) (\<lambda>_. forEach xs f) s = (Inr u, t)" by simp
  then obtain v s1 where x: "f x s = (Inr v, s1)" and xs: "forEach xs f s1 = (Inr u, t)"
    by (rule andThen_InrE)
  from assms(2) x have s1: "s1 = s" by (rule readsD)
  with x have "\<exists>v. f x s = (Inr v, s)" by blast
  with Cons.IH [OF xs [unfolded s1]] show ?case by simp
qed

section \<open>Strings and numbers of the JavaScript library\<close>

text \<open>
  A string is a list of characters; the model's characters are the code units below 256.
\<close>

fun concat_str :: "string list \<Rightarrow> string" where
  "concat_str [] = []"
| "concat_str (s # ss) = s @ concat_str ss"

definition is_ws :: "char \<Rightarrow> bool" where
  "is_ws c = (c \<in> set [CHR 0x09, CHR 0x0A, CHR 0x0B, CHR 0x0C, CHR 0x0D, CHR '' '', CHR 0xA0])"

definition js_trim :: "string \<Rightarrow> string" where
  "js_trim s = rev (dropWhile is_ws (rev (dropWhile is_ws s)))"

definition is_digit :: "char \<Rightarrow> bool" where
  "is_digit c = (c \<in> set ''0123456789'')"

definition digit_char :: "nat \<Rightarrow> char" where
  "digit_char d = ''0123456789'' ! d"

definition digit_val :: "char \<Rightarrow> nat" where
  "digit_val c = of_char c - 48"

fun nat_str :: "nat \<Rightarrow> string" where
  "nat_str n = (if n < 10 then [digit_char n] else nat_str (n div 10) @ [digit_char (n mod 10)])"

declare nat_str.simps [simp del]

definition int_str :: "int \<Rightarrow> string" where
  "int_str n = (if n < 0 then CHR ''-'' # nat_str (nat (- n)) else nat_str (nat n))"

definition digits_nat :: "string \<Rightarrow> nat" where
  "digits_nat s = foldl (\<lambda>a c. 10 * a + digit_val c) 0 s"

definition lower_char :: "char \<Rightarrow> char" where
  "lower_char c = (let n = of_char c :: nat in if 65 \<le> n \<and> n \<le> 90 then char_of (n + 32) else c)"

definition js_lower :: "string \<Rightarrow> string" where
  "js_lower = map lower_char"

fun starts_with :: "string \<Rightarrow> string \<Rightarrow> bool" where
  "starts_with s [] = True"
| "starts_with [] (p # ps) = False"
| "starts_with (c # s) (p # ps) = (c = p \<and> starts_with s ps)"

definition ends_with :: "string \<Rightarrow> string \<Rightarrow> bool" where
  "ends_with s p = starts_with (rev s) (rev p)"

fun join_str :: "string \<Rightarrow> string list \<Rightarrow> string" where
  "join_str sep [] = []"
| "join_str sep [s] = s"
| "join_str sep (s # t # ss) = s @ sep @ join_str sep (t # ss)"

text \<open>\<open>s.split(c)\<close> for a separator of one character; never the empty list.\<close>

fun split_str :: "char \<Rightarrow> string \<Rightarrow> string list" where
  "split_str c [] = [[]]"
| "split_str c (x # xs) =
     (if x = c then [] # split_str c xs
      else (case split_str c xs of [] \<Rightarrow> [[x]] | w # ws \<Rightarrow> (x # w) # ws))"

text \<open>
  \<open>Number(s)\<close>: white space around is dropped, the empty string is 0, then a decimal literal with
  an optional sign, fraction and exponent, or an unsigned hexadecimal, octal or binary literal;
  anything else is \<open>NaN\<close>.
\<close>

definition pow10 :: "bool \<Rightarrow> nat \<Rightarrow> rat" where
  "pow10 neg n = (if neg then 1 / 10 ^ n else 10 ^ n)"

definition exponent_part :: "string \<Rightarrow> rat option" where
  "exponent_part s =
     (case s of
        [] \<Rightarrow> Some 1
      | e # r \<Rightarrow>
          (if e \<in> {CHR ''e'', CHR ''E''} then
             (let neg = (case r of c # _ \<Rightarrow> c = CHR ''-'' | [] \<Rightarrow> False);
                  ds = (case r of c # r' \<Rightarrow> if c \<in> {CHR ''-'', CHR ''+''} then r' else r | [] \<Rightarrow> [])
              in if ds \<noteq> [] \<and> list_all is_digit ds then Some (pow10 neg (digits_nat ds)) else None)
           else None))"

definition unsigned_decimal :: "string \<Rightarrow> rat option" where
  "unsigned_decimal s =
     (let ip = takeWhile is_digit s;
          r = dropWhile is_digit s;
          dot = (case r of c # _ \<Rightarrow> c = CHR ''.'' | [] \<Rightarrow> False);
          fp = (if dot then takeWhile is_digit (tl r) else []);
          r2 = (if dot then dropWhile is_digit (tl r) else r)
      in if ip = [] \<and> fp = [] then None
         else map_option (\<lambda>e. of_nat (digits_nat (ip @ fp)) / 10 ^ length fp * e) (exponent_part r2))"

definition radix_val :: "char \<Rightarrow> nat option" where
  "radix_val c =
     (let n = of_char c :: nat
      in if 48 \<le> n \<and> n \<le> 57 then Some (n - 48)
         else if 97 \<le> n \<and> n \<le> 102 then Some (n - 87)
         else if 65 \<le> n \<and> n \<le> 70 then Some (n - 55)
         else None)"

fun radix_nat :: "nat \<Rightarrow> nat \<Rightarrow> string \<Rightarrow> nat option" where
  "radix_nat b acc [] = Some acc"
| "radix_nat b acc (c # cs) =
     (case radix_val c of
        None \<Rightarrow> None
      | Some d \<Rightarrow> if d < b then radix_nat b (b * acc + d) cs else None)"

definition radix_of :: "string \<Rightarrow> nat option" where
  "radix_of s =
     (case s of
        z # m # _ \<Rightarrow>
          (if z \<noteq> CHR ''0'' then None
           else if m = CHR ''x'' \<or> m = CHR ''X'' then Some 16
           else if m = CHR ''o'' \<or> m = CHR ''O'' then Some 8
           else if m = CHR ''b'' \<or> m = CHR ''B'' then Some 2
           else None)
      | _ \<Rightarrow> None)"

definition number_or_nan :: "rat option \<Rightarrow> json" where
  "number_or_nan x = (case x of None \<Rightarrow> JNonFinite | Some r \<Rightarrow> JNum r)"

definition signed_decimal :: "string \<Rightarrow> rat option" where
  "signed_decimal s =
     (case s of
        [] \<Rightarrow> None
      | c # r \<Rightarrow>
          (if c = CHR ''+'' then unsigned_decimal r
           else if c = CHR ''-'' then map_option uminus (unsigned_decimal r)
           else unsigned_decimal s))"

definition string_number :: "string \<Rightarrow> json" where
  "string_number s0 =
     (let s = js_trim s0
      in if s = [] then JNum 0
         else (case radix_of s of
                 Some b \<Rightarrow>
                   (if drop 2 s = [] then JNonFinite
                    else number_or_nan (map_option of_nat (radix_nat b 0 (drop 2 s))))
               | None \<Rightarrow> number_or_nan (signed_decimal s)))"

text \<open>\<open>Number(v)\<close>. Arrays, which the code never hands to it, are not numbers here.\<close>

fun js_Number :: "json \<Rightarrow> json" where
  "js_Number JUndef = JNonFinite"
| "js_Number JNull = JNum 0"
| "js_Number (JBool b) = JNum (if b then 1 else 0)"
| "js_Number (JNum r) = JNum r"
| "js_Number JNonFinite = JNonFinite"
| "js_Number (JStr s) = string_number s"
| "js_Number (JDate t) = JNum (of_int t)"
| "js_Number (JArr _) = JNonFinite"
| "js_Number (JObj _) = JNonFinite"

definition is_integer :: "rat \<Rightarrow> bool" where
  "is_integer r = (of_int \<lfloor>r\<rfloor> = r)"

lemma is_integer_of_int [simp]: "is_integer (of_int n)"
  by (simp add: is_integer_def)

lemma is_integer_of_nat [simp]: "is_integer (of_nat n)"
  by (simp add: is_integer_def)

subsection \<open>Decimal strings\<close>

lemma digit_char_props:
  "d < 10 \<Longrightarrow> is_digit (digit_char d) \<and> digit_val (digit_char d) = d \<and> \<not> is_ws (digit_char d)"
proof -
  assume "d < 10"
  then have "d \<in> {0, 1, 2, 3, 4, 5, 6, 7, 8, 9}" by auto
  then show ?thesis
    by (auto simp: digit_char_def is_digit_def digit_val_def is_ws_def)
qed

lemma nat_str_digits: "list_all is_digit (nat_str n)"
proof (induction n rule: nat_str.induct)
  case (1 n)
  then show ?case
    by (cases "n < 10") (simp_all add: nat_str.simps [of n] digit_char_props)
qed

lemma nat_str_nonempty [simp]: "nat_str n \<noteq> []"
  by (simp add: nat_str.simps [of n])

lemma digits_nat_snoc: "digits_nat (s @ [c]) = 10 * digits_nat s + digit_val c"
  by (simp add: digits_nat_def)

lemma digits_nat_str [simp]: "digits_nat (nat_str n) = n"
proof (induction n rule: nat_str.induct)
  case (1 n)
  show ?case
  proof (cases "n < 10")
    case True
    then show ?thesis by (simp add: nat_str.simps [of n] digits_nat_def digit_char_props)
  next
    case False
    with "1.IH" have "digits_nat (nat_str (n div 10)) = n div 10" by simp
    with False show ?thesis
      by (simp add: nat_str.simps [of n] digits_nat_snoc digit_char_props)
  qed
qed

lemma digit_not_ws: "is_digit c \<Longrightarrow> \<not> is_ws c"
  by (auto simp: is_digit_def is_ws_def)

lemma js_trim_digits: "list_all is_digit s \<Longrightarrow> js_trim s = s"
proof -
  assume d: "list_all is_digit s"
  have keep: "dropWhile is_ws t = t" if "list_all is_digit t" for t
    using that by (cases t) (auto simp: digit_not_ws)
  from d have "list_all is_digit (rev s)" by (simp add: list_all_iff)
  with d show ?thesis by (simp add: js_trim_def keep)
qed

lemma takeWhile_all: "list_all P xs \<Longrightarrow> takeWhile P xs = xs"
  by (induction xs) auto

lemma dropWhile_all: "list_all P xs \<Longrightarrow> dropWhile P xs = []"
  by (induction xs) auto

lemma unsigned_decimal_digits:
  "s \<noteq> [] \<Longrightarrow> list_all is_digit s \<Longrightarrow> unsigned_decimal s = Some (of_nat (digits_nat s))"
  by (simp add: unsigned_decimal_def exponent_part_def takeWhile_all dropWhile_all)

lemma radix_of_digits: "list_all is_digit s \<Longrightarrow> radix_of s = None"
  by (auto simp: radix_of_def is_digit_def split: list.splits)

lemma signed_decimal_digits: "list_all is_digit s \<Longrightarrow> signed_decimal s = (if s = [] then None else unsigned_decimal s)"
  by (auto simp: signed_decimal_def is_digit_def split: list.splits)

lemma string_number_digits:
  "s \<noteq> [] \<Longrightarrow> list_all is_digit s \<Longrightarrow> string_number s = JNum (of_nat (digits_nat s))"
  by (simp add: string_number_def Let_def js_trim_digits radix_of_digits signed_decimal_digits
      unsigned_decimal_digits number_or_nan_def)

lemma string_number_nat_str [simp]: "string_number (nat_str n) = JNum (of_nat n)"
  by (simp add: string_number_digits nat_str_digits)

lemma nat_str_inject [simp]: "nat_str m = nat_str n \<longleftrightarrow> m = n"
  by (metis digits_nat_str)

lemma int_str_inject [simp]: "int_str m = int_str n \<longleftrightarrow> m = n"
proof -
  have nd: "nat_str k \<noteq> CHR ''-'' # t" for k t
    using nat_str_digits [of k] by (auto simp: is_digit_def)
  then have nd': "CHR ''-'' # t \<noteq> nat_str k" for k t by metis
  show ?thesis by (auto simp: int_str_def nd nd')
qed

subsection \<open>Rounding and dates\<close>

text \<open>
  \<open>ROUND(x, 2)\<close> and the storage of a \<open>NUMERIC(p, 2)\<close> column: half away from zero; the result
  counts hundredths. Its text form has two decimals.
\<close>

definition round2 :: "rat \<Rightarrow> int" where
  "round2 r = (if r < 0 then - \<lfloor>- r * 100 + 1 / 2\<rfloor> else \<lfloor>r * 100 + 1 / 2\<rfloor>)"

definition pad2 :: "nat \<Rightarrow> string" where
  "pad2 n = (if n < 10 then CHR ''0'' # nat_str n else nat_str n)"

definition numeric2_text :: "int \<Rightarrow> string" where
  "numeric2_text c =
     (if c < 0 then ''-'' else []) @ nat_str (nat \<bar>c\<bar> div 100) @ ''.'' @ pad2 (nat \<bar>c\<bar> mod 100)"

lemma round2_hundredths [simp]: "round2 (of_int c / 100) = c"
proof (cases "c < 0")
  case True
  have "\<lfloor>(of_int (- c) :: rat) + 1 / 2\<rfloor> = - c" by linarith
  with True show ?thesis by (simp add: round2_def)
next
  case False
  have "\<lfloor>(of_int c :: rat) + 1 / 2\<rfloor> = c" by linarith
  with False show ?thesis by (simp add: round2_def)
qed

lemma round2_mono: "x \<le> y \<Longrightarrow> round2 x \<le> round2 y"
proof -
  assume le: "x \<le> y"
  have pos: "\<lfloor>x * 100 + 1 / 2\<rfloor> \<le> \<lfloor>y * 100 + 1 / 2\<rfloor>" using le by (intro floor_mono) simp
  have neg: "\<lfloor>- y * 100 + 1 / 2\<rfloor> \<le> \<lfloor>- x * 100 + 1 / 2\<rfloor>" using le by (intro floor_mono) simp
  have mix: "0 \<le> \<lfloor>- x * 100 + 1 / 2\<rfloor>" if "x < 0" using that by simp
  have mix2: "0 \<le> \<lfloor>y * 100 + 1 / 2\<rfloor>" if "\<not> y < 0" using that by simp
  show ?thesis
  proof (cases "x < 0")
    case True
    show ?thesis
    proof (cases "y < 0")
      case True
      with \<open>x < 0\<close> neg show ?thesis by (simp add: round2_def)
    next
      case False
      have "round2 x \<le> 0" using \<open>x < 0\<close> mix by (simp add: round2_def)
      moreover have "0 \<le> round2 y" using False mix2 by (simp add: round2_def)
      ultimately show ?thesis by simp
    qed
  next
    case False
    then show ?thesis using le pos by (auto simp: round2_def)
  qed
qed

text \<open>The civil date of a day number, and \<open>Date.prototype.toISOString\<close>.\<close>

definition civil_of_days :: "int \<Rightarrow> int \<times> int \<times> int" where
  "civil_of_days days =
     (let z = days + 719468;
          era = z div 146097;
          doe = z mod 146097;
          yoe = (doe - doe div 1460 + doe div 36524 - doe div 146096) div 365;
          doy = doe - (365 * yoe + yoe div 4 - yoe div 100);
          mp = (5 * doy + 2) div 153;
          d = doy - (153 * mp + 2) div 5 + 1;
          m = (if mp < 10 then mp + 3 else mp - 9)
      in (yoe + era * 400 + (if m \<le> 2 then 1 else 0), m, d))"

definition pad_to :: "nat \<Rightarrow> nat \<Rightarrow> string" where
  "pad_to w n = replicate (w - length (nat_str n)) (CHR ''0'') @ nat_str n"

definition toISOString :: "int \<Rightarrow> string" where
  "toISOString ms =
     (let days = ms div 86400000; t = nat (ms mod 86400000);
          (y, m, d) = civil_of_days days;
          year = (if 0 \<le> y \<and> y \<le> 9999 then pad_to 4 (nat y)
                  else (if y < 0 then ''-'' else ''+'') @ pad_to 6 (nat \<bar>y\<bar>))
      in year @ ''-'' @ pad_to 2 (nat m) @ ''-'' @ pad_to 2 (nat d) @ ''T'' @
         pad_to 2 (t div 3600000) @ '':'' @ pad_to 2 (t div 60000 mod 60) @ '':'' @
         pad_to 2 (t div 1000 mod 60) @ ''.'' @ pad_to 3 (t mod 1000) @ ''Z'')"

end
