(* ===== verification/Config.thy ===== *)
theory Config
  imports Prelude
begin

text \<open>
  \<open>src/src/config/configuration.ts\<close> and \<open>src/src/common/cors/cors-policy.ts\<close>: how the process
  environment becomes the application's configuration. The environment is a partial map from names
  to strings; a configuration error is the \<open>JsErr\<close> the code throws at start-up. The platform's
  \<open>URL\<close> parser is a parameter: \<open>url s\<close> is \<open>None\<close> when \<open>new URL(s)\<close> throws, otherwise the
  \<open>protocol\<close> and \<open>origin\<close> of the result.
\<close>

record app_config =
  nodeEnv :: string
  port :: rat
  corsOrigins :: "string list"
  corsAllowAnyOrigin :: bool
  corsCredentials :: bool
  databaseUrl :: string
  databaseSsl :: bool
  databasePoolMax :: rat
  jwtAccessSecret :: string
  jwtRefreshSecret :: string
  jwtAccessTtl :: string
  jwtRefreshTtl :: string
  adminPhone :: "string option"
  adminPassword :: "string option"
  adminPhones :: "string list"
  otpSigningSecret :: string
  otpProvider :: string
  otpTtlMinutes :: rat
  otpDevMode :: bool
  akedlyApiKey :: "string option"
  akedlyPipelineId :: "string option"
  akedlyBaseUrl :: string
  storageProvider :: string
  storageBucket :: string
  storagePublicBaseUrl :: string
  storageUploadTtlSeconds :: rat
  storageSigningSecret :: string
  cloudinaryCloudName :: string
  cloudinaryApiKey :: string
  cloudinaryApiSecret :: string
  throttleTtl :: rat
  throttleLimit :: rat
  throttleDevBypass :: bool
  logLevel :: string
  logPretty :: bool
  logHttpBody :: bool
  logWsPayload :: bool
  redisUrl :: "string option"

definition DEFAULT_DEV_CORS_ORIGINS :: "string list" where
  "DEFAULT_DEV_CORS_ORIGINS = [''http://localhost:800'', ''http://localhost:5174'']"

section \<open>Parsing single values\<close>

definition given :: "string option \<Rightarrow> bool" where
  "given v = (case v of None \<Rightarrow> False | Some s \<Rightarrow> s \<noteq> [])"

definition or_else :: "string option \<Rightarrow> string \<Rightarrow> string" where
  "or_else v d = (case v of None \<Rightarrow> d | Some s \<Rightarrow> s)"

definition parseBoolean :: "string option \<Rightarrow> bool \<Rightarrow> bool" where
  "parseBoolean value fallback =
     (case value of
        None \<Rightarrow> fallback
      | Some s \<Rightarrow> if s = [] then fallback else js_lower s = ''true'')"

definition parseNumber :: "string option \<Rightarrow> rat \<Rightarrow> rat" where
  "parseNumber value fallback =
     (case value of
        None \<Rightarrow> fallback
      | Some s \<Rightarrow>
          if s = [] then fallback
          else (case string_number s of JNum r \<Rightarrow> r | _ \<Rightarrow> fallback))"

definition parsePositiveInteger :: "string option \<Rightarrow> rat \<Rightarrow> rat" where
  "parsePositiveInteger value fallback =
     (let parsed = parseNumber value fallback
      in if is_integer parsed \<and> parsed > 0 then parsed else fallback)"

text \<open>\<open>list.split(',').map(trim).filter(Boolean)\<close>, used for origins and for phone numbers.\<close>

definition split_list :: "string option \<Rightarrow> string list" where
  "split_list v = filter (\<lambda>s. s \<noteq> []) (map js_trim (split_str (CHR '','') (or_else v [])))"

section \<open>CORS\<close>

type_synonym url_parser = "string \<Rightarrow> (string \<times> string) option"

definition isValidCorsOrigin :: "url_parser \<Rightarrow> string \<Rightarrow> bool" where
  "isValidCorsOrigin url origin =
     (if origin = ''*'' then True
      else if ends_with origin ''/'' then False
      else (case url origin of
              None \<Rightarrow> False
            | Some (protocol, parsed_origin) \<Rightarrow>
                (protocol = ''http:'' \<or> protocol = ''https:'') \<and> parsed_origin = origin))"

record cors_policy =
  cp_origins :: "string list"
  cp_allowAny :: bool
  cp_credentials :: bool

definition parseCorsOrigins :: "url_parser \<Rightarrow> string option \<Rightarrow> string \<Rightarrow> exn + cors_policy" where
  "parseCorsOrigins url CORS_ORIGINS env_name =
     (let origins = split_list CORS_ORIGINS;
          hasWildcard = (''*'' \<in> set origins);
          hasSpecificOrigins = list_ex (\<lambda>o'. o' \<noteq> ''*'') origins;
          invalidOrigins = filter (\<lambda>o'. \<not> isValidCorsOrigin url o') origins
      in if env_name = ''production'' \<and> origins = [] then
           Inl (JsErr ''CORS_ORIGINS is required in production'')
         else if hasWildcard \<and> hasSpecificOrigins then
           Inl (JsErr ''CORS_ORIGINS cannot mix \"*\" with specific origins'')
         else if env_name = ''production'' \<and> hasWildcard then
           Inl (JsErr ''CORS_ORIGINS wildcard \"*\" is not allowed in production'')
         else if invalidOrigins \<noteq> [] then
           Inl (JsErr (''CORS_ORIGINS contains invalid origin(s): '' @ join_str '', '' invalidOrigins))
         else if origins = [] \<and> env_name \<noteq> ''production'' then
           Inr \<lparr>cp_origins = DEFAULT_DEV_CORS_ORIGINS, cp_allowAny = False, cp_credentials = True\<rparr>
         else if hasWildcard then
           Inr \<lparr>cp_origins = [''*''], cp_allowAny = True, cp_credentials = False\<rparr>
         else Inr \<lparr>cp_origins = origins, cp_allowAny = False, cp_credentials = True\<rparr>)"

definition CORS_METHODS :: "string list" where
  "CORS_METHODS = [''GET'', ''POST'', ''PUT'', ''PATCH'', ''DELETE'', ''OPTIONS'']"

text \<open>The \<open>origin\<close> option handed to the CORS middleware: \<open>true\<close> or a list.\<close>

datatype cors_origin = AnyOrigin | Origins "string list"

record cors_options =
  co_origin :: cors_origin
  co_credentials :: bool
  co_methods :: "string list option"

definition buildCorsRuntimePolicy :: "app_config \<Rightarrow> cors_policy \<times> string list" where
  "buildCorsRuntimePolicy cfg =
     (\<lparr>cp_origins = corsOrigins cfg, cp_allowAny = corsAllowAnyOrigin cfg,
       cp_credentials = corsCredentials cfg\<rparr>, CORS_METHODS)"

definition buildHttpCorsOptions :: "cors_policy \<times> string list \<Rightarrow> cors_options" where
  "buildHttpCorsOptions policy =
     (case policy of (p, methods) \<Rightarrow>
        \<lparr>co_origin = (if cp_allowAny p then AnyOrigin else Origins (cp_origins p)),
         co_credentials = cp_credentials p, co_methods = Some methods\<rparr>)"

definition buildSocketCorsOptions :: "cors_policy \<Rightarrow> cors_options" where
  "buildSocketCorsOptions p =
     \<lparr>co_origin = (if cp_allowAny p then AnyOrigin else Origins (cp_origins p)),
      co_credentials = cp_credentials p, co_methods = None\<rparr>"

section \<open>The whole configuration\<close>

type_synonym process_env = "string \<Rightarrow> string option"

definition require_env :: "string option \<Rightarrow> string \<Rightarrow> exn + unit" where
  "require_env v m = (if given v then Inr () else Inl (JsErr m))"

fun first_failure :: "(exn + unit) list \<Rightarrow> (exn + unit)" where
  "first_failure [] = Inr ()"
| "first_failure (Inl e # cs) = Inl e"
| "first_failure (Inr u # cs) = first_failure cs"

text \<open>The checks of the factory in the order of the code.\<close>

definition config_checks :: "process_env \<Rightarrow> (exn + unit) list" where
  "config_checks env =
     (let provider = js_lower (or_else (env ''OTP_PROVIDER'') ''console'');
          storage = js_lower (or_else (env ''STORAGE_PROVIDER'') ''cloudinary'')
      in [require_env (env ''DATABASE_URL'') ''DATABASE_URL is required'',
          require_env (env ''JWT_ACCESS_SECRET'') ''JWT_ACCESS_SECRET is required'',
          require_env (env ''JWT_REFRESH_SECRET'') ''JWT_REFRESH_SECRET is required'',
          require_env (env ''STORAGE_SIGNING_SECRET'') ''STORAGE_SIGNING_SECRET is required'',
          require_env (env ''OTP_SIGNING_SECRET'') ''OTP_SIGNING_SECRET is required'',
          (if provider \<noteq> ''console'' \<and> provider \<noteq> ''akedly''
           then Inl (JsErr ''OTP_PROVIDER must be either \"console\" or \"akedly\"'') else Inr ()),
          (if storage \<noteq> ''cloudinary''
           then Inl (JsErr ''STORAGE_PROVIDER currently supports only \"cloudinary\"'') else Inr ()),
          (if provider = ''akedly'' then
             require_env (env ''AKEDLY_API_KEY'') ''AKEDLY_API_KEY is required when OTP_PROVIDER=akedly''
           else Inr ()),
          (if provider = ''akedly'' then
             require_env (env ''AKEDLY_PIPELINE_ID'')
               ''AKEDLY_PIPELINE_ID is required when OTP_PROVIDER=akedly''
           else Inr ()),
          require_env (env ''CLOUDINARY_CLOUD_NAME'')
            ''CLOUDINARY_CLOUD_NAME is required when STORAGE_PROVIDER=cloudinary'',
          require_env (env ''CLOUDINARY_API_KEY'')
            ''CLOUDINARY_API_KEY is required when STORAGE_PROVIDER=cloudinary'',
          require_env (env ''CLOUDINARY_API_SECRET'')
            ''CLOUDINARY_API_SECRET is required when STORAGE_PROVIDER=cloudinary''])"

definition configuration :: "url_parser \<Rightarrow> process_env \<Rightarrow> exn + app_config" where
  "configuration url env =
     (let node_env = or_else (env ''NODE_ENV'') ''development''
      in case first_failure (config_checks env) of
           Inl e \<Rightarrow> Inl e
         | Inr _ \<Rightarrow>
             (case parseCorsOrigins url (env ''CORS_ORIGINS'') node_env of
                Inl e \<Rightarrow> Inl e
              | Inr cors \<Rightarrow> Inr
                  \<lparr>nodeEnv = node_env,
                   port = parseNumber (env ''PORT'') 3000,
                   corsOrigins = cp_origins cors,
                   corsAllowAnyOrigin = cp_allowAny cors,
                   corsCredentials = cp_credentials cors,
                   databaseUrl = or_else (env ''DATABASE_URL'') [],
                   databaseSsl = parseBoolean (env ''DATABASE_SSL'') False,
                   databasePoolMax = parsePositiveInteger (env ''DATABASE_POOL_MAX'') 20,
                   jwtAccessSecret = or_else (env ''JWT_ACCESS_SECRET'') [],
                   jwtRefreshSecret = or_else (env ''JWT_REFRESH_SECRET'') [],
                   jwtAccessTtl = or_else (env ''JWT_ACCESS_TTL'') ''15m'',
                   jwtRefreshTtl = or_else (env ''JWT_REFRESH_TTL'') ''30d'',
                   adminPhone = env ''ADMIN_PHONE'',
                   adminPassword = env ''ADMIN_PASSWORD'',
                   adminPhones = split_list (env ''ADMIN_PHONES''),
                   otpSigningSecret = or_else (env ''OTP_SIGNING_SECRET'') [],
                   otpProvider = js_lower (or_else (env ''OTP_PROVIDER'') ''console''),
                   otpTtlMinutes = parseNumber (env ''OTP_TTL_MINUTES'') 10,
                   otpDevMode = parseBoolean (env ''OTP_DEV_MODE'') False,
                   akedlyApiKey = env ''AKEDLY_API_KEY'',
                   akedlyPipelineId = env ''AKEDLY_PIPELINE_ID'',
                   akedlyBaseUrl = or_else (env ''AKEDLY_BASE_URL'') ''https://api.akedly.io'',
                   storageProvider = js_lower (or_else (env ''STORAGE_PROVIDER'') ''cloudinary''),
                   storageBucket = or_else (env ''STORAGE_BUCKET'') ''market-media'',
                   storagePublicBaseUrl =
                     or_else (env ''STORAGE_PUBLIC_BASE_URL'') ''https://cdn.example.com'',
                   storageUploadTtlSeconds = parsePositiveInteger (env ''STORAGE_UPLOAD_TTL_SECONDS'') 600,
                   storageSigningSecret = or_else (env ''STORAGE_SIGNING_SECRET'') [],
                   cloudinaryCloudName = or_else (env ''CLOUDINARY_CLOUD_NAME'') [],
                   cloudinaryApiKey = or_else (env ''CLOUDINARY_API_KEY'') [],
                   cloudinaryApiSecret = or_else (env ''CLOUDINARY_API_SECRET'') [],
                   throttleTtl = parseNumber (env ''THROTTLE_TTL'') 60000,
                   throttleLimit = parseNumber (env ''THROTTLE_LIMIT'') 120,
                   throttleDevBypass = parseBoolean (env ''THROTTLE_DEV_BYPASS'') False,
                   logLevel = or_else (env ''LOG_LEVEL'') ''log'',
                   logPretty = parseBoolean (env ''LOG_PRETTY'') False,
                   logHttpBody = parseBoolean (env ''LOG_HTTP_BODY'') False,
                   logWsPayload = parseBoolean (env ''LOG_WS_PAYLOAD'') False,
                   redisUrl = env ''REDIS_URL''\<rparr>))"

section \<open>What a configuration guarantees\<close>

lemma first_failure_Inr: "first_failure cs = Inr u \<longleftrightarrow> (\<forall>c \<in> set cs. c = Inr ())"
  by (induction cs rule: first_failure.induct) (auto simp: unit_eq)

lemma parsePositiveInteger_ok:
  "is_integer fallback \<Longrightarrow> 0 < fallback \<Longrightarrow>
   is_integer (parsePositiveInteger v fallback) \<and> 0 < parsePositiveInteger v fallback"
  by (simp add: parsePositiveInteger_def Let_def)

definition safe_cors :: "string \<Rightarrow> cors_policy \<Rightarrow> bool" where
  "safe_cors env_name p \<longleftrightarrow>
     cp_origins p \<noteq> [] \<and>
     (cp_allowAny p \<longleftrightarrow> ''*'' \<in> set (cp_origins p)) \<and>
     (cp_allowAny p \<longrightarrow> \<not> cp_credentials p \<and> env_name \<noteq> ''production'')"

lemma parseCorsOrigins_safe:
  "parseCorsOrigins url v env_name = Inr p \<Longrightarrow> safe_cors env_name p"
  by (auto simp: parseCorsOrigins_def safe_cors_def Let_def DEFAULT_DEV_CORS_ORIGINS_def
      split: if_splits)

lemma parseCorsOrigins_valid:
  "parseCorsOrigins url v env_name = Inr p \<Longrightarrow> split_list v \<noteq> [] \<Longrightarrow>
   \<forall>o' \<in> set (cp_origins p). isValidCorsOrigin url o'"
  by (auto simp: parseCorsOrigins_def Let_def filter_empty_conv isValidCorsOrigin_def split: if_splits)

lemma configuration_InrE:
  assumes "configuration url env = Inr cfg"
  obtains cors where
    "parseCorsOrigins url (env ''CORS_ORIGINS'') (nodeEnv cfg) = Inr cors"
    and "corsOrigins cfg = cp_origins cors" and "corsAllowAnyOrigin cfg = cp_allowAny cors"
    and "corsCredentials cfg = cp_credentials cors"
    and "\<forall>c \<in> set (config_checks env). c = Inr ()"
  using assms
  by (auto simp: configuration_def Let_def first_failure_Inr split: sum.splits)

text \<open>
  C35. Whatever the environment, a configuration the factory accepts never combines credentials with
  an open origin: in production the HTTP CORS options are an explicit, non-empty allow-list, and
  everywhere the wildcard is served without credentials.
\<close>

theorem configuration_cors_safe:
  assumes "configuration url env = Inr cfg"
  shows "case co_origin (buildHttpCorsOptions (buildCorsRuntimePolicy cfg)) of
           AnyOrigin \<Rightarrow>
             nodeEnv cfg \<noteq> ''production'' \<and>
             \<not> co_credentials (buildHttpCorsOptions (buildCorsRuntimePolicy cfg))
         | Origins os \<Rightarrow> os \<noteq> [] \<and> ''*'' \<notin> set os"
proof -
  from assms obtain cors where
    c: "parseCorsOrigins url (env ''CORS_ORIGINS'') (nodeEnv cfg) = Inr cors"
    and f: "corsOrigins cfg = cp_origins cors" "corsAllowAnyOrigin cfg = cp_allowAny cors"
      "corsCredentials cfg = cp_credentials cors"
    by (rule configuration_InrE)
  from c have "safe_cors (nodeEnv cfg) cors" by (rule parseCorsOrigins_safe)
  with f show ?thesis
    by (auto simp: safe_cors_def buildHttpCorsOptions_def buildCorsRuntimePolicy_def)
qed

text \<open>A production environment with one origin.\<close>

definition production_env :: process_env where
  "production_env = map_of
     [(''NODE_ENV'', ''production''), (''CORS_ORIGINS'', '' https://m.example ''),
      (''DATABASE_URL'', ''postgres://db''), (''JWT_ACCESS_SECRET'', ''a''), (''JWT_REFRESH_SECRET'', ''r''),
      (''STORAGE_SIGNING_SECRET'', ''s''), (''OTP_SIGNING_SECRET'', ''o''), (''CLOUDINARY_CLOUD_NAME'', ''cn''),
      (''CLOUDINARY_API_KEY'', ''ck''), (''CLOUDINARY_API_SECRET'', ''cs'')]"

theorem configuration_cors_safe_witness:
  "\<exists>cfg. configuration (\<lambda>s. Some (''https:'', s)) production_env = Inr cfg \<and>
     (case co_origin (buildHttpCorsOptions (buildCorsRuntimePolicy cfg)) of
        AnyOrigin \<Rightarrow> False
      | Origins os \<Rightarrow> os \<noteq> [] \<and> ''*'' \<notin> set os)"
proof -
  let ?url = "\<lambda>s. Some (''https:'', s)"
  have env: "production_env ''NODE_ENV'' = Some ''production''"
    "production_env ''CORS_ORIGINS'' = Some '' https://m.example ''"
    by (simp_all add: production_env_def)
  have checks: "first_failure (config_checks production_env) = Inr ()"
    by (simp add: config_checks_def production_env_def require_env_def given_def or_else_def Let_def
        js_lower_def lower_char_def)
  have "split_list (Some '' https://m.example '') = [''https://m.example'']"
    by (simp add: split_list_def or_else_def js_trim_def is_ws_def)
  then have cors: "parseCorsOrigins ?url (Some '' https://m.example '') ''production'' =
      Inr \<lparr>cp_origins = [''https://m.example''], cp_allowAny = False, cp_credentials = True\<rparr>"
    by (simp add: parseCorsOrigins_def Let_def isValidCorsOrigin_def ends_with_def)
  from checks cors obtain cfg where c: "configuration ?url production_env = Inr cfg"
    and n: "nodeEnv cfg = ''production''"
    by (simp add: configuration_def env or_else_def Let_def)
  from configuration_cors_safe [OF c] n c show ?thesis
    by (intro exI [of _ cfg]) (simp split: cors_origin.splits)
qed

end
