(* ===== verification/World.thy ===== *)
theory World
  imports Config
begin

text \<open>
  The state every service works on: the tables of \<open>src/db/schema.sql\<close> as lists of rows, the identity
  sequences, the clock \<open>NOW()\<close> reads (milliseconds), and the counter of random draws and the log of
  Redis commands. A row type has the columns of its table in their order; a nullable column is an
  \<open>option\<close>; \<open>NUMERIC(12,2)\<close> is counted in hundredths.

  What is not code of the repository enters through the record \<open>env\<close>: the PostgreSQL driver's reading
  of \<open>BIGINT\<close> and of \<open>timestamptz::text\<close>, the reading of a timestamp parameter and the full-text match of
  the database, the digits of a number that is not an integer, bcrypt, SHA-1, HMAC, JWT, the random source, the answers of Redis
  and of remote HTTP services, and the database's collation.
\<close>

section \<open>Rows\<close>

datatype user_status = Active | Paused | Banned
datatype product_status = Available | Sold | Archived
datatype report_status = Open | Reviewing | Resolved | Rejected
datatype file_status = Pending | Uploaded | Failed | Deleted
datatype file_purpose = Avatar | ProductImage | ChatAttachment | Document
datatype otp_purpose = Registration | PasswordReset

fun user_status_text :: "user_status \<Rightarrow> string" where
  "user_status_text Active = ''active''"
| "user_status_text Paused = ''paused''"
| "user_status_text Banned = ''banned''"

fun product_status_text :: "product_status \<Rightarrow> string" where
  "product_status_text Available = ''available''"
| "product_status_text Sold = ''sold''"
| "product_status_text Archived = ''archived''"

fun report_status_text :: "report_status \<Rightarrow> string" where
  "report_status_text Open = ''open''"
| "report_status_text Reviewing = ''reviewing''"
| "report_status_text Resolved = ''resolved''"
| "report_status_text Rejected = ''rejected''"

fun file_status_text :: "file_status \<Rightarrow> string" where
  "file_status_text Pending = ''pending''"
| "file_status_text Uploaded = ''uploaded''"
| "file_status_text Failed = ''failed''"
| "file_status_text Deleted = ''deleted''"

fun file_purpose_text :: "file_purpose \<Rightarrow> string" where
  "file_purpose_text Avatar = ''avatar''"
| "file_purpose_text ProductImage = ''product_image''"
| "file_purpose_text ChatAttachment = ''chat_attachment''"
| "file_purpose_text Document = ''document''"

fun otp_purpose_text :: "otp_purpose \<Rightarrow> string" where
  "otp_purpose_text Registration = ''registration''"
| "otp_purpose_text PasswordReset = ''password_reset''"

record user_row =
  u_id :: int
  u_name :: string
  u_phone :: string
  u_password_hash :: string
  u_avatar_file_id :: "int option"
  u_avatar_object_key :: "string option"
  u_contact_info :: "string option"
  u_status :: user_status
  u_is_admin :: bool
  u_token_version :: int
  u_deleted_at :: "int option"
  u_created_at :: int
  u_updated_at :: int

record otp_row =
  o_id :: int
  o_user_id :: "int option"
  o_phone :: string
  o_code_hash :: string
  o_salt :: string
  o_purpose :: otp_purpose
  o_expires_at :: int
  o_used_at :: "int option"
  o_created_at :: int

record attempt_row =
  a_phone :: string
  a_purpose :: otp_purpose
  a_attempts :: int
  a_expires_at :: int
  a_updated_at :: int

record refresh_row =
  r_jti :: string
  r_user_id :: int
  r_expires_at :: int
  r_revoked_at :: "int option"
  r_created_at :: int

record pending_row =
  pr_id :: int
  pr_phone :: string
  pr_name :: string
  pr_password_hash :: string
  pr_expires_at :: int
  pr_created_at :: int

record file_row =
  f_id :: int
  f_uploader_user_id :: "int option"
  f_owner_type :: string
  f_owner_id :: "int option"
  f_purpose :: file_purpose
  f_storage_provider :: string
  f_bucket :: "string option"
  f_object_key :: string
  f_original_filename :: "string option"
  f_mime_type :: "string option"
  f_file_size_bytes :: "int option"
  f_checksum_sha256 :: "string option"
  f_status :: file_status
  f_uploaded_at :: "int option"
  f_failed_at :: "int option"
  f_deleted_at :: "int option"
  f_created_at :: int
  f_updated_at :: int

record category_row =
  c_id :: int
  c_parent_id :: "int option"
  c_name :: string
  c_created_at :: int

record product_row =
  p_id :: int
  p_owner_id :: int
  p_category :: string
  p_subcategory :: "string option"
  p_name :: string
  p_description :: string
  p_price :: int
  p_city :: string
  p_address_text :: string
  p_details :: "json option"
  p_status :: product_status
  p_is_negotiable :: bool
  p_preferred_contact_method :: string
  p_created_at :: int
  p_updated_at :: int
  p_deleted_at :: "int option"

record image_row =
  i_id :: int
  i_product_id :: int
  i_file_id :: int
  i_object_key :: string
  i_mime_type :: "string option"
  i_file_size_bytes :: "int option"
  i_sort_order :: int
  i_created_at :: int

record conversation_row =
  cv_id :: int
  cv_user_a_id :: int
  cv_user_b_id :: int
  cv_product_id :: "int option"
  cv_last_message_id :: "int option"
  cv_created_at :: int

record message_row =
  m_id :: int
  m_conversation_id :: int
  m_sender_id :: int
  m_message_text :: string
  m_sent_at :: int
  m_read_at :: "int option"

record rating_row =
  rt_id :: int
  rt_rater_id :: int
  rt_rated_user_id :: int
  rt_rating_value :: int
  rt_comment :: "string option"
  rt_created_at :: int
  rt_updated_at :: int

record favorite_row =
  fv_user_id :: int
  fv_product_id :: int
  fv_created_at :: int

record block_row =
  b_blocker_id :: int
  b_blocked_id :: int
  b_created_at :: int

record report_row =
  rp_id :: int
  rp_reporter_id :: int
  rp_reported_user_id :: int
  rp_reason :: string
  rp_status :: report_status
  rp_reviewed_by :: "int option"
  rp_reviewed_at :: "int option"
  rp_created_at :: int
  rp_updated_at :: int

record warning_row =
  w_id :: int
  w_admin_id :: "int option"
  w_target_user_id :: "int option"
  w_message :: string
  w_created_at :: int

record audit_row =
  al_id :: int
  al_actor_id :: int
  al_action :: string
  al_target_type :: string
  al_target_id :: "int option"
  al_payload :: jobject
  al_created_at :: int

section \<open>The state\<close>

datatype tbl =
    T_users | T_auth_otps | T_pending | T_files | T_categories | T_products | T_images
  | T_conversations | T_messages | T_ratings | T_reports | T_warnings | T_audit

datatype redis_cmd =
    RGet string
  | RSet string string rat
  | RDel string

record db =
  users :: "user_row list"
  auth_otps :: "otp_row list"
  auth_otp_attempts :: "attempt_row list"
  auth_refresh_tokens :: "refresh_row list"
  pending_registrations :: "pending_row list"
  files :: "file_row list"
  categories :: "category_row list"
  products :: "product_row list"
  product_images :: "image_row list"
  conversations :: "conversation_row list"
  messages :: "message_row list"
  user_ratings :: "rating_row list"
  user_favorites :: "favorite_row list"
  user_blocks :: "block_row list"
  user_reports :: "report_row list"
  admin_warnings :: "warning_row list"
  admin_audit_logs :: "audit_row list"
  seqs :: "tbl \<Rightarrow> int"
  clock :: int
  draws :: nat
  redis_cmds :: "redis_cmd list"

type_synonym 'a svc = "(db, 'a) act"

definition empty_db :: db where
  "empty_db =
     \<lparr>users = [], auth_otps = [], auth_otp_attempts = [], auth_refresh_tokens = [],
      pending_registrations = [], files = [], categories = [], products = [], product_images = [],
      conversations = [], messages = [], user_ratings = [], user_favorites = [], user_blocks = [],
      user_reports = [], admin_warnings = [], admin_audit_logs = [], seqs = (\<lambda>_. 0), clock = 0,
      draws = 0, redis_cmds = []\<rparr>"

record http_request =
  rq_method :: string
  rq_url :: string
  rq_headers :: "(string \<times> string) list"
  rq_body :: json

record http_response =
  rs_ok :: bool
  rs_status :: nat
  rs_json :: "json option"

record env =
  cfg :: app_config
  int8_parse :: "int \<Rightarrow> json"
  ts_text :: "int \<Rightarrow> string"
  ts_parse :: "string \<Rightarrow> int option"
  fts_match :: "string \<Rightarrow> string \<Rightarrow> bool"
  fraction_text :: "rat \<Rightarrow> string"
  collation :: "string \<Rightarrow> rat"
  bcrypt_hash :: "string \<Rightarrow> nat \<Rightarrow> string \<Rightarrow> string"
  bcrypt_compare :: "string \<Rightarrow> string \<Rightarrow> bool"
  hmac_sha256_hex :: "string \<Rightarrow> string \<Rightarrow> string"
  sha1_hex :: "string \<Rightarrow> string"
  jwt_sign :: "jobject \<Rightarrow> string \<Rightarrow> string \<Rightarrow> int \<Rightarrow> string"
  jwt_verify :: "string \<Rightarrow> string \<Rightarrow> int \<Rightarrow> jobject option"
  random_hex :: "nat \<Rightarrow> nat \<Rightarrow> string"
  random_int :: "nat \<Rightarrow> nat \<Rightarrow> nat \<Rightarrow> nat"
  redis_on :: bool
  redis_read :: "nat \<Rightarrow> string \<Rightarrow> exn + string option"
  redis_write :: "nat \<Rightarrow> redis_cmd \<Rightarrow> exn + unit"
  http_fetch :: "nat \<Rightarrow> http_request \<Rightarrow> exn + http_response"

text \<open>
  The PostgreSQL driver hands a \<open>BIGINT\<close> to JavaScript as its decimal string unless a type parser
  that makes numbers is installed; the repository installs none. Both documented readings are
  allowed where nothing depends on the choice.
\<close>

definition int8_as_string :: "int \<Rightarrow> json" where
  "int8_as_string n = JStr (int_str n)"

definition int8_as_number :: "int \<Rightarrow> json" where
  "int8_as_number n = JNum (of_int n)"

definition int8_ok :: "env \<Rightarrow> bool" where
  "int8_ok e \<longleftrightarrow> int8_parse e = int8_as_string \<or> int8_parse e = int8_as_number"

section \<open>Statements\<close>

definition UNIQUE_VIOLATION :: string where "UNIQUE_VIOLATION = ''23505''"
definition FK_VIOLATION :: string where "FK_VIOLATION = ''23503''"
definition CHECK_VIOLATION :: string where "CHECK_VIOLATION = ''23514''"
definition NUMERIC_OUT_OF_RANGE :: string where "NUMERIC_OUT_OF_RANGE = ''22003''"
definition INVALID_TEXT :: string where "INVALID_TEXT = ''22P02''"

lemmas pg_codes = UNIQUE_VIOLATION_def FK_VIOLATION_def CHECK_VIOLATION_def
  NUMERIC_OUT_OF_RANGE_def INVALID_TEXT_def

text \<open>
  \<open>GENERATED ALWAYS AS IDENTITY\<close>: a sequence value is taken before the constraints of the row are
  checked, and is not given back.
\<close>

definition nextval :: "tbl \<Rightarrow> int svc" where
  "nextval t = (\<lambda>d. (Inr (seqs d t + 1), d\<lparr>seqs := (seqs d)(t := seqs d t + 1)\<rparr>))"

text \<open>A random draw: the source is asked with the number of the draw.\<close>

definition draw :: "(nat \<Rightarrow> 'a) \<Rightarrow> 'a svc" where
  "draw f = (\<lambda>d. (Inr (f (draws d)), d\<lparr>draws := draws d + 1\<rparr>))"

text \<open>\<open>LIMIT n OFFSET k\<close> and \<open>ORDER BY\<close> with a key; rows with equal keys keep the table's order.\<close>

definition page :: "nat \<Rightarrow> nat \<Rightarrow> 'a list \<Rightarrow> 'a list" where
  "page limit offset xs = take limit (drop offset xs)"

definition order_asc :: "('a \<Rightarrow> 'k::linorder) \<Rightarrow> 'a list \<Rightarrow> 'a list" where
  "order_asc k = sort_key k"

definition order_desc :: "('a \<Rightarrow> 'k::{linorder, ordered_ab_group_add}) \<Rightarrow> 'a list \<Rightarrow> 'a list" where
  "order_desc k = sort_key (\<lambda>x. - k x)"

fun row_where :: "('a \<Rightarrow> bool) \<Rightarrow> 'a list \<Rightarrow> 'a option" where
  "row_where P [] = None"
| "row_where P (x # xs) = (if P x then Some x else row_where P xs)"

definition update_where :: "('a \<Rightarrow> bool) \<Rightarrow> ('a \<Rightarrow> 'a) \<Rightarrow> 'a list \<Rightarrow> 'a list" where
  "update_where P f xs = map (\<lambda>x. if P x then f x else x) xs"

definition delete_where :: "('a \<Rightarrow> bool) \<Rightarrow> 'a list \<Rightarrow> 'a list" where
  "delete_where P xs = filter (\<lambda>x. \<not> P x) xs"

text \<open>
  \<open>withTransaction\<close>: on an exception the tables are those of the start; sequences, random draws and
  Redis are outside the transaction.
\<close>

definition rollback :: "db \<Rightarrow> db \<Rightarrow> db" where
  "rollback d d' = d\<lparr>seqs := seqs d', draws := draws d', redis_cmds := redis_cmds d'\<rparr>"

definition withTransaction :: "'a svc \<Rightarrow> 'a svc" where
  "withTransaction m =
     (\<lambda>d. case m d of (Inr a, d') \<Rightarrow> (Inr a, d') | (Inl e, d') \<Rightarrow> (Inl e, rollback d d'))"

section \<open>Lemmas on statements\<close>

lemma nextval_run [simp, act_simps]:
  "nextval t d = (Inr (seqs d t + 1), d\<lparr>seqs := (seqs d)(t := seqs d t + 1)\<rparr>)"
  by (simp add: nextval_def)

lemma draw_run [simp, act_simps]: "draw f d = (Inr (f (draws d)), d\<lparr>draws := draws d + 1\<rparr>)"
  by (simp add: draw_def)

lemma andThen_nextval_run [simp]:
  "andThen (nextval t) k d = k (seqs d t + 1) (d\<lparr>seqs := (seqs d)(t := seqs d t + 1)\<rparr>)"
  by (simp add: andThen_run)

lemma andThen_draw_run [simp]:
  "andThen (draw f) k d = k (f (draws d)) (d\<lparr>draws := draws d + 1\<rparr>)"
  by (simp add: andThen_run)

lemma row_where_Some: "row_where P xs = Some x \<Longrightarrow> x \<in> set xs \<and> P x"
  by (induction xs) (auto split: if_splits)

lemma row_where_None: "row_where P xs = None \<longleftrightarrow> (\<forall>x \<in> set xs. \<not> P x)"
  by (induction xs) auto

lemma row_where_append:
  "row_where P (xs @ ys) = (case row_where P xs of None \<Rightarrow> row_where P ys | Some x \<Rightarrow> Some x)"
  by (induction xs) auto

lemma row_where_cong: "(\<And>x. x \<in> set xs \<Longrightarrow> P x = Q x) \<Longrightarrow> row_where P xs = row_where Q xs"
  by (induction xs) auto

lemma row_where_update:
  "(\<And>x. x \<in> set xs \<Longrightarrow> P (f x) = P x) \<Longrightarrow>
   row_where P (update_where Q f xs) = map_option (\<lambda>x. if Q x then f x else x) (row_where P xs)"
  by (induction xs) (auto simp: update_where_def)

lemma row_where_unique:
  "distinct (map key xs) \<Longrightarrow> x \<in> set xs \<Longrightarrow> row_where (\<lambda>r. key r = key x) xs = Some x"
  by (induction xs) (auto simp: image_iff)

lemma set_update_where: "set (update_where P f xs) = (\<lambda>x. if P x then f x else x) ` set xs"
  by (simp add: update_where_def)

lemma ball_update_where [simp]:
  "(\<forall>r \<in> set (update_where P f xs). Q r) \<longleftrightarrow>
     (\<forall>x \<in> set xs. (P x \<longrightarrow> Q (f x)) \<and> (\<not> P x \<longrightarrow> Q x))"
  by (auto simp: set_update_where)

lemma list_ex_update_where:
  "(\<And>x. x \<in> set xs \<Longrightarrow> Q (f x) = Q x) \<Longrightarrow> list_ex Q (update_where P f xs) = list_ex Q xs"
  by (induction xs) (auto simp: update_where_def)

lemma map_update_where:
  "(\<And>x. x \<in> set xs \<Longrightarrow> key (f x) = key x) \<Longrightarrow> map key (update_where P f xs) = map key xs"
  by (simp add: update_where_def)

lemma set_delete_where [simp]: "set (delete_where P xs) = {x \<in> set xs. \<not> P x}"
  by (auto simp: delete_where_def)

lemma distinct_delete_where: "distinct (map key xs) \<Longrightarrow> distinct (map key (delete_where P xs))"
  by (simp add: delete_where_def distinct_map_filter)

lemma set_order [simp]: "set (order_asc k xs) = set xs" "set (order_desc g xs) = set xs"
  by (simp_all add: order_asc_def order_desc_def)

lemma set_page: "set (page l off xs) \<subseteq> set xs"
  unfolding page_def by (meson in_set_dropD in_set_takeD subsetI)

lemma length_page: "length (page l off xs) \<le> l"
  by (simp add: page_def)

lemma sorted_page: "sorted (map k xs) \<Longrightarrow> sorted (map k (page l off xs))"
  by (simp add: page_def drop_map [symmetric] take_map [symmetric] sorted_wrt_take sorted_wrt_drop)

lemma sorted_order_desc: "sorted (map (\<lambda>x. - k x) (order_desc k xs))"
  by (simp add: order_desc_def)

lemma keeps_nextval [keeps_rules]:
  "(\<And>d s. I d \<Longrightarrow> I (d\<lparr>seqs := s\<rparr>)) \<Longrightarrow> keeps I (nextval t)"
  by (simp add: keeps_def)

lemma withTransaction_Inr:
  "withTransaction m d = (Inr a, d') \<longleftrightarrow> m d = (Inr a, d')"
  by (auto simp: withTransaction_def split: prod.splits sum.splits)

lemma withTransaction_InlE:
  assumes "withTransaction m d = (Inl e, d')"
  obtains d'' where "m d = (Inl e, d'')" and "d' = rollback d d''"
  using assms by (auto simp: withTransaction_def split: prod.splits sum.splits)

lemma rollback_tables [simp]:
  "users (rollback d d') = users d" "auth_otps (rollback d d') = auth_otps d"
  "auth_otp_attempts (rollback d d') = auth_otp_attempts d"
  "auth_refresh_tokens (rollback d d') = auth_refresh_tokens d"
  "pending_registrations (rollback d d') = pending_registrations d" "files (rollback d d') = files d"
  "categories (rollback d d') = categories d" "products (rollback d d') = products d"
  "product_images (rollback d d') = product_images d" "conversations (rollback d d') = conversations d"
  "messages (rollback d d') = messages d" "user_ratings (rollback d d') = user_ratings d"
  "user_favorites (rollback d d') = user_favorites d" "user_blocks (rollback d d') = user_blocks d"
  "user_reports (rollback d d') = user_reports d" "admin_warnings (rollback d d') = admin_warnings d"
  "admin_audit_logs (rollback d d') = admin_audit_logs d" "clock (rollback d d') = clock d"
  "seqs (rollback d d') = seqs d'" "draws (rollback d d') = draws d'"
  by (simp_all add: rollback_def)

text \<open>\<open>advances m\<close>: no sequence goes back. A rollback then keeps what mentions sequences as bounds.\<close>

definition advances :: "'a svc \<Rightarrow> bool" where
  "advances m \<longleftrightarrow> (\<forall>n. keeps (\<lambda>d. n \<le> seqs d) m)"

lemma advances_le: "advances m \<Longrightarrow> m d = (r, d') \<Longrightarrow> seqs d \<le> seqs d'"
  unfolding advances_def keeps_def by (metis order_refl snd_conv)

lemma advances_nextval [keeps_rules]: "keeps (\<lambda>d. n \<le> seqs d) (nextval t)"
  by (rule keepsI) (auto simp: le_fun_def intro: order_trans)

lemma keeps_withTransaction:
  assumes "keeps I m" and "advances m"
    and "\<And>d d'. I d \<Longrightarrow> I d' \<Longrightarrow> seqs d \<le> seqs d' \<Longrightarrow> I (rollback d d')"
  shows "keeps I (withTransaction m)"
proof (rule keepsI)
  fix d assume "I d"
  obtain r d' where m: "m d = (r, d')" by fastforce
  with \<open>I d\<close> assms(1) have "I d'" by (blast intro: keepsD)
  with m \<open>I d\<close> assms(3) advances_le [OF assms(2) m] show "I (snd (withTransaction m d))"
    by (simp add: withTransaction_def split: sum.splits)
qed

section \<open>Identifiers of a table\<close>

text \<open>The identifiers of the rows are distinct, positive and not beyond the sequence.\<close>

definition ids_ok :: "('a \<Rightarrow> int) \<Rightarrow> 'a list \<Rightarrow> int \<Rightarrow> bool" where
  "ids_ok key xs n \<longleftrightarrow> distinct (map key xs) \<and> 0 \<le> n \<and> (\<forall>x \<in> set xs. 0 < key x \<and> key x \<le> n)"

lemma ids_ok_Nil [simp]: "ids_ok key [] n \<longleftrightarrow> 0 \<le> n"
  by (simp add: ids_ok_def)

lemma ids_ok_append:
  assumes "ids_ok key xs n" and "key x = n + 1"
  shows "ids_ok key (xs @ [x]) (n + 1)"
  using assms by (fastforce simp: ids_ok_def)

lemma ids_ok_mono: "ids_ok key xs n \<Longrightarrow> n \<le> m \<Longrightarrow> ids_ok key xs m"
  by (fastforce simp: ids_ok_def)

lemma ids_ok_update:
  assumes "ids_ok key xs n" and "\<And>x. key (f x) = key x"
  shows "ids_ok key (update_where P f xs) n"
  using assms by (simp add: ids_ok_def map_update_where)

lemma ids_ok_delete: "ids_ok key xs n \<Longrightarrow> ids_ok key (delete_where P xs) n"
  by (simp add: ids_ok_def distinct_delete_where)

lemma ids_ok_pos: "ids_ok key xs n \<Longrightarrow> x \<in> set xs \<Longrightarrow> 0 < key x"
  by (simp add: ids_ok_def)

lemma ids_ok_row:
  assumes "ids_ok key xs n" and "x \<in> set xs"
  shows "row_where (\<lambda>r. key r = key x) xs = Some x"
  using assms by (simp add: ids_ok_def row_where_unique)

end
