(* ===== verification/Helpers.thy ===== *)
theory Helpers
  imports World
begin

text \<open>
  \<open>src/src/common/helpers\<close> and \<open>src/src/common/mappers\<close>: reading identifiers that come back from the
  database driver (\<open>toPositiveInt\<close>, and the stricter variant of the foreign-key expansion), the user
  existence check, the recognition of foreign-key errors, the escaping of \<open>LIKE\<close> patterns with the
  matching it protects, and the mapping of a user row to the public user object.
\<close>

section \<open>Identifiers\<close>

definition toPositiveInt :: "json \<Rightarrow> int option" where
  "toPositiveInt value =
     (case value of
        JNum r \<Rightarrow> if is_integer r \<and> r > 0 then Some \<lfloor>r\<rfloor> else None
      | JStr s \<Rightarrow>
          if js_trim s \<noteq> [] then
            (case string_number s of
               JNum parsed \<Rightarrow> if is_integer parsed \<and> parsed > 0 then Some \<lfloor>parsed\<rfloor> else None
             | _ \<Rightarrow> None)
          else None
      | _ \<Rightarrow> None)"

text \<open>\<open>FkExpansionService.toPositiveInt\<close>: a string must be digits only.\<close>

definition fk_toPositiveInt :: "json \<Rightarrow> int option" where
  "fk_toPositiveInt value =
     (case value of
        JNum r \<Rightarrow> if \<not> is_integer r \<or> r \<le> 0 then None else Some \<lfloor>r\<rfloor>
      | JStr s \<Rightarrow>
          if s \<noteq> [] \<and> list_all is_digit s then
            (if digits_nat s > 0 then Some (int (digits_nat s)) else None)
          else None
      | _ \<Rightarrow> None)"

text \<open>
  What the services rely on: a positive identifier survives the driver's reading, and nothing but a
  positive integer comes out.
\<close>

locale id_reader =
  fixes parse :: "int \<Rightarrow> json"
    and norm :: "json \<Rightarrow> int option"
  assumes norm_parse: "0 < n \<Longrightarrow> norm (parse n) = Some n"
    and norm_pos: "norm v = Some k \<Longrightarrow> 0 < k"
begin

text \<open>The ownership test \<open>!id || id !== user.sub\<close> of files, products and avatars.\<close>

lemma owner_test:
  assumes "0 < n"
  shows "(case norm (parse n) of None \<Rightarrow> False | Some k \<Rightarrow> k \<noteq> 0 \<and> k = sub) \<longleftrightarrow> n = sub"
  using assms by (simp add: norm_parse)

lemma parse_inj: "0 < m \<Longrightarrow> 0 < n \<Longrightarrow> parse m = parse n \<Longrightarrow> m = n"
  by (metis norm_parse option.inject)

end

lemma int_str_pos: "0 < n \<Longrightarrow> int_str n = nat_str (nat n)"
  by (simp add: int_str_def)

lemma toPositiveInt_pos: "toPositiveInt v = Some k \<Longrightarrow> 0 < k"
  by (auto simp: toPositiveInt_def is_integer_def split: json.splits if_splits)

lemma fk_toPositiveInt_pos: "fk_toPositiveInt v = Some k \<Longrightarrow> 0 < k"
  by (auto simp: fk_toPositiveInt_def is_integer_def split: json.splits if_splits)

lemma toPositiveInt_string: "0 < n \<Longrightarrow> toPositiveInt (int8_as_string n) = Some n"
  by (simp add: toPositiveInt_def int8_as_string_def int_str_pos js_trim_digits nat_str_digits)

lemma toPositiveInt_number: "0 < n \<Longrightarrow> toPositiveInt (int8_as_number n) = Some n"
  by (simp add: toPositiveInt_def int8_as_number_def)

lemma fk_toPositiveInt_string: "0 < n \<Longrightarrow> fk_toPositiveInt (int8_as_string n) = Some n"
  by (simp add: fk_toPositiveInt_def int8_as_string_def int_str_pos nat_str_digits)

lemma fk_toPositiveInt_number: "0 < n \<Longrightarrow> fk_toPositiveInt (int8_as_number n) = Some n"
  by (simp add: fk_toPositiveInt_def int8_as_number_def)

interpretation ids_string: id_reader int8_as_string toPositiveInt
  by unfold_locales (simp_all add: toPositiveInt_string toPositiveInt_pos)

interpretation ids_number: id_reader int8_as_number toPositiveInt
  by unfold_locales (simp_all add: toPositiveInt_number toPositiveInt_pos)

interpretation fk_ids_string: id_reader int8_as_string fk_toPositiveInt
  by unfold_locales (simp_all add: fk_toPositiveInt_string fk_toPositiveInt_pos)

interpretation fk_ids_number: id_reader int8_as_number fk_toPositiveInt
  by unfold_locales (simp_all add: fk_toPositiveInt_number fk_toPositiveInt_pos)

lemma toPositiveInt_int8 [simp]:
  "int8_ok e \<Longrightarrow> 0 < n \<Longrightarrow> toPositiveInt (int8_parse e n) = Some n"
  by (auto simp: int8_ok_def toPositiveInt_string toPositiveInt_number)

lemma fk_toPositiveInt_int8 [simp]:
  "int8_ok e \<Longrightarrow> 0 < n \<Longrightarrow> fk_toPositiveInt (int8_parse e n) = Some n"
  by (auto simp: int8_ok_def fk_toPositiveInt_string fk_toPositiveInt_number)

lemma int8_parse_inject:
  "int8_ok e \<Longrightarrow> int8_parse e m = int8_parse e n \<longleftrightarrow> m = n"
  by (auto simp: int8_ok_def int8_as_string_def int8_as_number_def)

text \<open>The test on a nullable identifier column, as the services write it.\<close>

definition is_owner :: "env \<Rightarrow> int option \<Rightarrow> int \<Rightarrow> bool" where
  "is_owner e col sub =
     (case toPositiveInt (jopt (int8_parse e) col) of
        None \<Rightarrow> False
      | Some k \<Rightarrow> k \<noteq> 0 \<and> k = sub)"

lemma is_owner_iff:
  assumes "int8_ok e" and "\<And>n. col = Some n \<Longrightarrow> 0 < n"
  shows "is_owner e col sub \<longleftrightarrow> col = Some sub"
proof (cases col)
  case None
  then show ?thesis by (simp add: is_owner_def toPositiveInt_def)
next
  case (Some n)
  then have "0 < n" by (rule assms(2))
  with Some assms(1) show ?thesis by (simp add: is_owner_def)
qed

section \<open>Database helpers\<close>

definition live_user :: "db \<Rightarrow> int \<Rightarrow> bool" where
  "live_user d i = list_ex (\<lambda>u. u_id u = i \<and> u_deleted_at u = None) (users d)"

definition user_exists :: "db \<Rightarrow> int \<Rightarrow> bool" where
  "user_exists d i = list_ex (\<lambda>u. u_id u = i) (users d)"

definition assertUserExists :: "int \<Rightarrow> string \<Rightarrow> unit svc" where
  "assertUserExists userId label =
     andThen (gets (\<lambda>d. live_user d userId))
       (\<lambda>found. unless found (NotFound (label @ '' not found'')))"

definition isForeignKeyViolation :: "exn \<Rightarrow> bool" where
  "isForeignKeyViolation error = (case error of PgErr code \<Rightarrow> code = ''23503'' | _ \<Rightarrow> False)"

lemma assertUserExists_run [act_simps]:
  "assertUserExists i l d =
     (if live_user d i then (Inr (), d) else (Inl (NotFound (l @ '' not found'')), d))"
  by (simp add: assertUserExists_def unless_run)

lemma reads_assertUserExists [simp]: "reads (assertUserExists i l)"
  by (simp add: reads_def assertUserExists_run)

lemma keeps_assertUserExists [keeps_rules]: "keeps I (assertUserExists i l)"
  by (rule reads_keeps) simp

lemma live_user_exists: "live_user d i \<Longrightarrow> user_exists d i"
  by (auto simp: live_user_def user_exists_def list_ex_iff)

lemma user_exists_frame [simp]:
  "user_exists (d\<lparr>seqs := s\<rparr>) i = user_exists d i" "user_exists (d\<lparr>draws := n\<rparr>) i = user_exists d i"
  "user_exists (d\<lparr>redis_cmds := c\<rparr>) i = user_exists d i"
  "live_user (d\<lparr>seqs := s\<rparr>) i = live_user d i" "live_user (d\<lparr>draws := n\<rparr>) i = live_user d i"
  "live_user (d\<lparr>redis_cmds := c\<rparr>) i = live_user d i"
  by (simp_all add: user_exists_def live_user_def)

lemma isForeignKeyViolation_simps [simp]:
  "isForeignKeyViolation (PgErr c) \<longleftrightarrow> c = FK_VIOLATION"
  "\<not> isForeignKeyViolation (HttpExn s m x)"
  "\<not> isForeignKeyViolation (JsErr m)"
  by (simp_all add: isForeignKeyViolation_def FK_VIOLATION_def)

section \<open>LIKE patterns\<close>

fun escapeLike :: "string \<Rightarrow> string" where
  "escapeLike [] = []"
| "escapeLike (c # s) =
     (if c \<in> {CHR ''%'', CHR ''_'', CHR 0x5C} then CHR 0x5C # c # escapeLike s else c # escapeLike s)"

text \<open>
  \<open>text ILIKE pattern ESCAPE '\'\<close> of PostgreSQL: a pattern is a list of tokens, an escape character at
  its end is an error (\<open>None\<close>); letters are compared without case.
\<close>

datatype like_token = LAny | LOne | LChar char

fun like_parse :: "string \<Rightarrow> like_token list option" where
  "like_parse [] = Some []"
| "like_parse (c # s) =
     (if c = CHR 0x5C then
        (case s of [] \<Rightarrow> None | x # s' \<Rightarrow> map_option (Cons (LChar x)) (like_parse s'))
      else if c = CHR ''%'' then map_option (Cons LAny) (like_parse s)
      else if c = CHR ''_'' then map_option (Cons LOne) (like_parse s)
      else map_option (Cons (LChar c)) (like_parse s))"

fun like_match :: "like_token list \<Rightarrow> string \<Rightarrow> bool" where
  "like_match [] s = (s = [])"
| "like_match (LAny # ps) [] = like_match ps []"
| "like_match (LAny # ps) (c # s) = (like_match ps (c # s) \<or> like_match (LAny # ps) s)"
| "like_match (LOne # ps) [] = False"
| "like_match (LOne # ps) (c # s) = like_match ps s"
| "like_match (LChar x # ps) [] = False"
| "like_match (LChar x # ps) (c # s) = (lower_char x = lower_char c \<and> like_match ps s)"

definition ilike :: "string \<Rightarrow> string \<Rightarrow> bool option" where
  "ilike text pattern = map_option (\<lambda>ps. like_match ps text) (like_parse pattern)"

definition contains_pattern :: "string \<Rightarrow> string" where
  "contains_pattern s = ''%'' @ escapeLike s @ ''%''"

text \<open>The meaning a search box wants: the text contains the word, whatever the case.\<close>

definition contains_ci :: "string \<Rightarrow> string \<Rightarrow> bool" where
  "contains_ci text word \<longleftrightarrow> (\<exists>u w v. text = u @ w @ v \<and> js_lower w = js_lower word)"

lemma like_parse_escape:
  "like_parse (escapeLike s @ p) = map_option (\<lambda>ps. map LChar s @ ps) (like_parse p)"
  by (induction s) (auto simp: option.map_comp o_def option.map_ident)

lemma like_match_any_end: "like_match [LAny] s"
  by (induction s) auto

lemma like_match_chars:
  "like_match (map LChar w @ ps) s \<longleftrightarrow>
     (\<exists>w' s'. s = w' @ s' \<and> js_lower w' = js_lower w \<and> like_match ps s')"
proof (induction w arbitrary: s)
  case Nil
  then show ?case by (simp add: js_lower_def)
next
  case (Cons x w)
  show ?case
  proof (cases s)
    case Nil
    then show ?thesis by (simp add: js_lower_def)
  next
    case (Cons c s1)
    then have "like_match (map LChar (x # w) @ ps) s \<longleftrightarrow>
        lower_char x = lower_char c \<and>
        (\<exists>w' s'. s1 = w' @ s' \<and> js_lower w' = js_lower w \<and> like_match ps s')"
      using Cons.IH by simp
    also have "\<dots> \<longleftrightarrow> (\<exists>w' s'. s = w' @ s' \<and> js_lower w' = js_lower (x # w) \<and> like_match ps s')"
      (is "?L \<longleftrightarrow> ?R")
    proof
      assume ?L
      then obtain w' s' where "lower_char x = lower_char c" "s1 = w' @ s'"
        "js_lower w' = js_lower w" "like_match ps s'" by blast
      with Cons show ?R by (intro exI [of _ "c # w'"] exI [of _ s']) (simp add: js_lower_def)
    next
      assume ?R
      then obtain w' s' where w: "s = w' @ s'" "js_lower w' = js_lower (x # w)" "like_match ps s'"
        by blast
      then obtain w1 where "w' = c # w1" using Cons by (cases w') (auto simp: js_lower_def)
      with w Cons show ?L by (auto simp: js_lower_def)
    qed
    finally show ?thesis .
  qed
qed

lemma like_match_any:
  "like_match (LAny # ps) s \<longleftrightarrow> (\<exists>u t. s = u @ t \<and> like_match ps t)"
proof (induction s)
  case Nil
  then show ?case by simp
next
  case (Cons c s)
  then show ?case by (auto simp: Cons_eq_append_conv)
qed

lemma like_parse_contains: "like_parse (contains_pattern s) = Some (LAny # map LChar s @ [LAny])"
  by (simp add: contains_pattern_def like_parse_escape)

lemma ilike_contains: "ilike text (contains_pattern s) = Some (contains_ci text s)"
  by (simp add: ilike_def like_parse_contains like_match_any like_match_chars like_match_any_end
      contains_ci_def) blast

section \<open>The public user object\<close>

text \<open>\<open>String(v)\<close> on what can stand in a row; objects and arrays do not occur.\<close>

definition js_String :: "env \<Rightarrow> json \<Rightarrow> string" where
  "js_String e v =
     (case v of
        JUndef \<Rightarrow> ''undefined''
      | JNull \<Rightarrow> ''null''
      | JBool b \<Rightarrow> if b then ''true'' else ''false''
      | JNum r \<Rightarrow> if is_integer r then int_str \<lfloor>r\<rfloor> else fraction_text e r
      | JNonFinite \<Rightarrow> ''NaN''
      | JStr s \<Rightarrow> s
      | JDate t \<Rightarrow> toISOString t
      | JArr _ \<Rightarrow> ''[object Array]''
      | JObj _ \<Rightarrow> ''[object Object]'')"

definition toNumber :: "json \<Rightarrow> json" where
  "toNumber value =
     (case value of JNum r \<Rightarrow> JNum r | JNonFinite \<Rightarrow> JNonFinite | _ \<Rightarrow> js_Number (coalesce value (JNum 0)))"

definition asString :: "json \<Rightarrow> json" where
  "asString value = (case value of JStr s \<Rightarrow> JStr s | _ \<Rightarrow> JStr [])"

definition asNullableString :: "env \<Rightarrow> json \<Rightarrow> json" where
  "asNullableString e value =
     (if nullish value then JNull
      else (case value of JStr s \<Rightarrow> JStr s | _ \<Rightarrow> JStr (js_String e value)))"

definition mapToAppUser :: "env \<Rightarrow> jobject \<Rightarrow> jobject" where
  "mapToAppUser e source =
     [(''id'', toNumber (obj_get source ''id'')),
      (''name'', asString (obj_get source ''name'')),
      (''phone'', asString (obj_get source ''phone'')),
      (''profileState'',
         asNullableString e (coalesce (obj_get source ''profile_state'') (obj_get source ''status'')))]"

lemma toNumber_int8: "int8_ok e \<Longrightarrow> 0 < n \<Longrightarrow> toNumber (int8_parse e n) = JNum (of_int n)"
  by (auto simp: int8_ok_def int8_as_string_def int8_as_number_def toNumber_def coalesce_def int_str_pos)

lemma mapToAppUser_row:
  assumes "int8_ok e" and "0 < n"
    and "obj_get src ''id'' = int8_parse e n" and "obj_get src ''name'' = JStr nm"
    and "obj_get src ''phone'' = JStr ph" and "obj_get src ''status'' = JStr st"
    and "obj_get src ''profile_state'' = JUndef"
  shows "mapToAppUser e src =
    [(''id'', JNum (of_int n)), (''name'', JStr nm), (''phone'', JStr ph), (''profileState'', JStr st)]"
  using assms by (simp add: mapToAppUser_def toNumber_int8 asString_def asNullableString_def coalesce_def)

end
