(* ===== verification/AuthState.thy ===== *)
theory AuthState
  imports Helpers
begin

text \<open>
  \<open>src/src/redis/redis.service.ts\<close> and \<open>src/src/auth/auth-state.store.ts\<close>: OTP attempt counters and
  refresh tokens, kept in PostgreSQL with Redis beside it. What Redis answers, and whether it fails,
  is given by the environment; every command is logged. The lemmas give the abstract meaning of the
  attempt counter (a count per phone and purpose that restarts when its window ends), the one-time
  use of a refresh token, and that no answer of Redis changes either.
\<close>

section \<open>RedisService\<close>

definition redis_get :: "env \<Rightarrow> string \<Rightarrow> string option svc" where
  "redis_get e key =
     (if \<not> redis_on e then ret None
      else (\<lambda>d. (redis_read e (length (redis_cmds d)) key,
                d\<lparr>redis_cmds := redis_cmds d @ [RGet key]\<rparr>)))"

definition redis_command :: "env \<Rightarrow> redis_cmd \<Rightarrow> unit svc" where
  "redis_command e c =
     (if \<not> redis_on e then ret ()
      else (\<lambda>d. (redis_write e (length (redis_cmds d)) c,
                d\<lparr>redis_cmds := redis_cmds d @ [c]\<rparr>)))"

definition redis_set :: "env \<Rightarrow> string \<Rightarrow> string \<Rightarrow> rat \<Rightarrow> unit svc" where
  "redis_set e key value ttlSeconds = redis_command e (RSet key value ttlSeconds)"

definition redis_del :: "env \<Rightarrow> string \<Rightarrow> unit svc" where
  "redis_del e key = redis_command e (RDel key)"

section \<open>AuthStateStore\<close>

definition tryRedisSet :: "env \<Rightarrow> unit svc \<Rightarrow> unit svc" where
  "tryRedisSet e op = (if \<not> redis_on e then ret () else tryCatch op (\<lambda>_. ret ()))"

definition otpAttemptsKey :: "string \<Rightarrow> otp_purpose \<Rightarrow> string" where
  "otpAttemptsKey phone purpose = ''otp_attempts:'' @ phone @ '':'' @ otp_purpose_text purpose"

definition otpTransactionKey :: "string \<Rightarrow> otp_purpose \<Rightarrow> string" where
  "otpTransactionKey phone purpose = ''otp:tx:'' @ otp_purpose_text purpose @ '':'' @ phone"

definition refreshKey :: "string \<Rightarrow> string" where
  "refreshKey jti = ''refresh_jti:'' @ jti"

text \<open>\<open>parseInt(s, 10)\<close>: leading white space, a sign, the longest run of digits.\<close>

definition parseInt10 :: "string \<Rightarrow> int option" where
  "parseInt10 s =
     (let t = dropWhile is_ws s;
          neg = (case t of c # _ \<Rightarrow> c = CHR ''-'' | [] \<Rightarrow> False);
          u = (case t of c # r \<Rightarrow> if c = CHR ''-'' \<or> c = CHR ''+'' then r else t | [] \<Rightarrow> []);
          ds = takeWhile is_digit u
      in if ds = [] then None else Some (if neg then - int (digits_nat ds) else int (digits_nat ds)))"

definition redis_attempts_text :: "string option \<Rightarrow> string" where
  "redis_attempts_text raw =
     (case raw of
        None \<Rightarrow> ''1''
      | Some s \<Rightarrow>
          if s = [] then ''1''
          else (case parseInt10 s of None \<Rightarrow> ''NaN'' | Some n \<Rightarrow> int_str (n + 1)))"

definition seconds_ms :: "rat \<Rightarrow> int" where
  "seconds_ms s = \<lfloor>s * 1000\<rfloor>"

definition is_attempt :: "string \<Rightarrow> otp_purpose \<Rightarrow> attempt_row \<Rightarrow> bool" where
  "is_attempt phone purpose a = (a_phone a = phone \<and> a_purpose a = purpose)"

definition upsert_attempt :: "string \<Rightarrow> otp_purpose \<Rightarrow> rat \<Rightarrow> int svc" where
  "upsert_attempt phone purpose ttlSeconds =
     (\<lambda>d. let now = clock d; fresh = now + seconds_ms ttlSeconds in
        case row_where (is_attempt phone purpose) (auth_otp_attempts d) of
          None \<Rightarrow>
            (Inr 1, d\<lparr>auth_otp_attempts := auth_otp_attempts d @
               [\<lparr>a_phone = phone, a_purpose = purpose, a_attempts = 1, a_expires_at = fresh,
                 a_updated_at = now\<rparr>]\<rparr>)
        | Some a \<Rightarrow>
            (let n = (if a_expires_at a \<le> now then 1 else a_attempts a + 1);
                 ex = (if a_expires_at a \<le> now then fresh else a_expires_at a)
             in (Inr n, d\<lparr>auth_otp_attempts :=
                   update_where (is_attempt phone purpose)
                     (\<lambda>r. r\<lparr>a_attempts := n, a_expires_at := ex, a_updated_at := now\<rparr>)
                     (auth_otp_attempts d)\<rparr>)))"

definition clearOtpAttempts :: "env \<Rightarrow> string \<Rightarrow> otp_purpose \<Rightarrow> unit svc" where
  "clearOtpAttempts e phone purpose =
     andThen (tryRedisSet e (redis_del e (otpAttemptsKey phone purpose))) (\<lambda>_.
     modify (\<lambda>d. d\<lparr>auth_otp_attempts :=
       delete_where (is_attempt phone purpose) (auth_otp_attempts d)\<rparr>))"

definition incrementOtpAttempts ::
  "env \<Rightarrow> string \<Rightarrow> otp_purpose \<Rightarrow> int \<Rightarrow> rat \<Rightarrow> (int \<times> bool) svc" where
  "incrementOtpAttempts e phone purpose maxAttempts ttlSeconds =
     (let key = otpAttemptsKey phone purpose in
      andThen (tryRedisSet e
        (andThen (redis_get e key) (\<lambda>raw.
           redis_set e key (redis_attempts_text raw) ttlSeconds))) (\<lambda>_.
      andThen (upsert_attempt phone purpose ttlSeconds) (\<lambda>attempts.
      if attempts \<ge> maxAttempts
      then andThen (clearOtpAttempts e phone purpose) (\<lambda>_. ret (attempts, True))
      else ret (attempts, False))))"

definition saveOtpTransactionReqId ::
  "env \<Rightarrow> string \<Rightarrow> otp_purpose \<Rightarrow> string \<Rightarrow> rat \<Rightarrow> unit svc" where
  "saveOtpTransactionReqId e phone purpose transactionReqID ttlSeconds =
     tryRedisSet e (redis_set e (otpTransactionKey phone purpose) transactionReqID ttlSeconds)"

definition getOtpTransactionReqId :: "env \<Rightarrow> string \<Rightarrow> otp_purpose \<Rightarrow> string option svc" where
  "getOtpTransactionReqId e phone purpose =
     (if \<not> redis_on e then ret None
      else tryCatch (redis_get e (otpTransactionKey phone purpose)) (\<lambda>_. ret None))"

definition clearOtpTransactionReqId :: "env \<Rightarrow> string \<Rightarrow> otp_purpose \<Rightarrow> unit svc" where
  "clearOtpTransactionReqId e phone purpose =
     tryRedisSet e (redis_del e (otpTransactionKey phone purpose))"

text \<open>A JavaScript value bound to a \<open>BIGINT\<close> parameter.\<close>

definition pg_bigint :: "json \<Rightarrow> int option" where
  "pg_bigint v =
     (case v of
        JNum r \<Rightarrow> if is_integer r then Some \<lfloor>r\<rfloor> else None
      | JStr s \<Rightarrow>
          (let neg = (s \<noteq> [] \<and> hd s = CHR ''-''); ds = (if neg then tl s else s)
           in if ds \<noteq> [] \<and> list_all is_digit ds
              then Some (if neg then - int (digits_nat ds) else int (digits_nat ds)) else None)
      | _ \<Rightarrow> None)"

definition bind_bigint :: "json \<Rightarrow> int svc" where
  "bind_bigint v = (case pg_bigint v of None \<Rightarrow> throw (PgErr INVALID_TEXT) | Some n \<Rightarrow> ret n)"

definition upsert_refresh_token :: "string \<Rightarrow> int \<Rightarrow> rat \<Rightarrow> unit svc" where
  "upsert_refresh_token jti userId ttlSeconds =
     (\<lambda>d. let now = clock d; ex = now + seconds_ms ttlSeconds in
        if \<not> user_exists d userId then (Inl (PgErr FK_VIOLATION), d)
        else if list_ex (\<lambda>r. r_jti r = jti) (auth_refresh_tokens d) then
          (Inr (), d\<lparr>auth_refresh_tokens :=
             update_where (\<lambda>r. r_jti r = jti)
               (\<lambda>r. r\<lparr>r_user_id := userId, r_expires_at := ex, r_revoked_at := None\<rparr>)
               (auth_refresh_tokens d)\<rparr>)
        else
          (Inr (), d\<lparr>auth_refresh_tokens := auth_refresh_tokens d @
             [\<lparr>r_jti = jti, r_user_id = userId, r_expires_at = ex, r_revoked_at = None,
               r_created_at = now\<rparr>]\<rparr>))"

definition saveRefreshTokenJti :: "env \<Rightarrow> string \<Rightarrow> json \<Rightarrow> rat \<Rightarrow> unit svc" where
  "saveRefreshTokenJti e jti userId ttlSeconds =
     andThen (tryRedisSet e (redis_set e (refreshKey jti) (js_String e userId) ttlSeconds)) (\<lambda>_.
     andThen (bind_bigint userId) (\<lambda>uid. upsert_refresh_token jti uid ttlSeconds))"

definition usable_token :: "string \<Rightarrow> int \<Rightarrow> refresh_row \<Rightarrow> bool" where
  "usable_token jti now r = (r_jti r = jti \<and> r_revoked_at r = None \<and> r_expires_at r > now)"

definition consumeRefreshTokenJti :: "env \<Rightarrow> string \<Rightarrow> json option svc" where
  "consumeRefreshTokenJti e jti =
     andThen (tryRedisSet e (redis_del e (refreshKey jti))) (\<lambda>_.
     (\<lambda>d. (Inr (map_option (\<lambda>r. int8_parse e (r_user_id r))
             (row_where (usable_token jti (clock d)) (auth_refresh_tokens d))),
           d\<lparr>auth_refresh_tokens :=
             delete_where (usable_token jti (clock d)) (auth_refresh_tokens d)\<rparr>)))"

definition revokeRefreshTokenJti :: "env \<Rightarrow> string \<Rightarrow> unit svc" where
  "revokeRefreshTokenJti e jti =
     andThen (tryRedisSet e (redis_del e (refreshKey jti))) (\<lambda>_.
     modify (\<lambda>d. d\<lparr>auth_refresh_tokens :=
       update_where (\<lambda>r. r_jti r = jti) (\<lambda>r. r\<lparr>r_revoked_at := Some (clock d)\<rparr>)
         (auth_refresh_tokens d)\<rparr>))"

section \<open>Redis beside the tables\<close>

text \<open>Everything but the log of Redis commands.\<close>

definition sql_state :: "db \<Rightarrow> db" where
  "sql_state d = d\<lparr>redis_cmds := []\<rparr>"

text \<open>An action that only adds to the log of Redis commands, and cannot fail.\<close>

definition redis_only :: "unit svc \<Rightarrow> bool" where
  "redis_only m \<longleftrightarrow> (\<forall>d. \<exists>cs. m d = (Inr (), d\<lparr>redis_cmds := cs\<rparr>))"

lemma redis_only_run:
  assumes "redis_only m"
  obtains cs where "m d = (Inr (), d\<lparr>redis_cmds := cs\<rparr>)"
  using assms unfolding redis_only_def by blast

lemma redis_get_state: "\<exists>r cs. redis_get e k d = (r, d\<lparr>redis_cmds := cs\<rparr>)"
proof (cases "redis_on e")
  case True
  then show ?thesis by (auto simp: redis_get_def)
next
  case False
  then have "redis_get e k d = (Inr None, d\<lparr>redis_cmds := redis_cmds d\<rparr>)"
    by (simp add: redis_get_def)
  then show ?thesis by blast
qed

lemma redis_command_state: "\<exists>r cs. redis_command e c d = (r, d\<lparr>redis_cmds := cs\<rparr>)"
proof (cases "redis_on e")
  case True
  then show ?thesis by (auto simp: redis_command_def)
next
  case False
  then have "redis_command e c d = (Inr (), d\<lparr>redis_cmds := redis_cmds d\<rparr>)"
    by (simp add: redis_command_def)
  then show ?thesis by blast
qed

lemma tryRedisSet_only:
  assumes "\<And>d. \<exists>r cs. op d = (r, d\<lparr>redis_cmds := cs\<rparr>)"
  shows "redis_only (tryRedisSet e op)"
  unfolding redis_only_def
proof
  fix d :: db
  obtain r cs where op: "op d = (r, d\<lparr>redis_cmds := cs\<rparr>)" using assms by blast
  show "\<exists>cs. tryRedisSet e op d = (Inr (), d\<lparr>redis_cmds := cs\<rparr>)"
  proof (cases "redis_on e")
    case True
    with op show ?thesis by (cases r) (auto simp: tryRedisSet_def tryCatch_run)
  next
    case False
    then have "tryRedisSet e op d = (Inr (), d\<lparr>redis_cmds := redis_cmds d\<rparr>)"
      by (simp add: tryRedisSet_def)
    then show ?thesis by blast
  qed
qed

lemma redis_set_only [simp]: "redis_only (tryRedisSet e (redis_set e k v t))"
  by (rule tryRedisSet_only) (simp add: redis_set_def redis_command_state)

lemma redis_del_only [simp]: "redis_only (tryRedisSet e (redis_del e k))"
  by (rule tryRedisSet_only) (simp add: redis_del_def redis_command_state)

lemma redis_bump_only [simp]:
  "redis_only (tryRedisSet e (andThen (redis_get e k) (\<lambda>raw. redis_set e k (f raw) t)))"
proof (rule tryRedisSet_only)
  fix d :: db
  obtain r cs where g: "redis_get e k d = (r, d\<lparr>redis_cmds := cs\<rparr>)" using redis_get_state by blast
  show "\<exists>r cs. andThen (redis_get e k) (\<lambda>raw. redis_set e k (f raw) t) d = (r, d\<lparr>redis_cmds := cs\<rparr>)"
  proof (cases r)
    case (Inl x)
    with g show ?thesis by (auto simp: andThen_run)
  next
    case (Inr raw)
    obtain r' cs' where "redis_set e k (f raw) t (d\<lparr>redis_cmds := cs\<rparr>) =
        (r', d\<lparr>redis_cmds := cs, redis_cmds := cs'\<rparr>)"
      using redis_command_state [of e _ "d\<lparr>redis_cmds := cs\<rparr>"] unfolding redis_set_def by blast
    with g Inr show ?thesis by (auto simp: andThen_run)
  qed
qed

lemma getOtpTransactionReqId_state:
  "\<exists>r cs. getOtpTransactionReqId e ph pu d = (Inr r, d\<lparr>redis_cmds := cs\<rparr>)"
proof (cases "redis_on e")
  case True
  obtain r cs where g: "redis_get e (otpTransactionKey ph pu) d = (r, d\<lparr>redis_cmds := cs\<rparr>)"
    using redis_get_state by blast
  with True show ?thesis
    by (cases r) (auto simp: getOtpTransactionReqId_def tryCatch_run)
next
  case False
  then have "getOtpTransactionReqId e ph pu d = (Inr None, d\<lparr>redis_cmds := redis_cmds d\<rparr>)"
    by (simp add: getOtpTransactionReqId_def)
  then show ?thesis by blast
qed

lemma andThen_redis_only:
  assumes "redis_only m"
  obtains cs where "andThen m k d = k () (d\<lparr>redis_cmds := cs\<rparr>)"
proof -
  obtain cs where "m d = (Inr (), d\<lparr>redis_cmds := cs\<rparr>)" using assms by (rule redis_only_run)
  then show thesis using that [of cs] by (simp add: andThen_run)
qed

section \<open>The attempt counter\<close>

text \<open>The number of failed attempts in the current window.\<close>

definition attempts_of :: "db \<Rightarrow> string \<Rightarrow> otp_purpose \<Rightarrow> int" where
  "attempts_of d phone purpose =
     (case row_where (is_attempt phone purpose) (auth_otp_attempts d) of
        None \<Rightarrow> 0
      | Some a \<Rightarrow> if a_expires_at a \<le> clock d then 0 else a_attempts a)"

lemma attempts_of_redis [simp]: "attempts_of (d\<lparr>redis_cmds := cs\<rparr>) ph pu = attempts_of d ph pu"
  by (simp add: attempts_of_def split: option.splits)

lemma row_where_deleted: "row_where P (delete_where P xs) = None"
  by (simp add: row_where_None)

lemma upsert_attempt_result:
  "fst (upsert_attempt ph pu ttl d) = Inr (attempts_of d ph pu + 1)"
  by (simp add: upsert_attempt_def attempts_of_def Let_def split: option.splits)

lemma upsert_attempt_count:
  assumes "0 < seconds_ms ttl"
  shows "attempts_of (snd (upsert_attempt ph pu ttl d)) ph pu = attempts_of d ph pu + 1"
proof (cases "row_where (is_attempt ph pu) (auth_otp_attempts d)")
  case None
  with assms show ?thesis
    by (simp add: upsert_attempt_def attempts_of_def Let_def row_where_append is_attempt_def)
next
  case (Some a)
  have key: "is_attempt ph pu (r\<lparr>a_attempts := n, a_expires_at := x, a_updated_at := y\<rparr>) = is_attempt ph pu r"
    for r n x y by (simp add: is_attempt_def)
  from Some have "is_attempt ph pu a" by (simp add: row_where_Some)
  with Some assms show ?thesis
    by (simp add: upsert_attempt_def attempts_of_def Let_def row_where_update key)
qed

lemma clearOtpAttempts_run:
  "\<exists>cs. clearOtpAttempts e ph pu d =
     (Inr (), d\<lparr>redis_cmds := cs,
        auth_otp_attempts := delete_where (is_attempt ph pu) (auth_otp_attempts d)\<rparr>)"
proof -
  obtain cs where "clearOtpAttempts e ph pu d =
      modify (\<lambda>d. d\<lparr>auth_otp_attempts := delete_where (is_attempt ph pu) (auth_otp_attempts d)\<rparr>)
        (d\<lparr>redis_cmds := cs\<rparr>)"
    unfolding clearOtpAttempts_def by (rule andThen_redis_only [OF redis_del_only])
  then show ?thesis by auto
qed

text \<open>
  The abstract counter: one more than before, cleared when the limit is reached. Nothing but the
  counter's table and the Redis log changes.
\<close>

lemma incrementOtpAttempts_spec:
  "\<exists>cs. incrementOtpAttempts e ph pu mx ttl d =
     (let n = attempts_of d ph pu + 1; d1 = snd (upsert_attempt ph pu ttl d)
      in (Inr (n, mx \<le> n),
          (if mx \<le> n then
             d1\<lparr>redis_cmds := cs,
                auth_otp_attempts := delete_where (is_attempt ph pu) (auth_otp_attempts d1)\<rparr>
           else d1\<lparr>redis_cmds := cs\<rparr>)))"
proof -
  obtain c1 where r: "incrementOtpAttempts e ph pu mx ttl d =
      andThen (upsert_attempt ph pu ttl) (\<lambda>attempts.
        if attempts \<ge> mx then andThen (clearOtpAttempts e ph pu) (\<lambda>_. ret (attempts, True))
        else ret (attempts, False)) (d\<lparr>redis_cmds := c1\<rparr>)"
    unfolding incrementOtpAttempts_def Let_def by (rule andThen_redis_only [OF redis_bump_only])
  have u: "upsert_attempt ph pu ttl (d\<lparr>redis_cmds := c1\<rparr>) =
      (Inr (attempts_of d ph pu + 1), (snd (upsert_attempt ph pu ttl d))\<lparr>redis_cmds := c1\<rparr>)"
    by (simp add: upsert_attempt_def attempts_of_def Let_def split: option.splits)
  obtain c2 where "clearOtpAttempts e ph pu ((snd (upsert_attempt ph pu ttl d))\<lparr>redis_cmds := c1\<rparr>) =
      (Inr (), (snd (upsert_attempt ph pu ttl d))\<lparr>redis_cmds := c2, auth_otp_attempts :=
         delete_where (is_attempt ph pu) (auth_otp_attempts (snd (upsert_attempt ph pu ttl d)))\<rparr>)"
    using clearOtpAttempts_run [of e ph pu "(snd (upsert_attempt ph pu ttl d))\<lparr>redis_cmds := c1\<rparr>"]
    by auto
  note c = this
  show ?thesis
  proof (cases "mx \<le> attempts_of d ph pu + 1")
    case True
    with r u c show ?thesis by (auto simp: andThen_run Let_def intro!: exI [of _ c2])
  next
    case False
    with r u show ?thesis by (auto simp: andThen_run Let_def intro!: exI [of _ c1])
  qed
qed

lemma incrementOtpAttempts_count:
  assumes "0 < seconds_ms ttl"
    and "incrementOtpAttempts e ph pu mx ttl d = (Inr (n, locked), d')"
  shows "n = attempts_of d ph pu + 1 \<and> locked = (mx \<le> n) \<and>
    attempts_of d' ph pu = (if locked then 0 else n)"
proof -
  let ?d1 = "snd (upsert_attempt ph pu ttl d)"
  have a1: "attempts_of ?d1 ph pu = attempts_of d ph pu + 1"
    using assms(1) by (rule upsert_attempt_count)
  obtain cs where s: "incrementOtpAttempts e ph pu mx ttl d =
     (let n = attempts_of d ph pu + 1; d1 = ?d1
      in (Inr (n, mx \<le> n),
          (if mx \<le> n then
             d1\<lparr>redis_cmds := cs,
                auth_otp_attempts := delete_where (is_attempt ph pu) (auth_otp_attempts d1)\<rparr>
           else d1\<lparr>redis_cmds := cs\<rparr>)))"
    using incrementOtpAttempts_spec [of e ph pu mx ttl d] by blast
  have "attempts_of (?d1\<lparr>redis_cmds := cs, auth_otp_attempts :=
      delete_where (is_attempt ph pu) (auth_otp_attempts ?d1)\<rparr>) ph pu = 0"
    by (simp add: attempts_of_def row_where_deleted)
  note z = this
  show ?thesis
  proof (cases "mx \<le> attempts_of d ph pu + 1")
    case True
    with assms(2) s have "n = attempts_of d ph pu + 1" "locked"
      "d' = ?d1\<lparr>redis_cmds := cs,
         auth_otp_attempts := delete_where (is_attempt ph pu) (auth_otp_attempts ?d1)\<rparr>"
      by (simp_all add: Let_def)
    with True z show ?thesis by simp
  next
    case False
    with assms(2) s have "n = attempts_of d ph pu + 1" "\<not> locked" "d' = ?d1\<lparr>redis_cmds := cs\<rparr>"
      by (simp_all add: Let_def)
    with False a1 show ?thesis by simp
  qed
qed

section \<open>Refresh tokens\<close>

lemma consumeRefreshTokenJti_run:
  "\<exists>cs. consumeRefreshTokenJti e jti d =
     (Inr (map_option (\<lambda>r. int8_parse e (r_user_id r))
        (row_where (usable_token jti (clock d)) (auth_refresh_tokens d))),
      d\<lparr>redis_cmds := cs,
        auth_refresh_tokens := delete_where (usable_token jti (clock d)) (auth_refresh_tokens d)\<rparr>)"
proof -
  obtain cs where "consumeRefreshTokenJti e jti d =
      (\<lambda>d. (Inr (map_option (\<lambda>r. int8_parse e (r_user_id r))
             (row_where (usable_token jti (clock d)) (auth_refresh_tokens d))),
           d\<lparr>auth_refresh_tokens :=
             delete_where (usable_token jti (clock d)) (auth_refresh_tokens d)\<rparr>)) (d\<lparr>redis_cmds := cs\<rparr>)"
    unfolding consumeRefreshTokenJti_def by (rule andThen_redis_only [OF redis_del_only])
  then show ?thesis by auto
qed

lemma revokeRefreshTokenJti_run:
  "\<exists>cs. revokeRefreshTokenJti e jti d =
     (Inr (), d\<lparr>redis_cmds := cs, auth_refresh_tokens :=
        update_where (\<lambda>r. r_jti r = jti) (\<lambda>r. r\<lparr>r_revoked_at := Some (clock d)\<rparr>)
          (auth_refresh_tokens d)\<rparr>)"
proof -
  obtain cs where "revokeRefreshTokenJti e jti d =
      modify (\<lambda>d. d\<lparr>auth_refresh_tokens :=
        update_where (\<lambda>r. r_jti r = jti) (\<lambda>r. r\<lparr>r_revoked_at := Some (clock d)\<rparr>)
          (auth_refresh_tokens d)\<rparr>) (d\<lparr>redis_cmds := cs\<rparr>)"
    unfolding revokeRefreshTokenJti_def by (rule andThen_redis_only [OF redis_del_only])
  then show ?thesis by auto
qed

text \<open>No row of the table would be accepted for this token.\<close>

definition token_dead :: "string \<Rightarrow> db \<Rightarrow> bool" where
  "token_dead jti d \<longleftrightarrow> (\<forall>r \<in> set (auth_refresh_tokens d). r_jti r = jti \<longrightarrow>
     r_revoked_at r \<noteq> None \<or> r_expires_at r \<le> clock d)"

lemma token_dead_iff: "token_dead jti d \<longleftrightarrow>
    row_where (usable_token jti (clock d)) (auth_refresh_tokens d) = None"
  by (auto simp: token_dead_def row_where_None usable_token_def)

lemma consume_kills:
  assumes "consumeRefreshTokenJti e jti d = (r, d')"
  shows "token_dead jti d'"
proof -
  obtain cs where "d' = d\<lparr>redis_cmds := cs, auth_refresh_tokens :=
      delete_where (usable_token jti (clock d)) (auth_refresh_tokens d)\<rparr>"
    using consumeRefreshTokenJti_run [of e jti d] assms by auto
  then show ?thesis by (auto simp: token_dead_def usable_token_def)
qed

lemma revoke_kills:
  assumes "revokeRefreshTokenJti e jti d = (r, d')"
  shows "token_dead jti d'"
proof -
  obtain cs where "revokeRefreshTokenJti e jti d = (Inr (), d\<lparr>redis_cmds := cs, auth_refresh_tokens :=
      update_where (\<lambda>r. r_jti r = jti) (\<lambda>r. r\<lparr>r_revoked_at := Some (clock d)\<rparr>)
        (auth_refresh_tokens d)\<rparr>)"
    using revokeRefreshTokenJti_run [of e jti d] by (rule exE)
  with assms have "auth_refresh_tokens d' = update_where (\<lambda>r. r_jti r = jti)
      (\<lambda>r. r\<lparr>r_revoked_at := Some (clock d)\<rparr>) (auth_refresh_tokens d)" by auto
  note rows = this
  show ?thesis
    unfolding token_dead_def rows set_update_where
  proof (intro ballI impI)
    fix r assume "r \<in> (\<lambda>x. if r_jti x = jti then x\<lparr>r_revoked_at := Some (clock d)\<rparr> else x) `
        set (auth_refresh_tokens d)" and jti: "r_jti r = jti"
    then obtain x where "r = (if r_jti x = jti then x\<lparr>r_revoked_at := Some (clock d)\<rparr> else x)" by blast
    with jti show "r_revoked_at r \<noteq> None \<or> r_expires_at r \<le> clock d'" by (simp split: if_splits)
  qed
qed

lemma consume_dead:
  "token_dead jti d \<Longrightarrow> \<exists>d'. consumeRefreshTokenJti e jti d = (Inr None, d')"
  using consumeRefreshTokenJti_run [of e jti d] by (auto simp: token_dead_iff)

lemma nat_str_hd: "hd (nat_str k) \<noteq> CHR ''-''"
  using nat_str_digits [of k] nat_str_nonempty [of k]
  by (cases "nat_str k") (auto simp: is_digit_def)

lemma pg_bigint_nat_str: "pg_bigint (JStr (nat_str k)) = Some (int k)"
  using nat_str_digits [of k] nat_str_nonempty [of k] nat_str_hd [of k]
  by (simp add: pg_bigint_def Let_def)

lemma pg_bigint_int8 [simp]:
  assumes "int8_ok e" and "0 < n"
  shows "pg_bigint (int8_parse e n) = Some n"
  using assms(1) unfolding int8_ok_def
proof
  assume "int8_parse e = int8_as_string"
  with assms(2) show ?thesis by (simp add: int8_as_string_def int_str_pos pg_bigint_nat_str)
next
  assume "int8_parse e = int8_as_number"
  then show ?thesis by (simp add: int8_as_number_def pg_bigint_def)
qed

lemma pg_bigint_number [simp]: "pg_bigint (JNum (of_int n)) = Some n"
  by (simp add: pg_bigint_def)

lemma bind_bigint_run [act_simps]:
  "bind_bigint v d = (case pg_bigint v of None \<Rightarrow> (Inl (PgErr INVALID_TEXT), d) | Some n \<Rightarrow> (Inr n, d))"
  by (simp add: bind_bigint_def split: option.splits)

end
