(* ===== verification/Otp.thy ===== *)
theory Otp
  imports AuthState
begin

text \<open>
  \<open>src/src/auth/otp-sender\<close> and \<open>src/src/auth/otp-cleanup.task.ts\<close>: the two providers of one-time
  passwords (the console provider, which keeps the codes in \<open>auth_otps\<close>, and the client of the remote
  service Akedly), the choice between them, and the hourly cleanup. The locale \<open>otp_provider\<close> is the
  interface \<open>OtpVerificationProvider\<close> with what \<open>AuthService\<close> relies on; it is interpreted for both
  providers and for the chosen one.
\<close>

definition OTP_RANGE_MIN :: nat where "OTP_RANGE_MIN = 100000"
definition OTP_RANGE_MAX :: nat where "OTP_RANGE_MAX = 1000000"
definition OTP_MAX_ATTEMPTS :: int where "OTP_MAX_ATTEMPTS = 5"
definition OTP_ATTEMPTS_TTL_SECONDS :: rat where "OTP_ATTEMPTS_TTL_SECONDS = 600"

section \<open>otp-sender.interface.ts\<close>

record start_payload =
  sp_phone :: string
  sp_purpose :: otp_purpose
  sp_userId :: json
  sp_endUserIp :: json
  sp_powSolution :: json
  sp_turnstileToken :: json

record start_result =
  sr_otp :: "string option"
  sr_transactionReqID :: json

record check_payload =
  ck_phone :: string
  ck_code :: string
  ck_purpose :: otp_purpose
  ck_transactionReqID :: "string option"

text \<open>The result of a check is the optional \<open>localOtpId\<close>.\<close>

record otp_provider_ops =
  startVerification :: "start_payload \<Rightarrow> start_result svc"
  checkVerification :: "check_payload \<Rightarrow> json svc"

section \<open>ConsoleOtpSender\<close>

definition minutes_ms :: "rat \<Rightarrow> int" where
  "minutes_ms m = \<lfloor>m * 60000\<rfloor>"

definition hashOtp :: "env \<Rightarrow> string \<Rightarrow> string \<Rightarrow> string" where
  "hashOtp e otp salt = hmac_sha256_hex e (otpSigningSecret (cfg e)) (otp @ '':'' @ salt)"

definition bind_nullable_bigint :: "json \<Rightarrow> int option svc" where
  "bind_nullable_bigint v =
     (if nullish v then ret None else andThen (bind_bigint v) (\<lambda>n. ret (Some n)))"

definition insert_otp :: "int option \<Rightarrow> string \<Rightarrow> string \<Rightarrow> string \<Rightarrow> otp_purpose \<Rightarrow> rat \<Rightarrow> unit svc" where
  "insert_otp userId phone otpHash salt purpose ttlMinutes =
     andThen (nextval T_auth_otps) (\<lambda>i.
     andThen (gets (\<lambda>d. case userId of None \<Rightarrow> True | Some u \<Rightarrow> user_exists d u)) (\<lambda>fk.
     andThen (unless fk (PgErr FK_VIOLATION)) (\<lambda>_.
     modify (\<lambda>d. d\<lparr>auth_otps := auth_otps d @
       [\<lparr>o_id = i, o_user_id = userId, o_phone = phone, o_code_hash = otpHash, o_salt = salt,
         o_purpose = purpose, o_expires_at = clock d + minutes_ms ttlMinutes, o_used_at = None,
         o_created_at = clock d\<rparr>]\<rparr>))))"

definition console_startVerification :: "env \<Rightarrow> start_payload \<Rightarrow> start_result svc" where
  "console_startVerification e payload =
     andThen (if otpDevMode (cfg e) then ret ''000000''
              else draw (\<lambda>i. nat_str (random_int e i OTP_RANGE_MIN OTP_RANGE_MAX))) (\<lambda>otp.
     andThen (draw (\<lambda>i. random_hex e i 16)) (\<lambda>salt.
     andThen (bind_nullable_bigint (sp_userId payload)) (\<lambda>uid.
     andThen (insert_otp uid (sp_phone payload) (hashOtp e otp salt) salt (sp_purpose payload)
                (otpTtlMinutes (cfg e))) (\<lambda>_.
     ret \<lparr>sr_otp = (if otpDevMode (cfg e) then Some otp else None), sr_transactionReqID = JUndef\<rparr>))))"

definition is_otp_of :: "string \<Rightarrow> otp_purpose \<Rightarrow> otp_row \<Rightarrow> bool" where
  "is_otp_of phone purpose r = (o_phone r = phone \<and> o_purpose r = purpose)"

definition latest_otp :: "db \<Rightarrow> string \<Rightarrow> otp_purpose \<Rightarrow> otp_row option" where
  "latest_otp d phone purpose =
     (case page 1 0 (order_desc o_created_at (filter (is_otp_of phone purpose) (auth_otps d))) of
        [] \<Rightarrow> None
      | r # _ \<Rightarrow> Some r)"

definition console_checkVerification :: "env \<Rightarrow> check_payload \<Rightarrow> json svc" where
  "console_checkVerification e payload =
     andThen (gets (\<lambda>d. latest_otp d (ck_phone payload) (ck_purpose payload))) (\<lambda>found.
     case found of
       None \<Rightarrow> throw (BadRequest ''OTP not found'')
     | Some otpRow \<Rightarrow>
         andThen (unless (o_used_at otpRow = None) (BadRequest ''OTP already used'')) (\<lambda>_.
         andThen (gets clock) (\<lambda>now.
         andThen (unless (\<not> o_expires_at otpRow < now) (BadRequest ''OTP expired'')) (\<lambda>_.
         if hashOtp e (ck_code payload) (o_salt otpRow) \<noteq> o_code_hash otpRow then
           andThen (incrementOtpAttempts e (ck_phone payload) (ck_purpose payload)
                      OTP_MAX_ATTEMPTS OTP_ATTEMPTS_TTL_SECONDS) (\<lambda>result.
           if snd result then throw (BadRequest ''Too many attempts - OTP invalidated'')
           else throw (BadRequest ''Invalid OTP''))
         else
           andThen (clearOtpAttempts e (ck_phone payload) (ck_purpose payload)) (\<lambda>_.
           ret (int8_parse e (o_id otpRow)))))))"

section \<open>AkedlyOtpSender\<close>

text \<open>\<open>fetch\<close>: the answer, or the failure, of the remote service; \<open>rq_body\<close> is what is stringified.\<close>

definition fetch :: "env \<Rightarrow> http_request \<Rightarrow> http_response svc" where
  "fetch e rq = (\<lambda>d. (http_fetch e (draws d) rq, d\<lparr>draws := draws d + 1\<rparr>))"

definition safeParse :: "http_response \<Rightarrow> json" where
  "safeParse response = (case rs_json response of None \<Rightarrow> JUndef | Some v \<Rightarrow> v)"

definition normalizePhone :: "string \<Rightarrow> string" where
  "normalizePhone phone = (if starts_with phone ''+'' then phone else ''+'' @ phone)"

definition sendError :: "env \<Rightarrow> nat \<Rightarrow> json \<Rightarrow> exn" where
  "sendError e statusCode result =
     (let message = js_String e (coalesce (get_prop result ''message'') (JStr ''OTP delivery failed''))
      in if statusCode \<ge> 400 \<and> statusCode < 500 then BadRequest message
         else ServiceUnavailable (''OTP delivery failed: '' @ message))"

definition verifyError :: "env \<Rightarrow> nat \<Rightarrow> json \<Rightarrow> exn" where
  "verifyError e statusCode result =
     (let code = get_prop result ''code'';
          message = js_String e (coalesce (get_prop result ''message'') (JStr ''Invalid or expired OTP''))
      in if code = JStr ''ALREADY_VERIFIED'' then Conflict message
         else if code = JStr ''INVALID_OTP'' \<or> code = JStr ''TRANSACTION_EXPIRED'' \<or>
                 (statusCode \<ge> 400 \<and> statusCode < 500) then BadRequest message
         else ServiceUnavailable (''OTP verification failed: '' @ message))"

definition opt_str :: "string option \<Rightarrow> json" where
  "opt_str v = (case v of None \<Rightarrow> JUndef | Some s \<Rightarrow> JStr s)"

definition akedly_startVerification :: "env \<Rightarrow> start_payload \<Rightarrow> start_result svc" where
  "akedly_startVerification e payload =
     andThen (unless (truthy (sp_powSolution payload)) (BadRequest ''powSolution is required'')) (\<lambda>_.
     andThen (fetch e
       \<lparr>rq_method = ''POST'',
        rq_url = akedlyBaseUrl (cfg e) @ ''/api/v1.2/transactions/send'',
        rq_headers = (''Content-Type'', ''application/json'') #
          (if truthy (sp_endUserIp payload) then [(''x-end-user-ip'', js_String e (sp_endUserIp payload))]
           else []),
        rq_body = JObj
          [(''APIKey'', opt_str (akedlyApiKey (cfg e))),
           (''pipelineID'', opt_str (akedlyPipelineId (cfg e))),
           (''verificationAddress'',
              JObj [(''phoneNumber'', JStr (normalizePhone (sp_phone payload)))]),
           (''powSolution'', sp_powSolution payload),
           (''turnstileToken'', sp_turnstileToken payload)]\<rparr>) (\<lambda>response.
     let result = safeParse response in
     andThen (unless (rs_ok response \<and> get_prop result ''status'' \<noteq> JStr ''error'')
                (sendError e (rs_status response) result)) (\<lambda>_.
     let transactionReqID = get_prop (get_prop result ''data'') ''transactionReqID'' in
     andThen (unless (truthy transactionReqID)
                (ServiceUnavailable ''OTP delivery failed: missing transactionReqID'')) (\<lambda>_.
     ret \<lparr>sr_otp = None, sr_transactionReqID = transactionReqID\<rparr>))))"

definition akedly_checkVerification :: "env \<Rightarrow> check_payload \<Rightarrow> json svc" where
  "akedly_checkVerification e payload =
     andThen (unless (given (ck_transactionReqID payload))
                (BadRequest ''transactionReqID is required'')) (\<lambda>_.
     andThen (fetch e
       \<lparr>rq_method = ''POST'',
        rq_url = akedlyBaseUrl (cfg e) @ ''/api/v1.2/transactions/verify'',
        rq_headers = [(''Content-Type'', ''application/json'')],
        rq_body = JObj
          [(''transactionReqID'', opt_str (ck_transactionReqID payload)),
           (''otp'', JStr (ck_code payload))]\<rparr>) (\<lambda>response.
     let result = safeParse response in
     andThen (unless (rs_ok response \<and> get_prop result ''status'' \<noteq> JStr ''error'' \<and>
                      truthy (get_prop (get_prop result ''data'') ''verified''))
                (verifyError e (rs_status response) result)) (\<lambda>_.
     ret JUndef)))"

section \<open>otp-sender.provider.ts\<close>

definition consoleOtpSender :: "env \<Rightarrow> otp_provider_ops" where
  "consoleOtpSender e =
     \<lparr>startVerification = console_startVerification e,
      checkVerification = console_checkVerification e\<rparr>"

definition akedlyOtpSender :: "env \<Rightarrow> otp_provider_ops" where
  "akedlyOtpSender e =
     \<lparr>startVerification = akedly_startVerification e,
      checkVerification = akedly_checkVerification e\<rparr>"

definition resolveOtpVerificationProvider ::
  "app_config \<Rightarrow> otp_provider_ops \<Rightarrow> otp_provider_ops \<Rightarrow> otp_provider_ops" where
  "resolveOtpVerificationProvider appConfig console akedly =
     (if otpProvider appConfig = ''akedly'' then akedly else console)"

definition otpVerificationProvider :: "env \<Rightarrow> otp_provider_ops" where
  "otpVerificationProvider e =
     resolveOtpVerificationProvider (cfg e) (consoleOtpSender e) (akedlyOtpSender e)"

section \<open>OtpCleanupTask\<close>

definition day_ms :: int where "day_ms = 86400000"

definition purgeExpiredOtps :: "unit svc" where
  "purgeExpiredOtps =
     andThen (modify (\<lambda>d. d\<lparr>auth_otps := delete_where
       (\<lambda>r. o_used_at r \<noteq> None \<or> o_expires_at r < clock d - day_ms) (auth_otps d)\<rparr>)) (\<lambda>_.
     modify (\<lambda>d. d\<lparr>pending_registrations := delete_where
       (\<lambda>r. pr_expires_at r < clock d - day_ms) (pending_registrations d)\<rparr>))"

section \<open>The newest code\<close>

lemma hd_order_desc:
  fixes k :: "'a \<Rightarrow> int"
  assumes "xs \<noteq> []"
  shows "hd (order_desc k xs) \<in> set xs \<and> (\<forall>y \<in> set xs. k y \<le> k (hd (order_desc k xs)))"
proof -
  have s: "set (order_desc k xs) = set xs" by simp
  with assms obtain z zs where z: "order_desc k xs = z # zs" by (cases "order_desc k xs") auto
  have "sorted (map (\<lambda>x. - k x) (z # zs))" using sorted_order_desc [of k xs] z by simp
  then have "\<forall>y \<in> set (z # zs). k y \<le> k z" by auto
  with z s show ?thesis by (metis list.sel(1) list.set_intros(1))
qed

lemma latest_otp_hd:
  "latest_otp d ph pu =
     (if order_desc o_created_at (filter (is_otp_of ph pu) (auth_otps d)) = [] then None
      else Some (hd (order_desc o_created_at (filter (is_otp_of ph pu) (auth_otps d)))))"
  by (cases "order_desc o_created_at (filter (is_otp_of ph pu) (auth_otps d))")
    (simp_all add: latest_otp_def page_def)

lemma latest_otp_None: "latest_otp d ph pu = None \<longleftrightarrow> (\<forall>r \<in> set (auth_otps d). \<not> is_otp_of ph pu r)"
proof -
  have "latest_otp d ph pu = None \<longleftrightarrow> order_desc o_created_at (filter (is_otp_of ph pu) (auth_otps d)) = []"
    by (simp add: latest_otp_hd)
  also have "\<dots> \<longleftrightarrow> set (filter (is_otp_of ph pu) (auth_otps d)) = {}"
    by (metis set_empty set_order(2))
  finally show ?thesis by (auto simp: filter_empty_conv)
qed

lemma latest_otp_Some:
  assumes "latest_otp d ph pu = Some r"
  shows "r \<in> set (auth_otps d)" and "is_otp_of ph pu r"
    and "\<And>y. y \<in> set (auth_otps d) \<Longrightarrow> is_otp_of ph pu y \<Longrightarrow> o_created_at y \<le> o_created_at r"
proof -
  let ?xs = "filter (is_otp_of ph pu) (auth_otps d)"
  have "order_desc o_created_at ?xs \<noteq> []" and h: "hd (order_desc o_created_at ?xs) = r"
    using assms by (auto simp: latest_otp_hd split: if_splits)
  then have "?xs \<noteq> []" by (metis set_empty set_order(2))
  from hd_order_desc [OF this, of o_created_at] h
  show "r \<in> set (auth_otps d)" "is_otp_of ph pu r"
    "\<And>y. y \<in> set (auth_otps d) \<Longrightarrow> is_otp_of ph pu y \<Longrightarrow> o_created_at y \<le> o_created_at r"
    by auto
qed

lemma latest_otp_newest:
  assumes "r \<in> set (auth_otps d)" and "is_otp_of ph pu r"
    and "\<And>y. y \<in> set (auth_otps d) \<Longrightarrow> is_otp_of ph pu y \<Longrightarrow> y \<noteq> r \<Longrightarrow> o_created_at y < o_created_at r"
  shows "latest_otp d ph pu = Some r"
proof (cases "latest_otp d ph pu")
  case None
  with assms(1,2) show ?thesis by (auto simp: latest_otp_None)
next
  case (Some z)
  note l = latest_otp_Some [OF Some]
  have "o_created_at r \<le> o_created_at z" using l(3) assms(1,2) by blast
  with assms(3) [OF l(1,2)] have "z = r" by force
  with Some show ?thesis by simp
qed

lemma latest_otp_cong: "auth_otps d' = auth_otps d \<Longrightarrow> latest_otp d' = latest_otp d"
  by (simp add: fun_eq_iff latest_otp_def)

section \<open>The interface of AuthService\<close>

text \<open>
  What a provider may change: the one-time passwords, the attempt counters, sequences, draws and the
  log of Redis. A check does not touch the passwords.
\<close>

definition otp_erased :: "db \<Rightarrow> db" where
  "otp_erased d =
     d\<lparr>auth_otps := [], auth_otp_attempts := [], seqs := (seqs d)(T_auth_otps := 0), draws := 0,
       redis_cmds := []\<rparr>"

definition otp_frame :: "db \<Rightarrow> db \<Rightarrow> bool" where
  "otp_frame d d' \<longleftrightarrow> otp_erased d' = otp_erased d \<and> draws d \<le> draws d' \<and> seqs d \<le> seqs d'"

lemma otp_frame_refl [simp]: "otp_frame d d"
  by (simp add: otp_frame_def)

lemma otp_frame_trans [trans]: "otp_frame d d' \<Longrightarrow> otp_frame d' d'' \<Longrightarrow> otp_frame d d''"
  by (auto simp: otp_frame_def)

lemma otp_frame_updates [simp]:
  "otp_frame d (d'\<lparr>auth_otps := x\<rparr>) \<longleftrightarrow> otp_frame d d'"
  "otp_frame d (d'\<lparr>auth_otp_attempts := y\<rparr>) \<longleftrightarrow> otp_frame d d'"
  "otp_frame d (d'\<lparr>redis_cmds := cs\<rparr>) \<longleftrightarrow> otp_frame d d'"
  by (simp_all add: otp_frame_def otp_erased_def)

lemma otp_frame_draw [simp]: "otp_frame d d' \<Longrightarrow> otp_frame d (d'\<lparr>draws := draws d' + 1\<rparr>)"
  by (simp add: otp_frame_def otp_erased_def)

lemma otp_frame_draw' [simp]: "otp_frame d d' \<Longrightarrow> otp_frame d (d'\<lparr>draws := Suc (draws d')\<rparr>)"
  using otp_frame_draw [of d d'] by simp

lemma otp_frame_seq [simp]:
  assumes "otp_frame d d'"
  shows "otp_frame d (d'\<lparr>seqs := (seqs d')(T_auth_otps := seqs d' T_auth_otps + 1)\<rparr>)"
  using assms by (auto simp: otp_frame_def otp_erased_def le_fun_def intro: order_trans)

lemma otp_frame_tables:
  assumes "otp_frame d d'"
  shows "users d' = users d" "pending_registrations d' = pending_registrations d"
    "auth_refresh_tokens d' = auth_refresh_tokens d" "clock d' = clock d"
    "seqs d' T_users = seqs d T_users" "draws d \<le> draws d'" "seqs d \<le> seqs d'"
proof -
  have q: "otp_erased d' = otp_erased d" using assms by (simp add: otp_frame_def)
  show "users d' = users d" using arg_cong [OF q, of users] by (simp add: otp_erased_def)
  show "pending_registrations d' = pending_registrations d"
    using arg_cong [OF q, of pending_registrations] by (simp add: otp_erased_def)
  show "auth_refresh_tokens d' = auth_refresh_tokens d"
    using arg_cong [OF q, of auth_refresh_tokens] by (simp add: otp_erased_def)
  show "clock d' = clock d" using arg_cong [OF q, of clock] by (simp add: otp_erased_def)
  show "seqs d' T_users = seqs d T_users"
    using arg_cong [OF q, of "\<lambda>d. seqs d T_users"] by (simp add: otp_erased_def)
  show "draws d \<le> draws d'" "seqs d \<le> seqs d'" using assms by (simp_all add: otp_frame_def)
qed

text \<open>A row a check may name: of this phone and purpose, unused and not expired.\<close>

definition open_otp :: "env \<Rightarrow> db \<Rightarrow> check_payload \<Rightarrow> json \<Rightarrow> bool" where
  "open_otp e d p v \<longleftrightarrow>
     (\<exists>r \<in> set (auth_otps d). v = int8_parse e (o_id r) \<and> is_otp_of (ck_phone p) (ck_purpose p) r \<and>
        o_used_at r = None \<and> clock d \<le> o_expires_at r)"

locale otp_provider =
  fixes e :: env
    and ops :: otp_provider_ops
  assumes start_frame: "startVerification ops s d = (sr, d') \<Longrightarrow> otp_frame d d'"
    and check_frame: "checkVerification ops p d = (r, d') \<Longrightarrow> otp_frame d d'"
    and check_keeps: "checkVerification ops p d = (r, d') \<Longrightarrow> auth_otps d' = auth_otps d"
    and check_sound: "checkVerification ops p d = (Inr v, d') \<Longrightarrow> truthy v \<Longrightarrow> open_otp e d p v"
begin

lemma keeps_start:
  "(\<And>d d'. I d \<Longrightarrow> otp_frame d d' \<Longrightarrow> I d') \<Longrightarrow> keeps I (startVerification ops s)"
  unfolding keeps_def by (metis start_frame surjective_pairing)

lemma keeps_check:
  "(\<And>d d'. I d \<Longrightarrow> otp_frame d d' \<Longrightarrow> I d') \<Longrightarrow> keeps I (checkVerification ops p)"
  unfolding keeps_def by (metis check_frame surjective_pairing)

lemma check_users: "checkVerification ops p d = (r, d') \<Longrightarrow> users d' = users d"
  by (rule otp_frame_tables(1) [OF check_frame])

lemma check_then:
  assumes "andThen (checkVerification ops p) k d = (Inr a, d')"
  obtains v d1 where "checkVerification ops p d = (Inr v, d1)" and "k v d1 = (Inr a, d')"
    and "otp_frame d d1" and "auth_otps d1 = auth_otps d"
proof -
  from assms obtain v d1 where c: "checkVerification ops p d = (Inr v, d1)" and k: "k v d1 = (Inr a, d')"
    by (rule andThen_InrE)
  show thesis by (rule that [OF c k check_frame [OF c] check_keeps [OF c]])
qed

lemma check_used_up:
  assumes "checkVerification ops p d = (Inr v, d')" and "truthy v"
    and "auth_otps d = auth_otps d0" and "clock d = clock d0"
  shows "open_otp e d0 p v"
  using check_sound [OF assms(1,2)] assms(3,4) by (simp add: open_otp_def)

end

subsection \<open>Console\<close>

lemma incrementOtpAttempts_frame:
  assumes "incrementOtpAttempts e ph pu mx ttl d = (r, d')"
  shows "otp_frame d d' \<and> auth_otps d' = auth_otps d"
proof -
  let ?d1 = "snd (upsert_attempt ph pu ttl d)"
  have 1: "otp_frame d ?d1 \<and> auth_otps ?d1 = auth_otps d"
    by (simp add: upsert_attempt_def Let_def split: option.splits)
  obtain cs where s: "incrementOtpAttempts e ph pu mx ttl d =
     (let n = attempts_of d ph pu + 1; d1 = ?d1
      in (Inr (n, mx \<le> n),
          (if mx \<le> n then
             d1\<lparr>redis_cmds := cs,
                auth_otp_attempts := delete_where (is_attempt ph pu) (auth_otp_attempts d1)\<rparr>
           else d1\<lparr>redis_cmds := cs\<rparr>)))"
    using incrementOtpAttempts_spec [of e ph pu mx ttl d] by blast
  show ?thesis
  proof (cases "mx \<le> attempts_of d ph pu + 1")
    case True
    with assms s have "d' = ?d1\<lparr>redis_cmds := cs,
        auth_otp_attempts := delete_where (is_attempt ph pu) (auth_otp_attempts ?d1)\<rparr>"
      by (simp add: Let_def)
    with 1 show ?thesis by simp
  next
    case False
    with assms s have "d' = ?d1\<lparr>redis_cmds := cs\<rparr>" by (simp add: Let_def)
    with 1 show ?thesis by simp
  qed
qed

lemma clearOtpAttempts_frame:
  assumes "clearOtpAttempts e ph pu d = (r, d')"
  shows "r = Inr () \<and> otp_frame d d' \<and> auth_otps d' = auth_otps d"
proof -
  obtain cs where "clearOtpAttempts e ph pu d = (Inr (), d\<lparr>redis_cmds := cs,
      auth_otp_attempts := delete_where (is_attempt ph pu) (auth_otp_attempts d)\<rparr>)"
    using clearOtpAttempts_run by blast
  with assms have "r = Inr ()" and "d' = d\<lparr>redis_cmds := cs,
      auth_otp_attempts := delete_where (is_attempt ph pu) (auth_otp_attempts d)\<rparr>" by simp_all
  then show ?thesis by simp
qed

lemma console_check_run:
  "console_checkVerification e p d =
     (case latest_otp d (ck_phone p) (ck_purpose p) of
        None \<Rightarrow> (Inl (BadRequest ''OTP not found''), d)
      | Some row \<Rightarrow>
          if o_used_at row \<noteq> None then (Inl (BadRequest ''OTP already used''), d)
          else if o_expires_at row < clock d then (Inl (BadRequest ''OTP expired''), d)
          else if hashOtp e (ck_code p) (o_salt row) \<noteq> o_code_hash row then
            (case incrementOtpAttempts e (ck_phone p) (ck_purpose p) OTP_MAX_ATTEMPTS
                    OTP_ATTEMPTS_TTL_SECONDS d of
               (Inl x, d') \<Rightarrow> (Inl x, d')
             | (Inr (n, locked), d') \<Rightarrow>
                 (Inl (BadRequest (if locked then ''Too many attempts - OTP invalidated'' else ''Invalid OTP'')), d'))
          else (Inr (int8_parse e (o_id row)), snd (clearOtpAttempts e (ck_phone p) (ck_purpose p) d)))"
proof (cases "latest_otp d (ck_phone p) (ck_purpose p)")
  case None
  then show ?thesis by (simp add: console_checkVerification_def)
next
  case (Some row)
  obtain r d' where c: "clearOtpAttempts e (ck_phone p) (ck_purpose p) d = (r, d')"
    by (cases "clearOtpAttempts e (ck_phone p) (ck_purpose p) d")
  with clearOtpAttempts_frame have "r = Inr ()" by blast
  with Some c show ?thesis
    by (auto simp: console_checkVerification_def andThen_run unless_run split: prod.splits sum.splits)
qed

lemma console_check_frame:
  assumes "console_checkVerification e p d = (r, d')"
  shows "otp_frame d d' \<and> auth_otps d' = auth_otps d"
proof -
  obtain r1 d1 where c: "clearOtpAttempts e (ck_phone p) (ck_purpose p) d = (r1, d1)"
    by (cases "clearOtpAttempts e (ck_phone p) (ck_purpose p) d")
  obtain r2 d2 where i: "incrementOtpAttempts e (ck_phone p) (ck_purpose p) OTP_MAX_ATTEMPTS
      OTP_ATTEMPTS_TTL_SECONDS d = (r2, d2)"
    by (cases "incrementOtpAttempts e (ck_phone p) (ck_purpose p) OTP_MAX_ATTEMPTS
      OTP_ATTEMPTS_TTL_SECONDS d")
  from assms c i have "d' \<in> {d, d1, d2}"
    by (auto simp: console_check_run split: option.splits if_splits prod.splits sum.splits)
  with clearOtpAttempts_frame [OF c] incrementOtpAttempts_frame [OF i] show ?thesis by auto
qed

lemma console_check_Inr:
  assumes "console_checkVerification e p d = (Inr v, d')"
  obtains row where "latest_otp d (ck_phone p) (ck_purpose p) = Some row" and "v = int8_parse e (o_id row)"
    and "o_used_at row = None" and "clock d \<le> o_expires_at row"
    and "hashOtp e (ck_code p) (o_salt row) = o_code_hash row"
  using assms by (auto simp: console_check_run split: option.splits if_splits prod.splits sum.splits)

lemma console_check_open:
  assumes "console_checkVerification e p d = (Inr v, d')"
  shows "open_otp e d p v"
proof -
  from assms obtain row where row: "latest_otp d (ck_phone p) (ck_purpose p) = Some row"
    "v = int8_parse e (o_id row)" "o_used_at row = None" "clock d \<le> o_expires_at row"
    by (rule console_check_Inr)
  with latest_otp_Some(1,2) [OF row(1)] show ?thesis by (auto simp: open_otp_def)
qed

lemma insert_otp_run:
  "insert_otp u ph h s pu ttl d =
     (if (case u of None \<Rightarrow> True | Some i \<Rightarrow> user_exists d i) then
        (Inr (), d\<lparr>seqs := (seqs d)(T_auth_otps := seqs d T_auth_otps + 1),
           auth_otps := auth_otps d @
             [\<lparr>o_id = seqs d T_auth_otps + 1, o_user_id = u, o_phone = ph, o_code_hash = h, o_salt = s,
               o_purpose = pu, o_expires_at = clock d + minutes_ms ttl, o_used_at = None,
               o_created_at = clock d\<rparr>]\<rparr>)
      else (Inl (PgErr FK_VIOLATION), d\<lparr>seqs := (seqs d)(T_auth_otps := seqs d T_auth_otps + 1)\<rparr>))"
  by (auto simp: insert_otp_def andThen_run unless_run user_exists_def split: option.splits)

lemma insert_otp_frame: "insert_otp u ph h s pu ttl d = (r, d') \<Longrightarrow> otp_frame d d'"
  by (auto simp: insert_otp_run split: if_splits)

lemma bind_nullable_run: "\<exists>r. bind_nullable_bigint v d = (r, d)"
  by (auto simp: bind_nullable_bigint_def andThen_run bind_bigint_run split: option.splits)

lemma console_start_frame:
  assumes "console_startVerification e p d = (r, d')"
  shows "otp_frame d d'"
proof -
  obtain otp d1 where 1: "(if otpDevMode (cfg e) then ret ''000000''
      else draw (\<lambda>i. nat_str (random_int e i OTP_RANGE_MIN OTP_RANGE_MAX))) d = (Inr otp, d1)"
    and f1: "otp_frame d d1" by (cases "otpDevMode (cfg e)") auto
  define d2 where "d2 = d1\<lparr>draws := draws d1 + 1\<rparr>"
  have f2: "otp_frame d d2" using f1 by (simp add: d2_def)
  obtain b where b: "bind_nullable_bigint (sp_userId p) d2 = (b, d2)" using bind_nullable_run by blast
  show ?thesis
  proof (cases b)
    case (Inl x)
    with assms 1 b f2 show ?thesis by (auto simp: console_startVerification_def andThen_run d2_def)
  next
    case (Inr uid)
    obtain r3 d3 where 3: "insert_otp uid (sp_phone p) (hashOtp e otp (random_hex e (draws d1) 16))
        (random_hex e (draws d1) 16) (sp_purpose p) (otpTtlMinutes (cfg e)) d2 = (r3, d3)"
      by fastforce
    with assms 1 b Inr have "d' = d3"
      by (auto simp: console_startVerification_def andThen_run d2_def split: sum.splits)
    with f2 insert_otp_frame [OF 3] show ?thesis by (blast intro: otp_frame_trans)
  qed
qed

interpretation console_otp: otp_provider e "consoleOtpSender e" for e
  by unfold_locales
    (simp_all add: consoleOtpSender_def console_start_frame console_check_frame console_check_open)

subsection \<open>Akedly\<close>

lemma fetch_run: "fetch e rq d = (http_fetch e (draws d) rq, d\<lparr>draws := draws d + 1\<rparr>)"
  by (simp add: fetch_def)

lemma akedly_check_run:
  assumes "akedly_checkVerification e p d = (r, d')"
  shows "otp_frame d d' \<and> auth_otps d' = auth_otps d \<and> (\<forall>v. r = Inr v \<longrightarrow> v = JUndef)"
  using assms
  by (auto simp: akedly_checkVerification_def andThen_run unless_run fetch_run Let_def
      split: sum.splits if_splits)

lemma akedly_start_frame:
  assumes "akedly_startVerification e p d = (r, d')"
  shows "otp_frame d d'"
  using assms
  by (auto simp: akedly_startVerification_def andThen_run unless_run fetch_run Let_def
      split: sum.splits if_splits)

interpretation akedly_otp: otp_provider e "akedlyOtpSender e" for e
proof unfold_locales
  fix p d v d'
  assume "checkVerification (akedlyOtpSender e) p d = (Inr v, d')" and "truthy v"
  with akedly_check_run [of e p d "Inr v" d'] show "open_otp e d p v" by (simp add: akedlyOtpSender_def)
qed (auto simp: akedlyOtpSender_def dest: akedly_start_frame akedly_check_run)

interpretation chosen_otp: otp_provider e "otpVerificationProvider e" for e
  using console_otp.otp_provider_axioms akedly_otp.otp_provider_axioms
  by (simp add: otpVerificationProvider_def resolveOtpVerificationProvider_def)

end
