(* ===== verification/Auth.thy ===== *)
theory Auth
  imports Otp
begin

text \<open>
  \<open>src/src/auth/auth.service.ts\<close>: registration, login, password reset, refresh and logout, over the
  chosen one-time-password provider and the store of refresh tokens. A row handed to JavaScript is the
  object of its columns; an identifier that only travels back into a statement stays an integer.
\<close>

definition BCRYPT_ROUNDS :: nat where "BCRYPT_ROUNDS = 12"
definition REFRESH_TTL_FALLBACK_SECONDS :: nat where "REFRESH_TTL_FALLBACK_SECONDS = 2592000"

section \<open>Private helpers of AuthService\<close>

definition bcrypt :: "env \<Rightarrow> string \<Rightarrow> string svc" where
  "bcrypt e password = draw (\<lambda>i. bcrypt_hash e password BCRYPT_ROUNDS (random_hex e i 16))"

definition buildOtpSentResponse :: "start_result \<Rightarrow> jobject" where
  "buildOtpSentResponse result =
     (''message'', JStr ''OTP sent'') #
     (case sr_otp result of None \<Rightarrow> [] | Some otp \<Rightarrow> if otp \<noteq> [] then [(''otp'', JStr otp)] else [])"

definition unit_seconds :: "char \<Rightarrow> nat option" where
  "unit_seconds u =
     (if u = CHR ''s'' then Some 1 else if u = CHR ''m'' then Some 60
      else if u = CHR ''h'' then Some 3600 else if u = CHR ''d'' then Some 86400 else None)"

text \<open>The expression \<open>/^(\d+)([smhd])$/\<close>.\<close>

definition parseTtlSeconds :: "string \<Rightarrow> nat" where
  "parseTtlSeconds ttl =
     (if ttl = [] \<or> butlast ttl = [] \<or> \<not> list_all is_digit (butlast ttl) then REFRESH_TTL_FALLBACK_SECONDS
      else (case unit_seconds (last ttl) of
              None \<Rightarrow> REFRESH_TTL_FALLBACK_SECONDS
            | Some k \<Rightarrow> digits_nat (butlast ttl) * k))"

definition basePayload :: "json \<Rightarrow> string \<Rightarrow> bool \<Rightarrow> json \<Rightarrow> jobject" where
  "basePayload userId phone isAdmin tokenVersion =
     [(''sub'', userId), (''phone'', JStr phone), (''isAdmin'', JBool isAdmin),
      (''tokenVersion'', tokenVersion)]"

definition generateTokens :: "env \<Rightarrow> json \<Rightarrow> string \<Rightarrow> bool \<Rightarrow> json \<Rightarrow> jobject svc" where
  "generateTokens e userId phone isAdmin tokenVersion =
     andThen (draw (\<lambda>i. random_hex e i 16)) (\<lambda>jti.
     let base = basePayload userId phone isAdmin tokenVersion in
     andThen (gets clock) (\<lambda>now.
     let accessToken = jwt_sign e base (jwtAccessSecret (cfg e)) (jwtAccessTtl (cfg e)) now;
         refreshToken = jwt_sign e (base @ [(''jti'', JStr jti)]) (jwtRefreshSecret (cfg e))
                          (jwtRefreshTtl (cfg e)) now
     in andThen (saveRefreshTokenJti e jti userId (of_nat (parseTtlSeconds (jwtRefreshTtl (cfg e))))) (\<lambda>_.
     ret [(''accessToken'', JStr accessToken), (''refreshToken'', JStr refreshToken)])))"

definition account_by_phone :: "string \<Rightarrow> db \<Rightarrow> user_row option" where
  "account_by_phone phone d = row_where (\<lambda>u. u_phone u = phone \<and> u_deleted_at u = None) (users d)"

definition account_by_id :: "int \<Rightarrow> db \<Rightarrow> user_row option" where
  "account_by_id i d = row_where (\<lambda>u. u_id u = i \<and> u_deleted_at u = None) (users d)"

definition user_object :: "env \<Rightarrow> user_row \<Rightarrow> jobject" where
  "user_object e u =
     [(''id'', int8_parse e (u_id u)), (''name'', JStr (u_name u)), (''phone'', JStr (u_phone u)),
      (''status'', JStr (user_status_text (u_status u)))]"

section \<open>Registration\<close>

definition upsert_pending :: "string \<Rightarrow> string \<Rightarrow> string \<Rightarrow> rat \<Rightarrow> int svc" where
  "upsert_pending phone name passwordHash ttlMinutes =
     andThen (nextval T_pending) (\<lambda>i.
     (\<lambda>d. let ex = clock d + minutes_ms ttlMinutes in
        case row_where (\<lambda>r. pr_phone r = phone) (pending_registrations d) of
          None \<Rightarrow>
            (Inr i, d\<lparr>pending_registrations := pending_registrations d @
               [\<lparr>pr_id = i, pr_phone = phone, pr_name = name, pr_password_hash = passwordHash,
                 pr_expires_at = ex, pr_created_at = clock d\<rparr>]\<rparr>)
        | Some r \<Rightarrow>
            (Inr (pr_id r), d\<lparr>pending_registrations := update_where (\<lambda>r. pr_phone r = phone)
               (\<lambda>r. r\<lparr>pr_name := name, pr_password_hash := passwordHash, pr_expires_at := ex,
                      pr_created_at := clock d\<rparr>) (pending_registrations d)\<rparr>)))"

definition requestRegistrationOtp :: "env \<Rightarrow> string \<Rightarrow> string \<Rightarrow> string \<Rightarrow> jobject svc" where
  "requestRegistrationOtp e name phone password =
     andThen (gets (\<lambda>d. list_ex (\<lambda>u. u_phone u = phone) (users d))) (\<lambda>existing.
     andThen (unless (\<not> existing) (Conflict ''Phone already exists'')) (\<lambda>_.
     andThen (bcrypt e password) (\<lambda>passwordHash.
     andThen (upsert_pending phone name passwordHash (otpTtlMinutes (cfg e))) (\<lambda>pendingId.
     if otpProvider (cfg e) = ''akedly'' then
       ret [(''message'',
             JStr ''Registration pending. Complete Shield flow then call /auth/akedly/send.'')]
     else tryCatch
       (andThen (startVerification (otpVerificationProvider e)
          \<lparr>sp_phone = phone, sp_purpose = Registration, sp_userId = JNull, sp_endUserIp = JUndef,
           sp_powSolution = JUndef, sp_turnstileToken = JUndef\<rparr>) (\<lambda>verificationResult.
        ret (buildOtpSentResponse verificationResult)))
       (\<lambda>error.
          andThen (modify (\<lambda>d. d\<lparr>pending_registrations :=
            delete_where (\<lambda>r. pr_id r = pendingId) (pending_registrations d)\<rparr>)) (\<lambda>_.
          throw error))))))"

definition pending_open :: "string \<Rightarrow> db \<Rightarrow> pending_row option" where
  "pending_open phone d =
     row_where (\<lambda>r. pr_phone r = phone \<and> pr_expires_at r > clock d) (pending_registrations d)"

definition resendRegistrationOtp :: "env \<Rightarrow> string \<Rightarrow> jobject svc" where
  "resendRegistrationOtp e phone =
     andThen (gets (pending_open phone)) (\<lambda>pending.
     andThen (unless (pending \<noteq> None) (NotFound ''No pending registration found for this phone'')) (\<lambda>_.
     if otpProvider (cfg e) = ''akedly'' then
       ret [(''message'',
             JStr ''Pending registration found. Complete Shield flow then call /auth/akedly/send.'')]
     else
       andThen (startVerification (otpVerificationProvider e)
          \<lparr>sp_phone = phone, sp_purpose = Registration, sp_userId = JNull, sp_endUserIp = JUndef,
           sp_powSolution = JUndef, sp_turnstileToken = JUndef\<rparr>) (\<lambda>verificationResult.
       ret (buildOtpSentResponse verificationResult))))"

definition insert_user :: "string \<Rightarrow> string \<Rightarrow> string \<Rightarrow> user_row svc" where
  "insert_user name phone passwordHash =
     andThen (nextval T_users) (\<lambda>i.
     (\<lambda>d. if list_ex (\<lambda>u. u_phone u = phone) (users d) then (Inl (PgErr UNIQUE_VIOLATION), d)
          else
            (let u = \<lparr>u_id = i, u_name = name, u_phone = phone, u_password_hash = passwordHash,
                      u_avatar_file_id = None, u_avatar_object_key = None, u_contact_info = None,
                      u_status = Active, u_is_admin = False, u_token_version = 0,
                      u_deleted_at = None, u_created_at = clock d, u_updated_at = clock d\<rparr>
             in (Inr u, d\<lparr>users := users d @ [u]\<rparr>))))"

definition markOtpUsed :: "json \<Rightarrow> unit svc" where
  "markOtpUsed localOtpId =
     (if truthy localOtpId then
        andThen (bind_bigint localOtpId) (\<lambda>i.
        modify (\<lambda>d. d\<lparr>auth_otps := update_where (\<lambda>r. o_id r = i)
          (\<lambda>r. r\<lparr>o_used_at := Some (clock d)\<rparr>) (auth_otps d)\<rparr>))
      else ret ())"

definition transactionReqId :: "env \<Rightarrow> string option \<Rightarrow> string \<Rightarrow> otp_purpose \<Rightarrow> string option svc" where
  "transactionReqId e dtoTransactionReqID phone purpose =
     (case dtoTransactionReqID of Some t \<Rightarrow> ret (Some t) | None \<Rightarrow> getOtpTransactionReqId e phone purpose)"

definition completeRegistration :: "env \<Rightarrow> string \<Rightarrow> json \<Rightarrow> jobject svc" where
  "completeRegistration e phone localOtpId =
     andThen (gets (pending_open phone)) (\<lambda>pendingQuery.
     case pendingQuery of
       None \<Rightarrow> throw (BadRequest ''Registration session expired or not found'')
     | Some pending \<Rightarrow>
         andThen (tryCatch (insert_user (pr_name pending) phone (pr_password_hash pending))
                    (\<lambda>_. throw (Conflict ''Phone already exists''))) (\<lambda>createdUser.
         andThen (markOtpUsed localOtpId) (\<lambda>_.
         andThen (clearOtpTransactionReqId e phone Registration) (\<lambda>_.
         andThen (modify (\<lambda>d. d\<lparr>pending_registrations :=
           delete_where (\<lambda>r. pr_phone r = phone) (pending_registrations d)\<rparr>)) (\<lambda>_.
         andThen (generateTokens e (int8_parse e (u_id createdUser)) phone False (jint 0)) (\<lambda>tokens.
         ret (spread [(''user'', JObj (mapToAppUser e (user_object e createdUser)))] tokens)))))))"

definition verifyRegistrationOtp :: "env \<Rightarrow> string \<Rightarrow> string \<Rightarrow> string option \<Rightarrow> jobject svc" where
  "verifyRegistrationOtp e phone otp dtoTransactionReqID =
     andThen (transactionReqId e dtoTransactionReqID phone Registration) (\<lambda>transactionReqID.
     andThen (checkVerification (otpVerificationProvider e)
        \<lparr>ck_phone = phone, ck_code = otp, ck_purpose = Registration,
         ck_transactionReqID = transactionReqID\<rparr>) (\<lambda>localOtpId.
     withTransaction (completeRegistration e phone localOtpId)))"

section \<open>Login and password reset\<close>

definition login :: "env \<Rightarrow> string \<Rightarrow> string \<Rightarrow> jobject svc" where
  "login e phone password =
     andThen (gets (account_by_phone phone)) (\<lambda>query.
     case query of
       None \<Rightarrow> throw (Unauthorized ''Invalid credentials'')
     | Some user \<Rightarrow>
         andThen (unless (u_status user = Active) (Unauthorized ''Invalid credentials'')) (\<lambda>_.
         andThen (unless (bcrypt_compare e password (u_password_hash user))
                    (Unauthorized ''Invalid credentials'')) (\<lambda>_.
         andThen (generateTokens e (int8_parse e (u_id user)) (u_phone user) (u_is_admin user)
                    (jint (u_token_version user))) (\<lambda>tokens.
         ret (spread [(''user'', JObj (mapToAppUser e (user_object e user)))] tokens)))))"

definition requestPasswordResetOtp :: "env \<Rightarrow> string \<Rightarrow> jobject svc" where
  "requestPasswordResetOtp e phone =
     andThen (gets (account_by_phone phone)) (\<lambda>userQuery.
     case userQuery of
       None \<Rightarrow> ret [(''message'', JStr ''If this number is registered, an OTP has been sent'')]
     | Some user \<Rightarrow>
         if otpProvider (cfg e) = ''akedly'' then
           ret [(''message'', JStr
             ''If this number is registered, complete Shield flow then call /auth/akedly/send'')]
         else
           andThen (startVerification (otpVerificationProvider e)
              \<lparr>sp_phone = phone, sp_purpose = PasswordReset, sp_userId = int8_parse e (u_id user),
               sp_endUserIp = JUndef, sp_powSolution = JUndef, sp_turnstileToken = JUndef\<rparr>)
             (\<lambda>verificationResult. ret (buildOtpSentResponse verificationResult)))"

definition applyPasswordReset :: "env \<Rightarrow> string \<Rightarrow> string \<Rightarrow> json \<Rightarrow> jobject svc" where
  "applyPasswordReset e phone newPassword localOtpId =
     andThen (gets (account_by_phone phone)) (\<lambda>account.
     case account of
       None \<Rightarrow> throw (BadRequest ''User not found'')
     | Some user \<Rightarrow>
         andThen (unless (u_status user = Active) (Unauthorized ''Invalid credentials'')) (\<lambda>_.
         andThen (bcrypt e newPassword) (\<lambda>passwordHash.
         andThen (modify (\<lambda>d. d\<lparr>users := update_where (\<lambda>u. u_id u = u_id user)
           (\<lambda>u. u\<lparr>u_password_hash := passwordHash, u_updated_at := clock d\<rparr>) (users d)\<rparr>)) (\<lambda>_.
         andThen (gets (\<lambda>d. row_where (\<lambda>u. u_id u = u_id user) (users d))) (\<lambda>updatedUser.
         case updatedUser of
           None \<Rightarrow> throw (BadRequest ''User not found'')
         | Some row \<Rightarrow>
             andThen (markOtpUsed localOtpId) (\<lambda>_.
             andThen (clearOtpTransactionReqId e phone PasswordReset) (\<lambda>_.
             andThen (generateTokens e (int8_parse e (u_id row)) (u_phone row) (u_is_admin user)
                        (jint (u_token_version user))) (\<lambda>tokens.
             ret (spread [(''message'', JStr ''Password reset successfully'')] tokens))))))))) "

definition resetPassword ::
  "env \<Rightarrow> string \<Rightarrow> string \<Rightarrow> string \<Rightarrow> string \<Rightarrow> string option \<Rightarrow> jobject svc" where
  "resetPassword e phone otp newPassword confirmPassword dtoTransactionReqID =
     andThen (unless (newPassword = confirmPassword) (BadRequest ''Passwords do not match'')) (\<lambda>_.
     andThen (transactionReqId e dtoTransactionReqID phone PasswordReset) (\<lambda>transactionReqID.
     andThen (checkVerification (otpVerificationProvider e)
        \<lparr>ck_phone = phone, ck_code = otp, ck_purpose = PasswordReset,
         ck_transactionReqID = transactionReqID\<rparr>) (\<lambda>localOtpId.
     withTransaction (applyPasswordReset e phone newPassword localOtpId))))"

section \<open>Refresh and logout\<close>

definition refresh :: "env \<Rightarrow> string \<Rightarrow> jobject svc" where
  "refresh e refreshToken =
     andThen (gets (\<lambda>d. jwt_verify e refreshToken (jwtRefreshSecret (cfg e)) (clock d))) (\<lambda>verified.
     case verified of
       None \<Rightarrow> throw (Unauthorized ''Invalid refresh token'')
     | Some payload \<Rightarrow>
         andThen (unless (truthy (obj_get payload ''jti'')) (Unauthorized ''Invalid refresh token'')) (\<lambda>_.
         andThen (consumeRefreshTokenJti e (js_String e (obj_get payload ''jti''))) (\<lambda>storedUserId.
         andThen (unless (case storedUserId of None \<Rightarrow> False
                          | Some v \<Rightarrow> truthy v \<and> v = obj_get payload ''sub'')
                    (Unauthorized ''Invalid refresh token'')) (\<lambda>_.
         andThen (bind_bigint (obj_get payload ''sub'')) (\<lambda>sub.
         andThen (gets (account_by_id sub)) (\<lambda>user.
         case user of
           None \<Rightarrow> throw (Unauthorized ''Invalid refresh token'')
         | Some row \<Rightarrow>
             andThen (unless (u_status row = Active \<and>
                              jint (u_token_version row) = obj_get payload ''tokenVersion'')
                        (Unauthorized ''Invalid refresh token'')) (\<lambda>_.
             andThen (generateTokens e (int8_parse e (u_id row)) (u_phone row) (u_is_admin row)
                        (jint (u_token_version row))) (\<lambda>tokens.
             ret (spread [] tokens))))))))) "

definition logout :: "env \<Rightarrow> string \<Rightarrow> jobject svc" where
  "logout e refreshToken =
     tryCatch
       (andThen (gets (\<lambda>d. jwt_verify e refreshToken (jwtRefreshSecret (cfg e)) (clock d))) (\<lambda>verified.
        case verified of
          None \<Rightarrow> throw (JsErr ''jwt'')
        | Some payload \<Rightarrow>
            andThen (if truthy (obj_get payload ''jti'')
                     then revokeRefreshTokenJti e (js_String e (obj_get payload ''jti''))
                     else ret ()) (\<lambda>_. ret [])))
       (\<lambda>_. ret [])"

section \<open>Akedly\<close>

definition uri_unreserved :: "char \<Rightarrow> bool" where
  "uri_unreserved c =
     (let n = of_char c :: nat
      in (48 \<le> n \<and> n \<le> 57) \<or> (65 \<le> n \<and> n \<le> 90) \<or> (97 \<le> n \<and> n \<le> 122) \<or>
         c \<in> set ''-_.!~*()'' \<or> n = 39)"

definition percent :: "nat \<Rightarrow> string" where
  "percent n = [CHR ''%'', ''0123456789ABCDEF'' ! (n div 16), ''0123456789ABCDEF'' ! (n mod 16)]"

fun encodeURIComponent :: "string \<Rightarrow> string" where
  "encodeURIComponent [] = []"
| "encodeURIComponent (c # s) =
     (let n = of_char c :: nat
      in (if uri_unreserved c then [c]
          else if n < 128 then percent n
          else percent (192 + n div 64) @ percent (128 + n mod 64)) @ encodeURIComponent s)"

definition or_empty :: "string option \<Rightarrow> string" where
  "or_empty v = (case v of None \<Rightarrow> [] | Some s \<Rightarrow> s)"

definition getAkedlyChallenge :: "env \<Rightarrow> json svc" where
  "getAkedlyChallenge e =
     andThen (unless (otpProvider (cfg e) = ''akedly'') (BadRequest ''AKEDLY is not enabled'')) (\<lambda>_.
     andThen (fetch e
       \<lparr>rq_method = ''GET'',
        rq_url = akedlyBaseUrl (cfg e) @ ''/api/v1.2/transactions/challenge?APIKey='' @
          encodeURIComponent (or_empty (akedlyApiKey (cfg e))) @ ''&pipelineID='' @
          encodeURIComponent (or_empty (akedlyPipelineId (cfg e))),
        rq_headers = [], rq_body = JUndef\<rparr>) (\<lambda>response.
     let payload = safeParse response in
     andThen (unless (rs_ok response) (BadRequest
       (js_String e (coalesce (get_prop payload ''message'') (JStr ''Failed to fetch challenge''))))) (\<lambda>_.
     ret (coalesce payload (JObj [])))))"

definition sendAkedlyOtp ::
  "env \<Rightarrow> string \<Rightarrow> otp_purpose \<Rightarrow> json \<Rightarrow> json \<Rightarrow> string \<Rightarrow> jobject svc" where
  "sendAkedlyOtp e phoneNumber purpose powSolution turnstileToken endUserIp =
     andThen (unless (otpProvider (cfg e) = ''akedly'') (BadRequest ''AKEDLY is not enabled'')) (\<lambda>_.
     andThen (gets (pending_open phoneNumber)) (\<lambda>pending.
     andThen (gets (account_by_phone phoneNumber)) (\<lambda>account.
     if purpose \<noteq> Registration \<and> account = None then
       ret [(''message'', JStr ''If this number is registered, an OTP has been sent'')]
     else
       andThen (unless (purpose = Registration \<longrightarrow> pending \<noteq> None)
                  (NotFound ''No pending registration found for this phone'')) (\<lambda>_.
       andThen (startVerification (otpVerificationProvider e)
          \<lparr>sp_phone = phoneNumber, sp_purpose = purpose, sp_userId = JNull, sp_endUserIp = JStr endUserIp,
           sp_powSolution = powSolution, sp_turnstileToken = turnstileToken\<rparr>) (\<lambda>verificationResult.
       andThen (if truthy (sr_transactionReqID verificationResult)
                then saveOtpTransactionReqId e phoneNumber purpose
                       (js_String e (sr_transactionReqID verificationResult))
                       (otpTtlMinutes (cfg e) * 60)
                else ret ()) (\<lambda>_.
       ret (buildOtpSentResponse verificationResult)))))))"

end
