(* ===== verification/Samples.thy ===== *)
theory Samples
  imports World
begin

text \<open>
  A concrete configuration and environment: the database driver reads \<open>BIGINT\<close> as strings, Redis is
  off, the hash functions are tagged concatenations. The theorems with hypotheses on the
  environment are applied to it (or to a variant of it) by their witnesses.
\<close>

definition sample_cfg :: app_config where
  "sample_cfg =
     \<lparr>nodeEnv = ''development'', port = 3000, corsOrigins = [''http://localhost:5174''],
      corsAllowAnyOrigin = False, corsCredentials = True, databaseUrl = ''postgres://db'',
      databaseSsl = False, databasePoolMax = 10, jwtAccessSecret = ''a'', jwtRefreshSecret = ''r'',
      jwtAccessTtl = ''15m'', jwtRefreshTtl = ''30d'', adminPhone = None, adminPassword = None,
      adminPhones = [], otpSigningSecret = ''o'', otpProvider = ''console'', otpTtlMinutes = 5,
      otpDevMode = True, akedlyApiKey = None, akedlyPipelineId = None,
      akedlyBaseUrl = ''https://api.akedly.io'', storageProvider = ''cloudinary'',
      storageBucket = ''market'', storagePublicBaseUrl = ''http://cdn'', storageUploadTtlSeconds = 300,
      storageSigningSecret = ''s'', cloudinaryCloudName = ''cn'', cloudinaryApiKey = ''ck'',
      cloudinaryApiSecret = ''cs'', throttleTtl = 60, throttleLimit = 120, throttleDevBypass = False,
      logLevel = ''log'', logPretty = False, logHttpBody = False, logWsPayload = False,
      redisUrl = None\<rparr>"

definition sample_env :: env where
  "sample_env =
     \<lparr>cfg = sample_cfg, int8_parse = int8_as_string, ts_text = int_str,
      ts_parse = (\<lambda>s. Some 0), fts_match = (\<lambda>doc q. starts_with doc q),
      fraction_text = (\<lambda>_. ''0.5''), collation = (\<lambda>s. of_nat (length s)),
      bcrypt_hash = (\<lambda>pw rounds salt. ''h:'' @ pw), bcrypt_compare = (\<lambda>pw h. h = ''h:'' @ pw),
      hmac_sha256_hex = (\<lambda>key data. key @ ''|'' @ data), sha1_hex = (\<lambda>data. ''s:'' @ data),
      jwt_sign = (\<lambda>p secret ttl now. ''jwt''), jwt_verify = (\<lambda>tok secret now. None),
      random_hex = (\<lambda>i n. replicate i CHR ''x''), random_int = (\<lambda>i lo hi. lo), redis_on = False,
      redis_read = (\<lambda>i k. Inr None), redis_write = (\<lambda>i c. Inr ()),
      http_fetch = (\<lambda>i rq. Inl (JsErr ''fetch failed''))\<rparr>"

definition sample_user :: user_row where
  "sample_user =
     \<lparr>u_id = 1, u_name = ''Ann'', u_phone = ''+201'', u_password_hash = ''h:pw'',
      u_avatar_file_id = None, u_avatar_object_key = None, u_contact_info = None, u_status = Active,
      u_is_admin = False, u_token_version = 0, u_deleted_at = None, u_created_at = 0,
      u_updated_at = 0\<rparr>"

definition sample_user2 :: user_row where
  "sample_user2 = sample_user\<lparr>u_id := 2, u_name := ''Bob'', u_phone := ''+202''\<rparr>"

definition sample_product :: product_row where
  "sample_product =
     \<lparr>p_id = 1, p_owner_id = 1, p_category = ''realEstate'', p_subcategory = Some ''apartmentForSale'',
      p_name = ''Flat'', p_description = ''Sunny flat'', p_price = 10000, p_city = ''Cairo'',
      p_address_text = ''1 Nile St'', p_details = None, p_status = Available, p_is_negotiable = False,
      p_preferred_contact_method = ''chat'', p_created_at = 0, p_updated_at = 0,
      p_deleted_at = None\<rparr>"

definition sample_db :: db where
  "sample_db = empty_db\<lparr>users := [sample_user, sample_user2], products := [sample_product],
     seqs := \<lambda>t. if t = T_users then 2 else if t = T_products then 1 else 0\<rparr>"

lemma sample_int8_ok [simp]: "int8_ok sample_env"
  by (simp add: int8_ok_def sample_env_def)

lemmas samples = sample_env_def sample_cfg_def sample_user_def sample_user2_def sample_product_def
  sample_db_def empty_db_def

end
