(* ===== verification/Guards.thy ===== *)
theory Guards
  imports AuthLaws
begin

text \<open>
  \<open>src/src/auth/jwt.strategy.ts\<close> and \<open>src/src/common/guards\<close>: what a request must show before a handler
  runs. The signature and expiry of an access token are checked by the library before \<open>validate\<close>;
  \<open>authenticate\<close> is that check followed by \<open>validate\<close>.
\<close>

record auth_user =
  au_sub :: int
  au_phone :: string
  au_isAdmin :: json
  au_tokenVersion :: json

section \<open>JwtStrategy\<close>

definition is_number :: "json \<Rightarrow> bool" where
  "is_number v = (case v of JNum _ \<Rightarrow> True | JNonFinite \<Rightarrow> True | _ \<Rightarrow> False)"

definition jwt_validate :: "jobject \<Rightarrow> auth_user svc" where
  "jwt_validate payload =
     andThen (unless (is_number (obj_get payload ''tokenVersion'')) (Unauthorized ''Invalid token'')) (\<lambda>_.
     case toPositiveInt (obj_get payload ''sub'') of
       None \<Rightarrow> throw (Unauthorized ''Invalid token'')
     | Some normalizedSub \<Rightarrow>
         andThen (gets (account_by_id normalizedSub)) (\<lambda>user.
         case user of
           None \<Rightarrow> throw (Unauthorized ''Token is stale'')
         | Some row \<Rightarrow>
             andThen (unless (jint (u_token_version row) = obj_get payload ''tokenVersion'')
                        (Unauthorized ''Token is stale'')) (\<lambda>_.
             ret \<lparr>au_sub = normalizedSub, au_phone = u_phone row,
                  au_isAdmin = obj_get payload ''isAdmin'',
                  au_tokenVersion = jint (u_token_version row)\<rparr>)))"

definition authenticate :: "env \<Rightarrow> string \<Rightarrow> auth_user svc" where
  "authenticate e accessToken =
     andThen (gets (\<lambda>d. jwt_verify e accessToken (jwtAccessSecret (cfg e)) (clock d))) (\<lambda>verified.
     case verified of None \<Rightarrow> throw (Unauthorized ''Unauthorized'') | Some payload \<Rightarrow> jwt_validate payload)"

section \<open>Guards\<close>

definition adminGuard :: "auth_user option \<Rightarrow> auth_user svc" where
  "adminGuard user =
     (case user of
        None \<Rightarrow> throw (Forbidden ''Admin privileges required'')
      | Some u \<Rightarrow>
          andThen (unless (au_sub u \<noteq> 0) (Forbidden ''Admin privileges required'')) (\<lambda>_.
          andThen (gets (\<lambda>d. row_where (\<lambda>r. u_id r = au_sub u) (users d))) (\<lambda>adminCheck.
          andThen (unless (case adminCheck of None \<Rightarrow> False | Some r \<Rightarrow> u_is_admin r)
                     (Forbidden ''Admin privileges required'')) (\<lambda>_.
          ret (u\<lparr>au_isAdmin := JBool True\<rparr>)))))"

definition shouldSkip :: "app_config \<Rightarrow> bool" where
  "shouldSkip appConfig = (nodeEnv appConfig = ''development'' \<and> throttleDevBypass appConfig)"

text \<open>\<open>OptionalJwtAuthGuard.handleRequest\<close>: a failed authentication makes an anonymous request.\<close>

definition optionalUser :: "exn + auth_user \<Rightarrow> auth_user option" where
  "optionalUser r = (case r of Inl _ \<Rightarrow> None | Inr u \<Rightarrow> Some u)"

section \<open>Lemmas\<close>

lemma jwt_validate_run:
  "jwt_validate p d =
     (if \<not> is_number (obj_get p ''tokenVersion'') then (Inl (Unauthorized ''Invalid token''), d)
      else case toPositiveInt (obj_get p ''sub'') of
             None \<Rightarrow> (Inl (Unauthorized ''Invalid token''), d)
           | Some n \<Rightarrow>
               (case account_by_id n d of
                  None \<Rightarrow> (Inl (Unauthorized ''Token is stale''), d)
                | Some row \<Rightarrow>
                    if jint (u_token_version row) = obj_get p ''tokenVersion'' then
                      (Inr \<lparr>au_sub = n, au_phone = u_phone row, au_isAdmin = obj_get p ''isAdmin'',
                            au_tokenVersion = jint (u_token_version row)\<rparr>, d)
                    else (Inl (Unauthorized ''Token is stale''), d)))"
  by (simp add: jwt_validate_def andThen_run unless_run split: option.splits)

lemma jwt_validate_InrE:
  assumes "jwt_validate p d = (Inr u, d')"
  obtains row where "d' = d" and "toPositiveInt (obj_get p ''sub'') = Some (au_sub u)"
    and "account_by_id (au_sub u) d = Some row"
    and "jint (u_token_version row) = obj_get p ''tokenVersion''"
    and "au_phone u = u_phone row" and "au_isAdmin u = obj_get p ''isAdmin''"
    and "au_tokenVersion u = jint (u_token_version row)"
  using assms by (auto simp: jwt_validate_run split: option.splits if_splits)

lemma account_by_id_Some:
  "account_by_id i d = Some u \<Longrightarrow> u \<in> set (users d) \<and> u_id u = i \<and> u_deleted_at u = None"
  unfolding account_by_id_def by (drule row_where_Some) simp

lemma account_by_phone_Some:
  "account_by_phone ph d = Some u \<Longrightarrow> u \<in> set (users d) \<and> u_phone u = ph \<and> u_deleted_at u = None"
  unfolding account_by_phone_def by (drule row_where_Some) simp

lemma adminGuard_Inr:
  assumes "adminGuard user d = (Inr u, d')"
  obtains u0 r where "user = Some u0" and "r \<in> set (users d)" and "u_id r = au_sub u0" and "u_is_admin r"
    and "u = u0\<lparr>au_isAdmin := JBool True\<rparr>" and "d' = d"
proof -
  obtain u0 where u0: "user = Some u0" using assms by (cases user) (simp_all add: adminGuard_def)
  obtain r where r: "row_where (\<lambda>r. u_id r = au_sub u0) (users d) = Some r"
    using assms u0 by (auto simp: adminGuard_def andThen_run unless_run split: option.splits if_splits)
  have "u_is_admin r" "u = u0\<lparr>au_isAdmin := JBool True\<rparr>" "d' = d"
    using assms u0 r by (simp_all add: adminGuard_def andThen_run unless_run split: if_splits)
  with u0 row_where_Some [OF r] show thesis by (intro that) auto
qed

end
