(* ===== verification/AuthProps.thy ===== *)
theory AuthProps
  imports Guards
begin

text \<open>
  The contracts of registration, login, password reset and one-time passwords, stated over whole
  handlers of \<open>AuthService\<close> and the providers, with their witnesses.
\<close>

section \<open>Accounts\<close>

definition accounts_ok :: "db \<Rightarrow> bool" where
  "accounts_ok d \<longleftrightarrow> distinct (map u_phone (users d)) \<and> ids_ok u_id (users d) (seqs d T_users)"

lemma accounts_ok_pos: "accounts_ok d \<Longrightarrow> u \<in> set (users d) \<Longrightarrow> 0 < u_id u"
  by (simp add: accounts_ok_def ids_ok_def)

lemma accounts_ok_update:
  assumes "accounts_ok d" and "\<And>u. u_phone (f u) = u_phone u" and "\<And>u. u_id (f u) = u_id u"
  shows "accounts_ok (d\<lparr>users := update_where P f (users d)\<rparr>)"
  using assms by (simp add: accounts_ok_def map_update_where ids_ok_update)

lemma accounts_ok_cong:
  "users d' = users d \<Longrightarrow> seqs d' T_users = seqs d T_users \<Longrightarrow> accounts_ok d' = accounts_ok d"
  by (simp add: accounts_ok_def)

lemma insert_user_accounts: "keeps accounts_ok (insert_user n ph h)"
proof (rule keepsI)
  fix d assume ok: "accounts_ok d"
  then show "accounts_ok (snd (insert_user n ph h d))"
    by (auto simp: insert_user_def Let_def accounts_ok_def list_ex_iff ids_ok_append
        intro: ids_ok_mono)
qed

lemma accounts_ok_stable: "auth_stable e accounts_ok"
  unfolding auth_stable_def otp_stable_def
proof (intro conjI allI impI)
  fix d d' assume "accounts_ok d" and f: "otp_frame d d'"
  then show "accounts_ok d'" using otp_frame_tables [OF f] accounts_ok_cong by blast
next
  fix d d' assume "accounts_ok d" and "accounts_ok d'" and "seqs d \<le> seqs d'"
  then show "accounts_ok (rollback d d')"
    by (auto simp: accounts_ok_def rollback_def le_fun_def intro: ids_ok_mono)
next
  fix ph n h ttl show "keeps accounts_ok (upsert_pending ph n h ttl)"
    by (rule keepsI) (simp add: upsert_pending_def Let_def accounts_ok_def split: option.splits)
next
  fix v ph a t show "keeps accounts_ok (generateTokens e v ph a t)"
    by (rule keepsI) (simp add: accounts_ok_def generateTokens_frame)
next
  fix j show "keeps accounts_ok (consumeRefreshTokenJti e j)"
  proof (rule keepsI)
    fix d assume "accounts_ok d"
    moreover obtain r cs where "consumeRefreshTokenJti e j d = (r, d\<lparr>redis_cmds := cs,
        auth_refresh_tokens := delete_where (usable_token j (clock d)) (auth_refresh_tokens d)\<rparr>)"
      using consumeRefreshTokenJti_run by blast
    ultimately show "accounts_ok (snd (consumeRefreshTokenJti e j d))"
      by (simp add: accounts_ok_def)
  qed
next
  fix j show "keeps accounts_ok (revokeRefreshTokenJti e j)"
  proof (rule keepsI)
    fix d assume "accounts_ok d"
    moreover obtain r cs where "revokeRefreshTokenJti e j d = (r, d\<lparr>redis_cmds := cs,
        auth_refresh_tokens := update_where (\<lambda>r. r_jti r = j) (\<lambda>r. r\<lparr>r_revoked_at := Some (clock d)\<rparr>)
          (auth_refresh_tokens d)\<rparr>)"
      using revokeRefreshTokenJti_run by blast
    ultimately show "accounts_ok (snd (revokeRefreshTokenJti e j d))"
      by (simp add: accounts_ok_def)
  qed
qed (simp_all add: insert_user_accounts accounts_ok_update, simp add: accounts_ok_def)

text \<open>
  Phone numbers and identifiers of users stay unique, and identifiers positive, through any
  sequence of operations of \<open>AuthService\<close>, the hourly cleanup and the passing of time.
\<close>

theorem accounts_stay_unique:
  assumes "accounts_ok d" and "rtranclp (auth_step e) d d'"
  shows "accounts_ok d'"
  using assms(2) accounts_ok_stable _ assms(1)
  by (rule auth_steps_keep) (simp add: accounts_ok_def)

theorem accounts_stay_unique_witness:
  "accounts_ok (snd (login sample_env ''+201'' ''pw'' sample_db))"
proof (rule accounts_stay_unique [where e = sample_env and d = sample_db])
  show "accounts_ok sample_db"
    by (simp add: accounts_ok_def ids_ok_def samples)
  show "rtranclp (auth_step sample_env) sample_db (snd (login sample_env ''+201'' ''pw'' sample_db))"
    by (rule r_into_rtranclp) (rule st_login [OF prod.collapse [symmetric]])
qed

section \<open>Registration\<close>

lemma account_by_phone_cong: "users d' = users d \<Longrightarrow> account_by_phone ph d' = account_by_phone ph d"
  by (simp add: account_by_phone_def)

lemma pending_open_cong:
  "pending_registrations d' = pending_registrations d \<Longrightarrow> clock d' = clock d \<Longrightarrow>
   pending_open ph d' = pending_open ph d"
  by (simp add: pending_open_def)

lemma transactionReqId_frame: "transactionReqId e t ph pu d = (r, d') \<Longrightarrow>
    otp_frame d d' \<and> auth_otps d' = auth_otps d"
proof (cases t)
  case None
  assume "transactionReqId e t ph pu d = (r, d')"
  moreover obtain r2 cs where "getOtpTransactionReqId e ph pu d = (Inr r2, d\<lparr>redis_cmds := cs\<rparr>)"
    using getOtpTransactionReqId_state by blast
  ultimately show ?thesis using None by (auto simp: transactionReqId_def)
qed (auto simp: transactionReqId_def)

lemma clearTransaction_run: "\<exists>cs. clearOtpTransactionReqId e ph pu d = (Inr (), d\<lparr>redis_cmds := cs\<rparr>)"
  unfolding clearOtpTransactionReqId_def using redis_del_only redis_only_def by blast

lemma markOtpUsed_frame:
  assumes "markOtpUsed v d = (r, d')"
  shows "users d' = users d \<and> pending_registrations d' = pending_registrations d \<and> clock d' = clock d"
  using assms by (auto simp: markOtpUsed_def andThen_run bind_bigint_run split: if_splits option.splits)

text \<open>The user row a registration creates.\<close>

definition registered_user :: "pending_row \<Rightarrow> user_row \<Rightarrow> bool" where
  "registered_user pending u \<longleftrightarrow>
     u_name u = pr_name pending \<and> u_phone u = pr_phone pending \<and>
     u_password_hash u = pr_password_hash pending \<and> u_status u = Active \<and> \<not> u_is_admin u \<and>
     u_token_version u = 0 \<and> u_deleted_at u = None"

lemma completeRegistration_Inr:
  assumes "completeRegistration e ph v d = (Inr res, d')"
  shows "\<exists>pending u. pending_open ph d = Some pending \<and> registered_user pending u \<and>
    users d' = users d @ [u] \<and> (\<forall>w \<in> set (users d). u_phone w \<noteq> ph) \<and>
    (\<forall>r \<in> set (pending_registrations d'). pr_phone r \<noteq> ph)"
proof -
  obtain pending where p: "pending_open ph d = Some pending"
    using assms by (cases "pending_open ph d") (simp_all add: completeRegistration_def)
  then have ph: "pr_phone pending = ph"
    unfolding pending_open_def by (drule_tac row_where_Some) simp
  from assms p obtain u d1 d2 d3 d4 d5 tokens where
    i: "tryCatch (insert_user (pr_name pending) ph (pr_password_hash pending))
          (\<lambda>_. throw (Conflict ''Phone already exists'')) d = (Inr u, d1)" and
    m: "markOtpUsed v d1 = (Inr (), d2)" and
    c: "clearOtpTransactionReqId e ph Registration d2 = (Inr (), d3)" and
    d4: "d4 = d3\<lparr>pending_registrations := delete_where (\<lambda>r. pr_phone r = ph) (pending_registrations d3)\<rparr>" and
    g: "generateTokens e (int8_parse e (u_id u)) ph False (jint 0) d4 = (Inr tokens, d5)" and
    d': "d' = d5"
    by (auto simp: completeRegistration_def elim!: andThen_InrE)
  have u: "registered_user pending u" "users d1 = users d @ [u]" "\<forall>w \<in> set (users d). u_phone w \<noteq> ph"
    using i ph by (auto simp: tryCatch_run insert_user_def andThen_run Let_def registered_user_def
        list_ex_iff split: if_splits)
  have "users d3 = users d1"
    using markOtpUsed_frame [OF m] clearTransaction_run [of e ph Registration d2] c by auto
  moreover have "users d5 = users d4" "pending_registrations d5 = pending_registrations d4"
    using generateTokens_frame [of e "int8_parse e (u_id u)" ph False "jint 0" d4] g by simp_all
  ultimately show ?thesis using p u d' d4 by auto
qed


definition pending_sample_db :: db where
  "pending_sample_db = sample_db\<lparr>
     pending_registrations := [\<lparr>pr_id = 1, pr_phone = ''+203'', pr_name = ''Cy'', pr_password_hash = ''h:pw'',
       pr_expires_at = 1000, pr_created_at = 0\<rparr>],
     auth_otps := [\<lparr>o_id = 1, o_user_id = None, o_phone = ''+203'', o_code_hash = ''o|000000:s'',
       o_salt = ''s'', o_purpose = Registration, o_expires_at = 1000, o_used_at = None, o_created_at = 0\<rparr>],
     seqs := \<lambda>t. if t = T_users then 2 else 1\<rparr>"


section \<open>One-time passwords\<close>


lemma sample_registration:
  "\<exists>res d'. verifyRegistrationOtp sample_env ''+203'' ''000000'' None pending_sample_db = (Inr res, d')"
  by (simp add: verifyRegistrationOtp_def transactionReqId_def getOtpTransactionReqId_def andThen_run
      otpVerificationProvider_def resolveOtpVerificationProvider_def consoleOtpSender_def
      console_check_run latest_otp_def page_def order_desc_def is_otp_of_def hashOtp_def
      clearOtpAttempts_def tryRedisSet_def pending_sample_db_def withTransaction_def
      completeRegistration_def pending_open_def tryCatch_run insert_user_def markOtpUsed_def
      int8_as_string_def int_str_def nat_str.simps digit_char_def bind_bigint_run pg_bigint_def
      is_digit_def digits_nat_def digit_val_def clearOtpTransactionReqId_def generateTokens_def
      saveRefreshTokenJti_def upsert_refresh_token_def user_exists_def Let_def samples)


text \<open>The console provider accepts exactly the open code whose hash agrees.\<close>

lemma console_check_accepts:
  assumes "latest_otp d (ck_phone p) (ck_purpose p) = Some row" and "o_used_at row = None"
    and "clock d \<le> o_expires_at row" and "hashOtp e (ck_code p) (o_salt row) = o_code_hash row"
  shows "\<exists>d'. console_checkVerification e p d = (Inr (int8_parse e (o_id row)), d')"
  using assms by (simp add: console_check_run)

text \<open>
  C31. A code sent by the console provider is accepted until it expires: when every older code of the
  phone and purpose was made before, a check with the code of the message succeeds at any time up to
  the expiry, and names the new row.
\<close>

theorem otp_round_trip:
  assumes "console_startVerification e s d = (Inr sr, d1)"
    and "\<forall>r \<in> set (auth_otps d). is_otp_of (sp_phone s) (sp_purpose s) r \<longrightarrow> o_created_at r < clock d"
    and "t \<le> clock d + minutes_ms (otpTtlMinutes (cfg e))"
    and "code = (if otpDevMode (cfg e) then ''000000''
                 else nat_str (random_int e (draws d) OTP_RANGE_MIN OTP_RANGE_MAX))"
  shows "\<exists>d2. console_checkVerification e
      \<lparr>ck_phone = sp_phone s, ck_code = code, ck_purpose = sp_purpose s, ck_transactionReqID = tx\<rparr>
      (d1\<lparr>clock := t\<rparr>) = (Inr (int8_parse e (seqs d T_auth_otps + 1)), d2)"
proof -
  define d0 where "d0 = (if otpDevMode (cfg e) then d else d\<lparr>draws := draws d + 1\<rparr>)"
  define salt where "salt = random_hex e (draws d0) 16"
  define row where "row u = \<lparr>o_id = seqs d T_auth_otps + 1, o_user_id = u, o_phone = sp_phone s,
      o_code_hash = hashOtp e code salt, o_salt = salt, o_purpose = sp_purpose s,
      o_expires_at = clock d + minutes_ms (otpTtlMinutes (cfg e)), o_used_at = None,
      o_created_at = clock d\<rparr>" for u
  have st: "(if otpDevMode (cfg e) then ret ''000000''
      else draw (\<lambda>i. nat_str (random_int e i OTP_RANGE_MIN OTP_RANGE_MAX))) d = (Inr code, d0)"
    using assms(4) by (simp add: d0_def)
  have d0: "auth_otps d0 = auth_otps d" "seqs d0 = seqs d" "clock d0 = clock d"
    by (simp_all add: d0_def)
  let ?d = "d0\<lparr>draws := draws d0 + 1\<rparr>"
  obtain b where b: "bind_nullable_bigint (sp_userId s) ?d = (b, ?d)" using bind_nullable_run by blast
  from assms(1) st b obtain u where u: "b = Inr u"
    by (cases b) (simp_all add: console_startVerification_def andThen_run)
  from assms(1) st b u have "d1 = snd (insert_otp u (sp_phone s) (hashOtp e code salt) salt (sp_purpose s)
      (otpTtlMinutes (cfg e)) ?d)" and
    "isl (fst (insert_otp u (sp_phone s) (hashOtp e code salt) salt (sp_purpose s)
      (otpTtlMinutes (cfg e)) ?d)) = False"
    by (auto simp: console_startVerification_def andThen_run salt_def split: prod.splits sum.splits)
  then have otps: "auth_otps d1 = auth_otps d @ [row u]"
    by (simp add: insert_otp_run row_def d0 split: if_splits)
  have "latest_otp (d1\<lparr>clock := t\<rparr>) (sp_phone s) (sp_purpose s) = Some (row u)"
  proof (rule latest_otp_newest)
    show "row u \<in> set (auth_otps (d1\<lparr>clock := t\<rparr>))" using otps by simp
    show "is_otp_of (sp_phone s) (sp_purpose s) (row u)" by (simp add: row_def is_otp_of_def)
    fix y assume "y \<in> set (auth_otps (d1\<lparr>clock := t\<rparr>))" and "is_otp_of (sp_phone s) (sp_purpose s) y"
      and "y \<noteq> row u"
    then show "o_created_at y < o_created_at (row u)" using otps assms(2) by (auto simp: row_def)
  qed
  from console_check_accepts [of "d1\<lparr>clock := t\<rparr>" "\<lparr>ck_phone = sp_phone s, ck_code = code,
      ck_purpose = sp_purpose s, ck_transactionReqID = tx\<rparr>", simplified, OF this] assms(3)
  show ?thesis by (simp add: row_def)
qed

theorem otp_round_trip_witness:
  "\<exists>d2. console_checkVerification sample_env
      \<lparr>ck_phone = ''+201'', ck_code = ''000000'', ck_purpose = PasswordReset, ck_transactionReqID = None\<rparr>
      ((snd (console_startVerification sample_env
          \<lparr>sp_phone = ''+201'', sp_purpose = PasswordReset, sp_userId = JStr ''1'', sp_endUserIp = JUndef,
           sp_powSolution = JUndef, sp_turnstileToken = JUndef\<rparr> sample_db))\<lparr>clock := 300000\<rparr>) =
      (Inr (JStr ''1''), d2)"
proof -
  let ?s = "\<lparr>sp_phone = ''+201'', sp_purpose = PasswordReset, sp_userId = JStr ''1'', sp_endUserIp = JUndef,
           sp_powSolution = JUndef, sp_turnstileToken = JUndef\<rparr>"
  have r: "\<exists>sr. console_startVerification sample_env ?s sample_db =
      (Inr sr, snd (console_startVerification sample_env ?s sample_db))"
    by (simp add: console_startVerification_def andThen_run bind_nullable_bigint_def bind_bigint_run
        pg_bigint_def is_digit_def digits_nat_def digit_val_def insert_otp_run user_exists_def samples)
  then obtain sr where "console_startVerification sample_env ?s sample_db =
      (Inr sr, snd (console_startVerification sample_env ?s sample_db))" by blast
  from otp_round_trip [OF this, of 300000 "''000000''" None] show ?thesis
    by (simp add: minutes_ms_def int8_as_string_def int_str_def nat_str.simps digit_char_def samples)
qed

text \<open>
  C39. The answer "Too many attempts - OTP invalidated" invalidates nothing: after it the same code, if
  entered rightly, is still accepted, and the counter of failed attempts starts again from zero.
\<close>

theorem locked_otp_still_valid:
  assumes "console_checkVerification e p d = (Inl (BadRequest ''Too many attempts - OTP invalidated''), d1)"
    and "latest_otp d (ck_phone p) (ck_purpose p) = Some row"
    and "hashOtp e right (o_salt row) = o_code_hash row"
  shows "attempts_of d1 (ck_phone p) (ck_purpose p) = 0 \<and>
    (\<exists>d2. console_checkVerification e (p\<lparr>ck_code := right\<rparr>) d1 = (Inr (int8_parse e (o_id row)), d2))"
proof -
  from assms(1,2) have row: "o_used_at row = None" "clock d \<le> o_expires_at row"
    by (auto simp: console_check_run split: if_splits)
  obtain n locked d2 where i0: "incrementOtpAttempts e (ck_phone p) (ck_purpose p)
      OTP_MAX_ATTEMPTS OTP_ATTEMPTS_TTL_SECONDS d = (Inr (n, locked), d2)"
    using incrementOtpAttempts_spec [of e "ck_phone p" "ck_purpose p" OTP_MAX_ATTEMPTS
        OTP_ATTEMPTS_TTL_SECONDS d] by (auto simp: Let_def)
  with assms(1,2) row have "locked \<and> d2 = d1"
    by (auto simp: console_check_run split: if_splits)
  with i0 have i: "incrementOtpAttempts e (ck_phone p) (ck_purpose p)
      OTP_MAX_ATTEMPTS OTP_ATTEMPTS_TTL_SECONDS d = (Inr (n, True), d1)" by simp
  have "0 < seconds_ms OTP_ATTEMPTS_TTL_SECONDS" by (simp add: seconds_ms_def OTP_ATTEMPTS_TTL_SECONDS_def)
  from incrementOtpAttempts_count [OF this i] have zero: "attempts_of d1 (ck_phone p) (ck_purpose p) = 0"
    by simp
  note f = console_check_frame [OF assms(1)]
  have "latest_otp d1 = latest_otp d" "clock d1 = clock d"
    using f latest_otp_cong otp_frame_tables(4) by blast+
  with assms(2,3) row have "\<exists>d2. console_checkVerification e (p\<lparr>ck_code := right\<rparr>) d1 =
      (Inr (int8_parse e (o_id row)), d2)"
    by (intro console_check_accepts) simp_all
  with zero show ?thesis by simp
qed

definition locked_sample_db :: db where
  "locked_sample_db = pending_sample_db\<lparr>
     auth_otp_attempts := [\<lparr>a_phone = ''+203'', a_purpose = Registration, a_attempts = 4,
       a_expires_at = 1000, a_updated_at = 0\<rparr>]\<rparr>"

definition wrong_code :: check_payload where
  "wrong_code = \<lparr>ck_phone = ''+203'', ck_code = ''111111'', ck_purpose = Registration,
     ck_transactionReqID = None\<rparr>"

theorem locked_otp_still_valid_witness:
  "\<exists>d1 d2. console_checkVerification sample_env wrong_code locked_sample_db =
       (Inl (BadRequest ''Too many attempts - OTP invalidated''), d1) \<and>
     console_checkVerification sample_env (wrong_code\<lparr>ck_code := ''000000''\<rparr>) d1 = (Inr (JStr ''1''), d2)"
proof -
  obtain d1 where 1: "console_checkVerification sample_env wrong_code locked_sample_db =
       (Inl (BadRequest ''Too many attempts - OTP invalidated''), d1)"
    by (simp add: console_check_run wrong_code_def locked_sample_db_def pending_sample_db_def
        latest_otp_def page_def order_desc_def is_otp_of_def hashOtp_def incrementOtpAttempts_def
        tryRedisSet_def upsert_attempt_def is_attempt_def andThen_run clearOtpAttempts_def
        OTP_MAX_ATTEMPTS_def Let_def samples)
  obtain row where l: "latest_otp locked_sample_db (ck_phone wrong_code) (ck_purpose wrong_code) = Some row"
    and h: "hashOtp sample_env ''000000'' (o_salt row) = o_code_hash row" and "o_id row = 1"
    by (simp add: wrong_code_def locked_sample_db_def pending_sample_db_def
        latest_otp_def page_def order_desc_def is_otp_of_def hashOtp_def samples)
  from locked_otp_still_valid [OF 1 l h] \<open>o_id row = 1\<close> 1 show ?thesis
    by (simp add: sample_env_def int8_as_string_def int_str_def nat_str.simps digit_char_def)
qed

text \<open>
  The hourly cleanup deletes used codes and so can bring an older one back: a code that is refused
  because a newer one was already used is accepted after the cleanup, if it has not expired.
\<close>

theorem cleanup_revives_older_otp:
  assumes "row \<in> set (auth_otps d)" and "is_otp_of (ck_phone p) (ck_purpose p) row"
    and "o_used_at row = None" and "clock d \<le> o_expires_at row"
    and "hashOtp e (ck_code p) (o_salt row) = o_code_hash row"
    and "newer \<in> set (auth_otps d)" and "is_otp_of (ck_phone p) (ck_purpose p) newer"
    and "o_created_at row < o_created_at newer"
    and "\<forall>y \<in> set (auth_otps d). is_otp_of (ck_phone p) (ck_purpose p) y \<longrightarrow> y \<noteq> row \<longrightarrow>
      o_used_at y \<noteq> None \<or> o_created_at y < o_created_at row"
  shows "console_checkVerification e p d = (Inl (BadRequest ''OTP already used''), d) \<and>
    (\<exists>d2. console_checkVerification e p (snd (purgeExpiredOtps d)) = (Inr (int8_parse e (o_id row)), d2))"
proof
  obtain z where z: "latest_otp d (ck_phone p) (ck_purpose p) = Some z"
    using assms(1,2) latest_otp_None [of d "ck_phone p" "ck_purpose p"] by auto
  note l = latest_otp_Some [OF z]
  have lt: "o_created_at row < o_created_at z" using l(3) [OF assms(6,7)] assms(8) by simp
  then have "z \<noteq> row" by auto
  with assms(9) l(1,2) lt have "o_used_at z \<noteq> None" by force
  with z show "console_checkVerification e p d = (Inl (BadRequest ''OTP already used''), d)"
    by (simp add: console_check_run)
next
  let ?d = "snd (purgeExpiredOtps d)"
  have otps: "set (auth_otps ?d) =
      {r \<in> set (auth_otps d). o_used_at r = None \<and> \<not> o_expires_at r < clock d - day_ms}"
    and clk: "clock ?d = clock d"
    by (auto simp: purgeExpiredOtps_def)
  have "latest_otp ?d (ck_phone p) (ck_purpose p) = Some row"
  proof (rule latest_otp_newest)
    show "row \<in> set (auth_otps ?d)" using assms(1,3,4) by (simp add: otps day_ms_def)
    show "is_otp_of (ck_phone p) (ck_purpose p) row" by (rule assms(2))
    fix y assume "y \<in> set (auth_otps ?d)" and "is_otp_of (ck_phone p) (ck_purpose p) y" and "y \<noteq> row"
    with assms(9) show "o_created_at y < o_created_at row" by (auto simp: otps)
  qed
  then show "\<exists>d2. console_checkVerification e p ?d = (Inr (int8_parse e (o_id row)), d2)"
    using assms(3-5) clk by (intro console_check_accepts) simp_all
qed

theorem cleanup_revives_older_otp_witness:
  "\<exists>d2. console_checkVerification sample_env (wrong_code\<lparr>ck_code := ''000000''\<rparr>)
     (snd (purgeExpiredOtps (pending_sample_db\<lparr>auth_otps := auth_otps pending_sample_db @
       [\<lparr>o_id = 2, o_user_id = None, o_phone = ''+203'', o_code_hash = ''x'', o_salt = ''s'',
         o_purpose = Registration, o_expires_at = 1001, o_used_at = Some 2, o_created_at = 1\<rparr>]\<rparr>))) =
     (Inr (JStr ''1''), d2)"
proof -
  let ?d = "pending_sample_db\<lparr>auth_otps := auth_otps pending_sample_db @
       [\<lparr>o_id = 2, o_user_id = None, o_phone = ''+203'', o_code_hash = ''x'', o_salt = ''s'',
         o_purpose = Registration, o_expires_at = 1001, o_used_at = Some 2, o_created_at = 1\<rparr>]\<rparr>"
  have "console_checkVerification sample_env (wrong_code\<lparr>ck_code := ''000000''\<rparr>) ?d =
      (Inl (BadRequest ''OTP already used''), ?d) \<and>
    (\<exists>d2. console_checkVerification sample_env (wrong_code\<lparr>ck_code := ''000000''\<rparr>) (snd (purgeExpiredOtps ?d)) =
      (Inr (int8_parse sample_env (o_id (hd (auth_otps pending_sample_db)))), d2))"
    by (rule cleanup_revives_older_otp [where newer = "last (auth_otps ?d)"])
      (simp_all add: pending_sample_db_def wrong_code_def is_otp_of_def hashOtp_def samples)
  then show ?thesis
    by (simp add: pending_sample_db_def sample_env_def int8_as_string_def int_str_def nat_str.simps
        digit_char_def)
qed

section \<open>Password reset\<close>

text \<open>
  The answer to a request for a password-reset code tells whether the phone has an account: the
  generic message is given exactly when it has none.
\<close>

theorem reset_request_enumerates:
  assumes "requestPasswordResetOtp e ph d = (Inr res, d')"
  shows "obj_get res ''message'' = JStr ''If this number is registered, an OTP has been sent'' \<longleftrightarrow>
    account_by_phone ph d = None"
proof (cases "account_by_phone ph d")
  case None
  with assms show ?thesis by (auto simp: requestPasswordResetOtp_def)
next
  case (Some user)
  with assms show ?thesis
    by (auto simp: requestPasswordResetOtp_def andThen_run buildOtpSentResponse_def
        split: if_splits prod.splits sum.splits)
qed

theorem reset_request_enumerates_witness:
  "obj_get [(''message'', JStr ''If this number is registered, an OTP has been sent'')] ''message'' =
     JStr ''If this number is registered, an OTP has been sent'' \<longleftrightarrow>
   account_by_phone ''+209'' sample_db = None"
  by (rule reset_request_enumerates [where e = sample_env and d' = sample_db])
    (simp add: requestPasswordResetOtp_def account_by_phone_def samples)

text \<open>What a successful reset does: the hash of one active account changes, nothing else of the users.\<close>

definition set_password :: "int \<Rightarrow> string \<Rightarrow> int \<Rightarrow> user_row list \<Rightarrow> user_row list" where
  "set_password i h now = update_where (\<lambda>u. u_id u = i)
     (\<lambda>u. u\<lparr>u_password_hash := h, u_updated_at := now\<rparr>)"

lemma generateTokens_tokens:
  assumes "generateTokens e v ph a t d = (r, d')" and "row \<in> set (auth_refresh_tokens d)"
    and "\<forall>i \<ge> draws d. random_hex e i 16 \<noteq> r_jti row"
  shows "row \<in> set (auth_refresh_tokens d')"
proof -
  let ?jti = "random_hex e (draws d) 16"
  let ?ttl = "of_nat (parseTtlSeconds (jwtRefreshTtl (cfg e))) :: rat"
  let ?d = "d\<lparr>draws := draws d + 1\<rparr>"
  obtain cs where s: "saveRefreshTokenJti e ?jti v ?ttl ?d =
     (case pg_bigint v of
        None \<Rightarrow> (Inl (PgErr INVALID_TEXT), ?d\<lparr>redis_cmds := cs\<rparr>)
      | Some n \<Rightarrow> upsert_refresh_token ?jti n ?ttl (?d\<lparr>redis_cmds := cs\<rparr>))"
    using saveRefreshTokenJti_run by blast
  have "row \<in> set (auth_refresh_tokens (snd (upsert_refresh_token ?jti n ?ttl (?d\<lparr>redis_cmds := cs\<rparr>))))" for n
    using assms(2,3) by (auto simp: upsert_refresh_token_def Let_def set_update_where image_iff
        intro!: bexI [of _ row])
  then have "row \<in> set (auth_refresh_tokens (snd (saveRefreshTokenJti e ?jti v ?ttl ?d)))"
    unfolding s using assms(2) by (cases "pg_bigint v") simp_all
  moreover have "d' = snd (saveRefreshTokenJti e ?jti v ?ttl ?d)"
    using generateTokens_state [of e v ph a t d] assms(1) by simp
  ultimately show ?thesis by simp
qed

lemma markOtpUsed_tokens:
  assumes "markOtpUsed v d = (r, d')"
  shows "auth_refresh_tokens d' = auth_refresh_tokens d \<and> draws d' = draws d"
  using assms by (auto simp: markOtpUsed_def andThen_run bind_bigint_run split: if_splits option.splits)

lemma applyPasswordReset_Inr:
  assumes "applyPasswordReset e ph w v d = (Inr res, d')"
  shows "\<exists>user. account_by_phone ph d = Some user \<and> u_status user = Active \<and>
    users d' = set_password (u_id user) (bcrypt_hash e w BCRYPT_ROUNDS (random_hex e (draws d) 16))
      (clock d) (users d) \<and> clock d' = clock d \<and>
    (\<forall>row \<in> set (auth_refresh_tokens d). (\<forall>i \<ge> draws d. random_hex e i 16 \<noteq> r_jti row) \<longrightarrow>
       row \<in> set (auth_refresh_tokens d'))"
proof -
  obtain user where u: "account_by_phone ph d = Some user"
    using assms by (cases "account_by_phone ph d") (simp_all add: applyPasswordReset_def)
  define h where "h = bcrypt_hash e w BCRYPT_ROUNDS (random_hex e (draws d) 16)"
  define d1 where "d1 = d\<lparr>draws := draws d + 1, users := set_password (u_id user) h (clock d) (users d)\<rparr>"
  have act: "u_status user = Active"
    using assms u by (auto simp: applyPasswordReset_def andThen_run unless_run split: if_splits)
  have "andThen (gets (\<lambda>d. row_where (\<lambda>u. u_id u = u_id user) (users d))) (\<lambda>updatedUser.
         case updatedUser of
           None \<Rightarrow> throw (BadRequest ''User not found'')
         | Some row \<Rightarrow>
             andThen (markOtpUsed v) (\<lambda>_.
             andThen (clearOtpTransactionReqId e ph PasswordReset) (\<lambda>_.
             andThen (generateTokens e (int8_parse e (u_id row)) (u_phone row) (u_is_admin user)
                        (jint (u_token_version user))) (\<lambda>tokens.
             ret (spread [(''message'', JStr ''Password reset successfully'')] tokens))))) d1 = (Inr res, d')"
    using assms u act
    by (simp add: applyPasswordReset_def andThen_run unless_run bcrypt_def d1_def h_def set_password_def)
  note k = this
  then obtain row where rw: "row_where (\<lambda>u. u_id u = u_id user) (users d1) = Some row"
    by (cases "row_where (\<lambda>u. u_id u = u_id user) (users d1)") simp_all
  with k have row: "andThen (markOtpUsed v) (\<lambda>_.
             andThen (clearOtpTransactionReqId e ph PasswordReset) (\<lambda>_.
             andThen (generateTokens e (int8_parse e (u_id row)) (u_phone row) (u_is_admin user)
                        (jint (u_token_version user))) (\<lambda>tokens.
             ret (spread [(''message'', JStr ''Password reset successfully'')] tokens)))) d1 = (Inr res, d')"
    by simp
  from row obtain d2 d3 tokens where m: "markOtpUsed v d1 = (Inr (), d2)"
    and c: "clearOtpTransactionReqId e ph PasswordReset d2 = (Inr (), d3)"
    and g: "generateTokens e (int8_parse e (u_id row)) (u_phone row) (u_is_admin user)
        (jint (u_token_version user)) d3 = (Inr tokens, d')"
    by (auto elim!: andThen_InrE)
  obtain cs where d3: "d3 = d2\<lparr>redis_cmds := cs\<rparr>"
    using clearTransaction_run [of e ph PasswordReset d2] c by auto
  note mf = markOtpUsed_frame [OF m] markOtpUsed_tokens [OF m]
  have "users d' = users d1" "clock d' = clock d1"
    using generateTokens_frame(1,5) [of e "int8_parse e (u_id row)" "u_phone row" "u_is_admin user"
        "jint (u_token_version user)" d3] g mf d3 by simp_all
  moreover have "q \<in> set (auth_refresh_tokens d')"
    if "q \<in> set (auth_refresh_tokens d)" and "\<forall>i \<ge> draws d. random_hex e i 16 \<noteq> r_jti q" for q
    using that mf d3 by (intro generateTokens_tokens [OF g]) (simp_all add: d1_def)
  ultimately show ?thesis using u act by (simp add: d1_def h_def)
qed

text \<open>
  \<open>resetPassword\<close> changes the password hash of one active account and no session: the account keeps
  its token version, so every access token valid before is valid after, and every stored refresh token
  stays usable.
\<close>

theorem reset_keeps_sessions:
  assumes "resetPassword e ph otp w w' t d = (Inr res, d')"
  shows "w = w' \<and>
    (\<exists>user h. account_by_phone ph d = Some user \<and> u_status user = Active \<and>
       users d' = set_password (u_id user) h (clock d) (users d)) \<and>
    fst (authenticate e tok d') = fst (authenticate e tok d) \<and>
    (\<forall>row \<in> set (auth_refresh_tokens d). (\<forall>i \<ge> draws d. random_hex e i 16 \<noteq> r_jti row) \<longrightarrow>
       row \<in> set (auth_refresh_tokens d'))"
proof -
  from assms obtain tx d1 v d2 where ww: "w = w'"
    and t: "transactionReqId e t ph PasswordReset d = (Inr tx, d1)"
    and c: "checkVerification (otpVerificationProvider e) \<lparr>ck_phone = ph, ck_code = otp,
          ck_purpose = PasswordReset, ck_transactionReqID = tx\<rparr> d1 = (Inr v, d2)"
    and a: "withTransaction (applyPasswordReset e ph w v) d2 = (Inr res, d')"
    unfolding resetPassword_def by (elim andThen_InrE unless_InrE) blast
  have f: "otp_frame d d2"
    using transactionReqId_frame [OF t] chosen_otp.check_frame [OF c] by (blast intro: otp_frame_trans)
  note tab = otp_frame_tables [OF f]
  obtain user h where u: "account_by_phone ph d = Some user" "u_status user = Active"
    and us: "users d' = set_password (u_id user) h (clock d) (users d)" and ck: "clock d' = clock d"
    and tk: "\<forall>row \<in> set (auth_refresh_tokens d2). (\<forall>i \<ge> draws d2. random_hex e i 16 \<noteq> r_jti row) \<longrightarrow>
       row \<in> set (auth_refresh_tokens d')"
    using applyPasswordReset_Inr [OF a [unfolded withTransaction_Inr]] tab account_by_phone_cong [of d2 d ph]
    by auto
  have "account_by_id n d' =
      map_option (\<lambda>x. if u_id x = u_id user then x\<lparr>u_password_hash := h, u_updated_at := clock d\<rparr> else x)
        (account_by_id n d)" for n
    unfolding account_by_id_def us set_password_def by (rule row_where_update) simp
  then have "fst (jwt_validate q d') = fst (jwt_validate q d)" for q
    by (simp add: jwt_validate_run split: option.splits)
  then have "fst (authenticate e tok d') = fst (authenticate e tok d)"
    by (simp add: authenticate_def ck split: option.splits)
  moreover have "\<forall>row \<in> set (auth_refresh_tokens d). (\<forall>i \<ge> draws d. random_hex e i 16 \<noteq> r_jti row) \<longrightarrow>
       row \<in> set (auth_refresh_tokens d')"
    using tk tab(3,6) by auto
  ultimately show ?thesis using ww u us by blast
qed

definition reset_sample_db :: db where
  "reset_sample_db = sample_db\<lparr>
     auth_otps := [\<lparr>o_id = 1, o_user_id = Some 1, o_phone = ''+201'', o_code_hash = ''o|000000:s'',
       o_salt = ''s'', o_purpose = PasswordReset, o_expires_at = 1000, o_used_at = None, o_created_at = 0\<rparr>]\<rparr>"

theorem reset_keeps_sessions_witness:
  "\<exists>res d'. resetPassword sample_env ''+201'' ''000000'' ''new'' ''new'' None reset_sample_db = (Inr res, d') \<and>
     fst (authenticate sample_env ''jwt'' d') = fst (authenticate sample_env ''jwt'' reset_sample_db)"
proof -
  obtain res d' where
    "resetPassword sample_env ''+201'' ''000000'' ''new'' ''new'' None reset_sample_db = (Inr res, d')"
    by (simp add: resetPassword_def transactionReqId_def getOtpTransactionReqId_def andThen_run
      otpVerificationProvider_def resolveOtpVerificationProvider_def consoleOtpSender_def
      console_check_run latest_otp_def page_def order_desc_def is_otp_of_def hashOtp_def
      clearOtpAttempts_def tryRedisSet_def reset_sample_db_def withTransaction_def
      applyPasswordReset_def account_by_phone_def unless_run bcrypt_def update_where_def markOtpUsed_def
      int8_as_string_def int_str_def nat_str.simps digit_char_def bind_bigint_run pg_bigint_def
      is_digit_def digits_nat_def digit_val_def clearOtpTransactionReqId_def generateTokens_def
      saveRefreshTokenJti_def upsert_refresh_token_def user_exists_def Let_def samples)
  with reset_keeps_sessions [OF this, of "''jwt''"] show ?thesis by blast
qed

section \<open>Tokens\<close>

text \<open>
  What the code relies on of the JWT library: the payload that comes out of a token is the payload
  that was signed, with the library's own claims \<open>iat\<close> and \<open>exp\<close> added.
\<close>

definition jwt_faithful :: "env \<Rightarrow> bool" where
  "jwt_faithful e \<longleftrightarrow>
     (\<forall>p s ttl t s' now q. jwt_verify e (jwt_sign e p s ttl t) s' now = Some q \<longrightarrow>
        (\<forall>k. k \<noteq> ''iat'' \<and> k \<noteq> ''exp'' \<longrightarrow> obj_get q k = obj_get p k))"



lemma account_by_id_row:
  assumes "accounts_ok d" and "u \<in> set (users d)" and "u_deleted_at u = None"
  shows "account_by_id (u_id u) d = Some u"
proof -
  have "distinct (map u_id (users d))" using assms(1) by (simp add: accounts_ok_def ids_ok_def)
  then have "row_where (\<lambda>x. u_id x = u_id u \<and> u_deleted_at x = None) xs = Some u"
    if "u \<in> set xs" and "set xs \<subseteq> set (users d)" and "distinct (map u_id xs)" for xs
    using that assms(3) by (induction xs) (auto simp: image_iff)
  with assms(2) \<open>distinct (map u_id (users d))\<close> show ?thesis by (simp add: account_by_id_def)
qed

text \<open>The tokens a session starts with, and the row that makes the refresh token usable.\<close>

lemma usable_after_update:
  assumes "t < x"
  shows "list_ex (\<lambda>r. r_jti r = jti) rows \<Longrightarrow>
    \<exists>r. row_where (usable_token jti t) (update_where (\<lambda>r. r_jti r = jti)
      (\<lambda>r. r\<lparr>r_user_id := n, r_expires_at := x, r_revoked_at := None\<rparr>) rows) = Some r \<and> r_user_id r = n"
  using assms by (induction rows) (auto simp: update_where_def usable_token_def)

lemma upsert_refresh_token_usable:
  assumes "user_exists d n" and "t < clock d + seconds_ms ttl"
  shows "\<exists>d'. upsert_refresh_token jti n ttl d = (Inr (), d') \<and>
    (\<exists>r. row_where (usable_token jti t) (auth_refresh_tokens d') = Some r \<and> r_user_id r = n)"
proof -
  let ?old = "auth_refresh_tokens d"
  let ?new = "\<lparr>r_jti = jti, r_user_id = n, r_expires_at = clock d + seconds_ms ttl, r_revoked_at = None,
      r_created_at = clock d\<rparr>"
  let ?f = "\<lambda>r. r\<lparr>r_user_id := n, r_expires_at := clock d + seconds_ms ttl, r_revoked_at := None\<rparr>"
  show ?thesis
  proof (cases "list_ex (\<lambda>r. r_jti r = jti) ?old")
    case True
    then have "\<exists>r. row_where (usable_token jti t) (update_where (\<lambda>r. r_jti r = jti) ?f ?old) = Some r \<and>
        r_user_id r = n"
      by (rule usable_after_update [OF assms(2)])
    with True assms(1) show ?thesis by (simp add: upsert_refresh_token_def Let_def)
  next
    case False
    then have "row_where (usable_token jti t) ?old = None"
      by (auto simp: row_where_None usable_token_def list_ex_iff)
    with False assms show ?thesis
      by (simp add: upsert_refresh_token_def Let_def row_where_append usable_token_def)
  qed
qed

lemma generateTokens_session:
  assumes "pg_bigint v = Some n" and "user_exists d n"
    and "t < clock d + seconds_ms (of_nat (parseTtlSeconds (jwtRefreshTtl (cfg e))))"
  shows "\<exists>d' r. generateTokens e v ph a tv d =
      (Inr [(''accessToken'', JStr (jwt_sign e (basePayload v ph a tv) (jwtAccessSecret (cfg e))
              (jwtAccessTtl (cfg e)) (clock d))),
            (''refreshToken'', JStr (jwt_sign e (basePayload v ph a tv @ [(''jti'', JStr (random_hex e (draws d) 16))])
              (jwtRefreshSecret (cfg e)) (jwtRefreshTtl (cfg e)) (clock d)))], d') \<and>
    row_where (usable_token (random_hex e (draws d) 16) t) (auth_refresh_tokens d') = Some r \<and>
    r_user_id r = n"
proof -
  let ?jti = "random_hex e (draws d) 16"
  let ?ttl = "of_nat (parseTtlSeconds (jwtRefreshTtl (cfg e))) :: rat"
  let ?d = "d\<lparr>draws := draws d + 1\<rparr>"
  obtain cs where s: "saveRefreshTokenJti e ?jti v ?ttl ?d =
     (case pg_bigint v of
        None \<Rightarrow> (Inl (PgErr INVALID_TEXT), ?d\<lparr>redis_cmds := cs\<rparr>)
      | Some n \<Rightarrow> upsert_refresh_token ?jti n ?ttl (?d\<lparr>redis_cmds := cs\<rparr>))"
    using saveRefreshTokenJti_run by blast
  have "user_exists (?d\<lparr>redis_cmds := cs\<rparr>) n" "t < clock (?d\<lparr>redis_cmds := cs\<rparr>) + seconds_ms ?ttl"
    using assms(2,3) by (simp_all add: user_exists_def)
  from upsert_refresh_token_usable [OF this, of ?jti] obtain d' r where
    "upsert_refresh_token ?jti n ?ttl (?d\<lparr>redis_cmds := cs\<rparr>) = (Inr (), d')"
    "row_where (usable_token ?jti t) (auth_refresh_tokens d') = Some r" "r_user_id r = n" by blast
  with s assms(1) show ?thesis
    by (simp add: generateTokens_def andThen_run Let_def)
qed

lemma login_Inr:
  assumes "login e ph w d = (Inr res, d')"
  obtains user tokens where "account_by_phone ph d = Some user" and "u_status user = Active"
    and "bcrypt_compare e w (u_password_hash user)"
    and "generateTokens e (int8_parse e (u_id user)) (u_phone user) (u_is_admin user)
           (jint (u_token_version user)) d = (Inr tokens, d')"
    and "res = spread [(''user'', JObj (mapToAppUser e (user_object e user)))] tokens"
proof -
  obtain user where u: "account_by_phone ph d = Some user"
    using assms by (cases "account_by_phone ph d") (simp_all add: login_def)
  with assms have "u_status user = Active" "bcrypt_compare e w (u_password_hash user)"
    by (auto simp: login_def andThen_run unless_run split: if_splits)
  moreover from this assms u obtain tokens where
    "generateTokens e (int8_parse e (u_id user)) (u_phone user) (u_is_admin user)
       (jint (u_token_version user)) d = (Inr tokens, d')"
    "res = spread [(''user'', JObj (mapToAppUser e (user_object e user)))] tokens"
    by (auto simp: login_def andThen_run unless_run split: prod.splits sum.splits)
  ultimately show thesis using u that by blast
qed

text \<open>
  A login opens a session: it succeeds only for an active account with the right password, and the
  refresh token it returns is accepted, with new tokens, at any time before the stored lifetime ends
  at which the library still verifies it.
\<close>

theorem login_then_refresh:
  assumes env: "int8_ok e" "jwt_faithful e" and ok: "accounts_ok d"
    and l: "login e ph w d = (Inr res, d1)"
    and tok: "obj_get res ''refreshToken'' = JStr tok"
    and v: "jwt_verify e tok (jwtRefreshSecret (cfg e)) t = Some payload"
    and t: "t < clock d + seconds_ms (of_nat (parseTtlSeconds (jwtRefreshTtl (cfg e))))"
    and jti: "random_hex e (draws d) 16 \<noteq> []"
  shows "\<exists>user. account_by_phone ph d = Some user \<and> u_status user = Active \<and>
    bcrypt_compare e w (u_password_hash user) \<and>
    (\<exists>res2 d2. refresh e tok (d1\<lparr>clock := t\<rparr>) = (Inr res2, d2))"
proof -
  from l obtain user tokens where u: "account_by_phone ph d = Some user" "u_status user = Active"
      "bcrypt_compare e w (u_password_hash user)"
    and g: "generateTokens e (int8_parse e (u_id user)) (u_phone user) (u_is_admin user)
           (jint (u_token_version user)) d = (Inr tokens, d1)"
    and res: "res = spread [(''user'', JObj (mapToAppUser e (user_object e user)))] tokens"
    by (rule login_Inr)
  note ur = account_by_phone_Some [OF u(1)]
  have pos: "0 < u_id user" using ok ur accounts_ok_pos by blast
  let ?v = "int8_parse e (u_id user)"
  let ?jti = "random_hex e (draws d) 16"
  let ?base = "basePayload ?v (u_phone user) (u_is_admin user) (jint (u_token_version user))"
  have ex: "user_exists d (u_id user)" using ur by (auto simp: user_exists_def list_ex_iff)
  have vn: "pg_bigint ?v = Some (u_id user)" using env(1) pos by simp
  obtain r where row: "row_where (usable_token ?jti t) (auth_refresh_tokens d1) = Some r" "r_user_id r = u_id user"
    and tokens: "obj_get tokens ''refreshToken'' = JStr (jwt_sign e (?base @ [(''jti'', JStr ?jti)])
              (jwtRefreshSecret (cfg e)) (jwtRefreshTtl (cfg e)) (clock d))"
      "obj_get res ''refreshToken'' = obj_get tokens ''refreshToken''"
    using generateTokens_session [where v = ?v and n = "u_id user" and d = d and t = t and e = e
        and ph = "u_phone user" and a = "u_is_admin user" and tv = "jint (u_token_version user)",
        OF vn ex t] g res by auto
  then have "tok = jwt_sign e (?base @ [(''jti'', JStr ?jti)]) (jwtRefreshSecret (cfg e)) (jwtRefreshTtl (cfg e)) (clock d)"
    using tok by simp
  with v env(2) have q: "obj_get payload k = obj_get (?base @ [(''jti'', JStr ?jti)]) k"
    if "k \<noteq> ''iat'' \<and> k \<noteq> ''exp''" for k
    using that unfolding jwt_faithful_def by blast
  have pl: "obj_get payload ''jti'' = JStr ?jti" "obj_get payload ''sub'' = ?v"
    "obj_get payload ''tokenVersion'' = jint (u_token_version user)"
    using q [of "''jti''"] q [of "''sub''"] q [of "''tokenVersion''"] by (simp_all add: basePayload_def)
  have us: "users d1 = users d" using generateTokens_frame(1) [of e ?v] g by (metis snd_conv)
  obtain cs where c: "consumeRefreshTokenJti e ?jti (d1\<lparr>clock := t\<rparr>) = (Inr (Some ?v),
      d1\<lparr>clock := t, redis_cmds := cs,
        auth_refresh_tokens := delete_where (usable_token ?jti t) (auth_refresh_tokens d1)\<rparr>)" (is "_ = (_, ?d2)")
    using consumeRefreshTokenJti_run [of e ?jti "d1\<lparr>clock := t\<rparr>"] row by auto
  have tv: "truthy ?v"
    using env(1) pos by (auto simp: int8_ok_def int8_as_string_def int8_as_number_def int_str_pos)
  have acc: "account_by_id (u_id user) ?d2 = Some user"
    using account_by_id_row [OF ok, of user] ur us by (simp add: account_by_id_def)
  have ex2: "user_exists ?d2 (u_id user)" using ex us by (simp add: user_exists_def)
  obtain r3 d3 where g3: "generateTokens e ?v (u_phone user) (u_is_admin user) (jint (u_token_version user)) ?d2
      = (Inr r3, d3)"
    using generateTokens_session [where v = ?v and n = "u_id user" and d = ?d2 and e = e
        and t = "clock ?d2 + seconds_ms (of_nat (parseTtlSeconds (jwtRefreshTtl (cfg e)))) - 1",
        OF vn ex2] by fastforce
  have "refresh e tok (d1\<lparr>clock := t\<rparr>) = (Inr (spread [] r3), d3)"
    using v pl jti c tv acc u(2) vn g3
    by (simp add: refresh_def andThen_run unless_run js_String_def bind_bigint_run)
  with u show ?thesis by blast
qed

definition sample_payload :: jobject where
  "sample_payload =
     [(''sub'', JStr ''1''), (''phone'', JStr ''+201''), (''isAdmin'', JBool False),
      (''tokenVersion'', JNum 0), (''jti'', JStr ''x'')]"

definition jwt_sample_env :: env where
  "jwt_sample_env = sample_env\<lparr>
     random_hex := (\<lambda>i n. ''x''),
     jwt_sign := (\<lambda>p s ttl now. if p = sample_payload then ''refresh1'' else ''other''),
     jwt_verify := (\<lambda>tok s now. if tok = ''refresh1'' then Some sample_payload else None)\<rparr>"

theorem login_then_refresh_witness:
  "\<exists>res d1 res2 d2. login jwt_sample_env ''+201'' ''pw'' sample_db = (Inr res, d1) \<and>
     refresh jwt_sample_env ''refresh1'' (d1\<lparr>clock := 5000\<rparr>) = (Inr res2, d2)"
proof -
  obtain res d1 where l: "login jwt_sample_env ''+201'' ''pw'' sample_db = (Inr res, d1)"
    and tok: "obj_get res ''refreshToken'' = JStr ''refresh1''"
    by (simp add: login_def account_by_phone_def andThen_run unless_run generateTokens_def
        basePayload_def saveRefreshTokenJti_def tryRedisSet_def bind_bigint_run pg_bigint_def is_digit_def
        digits_nat_def digit_val_def upsert_refresh_token_def user_exists_def int8_as_string_def
        int_str_def nat_str.simps digit_char_def jint_def sample_payload_def jwt_sample_env_def samples)
  have "\<exists>user. account_by_phone ''+201'' sample_db = Some user \<and> u_status user = Active \<and>
    bcrypt_compare jwt_sample_env ''pw'' (u_password_hash user) \<and>
    (\<exists>res2 d2. refresh jwt_sample_env ''refresh1'' (d1\<lparr>clock := 5000\<rparr>) = (Inr res2, d2))"
  proof (rule login_then_refresh [OF _ _ _ l tok])
    show "accounts_ok sample_db" by (simp add: accounts_ok_def ids_ok_def samples)
    show "5000 < clock sample_db + seconds_ms (of_nat (parseTtlSeconds (jwtRefreshTtl (cfg jwt_sample_env))))"
      by (simp add: parseTtlSeconds_def seconds_ms_def is_digit_def digits_nat_def digit_val_def
          unit_seconds_def jwt_sample_env_def samples)
  qed (simp_all add: jwt_faithful_def int8_ok_def jwt_sample_env_def samples)
  with l show ?thesis by blast
qed

lemma digits_nat_nat_str: "digits_nat (nat_str n) = n"
  by (induction n rule: nat_str.induct) (rule digits_nat_str)

text \<open>
  The lifetime of a refresh token is read as written: a decimal count and a unit \<open>s\<close>, \<open>m\<close>, \<open>h\<close> or \<open>d\<close>
  give that many seconds, and a text of any other form gives thirty days.
\<close>

theorem parseTtlSeconds_spec:
  "(unit_seconds u = Some k \<longrightarrow> parseTtlSeconds (nat_str n @ [u]) = n * k) \<and>
   (parseTtlSeconds ttl = 2592000 \<or>
     (\<exists>ds v m. ttl = ds @ [v] \<and> ds \<noteq> [] \<and> list_all is_digit ds \<and> unit_seconds v = Some m \<and>
        parseTtlSeconds ttl = digits_nat ds * m))"
proof
  show "unit_seconds u = Some k \<longrightarrow> parseTtlSeconds (nat_str n @ [u]) = n * k"
    by (simp add: parseTtlSeconds_def nat_str_digits digits_nat_nat_str)
  show "parseTtlSeconds ttl = 2592000 \<or>
     (\<exists>ds v m. ttl = ds @ [v] \<and> ds \<noteq> [] \<and> list_all is_digit ds \<and> unit_seconds v = Some m \<and>
        parseTtlSeconds ttl = digits_nat ds * m)"
  proof (cases "ttl = [] \<or> butlast ttl = [] \<or> \<not> list_all is_digit (butlast ttl) \<or> unit_seconds (last ttl) = None")
    case True
    then show ?thesis by (auto simp: parseTtlSeconds_def REFRESH_TTL_FALLBACK_SECONDS_def)
  next
    case False
    then obtain m where "unit_seconds (last ttl) = Some m" by auto
    with False show ?thesis
      by (intro disjI2 exI [of _ "butlast ttl"] exI [of _ "last ttl"] exI [of _ m])
        (simp add: parseTtlSeconds_def)
  qed
qed

theorem parseTtlSeconds_spec_witness:
  "parseTtlSeconds (nat_str 15 @ ''m'') = 900"
  using parseTtlSeconds_spec [of "CHR ''m''" 60 15 "[]"] by (simp add: unit_seconds_def)

end
