(* ===== verification/Taxonomy.thy ===== *)
theory Taxonomy
  imports Helpers
begin

text \<open>
  \<open>src/src/products/product-taxonomy.ts\<close> and \<open>src/src/products/dto/product-taxonomy.validators.ts\<close>:
  the categories and subcategories a product may have, and the \<open>CHECK\<close> constraints that
  \<open>src/db/schema.sql\<close> repeats for them. The lemmas show that the two lists agree: what the service
  lets through is never refused by the table.
\<close>

definition PRODUCT_SUBCATEGORIES :: "string list" where
  "PRODUCT_SUBCATEGORIES =
     [''all'', ''apartmentForRent'', ''apartmentForSale'', ''houses'', ''lands'',
      ''commercialRealEstateForRent'', ''commercialRealEstateForSale'', ''other'',
      ''carsForSale'', ''carsForRent'', ''sparePartsAndAccessories'', ''motorCycles'',
      ''bicycles'', ''trucksAndHeavyVehicles'', ''smartphones'', ''tablets'',
      ''laptopsAndComputers'', ''accessories'', ''speakersAndHeadphones'', ''cameras'',
      ''smartWatchesAndWearables'', ''monitorsAndTVs'', ''furniture'', ''officeFurniture'',
      ''kitchenAndDining'', ''beddingAndBath'', ''homeDecor'', ''homeTools'', ''lighting'',
      ''menClothing'', ''womenClothing'', ''kidsClothing'', ''shoes'', ''menAccessories'',
      ''womenAccessoriesAndMakeup'', ''jewelryAndWatches'', ''maintenanceAndRepairs'',
      ''transportationAndMoving'', ''personalServices'', ''carsServices'',
      ''homeServices'', ''lessonsAndTutoring'']"

definition PRODUCT_CATEGORIES :: "string list" where
  "PRODUCT_CATEGORIES =
     [''realEstate'', ''vehicles'', ''electronics'', ''homeAndDecor'',
      ''clothingAndFashion'', ''services'']"

definition CATEGORY_TO_SUBCATEGORIES :: "(string \<times> string list) list" where
  "CATEGORY_TO_SUBCATEGORIES =
     [(''realEstate'',
        [''all'', ''apartmentForRent'', ''apartmentForSale'', ''houses'', ''lands'',
         ''commercialRealEstateForRent'', ''commercialRealEstateForSale'', ''other'']),
      (''vehicles'',
        [''all'', ''carsForSale'', ''carsForRent'', ''sparePartsAndAccessories'',
         ''motorCycles'', ''bicycles'', ''trucksAndHeavyVehicles'']),
      (''electronics'',
        [''all'', ''smartphones'', ''tablets'', ''laptopsAndComputers'', ''accessories'',
         ''speakersAndHeadphones'', ''cameras'', ''smartWatchesAndWearables'',
         ''monitorsAndTVs'', ''other'']),
      (''homeAndDecor'',
        [''all'', ''furniture'', ''officeFurniture'', ''kitchenAndDining'',
         ''beddingAndBath'', ''homeDecor'', ''homeTools'', ''lighting'', ''other'']),
      (''clothingAndFashion'',
        [''all'', ''menClothing'', ''womenClothing'', ''kidsClothing'', ''shoes'',
         ''menAccessories'', ''womenAccessoriesAndMakeup'', ''jewelryAndWatches'', ''other'']),
      (''services'',
        [''all'', ''maintenanceAndRepairs'', ''transportationAndMoving'',
         ''personalServices'', ''carsServices'', ''homeServices'', ''lessonsAndTutoring'',
         ''other''])]"

definition isValidCategory :: "string \<Rightarrow> bool" where
  "isValidCategory category = (category \<in> set PRODUCT_CATEGORIES)"

definition subcategories_of :: "string \<Rightarrow> string list" where
  "subcategories_of category =
     (case map_of CATEGORY_TO_SUBCATEGORIES category of None \<Rightarrow> [] | Some l \<Rightarrow> l)"

definition isValidSubcategory :: "string \<Rightarrow> string \<Rightarrow> bool" where
  "isValidSubcategory category subcategory =
     (if \<not> isValidCategory category then False
      else subcategory \<in> set (subcategories_of category))"

definition isAllowedProductSubcategory :: "string \<Rightarrow> string \<Rightarrow> bool" where
  "isAllowedProductSubcategory category subcategory =
     (isValidSubcategory category subcategory \<and> subcategory \<noteq> ''all'')"

definition getAllowedSubcategories :: "string \<Rightarrow> string list" where
  "getAllowedSubcategories category =
     (if \<not> isValidCategory category then [] else subcategories_of category)"

text \<open>
  The two custom validators of the DTOs: the value of the field, and for the subcategory the value
  of the sibling field that holds the category.
\<close>

definition validate_product_category :: "json \<Rightarrow> bool" where
  "validate_product_category value = (case value of JStr s \<Rightarrow> isValidCategory s | _ \<Rightarrow> False)"

definition validate_subcategory_for_category :: "bool \<Rightarrow> json \<Rightarrow> json \<Rightarrow> bool" where
  "validate_subcategory_for_category allowAll categoryValue value =
     (if nullish value then True
      else (case value of
              JStr s \<Rightarrow>
                (case categoryValue of
                   JStr c \<Rightarrow>
                     (if \<not> isValidSubcategory c s then False
                      else if \<not> allowAll \<and> s = ''all'' then False
                      else True)
                 | _ \<Rightarrow> True)
            | _ \<Rightarrow> False))"

section \<open>The constraints of the table\<close>

definition btrim_empty :: "string \<Rightarrow> bool" where
  "btrim_empty s = list_all (\<lambda>c. c = CHR '' '') s"

definition SQL_CATEGORIES :: "string list" where
  "SQL_CATEGORIES =
     [''realEstate'', ''vehicles'', ''electronics'', ''homeAndDecor'',
      ''clothingAndFashion'', ''services'']"

definition SQL_SUBCATEGORIES :: "string list" where
  "SQL_SUBCATEGORIES =
     [''all'', ''apartmentForRent'', ''apartmentForSale'', ''houses'', ''lands'',
      ''commercialRealEstateForRent'', ''commercialRealEstateForSale'', ''other'',
      ''carsForSale'', ''carsForRent'', ''sparePartsAndAccessories'', ''motorCycles'',
      ''bicycles'', ''trucksAndHeavyVehicles'', ''smartphones'', ''tablets'',
      ''laptopsAndComputers'', ''accessories'', ''speakersAndHeadphones'', ''cameras'',
      ''smartWatchesAndWearables'', ''monitorsAndTVs'', ''furniture'', ''officeFurniture'',
      ''kitchenAndDining'', ''beddingAndBath'', ''homeDecor'', ''homeTools'', ''lighting'',
      ''menClothing'', ''womenClothing'', ''kidsClothing'', ''shoes'', ''menAccessories'',
      ''womenAccessoriesAndMakeup'', ''jewelryAndWatches'', ''maintenanceAndRepairs'',
      ''transportationAndMoving'', ''personalServices'', ''carsServices'',
      ''homeServices'', ''lessonsAndTutoring'']"

definition category_check :: "string \<Rightarrow> bool" where
  "category_check c = (\<not> btrim_empty c \<and> c \<in> set SQL_CATEGORIES)"

definition subcategory_check :: "string option \<Rightarrow> bool" where
  "subcategory_check s =
     (case s of
        None \<Rightarrow> True
      | Some s \<Rightarrow> \<not> btrim_empty s \<and> s \<noteq> ''all'' \<and> s \<in> set SQL_SUBCATEGORIES)"

section \<open>Agreement\<close>

lemma list_all_set: "list_all P xs \<Longrightarrow> x \<in> set xs \<Longrightarrow> P x"
  by (simp add: list_all_iff)

lemma categories_have_lists: "list_all (\<lambda>c. map_of CATEGORY_TO_SUBCATEGORIES c \<noteq> None) PRODUCT_CATEGORIES"
  by (simp add: PRODUCT_CATEGORIES_def CATEGORY_TO_SUBCATEGORIES_def)

lemma lists_have_categories: "map fst CATEGORY_TO_SUBCATEGORIES = PRODUCT_CATEGORIES"
  by (simp add: PRODUCT_CATEGORIES_def CATEGORY_TO_SUBCATEGORIES_def)

lemma categories_checked: "list_all category_check PRODUCT_CATEGORIES"
  by (simp add: PRODUCT_CATEGORIES_def category_check_def SQL_CATEGORIES_def btrim_empty_def)

lemma sql_subcategories: "SQL_SUBCATEGORIES = PRODUCT_SUBCATEGORIES"
  by (simp add: SQL_SUBCATEGORIES_def PRODUCT_SUBCATEGORIES_def)

lemma subcategories_not_blank: "list_all (\<lambda>s. \<not> btrim_empty s) PRODUCT_SUBCATEGORIES"
  by (simp add: PRODUCT_SUBCATEGORIES_def btrim_empty_def)

lemma listed_subcategories:
  "list_all (\<lambda>p. list_all (\<lambda>s. List.member PRODUCT_SUBCATEGORIES s) (snd p)) CATEGORY_TO_SUBCATEGORIES"
  by code_simp

lemma subcategories_listed:
  "list_all (\<lambda>s. list_ex (\<lambda>p. List.member (snd p) s) CATEGORY_TO_SUBCATEGORIES) PRODUCT_SUBCATEGORIES"
  by code_simp

lemma isValidSubcategory_listed: "isValidSubcategory c s \<Longrightarrow> s \<in> set PRODUCT_SUBCATEGORIES"
proof -
  assume "isValidSubcategory c s"
  then obtain l where "map_of CATEGORY_TO_SUBCATEGORIES c = Some l" and s: "s \<in> set l"
    by (cases "map_of CATEGORY_TO_SUBCATEGORIES c")
      (auto simp: isValidSubcategory_def subcategories_of_def split: if_splits)
  then have "(c, l) \<in> set CATEGORY_TO_SUBCATEGORIES" by (simp add: map_of_SomeD)
  with s show ?thesis using listed_subcategories by (fastforce simp: list_all_iff)
qed

lemma isValidCategory_check: "isValidCategory c \<Longrightarrow> category_check c"
  using categories_checked by (auto simp: isValidCategory_def list_all_iff)

lemma isAllowed_check: "isAllowedProductSubcategory c s \<Longrightarrow> subcategory_check (Some s)"
  using subcategories_not_blank isValidSubcategory_listed [of c s]
  by (auto simp: isAllowedProductSubcategory_def subcategory_check_def sql_subcategories list_all_iff)

lemma getAllowedSubcategories_iff:
  "s \<in> set (getAllowedSubcategories c) \<longleftrightarrow> isValidSubcategory c s"
  by (simp add: getAllowedSubcategories_def isValidSubcategory_def)

text \<open>
  The subcategory validator of a create or update DTO accepts a string exactly when the pair is
  allowed, provided the category of the same DTO is a string.
\<close>

lemma validator_allowed:
  "validate_subcategory_for_category False (JStr c) (JStr s) \<longleftrightarrow> isAllowedProductSubcategory c s"
  by (simp add: validate_subcategory_for_category_def isAllowedProductSubcategory_def)

end
