(* ===== verification/Products.thy ===== *)
theory Products
  imports AuthState Taxonomy Samples
begin

text \<open>
  \<open>src/src/products/products.service.ts\<close>, the operations on single products: creation, reading,
  update, deletion, change of status, and the association of images. A DTO is the record of its
  fields; whether the DTO object owns the property \<open>subcategory\<close> is a field of its own, since the code
  asks for it. Prices are counted in hundredths in the table.
\<close>

section \<open>DTOs\<close>

record create_product_dto =
  cd_category :: string
  cd_subcategory :: "string option"
  cd_name :: string
  cd_description :: string
  cd_price :: rat
  cd_city :: string
  cd_addressText :: string
  cd_details :: "json option"
  cd_imageFileIds :: "rat list option"
  cd_isNegotiable :: "bool option"
  cd_preferredContactMethod :: "string option"

record update_product_dto =
  ud_category :: "string option"
  ud_owns_subcategory :: bool
  ud_subcategory :: "string option"
  ud_name :: "string option"
  ud_description :: "string option"
  ud_price :: "rat option"
  ud_city :: "string option"
  ud_addressText :: "string option"
  ud_details :: "json option"
  ud_imageFileIds :: "rat list option"
  ud_isNegotiable :: "bool option"
  ud_preferredContactMethod :: "string option"

text \<open>
  The validation pipe makes an instance of the DTO class and copies the body's properties to it. With
  the compilation target \<open>es2022\<close> a declared class field is an own property of every instance, so
  \<open>subcategory\<close> is owned whether the body has it or not.
\<close>

definition body_string :: "jobject \<Rightarrow> string \<Rightarrow> string option" where
  "body_string body k = (case obj_get body k of JStr s \<Rightarrow> Some s | _ \<Rightarrow> None)"

definition body_number :: "jobject \<Rightarrow> string \<Rightarrow> rat option" where
  "body_number body k = (case obj_get body k of JNum r \<Rightarrow> Some r | _ \<Rightarrow> None)"

definition body_bool :: "jobject \<Rightarrow> string \<Rightarrow> bool option" where
  "body_bool body k = (case obj_get body k of JBool b \<Rightarrow> Some b | _ \<Rightarrow> None)"

definition body_numbers :: "jobject \<Rightarrow> string \<Rightarrow> rat list option" where
  "body_numbers body k =
     (case obj_get body k of
        JArr vs \<Rightarrow> Some (concat (map (\<lambda>v. case v of JNum r \<Rightarrow> [r] | _ \<Rightarrow> []) vs))
      | _ \<Rightarrow> None)"

definition UpdateProductDto :: "jobject \<Rightarrow> update_product_dto" where
  "UpdateProductDto body =
     \<lparr>ud_category = body_string body ''category'',
      ud_owns_subcategory = True,
      ud_subcategory = body_string body ''subcategory'',
      ud_name = body_string body ''name'',
      ud_description = body_string body ''description'',
      ud_price = body_number body ''price'',
      ud_city = body_string body ''city'',
      ud_addressText = body_string body ''addressText'',
      ud_details = (case obj_get body ''details'' of JObj kvs \<Rightarrow> Some (JObj kvs) | _ \<Rightarrow> None),
      ud_imageFileIds = body_numbers body ''imageFileIds'',
      ud_isNegotiable = body_bool body ''isNegotiable'',
      ud_preferredContactMethod = body_string body ''preferredContactMethod''\<rparr>"

section \<open>Constraints of the table\<close>

definition CONTACT_METHODS :: "string list" where
  "CONTACT_METHODS = [''phone'', ''chat'', ''both'']"

definition product_checks :: "product_row \<Rightarrow> bool" where
  "product_checks p =
     (category_check (p_category p) \<and> subcategory_check (p_subcategory p) \<and> 0 \<le> p_price p \<and>
      p_preferred_contact_method p \<in> set CONTACT_METHODS)"

definition numeric_12_2 :: "rat \<Rightarrow> bool" where
  "numeric_12_2 r = (\<bar>round2 r\<bar> < 10 ^ 12)"

section \<open>Private helpers\<close>

definition assertCategoryPair :: "string \<Rightarrow> string option \<Rightarrow> bool \<Rightarrow> unit svc" where
  "assertCategoryPair category subcategory allowAll =
     andThen (unless (isValidCategory category) (BadRequest ''Invalid category'')) (\<lambda>_.
     case subcategory of
       None \<Rightarrow> ret ()
     | Some s \<Rightarrow>
         andThen (unless (isValidSubcategory category s)
                    (BadRequest ''Invalid subcategory for category'')) (\<lambda>_.
         unless (allowAll \<or> isAllowedProductSubcategory category s)
           (BadRequest ''subcategory cannot be all'')))"

definition hasBlockBetweenUsers :: "int \<Rightarrow> int \<Rightarrow> db \<Rightarrow> bool" where
  "hasBlockBetweenUsers userId otherUserId d =
     list_ex (\<lambda>b. (b_blocker_id b = userId \<and> b_blocked_id b = otherUserId) \<or>
                  (b_blocker_id b = otherUserId \<and> b_blocked_id b = userId)) (user_blocks d)"

definition live_product :: "int \<Rightarrow> db \<Rightarrow> product_row option" where
  "live_product productId d =
     row_where (\<lambda>p. p_id p = productId \<and> p_deleted_at p = None) (products d)"

definition product_object :: "env \<Rightarrow> product_row \<Rightarrow> jobject" where
  "product_object e p =
     [(''id'', int8_parse e (p_id p)), (''owner_id'', int8_parse e (p_owner_id p)),
      (''category'', JStr (p_category p)), (''subcategory'', jopt JStr (p_subcategory p)),
      (''name'', JStr (p_name p)), (''description'', JStr (p_description p)),
      (''price'', JStr (numeric2_text (p_price p))), (''city'', JStr (p_city p)),
      (''address_text'', JStr (p_address_text p)), (''details'', jopt id (p_details p)),
      (''status'', JStr (product_status_text (p_status p))),
      (''is_negotiable'', JBool (p_is_negotiable p)),
      (''preferred_contact_method'', JStr (p_preferred_contact_method p)),
      (''created_at'', JStr (ts_text e (p_created_at p))),
      (''updated_at'', JStr (ts_text e (p_updated_at p)))]"

definition file_by_id :: "int \<Rightarrow> db \<Rightarrow> file_row option" where
  "file_by_id i d = row_where (\<lambda>f. f_id f = i) (files d)"

definition image_object :: "env \<Rightarrow> image_row \<Rightarrow> file_row \<Rightarrow> json" where
  "image_object e i f =
     JObj [(''id'', int8_parse e (i_id i)), (''file_id'', int8_parse e (i_file_id i)),
           (''sort_order'', jint (i_sort_order i)), (''object_key'', JStr (f_object_key f)),
           (''status'', JStr (file_status_text (f_status f)))]"

definition product_image_rows :: "int \<Rightarrow> db \<Rightarrow> (image_row \<times> file_row) list" where
  "product_image_rows productId d =
     concat (map (\<lambda>i. case file_by_id (i_file_id i) d of None \<Rightarrow> [] | Some f \<Rightarrow> [(i, f)])
       (order_asc i_sort_order (filter (\<lambda>i. i_product_id i = productId) (product_images d))))"

definition is_favorite :: "int \<Rightarrow> int \<Rightarrow> db \<Rightarrow> bool" where
  "is_favorite userId productId d =
     list_ex (\<lambda>f. fv_user_id f = userId \<and> fv_product_id f = productId) (user_favorites d)"

definition fetchProductWithImages :: "env \<Rightarrow> int \<Rightarrow> int option \<Rightarrow> jobject option svc" where
  "fetchProductWithImages e productId viewerUserId =
     gets (\<lambda>d. case live_product productId d of
        None \<Rightarrow> None
      | Some p \<Rightarrow>
          Some (spread (product_object e p)
            [(''is_favorite'',
                (case viewerUserId of
                   None \<Rightarrow> JNull
                 | Some v \<Rightarrow> if v = 0 then JNull else JBool (is_favorite v productId d))),
             (''images'', JArr (map (\<lambda>(i, f). image_object e i f) (product_image_rows productId d)))]))"

definition file_ids :: "rat list \<Rightarrow> int list svc" where
  "file_ids ids =
     (if list_all is_integer ids then ret (map floor ids) else throw (PgErr INVALID_TEXT))"

definition checkImageFile :: "env \<Rightarrow> int \<Rightarrow> (int \<Rightarrow> file_row option) \<Rightarrow> int \<Rightarrow> unit svc" where
  "checkImageFile e actorUserId fileMap fileId =
     (case fileMap fileId of
        None \<Rightarrow> throw (BadRequest (''File '' @ int_str fileId @ '' does not exist''))
      | Some file \<Rightarrow>
          andThen (unless (f_purpose file = ProductImage)
             (BadRequest (''File '' @ int_str fileId @ '' must have purpose product_image''))) (\<lambda>_.
          andThen (unless (is_owner e (f_uploader_user_id file) actorUserId)
             (Forbidden (''File '' @ int_str fileId @ '' is not owned by the current user''))) (\<lambda>_.
          unless (f_status file = Uploaded)
             (BadRequest (''File '' @ int_str fileId @ '' must be uploaded before product association'')))))"

text \<open>The rows of one \<open>INSERT ... VALUES\<close>: identifiers in order, the position as \<open>sort_order\<close>.\<close>

fun image_rows :: "int \<Rightarrow> int \<Rightarrow> int \<Rightarrow> int \<Rightarrow> (int \<Rightarrow> file_row option) \<Rightarrow> int list \<Rightarrow> image_row list" where
  "image_rows next now productId k fileMap [] = []"
| "image_rows next now productId k fileMap (i # is) =
     \<lparr>i_id = next + 1, i_product_id = productId, i_file_id = i,
      i_object_key = (case fileMap i of None \<Rightarrow> [] | Some f \<Rightarrow> f_object_key f),
      i_mime_type = None, i_file_size_bytes = None, i_sort_order = k, i_created_at = now\<rparr>
     # image_rows (next + 1) now productId (k + 1) fileMap is"

definition syncProductImages :: "env \<Rightarrow> int \<Rightarrow> int \<Rightarrow> rat list \<Rightarrow> unit svc" where
  "syncProductImages e actorUserId productId imageFileIds =
     andThen (modify (\<lambda>d. d\<lparr>product_images :=
       delete_where (\<lambda>i. i_product_id i = productId) (product_images d)\<rparr>)) (\<lambda>_.
     if imageFileIds = [] then ret ()
     else
       andThen (file_ids imageFileIds) (\<lambda>ids.
       andThen (gets (\<lambda>d i. if i \<in> set ids then file_by_id i d else None)) (\<lambda>fileMap.
       andThen (forEach ids (checkImageFile e actorUserId fileMap)) (\<lambda>_.
       andThen (modify (\<lambda>d. d\<lparr>
         product_images := product_images d @
           image_rows (seqs d T_images) (clock d) productId 0 fileMap ids,
         seqs := (seqs d)(T_images := seqs d T_images + int (length ids))\<rparr>)) (\<lambda>_.
       modify (\<lambda>d. d\<lparr>files := update_where (\<lambda>f. f_id f \<in> set ids)
         (\<lambda>f. f\<lparr>f_owner_type := ''product'', f_owner_id := Some productId, f_updated_at := clock d\<rparr>)
         (files d)\<rparr>))))))"

section \<open>Operations\<close>

definition insert_product :: "int \<Rightarrow> create_product_dto \<Rightarrow> int svc" where
  "insert_product ownerId dto =
     andThen (nextval T_products) (\<lambda>i.
     andThen (unless (numeric_12_2 (cd_price dto)) (PgErr NUMERIC_OUT_OF_RANGE)) (\<lambda>_.
     (\<lambda>d. let p = \<lparr>p_id = i, p_owner_id = ownerId, p_category = js_trim (cd_category dto),
             p_subcategory = map_option js_trim (cd_subcategory dto), p_name = cd_name dto,
             p_description = cd_description dto, p_price = round2 (cd_price dto), p_city = cd_city dto,
             p_address_text = cd_addressText dto, p_details = cd_details dto, p_status = Available,
             p_is_negotiable = (case cd_isNegotiable dto of None \<Rightarrow> False | Some b \<Rightarrow> b),
             p_preferred_contact_method =
               (case cd_preferredContactMethod dto of None \<Rightarrow> ''both'' | Some m \<Rightarrow> m),
             p_created_at = clock d, p_updated_at = clock d, p_deleted_at = None\<rparr>
        in if \<not> product_checks p then (Inl (PgErr CHECK_VIOLATION), d)
           else if \<not> user_exists d ownerId then (Inl (PgErr FK_VIOLATION), d)
           else (Inr i, d\<lparr>products := products d @ [p]\<rparr>))))"

definition product_response :: "jobject option \<Rightarrow> jobject" where
  "product_response p = [(''product'', (case p of None \<Rightarrow> JNull | Some kvs \<Rightarrow> JObj kvs))]"

definition createProduct :: "env \<Rightarrow> int \<Rightarrow> create_product_dto \<Rightarrow> jobject svc" where
  "createProduct e userSub dto = withTransaction (
     andThen (assertCategoryPair (js_trim (cd_category dto)) (map_option js_trim (cd_subcategory dto)) False) (\<lambda>_.
     andThen (insert_product userSub dto) (\<lambda>productId.
     andThen (case cd_imageFileIds dto of
                None \<Rightarrow> ret ()
              | Some ids \<Rightarrow> if length ids > 0 then syncProductImages e userSub productId ids else ret ()) (\<lambda>_.
     andThen (fetchProductWithImages e productId (Some userSub)) (\<lambda>product.
     ret (product_response product))))))"

definition getProductById :: "env \<Rightarrow> int \<Rightarrow> int option \<Rightarrow> jobject svc" where
  "getProductById e productId viewerUserId =
     andThen (fetchProductWithImages e productId viewerUserId) (\<lambda>found.
     case found of
       None \<Rightarrow> throw (NotFound ''Product not found'')
     | Some product \<Rightarrow>
         andThen (case viewerUserId of
                    None \<Rightarrow> ret ()
                  | Some v \<Rightarrow>
                      if v = 0 then ret ()
                      else
                        andThen (bind_bigint (js_Number (obj_get product ''owner_id''))) (\<lambda>owner.
                        andThen (gets (hasBlockBetweenUsers v owner)) (\<lambda>blocked.
                        unless (\<not> blocked) (NotFound ''Product not found'')))) (\<lambda>_.
         ret (product_response (Some product))))"

text \<open>The first statement of every change: the row, locked, and its owner.\<close>

definition ownedProduct :: "env \<Rightarrow> int \<Rightarrow> int \<Rightarrow> product_row svc" where
  "ownedProduct e userSub productId =
     andThen (gets (live_product productId)) (\<lambda>ownership.
     case ownership of
       None \<Rightarrow> throw (NotFound ''Product not found'')
     | Some p \<Rightarrow>
         andThen (unless (is_owner e (Some (p_owner_id p)) userSub) (Forbidden ''Not allowed'')) (\<lambda>_. ret p))"

definition or_old :: "'a option \<Rightarrow> 'a \<Rightarrow> 'a" where
  "or_old new old = (case new of None \<Rightarrow> old | Some v \<Rightarrow> v)"

definition patched :: "update_product_dto \<Rightarrow> int \<Rightarrow> product_row \<Rightarrow> product_row" where
  "patched dto now p =
     p\<lparr>p_category := or_old (map_option js_trim (ud_category dto)) (p_category p),
       p_subcategory := (if ud_owns_subcategory dto then map_option js_trim (ud_subcategory dto)
                         else p_subcategory p),
       p_name := or_old (ud_name dto) (p_name p),
       p_description := or_old (ud_description dto) (p_description p),
       p_price := or_old (map_option round2 (ud_price dto)) (p_price p),
       p_city := or_old (ud_city dto) (p_city p),
       p_address_text := or_old (ud_addressText dto) (p_address_text p),
       p_details := (case ud_details dto of None \<Rightarrow> p_details p | Some v \<Rightarrow> Some v),
       p_is_negotiable := or_old (ud_isNegotiable dto) (p_is_negotiable p),
       p_preferred_contact_method := or_old (ud_preferredContactMethod dto) (p_preferred_contact_method p),
       p_updated_at := now\<rparr>"

definition update_product_row :: "update_product_dto \<Rightarrow> int \<Rightarrow> product_row \<Rightarrow> unit svc" where
  "update_product_row dto productId p =
     andThen (unless (case ud_price dto of None \<Rightarrow> True | Some r \<Rightarrow> numeric_12_2 r)
                (PgErr NUMERIC_OUT_OF_RANGE)) (\<lambda>_.
     andThen (gets clock) (\<lambda>now.
     andThen (unless (product_checks (patched dto now p)) (PgErr CHECK_VIOLATION)) (\<lambda>_.
     modify (\<lambda>d. d\<lparr>products := update_where (\<lambda>p. p_id p = productId) (patched dto now) (products d)\<rparr>))))"

definition updateProduct :: "env \<Rightarrow> int \<Rightarrow> int \<Rightarrow> update_product_dto \<Rightarrow> jobject svc" where
  "updateProduct e userSub productId dto = withTransaction (
     andThen (ownedProduct e userSub productId) (\<lambda>current.
     let nextCategory = or_old (map_option js_trim (ud_category dto)) (p_category current);
         nextSubcategory = (if ud_owns_subcategory dto then map_option js_trim (ud_subcategory dto)
                            else p_subcategory current)
     in
     andThen (assertCategoryPair nextCategory nextSubcategory False) (\<lambda>_.
     andThen (update_product_row dto productId current) (\<lambda>_.
     andThen (case ud_imageFileIds dto of
                None \<Rightarrow> ret ()
              | Some ids \<Rightarrow> syncProductImages e userSub productId ids) (\<lambda>_.
     andThen (fetchProductWithImages e productId (Some userSub)) (\<lambda>product.
     ret (product_response product)))))))"

definition deleteProduct :: "env \<Rightarrow> int \<Rightarrow> int \<Rightarrow> jobject svc" where
  "deleteProduct e userSub productId = withTransaction (
     andThen (ownedProduct e userSub productId) (\<lambda>_.
     andThen (modify (\<lambda>d. d\<lparr>products := update_where (\<lambda>p. p_id p = productId)
       (\<lambda>p. p\<lparr>p_deleted_at := Some (clock d)\<rparr>) (products d)\<rparr>)) (\<lambda>_.
     ret [(''message'', JStr ''Product deleted'')])))"

definition updateProductStatus :: "env \<Rightarrow> int \<Rightarrow> int \<Rightarrow> product_status \<Rightarrow> jobject svc" where
  "updateProductStatus e userSub productId status = withTransaction (
     andThen (ownedProduct e userSub productId) (\<lambda>_.
     andThen (modify (\<lambda>d. d\<lparr>products := update_where (\<lambda>p. p_id p = productId)
       (\<lambda>p. p\<lparr>p_status := status, p_updated_at := clock d\<rparr>) (products d)\<rparr>)) (\<lambda>_.
     andThen (gets (\<lambda>d. row_where (\<lambda>p. p_id p = productId) (products d))) (\<lambda>rows.
     ret [(''product'',
       (case rows of
          None \<Rightarrow> JUndef
        | Some p \<Rightarrow> JObj [(''id'', int8_parse e (p_id p)), (''status'', JStr (product_status_text (p_status p))),
                          (''updated_at'', JStr (ts_text e (p_updated_at p)))]))]))))"

end
