(* ===== verification/Blocks.thy ===== *)
theory Blocks
  imports Helpers Samples
begin

text \<open>
  \<open>src/src/blocks/blocks.service.ts\<close>, and the locale \<open>block_check\<close>: what a block means to the services
  that ask for one. Products, favourites and the chat each have their own query; each theory
  interprets the locale on its copy.
\<close>

section \<open>BlocksService\<close>

definition insert_block :: "int \<Rightarrow> int \<Rightarrow> unit svc" where
  "insert_block blocker blocked =
     (\<lambda>d. if blocker = blocked then (Inl (PgErr CHECK_VIOLATION), d)
          else if list_ex (\<lambda>b. b_blocker_id b = blocker \<and> b_blocked_id b = blocked) (user_blocks d)
          then (Inr (), d)
          else if \<not> user_exists d blocker \<or> \<not> user_exists d blocked then (Inl (PgErr FK_VIOLATION), d)
          else (Inr (), d\<lparr>user_blocks := user_blocks d @
                 [\<lparr>b_blocker_id = blocker, b_blocked_id = blocked, b_created_at = clock d\<rparr>]\<rparr>))"

definition blockUser :: "int \<Rightarrow> int \<Rightarrow> jobject svc" where
  "blockUser userSub blockedUserId =
     andThen (unless (userSub \<noteq> blockedUserId) (BadRequest ''You cannot block yourself'')) (\<lambda>_.
     andThen (gets (\<lambda>d. live_user d blockedUserId)) (\<lambda>target.
     andThen (unless target (NotFound ''User not found'')) (\<lambda>_.
     andThen (insert_block userSub blockedUserId) (\<lambda>_.
     ret [(''message'', JStr ''User blocked'')]))))"

definition unblockUser :: "int \<Rightarrow> int \<Rightarrow> jobject svc" where
  "unblockUser userSub blockedUserId =
     andThen (modify (\<lambda>d. d\<lparr>user_blocks :=
       delete_where (\<lambda>b. b_blocker_id b = userSub \<and> b_blocked_id b = blockedUserId) (user_blocks d)\<rparr>)) (\<lambda>_.
     ret [(''message'', JStr ''User unblocked'')])"

definition listBlockedUsers :: "env \<Rightarrow> int \<Rightarrow> nat \<Rightarrow> nat \<Rightarrow> jobject svc" where
  "listBlockedUsers e userSub limit offset =
     gets (\<lambda>d. [(''users'', JArr (page limit offset (map
       (\<lambda>(b, u). JObj [(''id'', int8_parse e (u_id u)), (''name'', JStr (u_name u)),
                       (''phone'', JStr (u_phone u)), (''blocked_at'', JStr (ts_text e (b_created_at b)))])
       (order_desc (\<lambda>(b, u). b_created_at b)
         (concat (map (\<lambda>b. map (\<lambda>u. (b, u))
             (filter (\<lambda>u. u_id u = b_blocked_id b \<and> u_deleted_at u = None) (users d)))
           (filter (\<lambda>b. b_blocker_id b = userSub) (user_blocks d))))))))])"

section \<open>The check\<close>

definition blocks_pair :: "int \<Rightarrow> int \<Rightarrow> block_row \<Rightarrow> bool" where
  "blocks_pair a b r = (b_blocker_id r = a \<and> b_blocked_id r = b)"

locale block_check =
  fixes has_block :: "int \<Rightarrow> int \<Rightarrow> db \<Rightarrow> bool"
  assumes has_block_iff:
    "has_block a b d \<longleftrightarrow> (\<exists>r \<in> set (user_blocks d). blocks_pair a b r \<or> blocks_pair b a r)"
begin

lemma block_symmetric: "has_block a b d = has_block b a d"
  by (auto simp: has_block_iff)

lemma block_cong: "user_blocks d' = user_blocks d \<Longrightarrow> has_block a b d' = has_block a b d"
  by (simp add: has_block_iff)

lemma after_block:
  assumes "blockUser a b d = (Inr r, d')"
  shows "has_block a b d'" and "has_block b a d'"
proof -
  from assms have "\<exists>r \<in> set (user_blocks d'). blocks_pair a b r"
    by (auto simp: blockUser_def insert_block_def andThen_run unless_run blocks_pair_def list_ex_iff
        split: if_splits)
  then show "has_block a b d'" "has_block b a d'" by (auto simp: has_block_iff)
qed

lemma block_persists:
  assumes "has_block a b d" and "blockUser x y d = (r, d')"
  shows "has_block a b d'"
proof -
  have "set (user_blocks d) \<subseteq> set (user_blocks d')"
    using assms(2) by (auto simp: blockUser_def insert_block_def andThen_run unless_run split: if_splits)
  with assms(1) show ?thesis by (auto simp: has_block_iff)
qed

lemma after_unblock:
  assumes "unblockUser a b d = (r, d')"
  shows "has_block a b d' \<longleftrightarrow> (a \<noteq> b \<and> (\<exists>r \<in> set (user_blocks d). blocks_pair b a r))"
proof -
  have "d' = d\<lparr>user_blocks := delete_where (\<lambda>r. b_blocker_id r = a \<and> b_blocked_id r = b) (user_blocks d)\<rparr>"
    using assms by (simp add: unblockUser_def)
  then show ?thesis by (auto simp: has_block_iff blocks_pair_def)
qed

end

text \<open>No one blocks himself and no pair is stored twice.\<close>

definition blocks_ok :: "db \<Rightarrow> bool" where
  "blocks_ok d \<longleftrightarrow> distinct (map (\<lambda>b. (b_blocker_id b, b_blocked_id b)) (user_blocks d)) \<and>
     (\<forall>b \<in> set (user_blocks d). b_blocker_id b \<noteq> b_blocked_id b)"

lemma insert_block_ok: "keeps blocks_ok (insert_block a b)"
  by (rule keepsI) (auto simp: insert_block_def blocks_ok_def list_ex_iff)

lemma unblockUser_ok: "keeps blocks_ok (unblockUser a b)"
  unfolding unblockUser_def
  by (intro keeps_rules keeps_modify) (simp add: blocks_ok_def distinct_delete_where)

end
