(* ===== verification/ProductProps.thy ===== *)
theory ProductProps
  imports Products Blocks
begin

text \<open>
  The contracts of the operations on a product: only the owner changes it and a failed operation
  changes nothing; every product has a category and a subcategory of that category; the images are
  the given files in the given order; a block hides a product in both directions.
\<close>

interpretation product_blocks: block_check hasBlockBetweenUsers
  by unfold_locales (auto simp: hasBlockBetweenUsers_def blocks_pair_def list_ex_iff)

section \<open>Runs of the parts\<close>

lemma assertCategoryPair_run:
  "assertCategoryPair c s allowAll d =
     (if \<not> isValidCategory c then (Inl (BadRequest ''Invalid category''), d)
      else case s of
             None \<Rightarrow> (Inr (), d)
           | Some t \<Rightarrow>
               if \<not> isValidSubcategory c t then (Inl (BadRequest ''Invalid subcategory for category''), d)
               else if \<not> allowAll \<and> t = ''all'' then (Inl (BadRequest ''subcategory cannot be all''), d)
               else (Inr (), d))"
  by (auto simp: assertCategoryPair_def andThen_run unless_run isAllowedProductSubcategory_def
      split: option.splits)

definition pair_ok :: "string \<Rightarrow> string option \<Rightarrow> bool" where
  "pair_ok c s \<longleftrightarrow> isValidCategory c \<and> (\<forall>t. s = Some t \<longrightarrow> isAllowedProductSubcategory c t)"

lemma assertCategoryPair_Inr: "assertCategoryPair c s False d = (Inr x, d') \<longleftrightarrow> pair_ok c s \<and> d' = d"
  by (auto simp: assertCategoryPair_run pair_ok_def isAllowedProductSubcategory_def
      split: if_splits option.splits)

lemma reads_fetchProduct [simp]: "reads (fetchProductWithImages e i v)"
  by (simp add: fetchProductWithImages_def)

lemma ownedProduct_Inr:
  assumes "ownedProduct e sub pid d = (Inr p, d')"
  shows "d' = d \<and> live_product pid d = Some p \<and> is_owner e (Some (p_owner_id p)) sub"
  using assms by (auto simp: ownedProduct_def andThen_run unless_run split: option.splits if_splits)

lemma live_product_Some:
  "live_product pid d = Some p \<Longrightarrow> p \<in> set (products d) \<and> p_id p = pid \<and> p_deleted_at p = None"
  unfolding live_product_def by (drule row_where_Some) simp

lemma reads_checkImageFile: "reads (checkImageFile e a m i)"
  unfolding checkImageFile_def
  by (cases "m i") (simp_all add: reads_andThen)

text \<open>What a file must be to become an image of a product of this user.\<close>

definition usable_image :: "env \<Rightarrow> int \<Rightarrow> db \<Rightarrow> int \<Rightarrow> bool" where
  "usable_image e actor d i \<longleftrightarrow>
     (\<exists>f. file_by_id i d = Some f \<and> f_purpose f = ProductImage \<and> is_owner e (f_uploader_user_id f) actor \<and>
        f_status f = Uploaded)"

lemma checkImageFile_Inr:
  "(\<exists>v. checkImageFile e a m i d = (Inr v, d)) \<longleftrightarrow>
     (\<exists>f. m i = Some f \<and> f_purpose f = ProductImage \<and> is_owner e (f_uploader_user_id f) a \<and> f_status f = Uploaded)"
  by (auto simp: checkImageFile_def andThen_run unless_run split: option.splits)

text \<open>The image rows of a product, as pairs of file and position.\<close>

definition images_of :: "int \<Rightarrow> db \<Rightarrow> (int \<times> int) list" where
  "images_of pid d = map (\<lambda>i. (i_file_id i, i_sort_order i)) (filter (\<lambda>i. i_product_id i = pid) (product_images d))"

lemma image_rows_products: "\<forall>r \<in> set (image_rows n now pid k m is). i_product_id r = pid"
  by (induction "is" arbitrary: n k) auto

lemma image_rows_pairs:
  "map (\<lambda>i. (i_file_id i, i_sort_order i)) (image_rows n now pid k m is) =
     zip is (map (\<lambda>j. k + int j) [0..<length is])"
proof (induction "is" arbitrary: n k)
  case Nil
  then show ?case by simp
next
  case (Cons i "is")
  have "map (\<lambda>j. k + int j) [0..<Suc (length is)] = k # map (\<lambda>j. (k + 1) + int j) [0..<length is]"
    by (simp add: upt_conv_Cons map_Suc_upt [symmetric] del: upt_Suc)
  with Cons show ?case by simp
qed

lemma syncProductImages_Inr:
  assumes "syncProductImages e a pid ids d = (Inr x, d')"
  shows "list_all is_integer ids \<and> (\<forall>i \<in> set (map floor ids). usable_image e a d i) \<and>
    images_of pid d' = zip (map floor ids) (map int [0..<length ids]) \<and>
    (\<forall>q. q \<noteq> pid \<longrightarrow> images_of q d' = images_of q d) \<and> products d' = products d \<and>
    users d' = users d \<and> clock d' = clock d"
proof -
  define d1 where "d1 = d\<lparr>product_images := delete_where (\<lambda>i. i_product_id i = pid) (product_images d)\<rparr>"
  have del: "filter (\<lambda>i. i_product_id i = q) (product_images d1) =
      (if q = pid then [] else filter (\<lambda>i. i_product_id i = q) (product_images d))" for q
    by (auto simp: d1_def delete_where_def filter_empty_conv intro: filter_cong)
  show ?thesis
  proof (cases "ids = []")
    case True
    with assms have "d' = d1" by (simp add: syncProductImages_def d1_def)
    with True del show ?thesis by (simp add: images_of_def d1_def)
  next
    case False
    let ?is = "map floor ids :: int list"
    let ?m = "\<lambda>i. if i \<in> set ?is then file_by_id i d1 else None"
    from assms False have int: "list_all is_integer ids"
      by (auto simp: syncProductImages_def file_ids_def split: if_splits)
    define rows where "rows = image_rows (seqs d1 T_images) (clock d1) pid 0 ?m ?is"
    from assms False int have "andThen (forEach ?is (checkImageFile e a ?m)) (\<lambda>_.
       andThen (modify (\<lambda>d. d\<lparr>product_images := product_images d @
           image_rows (seqs d T_images) (clock d) pid 0 ?m ?is,
         seqs := (seqs d)(T_images := seqs d T_images + int (length ?is))\<rparr>)) (\<lambda>_.
       modify (\<lambda>d. d\<lparr>files := update_where (\<lambda>f. f_id f \<in> set ?is)
         (\<lambda>f. f\<lparr>f_owner_type := ''product'', f_owner_id := Some pid, f_updated_at := clock d\<rparr>)
         (files d)\<rparr>))) d1 = (Inr x, d')"
      by (simp add: syncProductImages_def file_ids_def flip: d1_def)
    then obtain u d2 where fe: "forEach ?is (checkImageFile e a ?m) d1 = (Inr u, d2)"
      and rest: "andThen (modify (\<lambda>d. d\<lparr>product_images := product_images d @
           image_rows (seqs d T_images) (clock d) pid 0 ?m ?is,
         seqs := (seqs d)(T_images := seqs d T_images + int (length ?is))\<rparr>)) (\<lambda>_.
       modify (\<lambda>d. d\<lparr>files := update_where (\<lambda>f. f_id f \<in> set ?is)
         (\<lambda>f. f\<lparr>f_owner_type := ''product'', f_owner_id := Some pid, f_updated_at := clock d\<rparr>)
         (files d)\<rparr>)) d2 = (Inr x, d')" by (rule andThen_InrE)
    from forEach_Inr [OF fe reads_checkImageFile] have d2: "d2 = d1"
      and ok: "\<forall>i \<in> set ?is. \<exists>v. checkImageFile e a ?m i d1 = (Inr v, d1)" by blast+
    have us: "\<forall>i \<in> set ?is. usable_image e a d i"
    proof
      fix i assume "i \<in> set ?is"
      with ok have "\<exists>f. ?m i = Some f \<and> f_purpose f = ProductImage \<and> is_owner e (f_uploader_user_id f) a \<and>
          f_status f = Uploaded" unfolding checkImageFile_Inr by blast
      then show "usable_image e a d i"
        by (auto simp: usable_image_def d1_def file_by_id_def split: if_splits)
    qed
    have pi: "product_images d' = product_images d1 @ rows" and "products d' = products d"
      "users d' = users d" "clock d' = clock d"
      using rest d2 by (auto simp: rows_def d1_def)
    have own: "\<forall>r \<in> set rows. i_product_id r = pid" unfolding rows_def by (rule image_rows_products)
    have "images_of pid d' = zip ?is (map int [0..<length ids])"
      using pi del own image_rows_pairs [of "seqs d1 T_images" "clock d1" pid 0 ?m ?is]
      by (simp add: images_of_def rows_def filter_True)
    moreover have "images_of q d' = images_of q d" if "q \<noteq> pid" for q
      using pi del own that by (simp add: images_of_def filter_False)
    ultimately show ?thesis using int us \<open>products d' = products d\<close> \<open>users d' = users d\<close> \<open>clock d' = clock d\<close>
      by blast
  qed
qed

section \<open>Sequences\<close>

lemma reads_assertCategoryPair: "reads (assertCategoryPair c s a)"
  unfolding reads_def by (simp add: assertCategoryPair_run split: option.splits)

lemma reads_ownedProduct: "reads (ownedProduct e sub pid)"
  unfolding reads_def by (simp add: ownedProduct_def andThen_run unless_run split: option.splits)

lemma reads_file_ids: "reads (file_ids ids)"
  by (simp add: file_ids_def)

lemmas product_reads = reads_assertCategoryPair [THEN reads_keeps] reads_ownedProduct [THEN reads_keeps]
  reads_file_ids [THEN reads_keeps] reads_fetchProduct [THEN reads_keeps]
  reads_checkImageFile [THEN reads_keeps]

lemma seqs_sync: "keeps (\<lambda>d. n \<le> seqs d) (syncProductImages e a pid ids)"
  unfolding syncProductImages_def
  by (intro keeps_rules product_reads keeps_modify)
    (auto simp: le_fun_def intro: order_trans)

lemma seqs_insert_product: "keeps (\<lambda>d. n \<le> seqs d) (insert_product ow dto)"
  unfolding insert_product_def
  by (intro keeps_rules) (simp add: keeps_def Let_def)

lemma seqs_update_row: "keeps (\<lambda>d. n \<le> seqs d) (update_product_row dto pid p)"
  unfolding update_product_row_def by (intro keeps_rules keeps_modify) simp

section \<open>A failed operation changes no table\<close>

definition same_catalog :: "db \<Rightarrow> db \<Rightarrow> bool" where
  "same_catalog d d' \<longleftrightarrow> products d' = products d \<and> product_images d' = product_images d \<and>
     files d' = files d \<and> seqs d \<le> seqs d'"

lemma failed_transaction:
  assumes "withTransaction m d = (Inl x, d')" and "\<And>n. keeps (\<lambda>d. n \<le> seqs d) m"
  shows "same_catalog d d'"
proof -
  obtain d2 where m: "m d = (Inl x, d2)" and d': "d' = rollback d d2"
    using assms(1) by (rule withTransaction_InlE)
  have "advances m" using assms(2) by (simp add: advances_def)
  from advances_le [OF this m] d' show ?thesis by (simp add: same_catalog_def)
qed

section \<open>The catalogue\<close>

definition catalog_ok :: "db \<Rightarrow> bool" where
  "catalog_ok d \<longleftrightarrow> ids_ok p_id (products d) (seqs d T_products) \<and>
     (\<forall>p \<in> set (products d). pair_ok (p_category p) (p_subcategory p) \<and> product_checks p)"

lemma catalog_ok_same: "catalog_ok d \<Longrightarrow> same_catalog d d' \<Longrightarrow> catalog_ok d'"
  unfolding catalog_ok_def same_catalog_def le_fun_def by (metis ids_ok_mono)

lemma createProduct_Inr:
  assumes "createProduct e sub dto d = (Inr res, d')"
  shows "\<exists>p. products d' = products d @ [p] \<and> p_id p = seqs d T_products + 1 \<and> p_owner_id p = sub \<and>
    p_category p = js_trim (cd_category dto) \<and> p_subcategory p = map_option js_trim (cd_subcategory dto) \<and>
    p_deleted_at p = None \<and> p_status p = Available \<and> pair_ok (p_category p) (p_subcategory p) \<and>
    product_checks p \<and> seqs d T_products + 1 \<le> seqs d' T_products"
proof -
  from assms have a: "andThen (assertCategoryPair (js_trim (cd_category dto)) (map_option js_trim (cd_subcategory dto)) False) (\<lambda>_.
     andThen (insert_product sub dto) (\<lambda>productId.
     andThen (case cd_imageFileIds dto of
                None \<Rightarrow> ret ()
              | Some ids \<Rightarrow> if length ids > 0 then syncProductImages e sub productId ids else ret ()) (\<lambda>_.
     andThen (fetchProductWithImages e productId (Some sub)) (\<lambda>product.
     ret (product_response product))))) d = (Inr res, d')"
    by (simp add: createProduct_def withTransaction_Inr)
  then obtain d0 i d1 x d2 y d3 where
    p: "assertCategoryPair (js_trim (cd_category dto)) (map_option js_trim (cd_subcategory dto)) False d = (Inr (), d0)" and
    ins: "insert_product sub dto d0 = (Inr i, d1)" and
    img: "(case cd_imageFileIds dto of
                None \<Rightarrow> ret ()
              | Some ids \<Rightarrow> if length ids > 0 then syncProductImages e sub i ids else ret ()) d1 = (Inr x, d2)" and
    f: "fetchProductWithImages e i (Some sub) d2 = (Inr y, d3)" and d3: "d' = d3"
    by (auto elim!: andThen_InrE)
  have d0: "d0 = d" "pair_ok (js_trim (cd_category dto)) (map_option js_trim (cd_subcategory dto))"
    using p by (simp_all add: assertCategoryPair_Inr)
  have d2: "d' = d2" using readsD [OF reads_fetchProduct f] d3 by simp
  have ps: "products d2 = products d1"
    using img by (auto split: option.splits if_splits dest: syncProductImages_Inr)
  have kk: "keeps (\<lambda>d. n \<le> seqs d) (case cd_imageFileIds dto of None \<Rightarrow> ret ()
              | Some ids \<Rightarrow> if length ids > 0 then syncProductImages e sub i ids else ret ())" for n
    by (intro keeps_rules seqs_sync)
  have "seqs d1 \<le> seqs d2" using keepsD [OF kk _ img] by blast
  then have "seqs d1 T_products \<le> seqs d' T_products" using d2 by (simp add: le_fun_def)
  moreover have "seqs d1 T_products = seqs d T_products + 1"
    using ins d0(1) by (auto simp: insert_product_def andThen_run unless_run Let_def split: if_splits)
  ultimately show ?thesis
    using ins d0 d2 ps
    by (auto simp: insert_product_def andThen_run unless_run Let_def split: if_splits)
qed

lemma updateProduct_Inr:
  assumes "updateProduct e sub pid dto d = (Inr res, d')"
  shows "\<exists>p. live_product pid d = Some p \<and> is_owner e (Some (p_owner_id p)) sub \<and>
    pair_ok (p_category (patched dto (clock d) p)) (p_subcategory (patched dto (clock d) p)) \<and>
    product_checks (patched dto (clock d) p) \<and>
    products d' = update_where (\<lambda>q. p_id q = pid) (patched dto (clock d)) (products d) \<and>
    (case ud_imageFileIds dto of
       None \<Rightarrow> product_images d' = product_images d
     | Some ids \<Rightarrow> (\<forall>i \<in> set (map floor ids). usable_image e sub d i) \<and>
         images_of pid d' = zip (map floor ids) (map int [0..<length ids])) \<and>
    (\<forall>q. q \<noteq> pid \<longrightarrow> images_of q d' = images_of q d)"
proof -
  from assms obtain p d0 where ow: "ownedProduct e sub pid d = (Inr p, d0)" and
    r: "andThen (assertCategoryPair (or_old (map_option js_trim (ud_category dto)) (p_category p))
        (if ud_owns_subcategory dto then map_option js_trim (ud_subcategory dto) else p_subcategory p) False) (\<lambda>_.
     andThen (update_product_row dto pid p) (\<lambda>_.
     andThen (case ud_imageFileIds dto of
                None \<Rightarrow> ret ()
              | Some ids \<Rightarrow> syncProductImages e sub pid ids) (\<lambda>_.
     andThen (fetchProductWithImages e pid (Some sub)) (\<lambda>product.
     ret (product_response product))))) d0 = (Inr res, d')"
    unfolding updateProduct_def withTransaction_Inr Let_def by (rule andThen_InrE)
  note own = ownedProduct_Inr [OF ow]
  from r obtain d1 d2 x d3 y where
    a: "assertCategoryPair (or_old (map_option js_trim (ud_category dto)) (p_category p))
        (if ud_owns_subcategory dto then map_option js_trim (ud_subcategory dto) else p_subcategory p) False d0
        = (Inr (), d1)" and
    u: "update_product_row dto pid p d1 = (Inr (), d2)" and
    img: "(case ud_imageFileIds dto of None \<Rightarrow> ret ()
            | Some ids \<Rightarrow> syncProductImages e sub pid ids) d2 = (Inr x, d3)" and
    f: "fetchProductWithImages e pid (Some sub) d3 = (Inr y, d')"
    by (auto elim!: andThen_InrE)
  have d1: "d1 = d" and pr: "pair_ok (p_category (patched dto (clock d) p)) (p_subcategory (patched dto (clock d) p))"
    using a own by (simp_all add: assertCategoryPair_Inr patched_def)
  have d2: "product_checks (patched dto (clock d) p)"
    "d2 = d\<lparr>products := update_where (\<lambda>q. p_id q = pid) (patched dto (clock d)) (products d)\<rparr>"
    using u d1 by (auto simp: update_product_row_def andThen_run unless_run split: if_splits)
  have d3: "d' = d3" using readsD [OF reads_fetchProduct f] by simp
  show ?thesis
  proof (cases "ud_imageFileIds dto")
    case None
    with own pr d2 img d3 show ?thesis by (auto simp: images_of_def)
  next
    case (Some ids)
    with img have "syncProductImages e sub pid ids d2 = (Inr x, d3)" by simp
    from syncProductImages_Inr [OF this] Some own pr d2 d3 show ?thesis
      by (auto simp: images_of_def usable_image_def file_by_id_def)
  qed
qed

lemma seqs_createProduct: "keeps (\<lambda>d. n \<le> seqs d)
   (andThen (assertCategoryPair (js_trim (cd_category dto)) (map_option js_trim (cd_subcategory dto)) False) (\<lambda>_.
     andThen (insert_product sub dto) (\<lambda>productId.
     andThen (case cd_imageFileIds dto of
                None \<Rightarrow> ret ()
              | Some ids \<Rightarrow> if length ids > 0 then syncProductImages e sub productId ids else ret ()) (\<lambda>_.
     andThen (fetchProductWithImages e productId (Some sub)) (\<lambda>product.
     ret (product_response product))))))"
  by (intro keeps_rules product_reads seqs_insert_product seqs_sync)

lemma createProduct_Inl: "createProduct e sub dto d = (Inl x, d') \<Longrightarrow> same_catalog d d'"
  unfolding createProduct_def by (rule failed_transaction [OF _ seqs_createProduct])

lemma updateProduct_Inl: "updateProduct e sub pid dto d = (Inl x, d') \<Longrightarrow> same_catalog d d'"
  unfolding updateProduct_def Let_def
  by (erule failed_transaction) (intro keeps_rules product_reads seqs_update_row seqs_sync)

lemma deleteProduct_Inl: "deleteProduct e sub pid d = (Inl x, d') \<Longrightarrow> same_catalog d d'"
  unfolding deleteProduct_def
  by (erule failed_transaction) (intro keeps_rules product_reads keeps_modify, simp)

lemma updateProductStatus_Inl: "updateProductStatus e sub pid st d = (Inl x, d') \<Longrightarrow> same_catalog d d'"
  unfolding updateProductStatus_def
  by (erule failed_transaction) (intro keeps_rules product_reads keeps_modify, simp)

lemma deleteProduct_Inr:
  assumes "deleteProduct e sub pid d = (Inr res, d')"
  shows "(\<exists>p. live_product pid d = Some p \<and> is_owner e (Some (p_owner_id p)) sub) \<and>
    d' = d\<lparr>products := update_where (\<lambda>p. p_id p = pid) (\<lambda>p. p\<lparr>p_deleted_at := Some (clock d)\<rparr>) (products d)\<rparr>"
proof -
  from assms obtain p d0 where ow: "ownedProduct e sub pid d = (Inr p, d0)" and
    r: "andThen (modify (\<lambda>d. d\<lparr>products := update_where (\<lambda>p. p_id p = pid)
       (\<lambda>p. p\<lparr>p_deleted_at := Some (clock d)\<rparr>) (products d)\<rparr>)) (\<lambda>_.
     ret [(''message'', JStr ''Product deleted'')]) d0 = (Inr res, d')"
    unfolding deleteProduct_def withTransaction_Inr by (rule andThen_InrE)
  with ownedProduct_Inr [OF ow] show ?thesis by auto
qed

lemma updateProductStatus_Inr:
  assumes "updateProductStatus e sub pid st d = (Inr res, d')"
  shows "(\<exists>p. live_product pid d = Some p \<and> is_owner e (Some (p_owner_id p)) sub) \<and>
    d' = d\<lparr>products := update_where (\<lambda>p. p_id p = pid)
      (\<lambda>p. p\<lparr>p_status := st, p_updated_at := clock d\<rparr>) (products d)\<rparr>"
proof -
  from assms obtain p d0 where ow: "ownedProduct e sub pid d = (Inr p, d0)" and
    r: "andThen (modify (\<lambda>d. d\<lparr>products := update_where (\<lambda>p. p_id p = pid)
       (\<lambda>p. p\<lparr>p_status := st, p_updated_at := clock d\<rparr>) (products d)\<rparr>)) (\<lambda>_.
     andThen (gets (\<lambda>d. row_where (\<lambda>p. p_id p = pid) (products d))) (\<lambda>rows.
     ret [(''product'',
       (case rows of
          None \<Rightarrow> JUndef
        | Some p \<Rightarrow> JObj [(''id'', int8_parse e (p_id p)), (''status'', JStr (product_status_text (p_status p))),
                          (''updated_at'', JStr (ts_text e (p_updated_at p)))]))])) d0 = (Inr res, d')"
    unfolding updateProductStatus_def withTransaction_Inr by (rule andThen_InrE)
  with ownedProduct_Inr [OF ow] show ?thesis by auto
qed

text \<open>A change of the rows of one product that keeps what the catalogue promises of them.\<close>

lemma catalog_ok_change:
  assumes "catalog_ok d" and "live_product pid d = Some p"
    and "products d' = update_where (\<lambda>q. p_id q = pid) f (products d)" and "seqs d \<le> seqs d'"
    and "\<And>q. p_id (f q) = p_id q" and "pair_ok (p_category (f p)) (p_subcategory (f p))"
    and "product_checks (f p)"
  shows "catalog_ok d'"
proof -
  have ids: "ids_ok p_id (products d) (seqs d T_products)" using assms(1) by (simp add: catalog_ok_def)
  have only: "q = p" if "q \<in> set (products d)" "p_id q = pid" for q
    using ids_ok_row [OF ids that(1)] ids_ok_row [OF ids, of p] live_product_Some [OF assms(2)] that(2)
    by simp
  have "ids_ok p_id (products d') (seqs d' T_products)"
    unfolding assms(3) using assms(4) by (intro ids_ok_mono [OF ids_ok_update [OF ids assms(5)]]) (simp add: le_fun_def)
  moreover have "pair_ok (p_category q) (p_subcategory q) \<and> product_checks q" if "q \<in> set (products d')" for q
    using that assms(1,6,7) only unfolding assms(3) set_update_where catalog_ok_def by auto
  ultimately show ?thesis by (simp add: catalog_ok_def)
qed

lemma seqs_of_update:
  assumes "updateProduct e sub pid dto d = (Inr res, d')"
  shows "seqs d \<le> seqs d'"
proof -
  have "keeps (\<lambda>x. seqs d \<le> seqs x) (andThen (ownedProduct e sub pid) (\<lambda>current.
     let nextCategory = or_old (map_option js_trim (ud_category dto)) (p_category current);
         nextSubcategory = (if ud_owns_subcategory dto then map_option js_trim (ud_subcategory dto)
                            else p_subcategory current)
     in
     andThen (assertCategoryPair nextCategory nextSubcategory False) (\<lambda>_.
     andThen (update_product_row dto pid current) (\<lambda>_.
     andThen (case ud_imageFileIds dto of
                None \<Rightarrow> ret ()
              | Some ids \<Rightarrow> syncProductImages e sub pid ids) (\<lambda>_.
     andThen (fetchProductWithImages e pid (Some sub)) (\<lambda>product.
     ret (product_response product))))))) "
    unfolding Let_def by (intro keeps_rules product_reads seqs_update_row seqs_sync)
  from keepsD [OF this _ assms [unfolded updateProduct_def withTransaction_Inr]] show ?thesis by simp
qed

text \<open>The operations on single products, as steps.\<close>

inductive product_step :: "env \<Rightarrow> db \<Rightarrow> db \<Rightarrow> bool" for e where
  ps_create: "createProduct e sub cdto d = (r, d') \<Longrightarrow> product_step e d d'"
| ps_update: "updateProduct e sub pid udto d = (r, d') \<Longrightarrow> product_step e d d'"
| ps_delete: "deleteProduct e sub pid d = (r, d') \<Longrightarrow> product_step e d d'"
| ps_status: "updateProductStatus e sub pid st d = (r, d') \<Longrightarrow> product_step e d d'"
| ps_time: "product_step e d (d\<lparr>clock := t\<rparr>)"

lemma catalog_ok_create:
  assumes ok: "catalog_ok d" and "createProduct e sub dto d = (r, d')"
  shows "catalog_ok d'"
proof (cases r)
  case (Inl x)
  with assms catalog_ok_same createProduct_Inl show ?thesis by blast
next
  case (Inr res)
  with assms(2) createProduct_Inr obtain p where p: "products d' = products d @ [p]"
    "p_id p = seqs d T_products + 1" "pair_ok (p_category p) (p_subcategory p)" "product_checks p"
    "seqs d T_products + 1 \<le> seqs d' T_products" by blast
  with ok show ?thesis
    using ids_ok_mono [OF ids_ok_append [of p_id "products d" "seqs d T_products" p] p(5)]
    by (auto simp: catalog_ok_def)
qed

lemma catalog_ok_update:
  assumes ok: "catalog_ok d" and "updateProduct e sub pid dto d = (r, d')"
  shows "catalog_ok d'"
proof (cases r)
  case (Inl x)
  with assms catalog_ok_same updateProduct_Inl show ?thesis by blast
next
  case (Inr res)
  with assms(2) updateProduct_Inr obtain p where p: "live_product pid d = Some p"
    "pair_ok (p_category (patched dto (clock d) p)) (p_subcategory (patched dto (clock d) p))"
    "product_checks (patched dto (clock d) p)"
    "products d' = update_where (\<lambda>q. p_id q = pid) (patched dto (clock d)) (products d)" by blast
  show ?thesis
    using ok p(1,4) seqs_of_update assms(2) Inr p(2,3)
    by (intro catalog_ok_change [OF ok p(1,4)]) (auto simp: patched_def)
qed

lemma catalog_ok_row_change:
  assumes ok: "catalog_ok d" and "live_product pid d = Some p"
    and "d' = d\<lparr>products := update_where (\<lambda>q. p_id q = pid) f (products d)\<rparr>"
    and "\<And>q. p_id (f q) = p_id q" and "\<And>q. p_category (f q) = p_category q"
    and "\<And>q. p_subcategory (f q) = p_subcategory q" and "\<And>q. product_checks (f q) = product_checks q"
  shows "catalog_ok d'"
proof -
  have "p \<in> set (products d)" using assms(2) live_product_Some by blast
  with ok have "pair_ok (p_category p) (p_subcategory p)" "product_checks p" by (simp_all add: catalog_ok_def)
  with assms(3-7) show ?thesis by (intro catalog_ok_change [OF ok assms(2), where f = f]) simp_all
qed

lemma catalog_ok_delete:
  assumes "catalog_ok d" and "deleteProduct e sub pid d = (r, d')"
  shows "catalog_ok d'"
proof (cases r)
  case (Inl x)
  with assms show ?thesis using deleteProduct_Inl catalog_ok_same by blast
next
  case (Inr res)
  with assms(2) deleteProduct_Inr obtain p where lp: "live_product pid d = Some p" and
    eq: "d' = d\<lparr>products := update_where (\<lambda>p. p_id p = pid) (\<lambda>p. p\<lparr>p_deleted_at := Some (clock d)\<rparr>) (products d)\<rparr>"
    by blast
  show ?thesis
    by (rule catalog_ok_row_change [OF _ lp eq]) (use assms(1) in \<open>simp_all add: product_checks_def\<close>)
qed

lemma catalog_ok_status:
  assumes "catalog_ok d" and "updateProductStatus e sub pid st d = (r, d')"
  shows "catalog_ok d'"
proof (cases r)
  case (Inl x)
  with assms show ?thesis using updateProductStatus_Inl catalog_ok_same by blast
next
  case (Inr res)
  with assms(2) updateProductStatus_Inr obtain p where lp: "live_product pid d = Some p" and
    eq: "d' = d\<lparr>products := update_where (\<lambda>p. p_id p = pid)
       (\<lambda>p. p\<lparr>p_status := st, p_updated_at := clock d\<rparr>) (products d)\<rparr>" by blast
  show ?thesis
    by (rule catalog_ok_row_change [OF _ lp eq]) (use assms(1) in \<open>simp_all add: product_checks_def\<close>)
qed

text \<open>
  Every product always has a category of the taxonomy and either no subcategory or one of that
  category other than "all", a non-negative price and a known contact method, and product identifiers
  stay unique, through any sequence of creations, updates, deletions and status changes by any users,
  failed ones included.
\<close>

theorem catalog_invariant:
  assumes "catalog_ok d" and "rtranclp (product_step e) d d'"
  shows "catalog_ok d'"
  using assms(2,1)
proof (induction rule: rtranclp_induct)
  case (step d1 d2)
  from step.hyps(2) show ?case
  proof cases
    case (ps_create sub dto r)
    with step show ?thesis using catalog_ok_create by blast
  next
    case (ps_update sub pid dto r)
    with step show ?thesis using catalog_ok_update by blast
  next
    case (ps_delete sub pid r)
    with step show ?thesis using catalog_ok_delete by blast
  next
    case (ps_status sub pid st r)
    with step show ?thesis using catalog_ok_status by blast
  next
    case (ps_time t)
    with step show ?thesis by (simp add: catalog_ok_def)
  qed
qed

theorem catalog_invariant_witness:
  "catalog_ok (snd (updateProductStatus sample_env 1 1 Sold sample_db))"
proof (rule catalog_invariant [where e = sample_env and d = sample_db])
  show "catalog_ok sample_db"
    by (simp add: catalog_ok_def ids_ok_def pair_ok_def isAllowedProductSubcategory_def isValidSubcategory_def
        isValidCategory_def subcategories_of_def CATEGORY_TO_SUBCATEGORIES_def PRODUCT_CATEGORIES_def
        product_checks_def category_check_def subcategory_check_def SQL_CATEGORIES_def
        SQL_SUBCATEGORIES_def btrim_empty_def CONTACT_METHODS_def samples)
  show "rtranclp (product_step sample_env) sample_db (snd (updateProductStatus sample_env 1 1 Sold sample_db))"
    by (rule r_into_rtranclp) (rule ps_status [OF prod.collapse [symmetric]])
qed

section \<open>Ownership\<close>

text \<open>A request of a user for a change of one product.\<close>

datatype product_change = Patch update_product_dto | SoftDelete | SetStatus product_status

definition changeProduct :: "env \<Rightarrow> int \<Rightarrow> int \<Rightarrow> product_change \<Rightarrow> jobject svc" where
  "changeProduct e sub pid c =
     (case c of
        Patch dto \<Rightarrow> updateProduct e sub pid dto
      | SoftDelete \<Rightarrow> deleteProduct e sub pid
      | SetStatus st \<Rightarrow> updateProductStatus e sub pid st)"

lemma changeProduct_Inl: "changeProduct e sub pid c d = (Inl x, d') \<Longrightarrow> same_catalog d d'"
  by (cases c) (auto simp: changeProduct_def dest: updateProduct_Inl deleteProduct_Inl updateProductStatus_Inl)

lemma changeProduct_Inr:
  assumes "changeProduct e sub pid c d = (Inr res, d')"
  shows "\<exists>p f. live_product pid d = Some p \<and> is_owner e (Some (p_owner_id p)) sub \<and>
    products d' = update_where (\<lambda>q. p_id q = pid) f (products d) \<and>
    (\<forall>q. p_id (f q) = p_id q \<and> p_owner_id (f q) = p_owner_id q)"
proof (cases c)
  case (Patch dto)
  with assms updateProduct_Inr [of e sub pid dto d res d'] show ?thesis
    by (auto simp: changeProduct_def intro!: exI [of _ "patched dto (clock d)"]) (simp_all add: patched_def)
next
  case SoftDelete
  with assms deleteProduct_Inr [of e sub pid d res d'] show ?thesis
    by (auto simp: changeProduct_def intro!: exI [of _ "\<lambda>p. p\<lparr>p_deleted_at := Some (clock d)\<rparr>"])
next
  case (SetStatus st)
  with assms updateProductStatus_Inr [of e sub pid st d res d'] show ?thesis
    by (auto simp: changeProduct_def intro!: exI [of _ "\<lambda>p. p\<lparr>p_status := st, p_updated_at := clock d\<rparr>"])
qed

text \<open>
  C16. Only its owner changes a product: an update, deletion or change of status succeeds only for a
  product that exists, is not deleted and belongs to the user, leaves every other product as it was
  and the owner unchanged; in all other cases it fails and no product, image or file changes.
\<close>

theorem product_owner_only:
  assumes "int8_ok e" and "\<forall>p \<in> set (products d). 0 < p_owner_id p"
    and "changeProduct e sub pid c d = (r, d')"
  shows "case r of
      Inl _ \<Rightarrow> products d' = products d \<and> product_images d' = product_images d \<and> files d' = files d
    | Inr _ \<Rightarrow> (\<exists>p. live_product pid d = Some p \<and> p_owner_id p = sub) \<and>
        map p_id (products d') = map p_id (products d) \<and>
        map p_owner_id (products d') = map p_owner_id (products d) \<and>
        (\<forall>p \<in> set (products d). p_id p \<noteq> pid \<longrightarrow> p \<in> set (products d'))"
proof (cases r)
  case (Inl x)
  with assms(3) changeProduct_Inl [of e sub pid c d x d'] show ?thesis by (simp add: same_catalog_def)
next
  case (Inr res)
  with assms(3) changeProduct_Inr obtain p f where p: "live_product pid d = Some p"
    "is_owner e (Some (p_owner_id p)) sub" and ps: "products d' = update_where (\<lambda>q. p_id q = pid) f (products d)"
    and f: "\<forall>q. p_id (f q) = p_id q \<and> p_owner_id (f q) = p_owner_id q" by blast
  have "0 < p_owner_id p" using live_product_Some [OF p(1)] assms(2) by blast
  with p(2) assms(1) have "p_owner_id p = sub" using is_owner_iff [of e "Some (p_owner_id p)"] by simp
  moreover have "map p_id (products d') = map p_id (products d)"
    "map p_owner_id (products d') = map p_owner_id (products d)"
    unfolding ps using f by (simp_all add: map_update_where)
  moreover have "\<forall>q \<in> set (products d). p_id q \<noteq> pid \<longrightarrow> q \<in> set (products d')"
    unfolding ps set_update_where by force
  ultimately show ?thesis using Inr p(1) by simp
qed

theorem product_owner_only_witness:
  "case changeProduct sample_env 2 1 SoftDelete sample_db of (r, d') \<Rightarrow>
     (case r of
        Inl _ \<Rightarrow> products d' = products sample_db \<and> product_images d' = product_images sample_db \<and>
          files d' = files sample_db
      | Inr _ \<Rightarrow> (\<exists>p. live_product 1 sample_db = Some p \<and> p_owner_id p = 2) \<and>
          map p_id (products d') = map p_id (products sample_db) \<and>
          map p_owner_id (products d') = map p_owner_id (products sample_db) \<and>
          (\<forall>p \<in> set (products sample_db). p_id p \<noteq> 1 \<longrightarrow> p \<in> set (products d')))"
proof -
  obtain r d' where c: "changeProduct sample_env 2 1 SoftDelete sample_db = (r, d')" by fastforce
  have "\<forall>p \<in> set (products sample_db). 0 < p_owner_id p" by (simp add: samples)
  from product_owner_only [OF sample_int8_ok this c] c show ?thesis by simp
qed

section \<open>Images\<close>

text \<open>
  A successful update with a list of files makes the images of the product exactly that list, in
  its order and with positions counted from zero; every file is an uploaded product image uploaded by
  the owner himself; the images of other products are untouched.
\<close>

theorem update_images_exact:
  assumes "updateProduct e sub pid dto d = (Inr res, d')" and "ud_imageFileIds dto = Some ids"
  shows "images_of pid d' = zip (map floor ids) (map int [0..<length ids]) \<and>
    (\<forall>i \<in> set (map floor ids). usable_image e sub d i) \<and>
    (\<forall>q. q \<noteq> pid \<longrightarrow> images_of q d' = images_of q d)"
  using updateProduct_Inr [OF assms(1)] assms(2) by auto

definition empty_patch :: update_product_dto where
  "empty_patch =
     \<lparr>ud_category = None, ud_owns_subcategory = False, ud_subcategory = None, ud_name = None,
      ud_description = None, ud_price = None, ud_city = None, ud_addressText = None, ud_details = None,
      ud_imageFileIds = None, ud_isNegotiable = None, ud_preferredContactMethod = None\<rparr>"

definition sample_file :: file_row where
  "sample_file =
     \<lparr>f_id = 7, f_uploader_user_id = Some 1, f_owner_type = ''user'', f_owner_id = None,
      f_purpose = ProductImage, f_storage_provider = ''cloudinary'', f_bucket = None, f_object_key = ''k'',
      f_original_filename = None, f_mime_type = None, f_file_size_bytes = None, f_checksum_sha256 = None,
      f_status = Uploaded, f_uploaded_at = Some 0, f_failed_at = None, f_deleted_at = None,
      f_created_at = 0, f_updated_at = 0\<rparr>"

lemma sample_pair: "isValidCategory ''realEstate''" "isValidSubcategory ''realEstate'' ''apartmentForSale''"
  "category_check ''realEstate''" "subcategory_check (Some ''apartmentForSale'')" "subcategory_check None"
  by (simp_all add: isValidSubcategory_def isValidCategory_def subcategories_of_def
      CATEGORY_TO_SUBCATEGORIES_def PRODUCT_CATEGORIES_def category_check_def subcategory_check_def
      SQL_CATEGORIES_def SQL_SUBCATEGORIES_def btrim_empty_def)

lemma sample_owner: "is_owner sample_env (Some 1) 1"
  by (subst is_owner_iff) simp_all

lemmas product_eval = updateProduct_def withTransaction_def ownedProduct_def live_product_def andThen_run
  unless_run assertCategoryPair_run update_product_row_def patched_def or_old_def product_checks_def
  CONTACT_METHODS_def update_where_def sample_pair sample_owner fetchProductWithImages_def Let_def

theorem update_images_exact_witness:
  "\<exists>res d'. updateProduct sample_env 1 1 (empty_patch\<lparr>ud_imageFileIds := Some [7]\<rparr>)
       (sample_db\<lparr>files := [sample_file]\<rparr>) = (Inr res, d') \<and> images_of 1 d' = [(7, 0)]"
proof -
  obtain res d' where u: "updateProduct sample_env 1 1 (empty_patch\<lparr>ud_imageFileIds := Some [7]\<rparr>)
       (sample_db\<lparr>files := [sample_file]\<rparr>) = (Inr res, d')"
    using is_integer_of_int [of 7]
    by (simp add: product_eval empty_patch_def sample_db_def sample_product_def empty_db_def
        syncProductImages_def file_ids_def checkImageFile_def file_by_id_def sample_file_def)
  from update_images_exact [OF u, of "[7]"] u show ?thesis by (simp add: empty_patch_def)
qed

section \<open>A partial update\<close>

text \<open>
  A partial update without a subcategory clears it: when the body does not mention
  \<open>subcategory\<close> and the update succeeds, the product is left without one, whatever it had before.
\<close>

theorem patch_clears_subcategory:
  assumes "\<not> has_own body ''subcategory''"
    and "updateProduct e sub pid (UpdateProductDto body) d = (Inr res, d')"
    and "p \<in> set (products d')" and "p_id p = pid"
  shows "p_subcategory p = None"
proof -
  have none: "obj_get body ''subcategory'' = JUndef"
    using assms(1) map_of_eq_None_iff [of body "''subcategory''"] by (simp add: has_own_def obj_get_def)
  let ?f = "patched (UpdateProductDto body) (clock d)"
  have "products d' = update_where (\<lambda>q. p_id q = pid) ?f (products d)"
    using updateProduct_Inr [OF assms(2)] by blast
  then obtain q where "p = (if p_id q = pid then ?f q else q)"
    using assms(3) by (auto simp only: set_update_where)
  with assms(4) show ?thesis
    by (simp add: patched_def UpdateProductDto_def body_string_def none split: if_splits)
qed

theorem patch_clears_subcategory_witness:
  "p_subcategory sample_product = Some ''apartmentForSale'' \<and>
   map p_subcategory (products (snd (updateProduct sample_env 1 1
      (UpdateProductDto [(''name'', JStr ''Big flat'')]) sample_db))) = [None]"
proof -
  obtain res d' where u: "updateProduct sample_env 1 1 (UpdateProductDto [(''name'', JStr ''Big flat'')]) sample_db =
      (Inr res, d')" and m: "map p_id (products d') = [1]"
    by (simp add: product_eval UpdateProductDto_def body_string_def body_number_def body_bool_def
        body_numbers_def sample_db_def sample_product_def empty_db_def)
  have "p_subcategory p = None" if "p \<in> set (products d')" for p
  proof (rule patch_clears_subcategory [OF _ u that])
    have "p_id p \<in> set (map p_id (products d'))" using that by simp
    then show "p_id p = 1" using m by simp
  qed simp
  moreover obtain q where "products d' = [q]" using m by (cases "products d'") auto
  ultimately show ?thesis using u by (simp add: sample_product_def)
qed

section \<open>Reading a product\<close>

text \<open>
  A block hides a product in both directions: to a viewer who blocked the owner or was blocked by
  him, an existing product answers exactly as a missing one; to a viewer with no block, and to an
  anonymous one, every product that is not deleted is shown.
\<close>

theorem product_visibility:
  assumes "int8_ok e" and "\<forall>p \<in> set (products d). 0 < p_owner_id p" and "v \<noteq> 0"
  shows "fst (getProductById e pid (Some v) d) =
      (case live_product pid d of
         None \<Rightarrow> Inl (NotFound ''Product not found'')
       | Some p \<Rightarrow>
           if hasBlockBetweenUsers v (p_owner_id p) d then Inl (NotFound ''Product not found'')
           else Inr (product_response (projr (fst (fetchProductWithImages e pid (Some v) d))))) \<and>
    hasBlockBetweenUsers v w d = hasBlockBetweenUsers w v d"
proof
  show "hasBlockBetweenUsers v w d = hasBlockBetweenUsers w v d" by (rule product_blocks.block_symmetric)
  show "fst (getProductById e pid (Some v) d) =
      (case live_product pid d of
         None \<Rightarrow> Inl (NotFound ''Product not found'')
       | Some p \<Rightarrow>
           if hasBlockBetweenUsers v (p_owner_id p) d then Inl (NotFound ''Product not found'')
           else Inr (product_response (projr (fst (fetchProductWithImages e pid (Some v) d)))))"
  proof (cases "live_product pid d")
    case None
    then show ?thesis by (simp add: getProductById_def fetchProductWithImages_def)
  next
    case (Some p)
    then have pos: "0 < p_owner_id p" using live_product_Some assms(2) by blast
    have n: "js_Number (int8_parse e (p_owner_id p)) = JNum (of_int (p_owner_id p))"
      using assms(1) pos by (auto simp: int8_ok_def int8_as_string_def int8_as_number_def int_str_pos)
    show ?thesis
      using Some assms(3) n
      by (simp add: getProductById_def fetchProductWithImages_def product_object_def andThen_run
          bind_bigint_run unless_run)
  qed
qed

theorem product_visibility_witness:
  "fst (getProductById sample_env 1 (Some 2) (snd (blockUser 1 2 sample_db))) =
     Inl (NotFound ''Product not found'')"
proof -
  let ?d = "snd (blockUser 1 2 sample_db)"
  have d: "?d = sample_db\<lparr>user_blocks := [\<lparr>b_blocker_id = 1, b_blocked_id = 2, b_created_at = 0\<rparr>]\<rparr>"
    by (simp add: blockUser_def insert_block_def andThen_run unless_run live_user_def user_exists_def samples)
  have "\<forall>p \<in> set (products ?d). 0 < p_owner_id p" unfolding d by (simp add: samples)
  from product_visibility [OF sample_int8_ok this, of 2 1 1] show ?thesis
    unfolding d by (simp add: live_product_def hasBlockBetweenUsers_def sample_db_def sample_product_def
        empty_db_def)
qed

end
