(* ===== verification/Listing.thy ===== *)
theory Listing
  imports Products
begin

text \<open>
  The lists of \<open>src/src/products/products.service.ts\<close>: \<open>buildSearchFilters\<close> with its numbered
  placeholders, \<open>resolveSort\<close>, \<open>listMyProducts\<close> and \<open>searchProducts\<close>, over the view
  \<open>product_listing_view\<close> of \<open>src/db/schema.sql\<close>. A clause keeps its operator, column and placeholder
  number; \<open>clause_text\<close> is the text the code writes for it, \<open>clause_holds\<close> what PostgreSQL makes of it.
\<close>

definition DEFAULT_PAGE_SIZE :: nat where "DEFAULT_PAGE_SIZE = 20"

section \<open>The view\<close>

text \<open>\<open>COALESCE(ROUND(AVG(rating_value)::NUMERIC, 2), 0.00)\<close>, in hundredths.\<close>

definition ratings_of :: "int \<Rightarrow> db \<Rightarrow> int list" where
  "ratings_of userId d = map rt_rating_value (filter (\<lambda>r. rt_rated_user_id r = userId) (user_ratings d))"

definition average_rating :: "int \<Rightarrow> db \<Rightarrow> int" where
  "average_rating userId d =
     (let vs = ratings_of userId d in
      if vs = [] then 0 else round2 (of_int (sum_list vs) / of_nat (length vs)))"

definition listing_view :: "db \<Rightarrow> product_row list" where
  "listing_view d = filter (\<lambda>p. p_deleted_at p = None) (products d)"

definition seller_rate :: "db \<Rightarrow> product_row \<Rightarrow> int" where
  "seller_rate d p = average_rating (p_owner_id p) d"

text \<open>An image as \<open>row_to_json\<close> gives it: identifiers are JSON numbers.\<close>

definition listing_image :: "image_row \<Rightarrow> file_row \<Rightarrow> json" where
  "listing_image i f =
     JObj [(''id'', jint (i_id i)), (''file_id'', jint (i_file_id i)), (''sort_order'', jint (i_sort_order i)),
           (''object_key'', JStr (f_object_key f)), (''status'', JStr (file_status_text (f_status f)))]"

definition listing_images :: "db \<Rightarrow> product_row \<Rightarrow> json" where
  "listing_images d p = JArr (map (\<lambda>(i, f). listing_image i f) (product_image_rows (p_id p) d))"

definition listing_object :: "env \<Rightarrow> db \<Rightarrow> json option \<Rightarrow> product_row \<Rightarrow> json" where
  "listing_object e d favorite p =
     JObj (product_object e p @
       [(''seller_rate'', JStr (numeric2_text (seller_rate d p)))] @
       (case favorite of None \<Rightarrow> [] | Some v \<Rightarrow> [(''is_favorite'', v)]) @
       [(''images'', listing_images d p)])"

section \<open>buildSearchFilters\<close>

record search_dto =
  sd_category :: "string option"
  sd_subcategory :: "string option"
  sd_minPrice :: "rat option"
  sd_maxPrice :: "rat option"
  sd_fromDate :: "string option"
  sd_toDate :: "string option"
  sd_minRate :: "rat option"
  sd_city :: "string option"
  sd_addressText :: "string option"
  sd_q :: "string option"
  sd_sortBy :: "string option"
  sd_sortDir :: "string option"
  sd_limit :: "nat option"
  sd_offset :: "nat option"
  sd_status :: "product_status option"

datatype sql_op = OpEq | OpGe | OpLe | OpIlike | OpText
datatype column = ColCategory | ColSubcategory | ColPrice | ColCreatedAt | ColCity | ColAddress
  | ColNameDescription | ColSellerRate | ColStatus

record clause =
  cl_op :: sql_op
  cl_column :: column
  cl_index :: nat

fun column_text :: "column \<Rightarrow> string" where
  "column_text ColCategory = ''category''"
| "column_text ColSubcategory = ''subcategory''"
| "column_text ColPrice = ''price''"
| "column_text ColCreatedAt = ''created_at''"
| "column_text ColCity = ''city''"
| "column_text ColAddress = ''address_text''"
| "column_text ColNameDescription = ''name''"
| "column_text ColSellerRate = ''seller_rate''"
| "column_text ColStatus = ''status''"

definition quote :: string where "quote = [CHR 0x27]"

definition clause_text :: "string \<Rightarrow> clause \<Rightarrow> string" where
  "clause_text prefix c =
     (let n = ''$'' @ nat_str (cl_index c); col = prefix @ column_text (cl_column c) in
      case cl_op c of
        OpEq \<Rightarrow> ''AND '' @ col @ '' = '' @ n
      | OpGe \<Rightarrow> ''AND '' @ col @ '' >= '' @ n
      | OpLe \<Rightarrow> ''AND '' @ col @ '' <= '' @ n
      | OpIlike \<Rightarrow> ''AND '' @ col @ '' ILIKE '' @ n @ '' ESCAPE '' @ quote @ [CHR 0x5C] @ quote
      | OpText \<Rightarrow>
          ''AND to_tsvector('' @ quote @ ''simple'' @ quote @ '', COALESCE('' @ prefix @ ''name,'' @ quote @ quote @
          '') || '' @ quote @ '' '' @ quote @ '' || COALESCE('' @ prefix @ ''description,'' @ quote @ quote @
          '')) @@ plainto_tsquery('' @ quote @ ''simple'' @ quote @ '', '' @ n @ '')'')"

text \<open>
  One \<open>if (...) { params.push(v); clauses.push(...) }\<close>. Prices and rates are tested against
  \<open>undefined\<close>, texts for being non-empty.
\<close>

definition push :: "nat \<Rightarrow> sql_op \<Rightarrow> column \<Rightarrow> json option \<Rightarrow> clause list \<times> json list \<Rightarrow> clause list \<times> json list" where
  "push base op col v acc =
     (case v of
        None \<Rightarrow> acc
      | Some x \<Rightarrow>
          (case acc of (clauses, params) \<Rightarrow>
             (clauses @ [\<lparr>cl_op = op, cl_column = col, cl_index = base + (length params + 1)\<rparr>], params @ [x])))"

definition text_value :: "string option \<Rightarrow> json option" where
  "text_value v = (case v of None \<Rightarrow> None | Some s \<Rightarrow> if s = [] then None else Some (JStr s))"

definition pattern_value :: "string option \<Rightarrow> json option" where
  "pattern_value v =
     (case v of None \<Rightarrow> None | Some s \<Rightarrow> if s = [] then None else Some (JStr (contains_pattern s)))"

definition buildSearchFilters :: "search_dto \<Rightarrow> nat \<Rightarrow> string \<Rightarrow> clause list \<times> json list" where
  "buildSearchFilters dto base prefix =
     (if prefix \<noteq> [] then push base OpEq ColStatus (map_option (\<lambda>s. JStr (product_status_text s)) (sd_status dto))
      else id)
     (push base OpGe ColSellerRate (map_option JNum (sd_minRate dto))
     (push base OpText ColNameDescription (text_value (sd_q dto))
     (push base OpIlike ColAddress (pattern_value (sd_addressText dto))
     (push base OpIlike ColCity (pattern_value (sd_city dto))
     (push base OpLe ColCreatedAt (text_value (sd_toDate dto))
     (push base OpGe ColCreatedAt (text_value (sd_fromDate dto))
     (push base OpLe ColPrice (map_option JNum (sd_maxPrice dto))
     (push base OpGe ColPrice (map_option JNum (sd_minPrice dto))
     (push base OpEq ColSubcategory
        (if sd_subcategory dto = Some ''all'' then None else text_value (sd_subcategory dto))
     (push base OpEq ColCategory (text_value (sd_category dto))
     ([], [])))))))))))"

definition whereClause :: "string \<Rightarrow> clause list \<Rightarrow> string" where
  "whereClause prefix clauses =
     (if length clauses > 0 then '' '' @ join_str '' '' (map (clause_text prefix) clauses) else [])"

section \<open>What a clause means\<close>

definition json_text :: "json \<Rightarrow> string" where
  "json_text v = (case v of JStr s \<Rightarrow> s | _ \<Rightarrow> [])"

definition json_rat :: "json \<Rightarrow> rat" where
  "json_rat v = (case v of JNum r \<Rightarrow> r | _ \<Rightarrow> 0)"

definition placeholder :: "json list \<Rightarrow> nat \<Rightarrow> json" where
  "placeholder params n = (if 1 \<le> n \<and> n \<le> length params then params ! (n - 1) else JUndef)"

text \<open>A timestamp parameter must be readable; everything else the DTOs let through is.\<close>

definition clause_binds :: "env \<Rightarrow> json list \<Rightarrow> clause \<Rightarrow> bool" where
  "clause_binds e params c =
     (case cl_column c of
        ColCreatedAt \<Rightarrow> ts_parse e (json_text (placeholder params (cl_index c))) \<noteq> None
      | _ \<Rightarrow> True)"

definition hundredths :: "int \<Rightarrow> rat" where
  "hundredths c = of_int c / 100"

definition compares :: "sql_op \<Rightarrow> 'a::linorder \<Rightarrow> 'a \<Rightarrow> bool" where
  "compares op a b = (case op of OpGe \<Rightarrow> a \<ge> b | OpLe \<Rightarrow> a \<le> b | _ \<Rightarrow> a = b)"

definition text_holds :: "env \<Rightarrow> sql_op \<Rightarrow> string \<Rightarrow> string \<Rightarrow> bool" where
  "text_holds e op s v =
     (case op of
        OpIlike \<Rightarrow> (case ilike s v of None \<Rightarrow> False | Some b \<Rightarrow> b)
      | OpText \<Rightarrow> fts_match e s v
      | _ \<Rightarrow> s = v)"

definition clause_holds :: "env \<Rightarrow> db \<Rightarrow> json list \<Rightarrow> product_row \<Rightarrow> clause \<Rightarrow> bool" where
  "clause_holds e d params p c =
     (let v = placeholder params (cl_index c); op = cl_op c in
      case cl_column c of
        ColCategory \<Rightarrow> text_holds e op (p_category p) (json_text v)
      | ColSubcategory \<Rightarrow> (case p_subcategory p of None \<Rightarrow> False | Some s \<Rightarrow> text_holds e op s (json_text v))
      | ColPrice \<Rightarrow> compares op (hundredths (p_price p)) (json_rat v)
      | ColCreatedAt \<Rightarrow>
          (case ts_parse e (json_text v) of None \<Rightarrow> False | Some t \<Rightarrow> compares op (p_created_at p) t)
      | ColCity \<Rightarrow> text_holds e op (p_city p) (json_text v)
      | ColAddress \<Rightarrow> text_holds e op (p_address_text p) (json_text v)
      | ColNameDescription \<Rightarrow> text_holds e op (p_name p @ '' '' @ p_description p) (json_text v)
      | ColSellerRate \<Rightarrow> compares op (hundredths (seller_rate d p)) (json_rat v)
      | ColStatus \<Rightarrow> text_holds e op (product_status_text (p_status p)) (json_text v))"

section \<open>resolveSort\<close>

datatype sort_column = SortPrice | SortCity | SortRate | SortCreated

definition sortColumnMap :: "string \<Rightarrow> sort_column option" where
  "sortColumnMap k =
     (if k = ''price'' then Some SortPrice else if k = ''address'' then Some SortCity
      else if k = ''rate'' then Some SortRate else if k = ''created'' then Some SortCreated else None)"

definition resolveSort :: "search_dto \<Rightarrow> (sort_column \<times> bool) svc" where
  "resolveSort dto =
     (case sortColumnMap (case sd_sortBy dto of None \<Rightarrow> ''created'' | Some s \<Rightarrow> s) of
        None \<Rightarrow> throw (BadRequest ''Invalid sort field'')
      | Some c \<Rightarrow>
          ret (c, js_lower (case sd_sortDir dto of None \<Rightarrow> ''desc'' | Some s \<Rightarrow> s) = ''asc''))"

definition sort_value :: "env \<Rightarrow> db \<Rightarrow> sort_column \<Rightarrow> product_row \<Rightarrow> rat" where
  "sort_value e d c p =
     (case c of
        SortPrice \<Rightarrow> hundredths (p_price p)
      | SortCity \<Rightarrow> collation e (p_city p)
      | SortRate \<Rightarrow> hundredths (seller_rate d p)
      | SortCreated \<Rightarrow> of_int (p_created_at p))"

text \<open>\<open>ORDER BY column direction, plv.id DESC\<close>.\<close>

definition directed :: "bool \<Rightarrow> rat \<Rightarrow> rat" where
  "directed asc v = (if asc then v else - v)"

definition order_listing :: "env \<Rightarrow> db \<Rightarrow> sort_column \<times> bool \<Rightarrow> product_row list \<Rightarrow> product_row list" where
  "order_listing e d s ps =
     (case s of (c, asc) \<Rightarrow> order_asc (\<lambda>p. directed asc (sort_value e d c p)) (order_desc p_id ps))"

section \<open>The lists\<close>

definition assertSearchCategoryPair :: "string option \<Rightarrow> string option \<Rightarrow> unit svc" where
  "assertSearchCategoryPair category subcategory =
     (case (category, subcategory) of
        (Some c, Some s) \<Rightarrow> if c = [] \<or> s = [] then ret () else assertCategoryPair c (Some s) True
      | _ \<Rightarrow> ret ())"

definition INVALID_DATETIME :: string where "INVALID_DATETIME = ''22007''"

definition limit_of :: "search_dto \<Rightarrow> nat" where
  "limit_of dto = (case sd_limit dto of None \<Rightarrow> DEFAULT_PAGE_SIZE | Some n \<Rightarrow> n)"

definition offset_of :: "search_dto \<Rightarrow> nat" where
  "offset_of dto = (case sd_offset dto of None \<Rightarrow> 0 | Some n \<Rightarrow> n)"

text \<open>The statement: its filter on the view, the clauses, the parameters, the order and the page.\<close>

definition run_listing ::
  "env \<Rightarrow> (db \<Rightarrow> product_row \<Rightarrow> bool) \<Rightarrow> clause list \<Rightarrow> json list \<Rightarrow> sort_column \<times> bool \<Rightarrow> nat \<Rightarrow> nat \<Rightarrow>
   product_row list svc" where
  "run_listing e fixed clauses params s limit offset =
     andThen (unless (list_all (clause_binds e params) clauses) (PgErr INVALID_DATETIME)) (\<lambda>_.
     gets (\<lambda>d. page limit offset (order_listing e d s
       (filter (\<lambda>p. fixed d p \<and> list_all (clause_holds e d params p) clauses) (listing_view d)))))"

definition listMyProducts :: "env \<Rightarrow> int \<Rightarrow> search_dto \<Rightarrow> jobject svc" where
  "listMyProducts e userSub dto =
     andThen (assertSearchCategoryPair (sd_category dto) (sd_subcategory dto)) (\<lambda>_.
     let leadingParams = [jint userSub];
         (clauses, params) = buildSearchFilters dto (length leadingParams) ''plv.'';
         allParams = leadingParams @ params @ [JNum (of_nat (limit_of dto)), JNum (of_nat (offset_of dto))]
     in
     andThen (resolveSort dto) (\<lambda>s.
     andThen (run_listing e (\<lambda>d p. jint (p_owner_id p) = placeholder allParams 1) clauses allParams s
                (limit_of dto) (offset_of dto)) (\<lambda>rows.
     gets (\<lambda>d. [(''items'', JArr (map (listing_object e d None) rows))]))))"

text \<open>
  The filter of the search: available products; for a viewer, not his own and none of an owner with
  whom he has a block.
\<close>

definition visible_to :: "json \<Rightarrow> db \<Rightarrow> product_row \<Rightarrow> bool" where
  "visible_to viewer d p =
     (p_status p = Available \<and>
      (viewer = JNull \<or>
       (jint (p_owner_id p) \<noteq> viewer \<and>
        \<not> list_ex (\<lambda>ub. (jint (b_blocker_id ub) = viewer \<and> b_blocked_id ub = p_owner_id p) \<or>
                       (jint (b_blocked_id ub) = viewer \<and> b_blocker_id ub = p_owner_id p)) (user_blocks d))))"

definition favorite_flag :: "json \<Rightarrow> db \<Rightarrow> product_row \<Rightarrow> json" where
  "favorite_flag viewer d p =
     (if viewer = JNull then JNull
      else JBool (list_ex (\<lambda>uf. jint (fv_user_id uf) = viewer \<and> fv_product_id uf = p_id p) (user_favorites d)))"

definition searchProducts :: "env \<Rightarrow> search_dto \<Rightarrow> int option \<Rightarrow> jobject svc" where
  "searchProducts e dto viewerUserId =
     andThen (assertSearchCategoryPair (sd_category dto) (sd_subcategory dto)) (\<lambda>_.
     let (clauses, params) = buildSearchFilters dto 0 [];
         allParams = params @ [JNum (of_nat (limit_of dto)), JNum (of_nat (offset_of dto))] @ [jopt jint viewerUserId];
         viewer = placeholder allParams (length params + 3)
     in
     andThen (resolveSort dto) (\<lambda>s.
     andThen (run_listing e (visible_to viewer) clauses allParams s (limit_of dto) (offset_of dto)) (\<lambda>rows.
     gets (\<lambda>d. [(''items'', JArr (map (\<lambda>p. listing_object e d (Some (favorite_flag viewer d p)) p) rows))]))))"

section \<open>The filters select what the request asks for\<close>

text \<open>The meaning of a search request, without statements and placeholders.\<close>

definition holds_opt :: "('a \<Rightarrow> bool) \<Rightarrow> 'a option \<Rightarrow> bool" where
  "holds_opt P v = (case v of None \<Rightarrow> True | Some x \<Rightarrow> P x)"

definition nonempty :: "string option \<Rightarrow> string option" where
  "nonempty v = (if v = Some [] then None else v)"

definition after_ts :: "env \<Rightarrow> int \<Rightarrow> string \<Rightarrow> bool" where
  "after_ts e t s = (case ts_parse e s of None \<Rightarrow> False | Some u \<Rightarrow> u \<le> t)"

definition before_ts :: "env \<Rightarrow> int \<Rightarrow> string \<Rightarrow> bool" where
  "before_ts e t s = (case ts_parse e s of None \<Rightarrow> False | Some u \<Rightarrow> t \<le> u)"

definition matches_request :: "env \<Rightarrow> db \<Rightarrow> search_dto \<Rightarrow> product_row \<Rightarrow> bool" where
  "matches_request e d dto p \<longleftrightarrow>
     holds_opt (\<lambda>c. p_category p = c) (nonempty (sd_category dto)) \<and>
     (sd_subcategory dto \<noteq> Some ''all'' \<longrightarrow>
        holds_opt (\<lambda>s. p_subcategory p = Some s) (nonempty (sd_subcategory dto))) \<and>
     holds_opt (\<lambda>r. r \<le> hundredths (p_price p)) (sd_minPrice dto) \<and>
     holds_opt (\<lambda>r. hundredths (p_price p) \<le> r) (sd_maxPrice dto) \<and>
     holds_opt (after_ts e (p_created_at p)) (nonempty (sd_fromDate dto)) \<and>
     holds_opt (before_ts e (p_created_at p)) (nonempty (sd_toDate dto)) \<and>
     holds_opt (contains_ci (p_city p)) (nonempty (sd_city dto)) \<and>
     holds_opt (contains_ci (p_address_text p)) (nonempty (sd_addressText dto)) \<and>
     holds_opt (fts_match e (p_name p @ '' '' @ p_description p)) (nonempty (sd_q dto)) \<and>
     holds_opt (\<lambda>r. r \<le> hundredths (seller_rate d p)) (sd_minRate dto)"

end
