(* ===== verification/ListingProps.thy ===== *)
theory ListingProps
  imports Listing ProductProps
begin

text \<open>
  The numbered placeholders of the product lists agree with their parameters, and the lists are the
  pages of the sorted products the request describes.
\<close>

section \<open>Placeholders\<close>

text \<open>The clause at position \<open>i\<close> names the placeholder of the parameter at position \<open>i\<close>.\<close>

definition aligned :: "nat \<Rightarrow> clause list \<times> json list \<Rightarrow> bool" where
  "aligned base acc \<longleftrightarrow>
     length (fst acc) = length (snd acc) \<and>
     (\<forall>i < length (fst acc). cl_index (fst acc ! i) = base + i + 1)"

lemma aligned_Nil: "aligned base ([], [])"
  by (simp add: aligned_def)

lemma aligned_push: "aligned base acc \<Longrightarrow> aligned base (push base op col v acc)"
  by (cases acc) (auto simp: aligned_def push_def nth_append less_Suc_eq split: option.splits)

lemma aligned_filters: "aligned base (buildSearchFilters dto base prefix)"
  by (simp add: buildSearchFilters_def aligned_push aligned_Nil)

lemma placeholder_middle:
  assumes "i < length params"
  shows "placeholder (leading @ params @ rest) (length leading + i + 1) = params ! i"
  using assms by (simp add: placeholder_def nth_append)

definition value_holds :: "env \<Rightarrow> db \<Rightarrow> product_row \<Rightarrow> sql_op \<Rightarrow> column \<Rightarrow> json \<Rightarrow> bool" where
  "value_holds e d p op col v = clause_holds e d [v] p \<lparr>cl_op = op, cl_column = col, cl_index = 1\<rparr>"

definition satisfied :: "env \<Rightarrow> db \<Rightarrow> product_row \<Rightarrow> clause list \<times> json list \<Rightarrow> bool" where
  "satisfied e d p acc \<longleftrightarrow>
     (\<forall>i < length (fst acc). value_holds e d p (cl_op (fst acc ! i)) (cl_column (fst acc ! i)) (snd acc ! i))"

lemma clause_value:
  assumes "placeholder params (cl_index c) = v"
  shows "clause_holds e d params p c = value_holds e d p (cl_op c) (cl_column c) v"
  using assms by (simp add: clause_holds_def value_holds_def placeholder_def)

lemma satisfied_clauses:
  assumes "aligned (length leading) (clauses, params)"
  shows "list_all (clause_holds e d (leading @ params @ rest) p) clauses \<longleftrightarrow> satisfied e d p (clauses, params)"
proof -
  have "clause_holds e d (leading @ params @ rest) p (clauses ! i) =
      value_holds e d p (cl_op (clauses ! i)) (cl_column (clauses ! i)) (params ! i)"
    if "i < length clauses" for i
    using assms that placeholder_middle [of i params leading rest]
    by (intro clause_value) (simp add: aligned_def)
  then show ?thesis by (simp add: list_all_length satisfied_def)
qed

lemma satisfied_push:
  assumes "aligned base acc"
  shows "satisfied e d p (push base op col v acc) \<longleftrightarrow>
    satisfied e d p acc \<and> holds_opt (value_holds e d p op col) v"
proof -
  obtain cs ps where acc: "acc = (cs, ps)" by (cases acc)
  with assms have len: "length cs = length ps" by (simp add: aligned_def)
  show ?thesis
  proof (cases v)
    case None
    then show ?thesis by (simp add: push_def holds_opt_def)
  next
    case (Some x)
    with acc len show ?thesis
      by (auto simp: push_def holds_opt_def satisfied_def nth_append less_Suc_eq)
  qed
qed

section \<open>Meaning\<close>

lemma holds_text_value: "holds_opt P (text_value v) \<longleftrightarrow> holds_opt (\<lambda>s. P (JStr s)) (nonempty v)"
  by (simp add: holds_opt_def text_value_def nonempty_def split: option.splits)

lemma holds_pattern_value:
  "holds_opt P (pattern_value v) \<longleftrightarrow> holds_opt (\<lambda>s. P (JStr (contains_pattern s))) (nonempty v)"
  by (simp add: holds_opt_def pattern_value_def nonempty_def split: option.splits)

lemma holds_map: "holds_opt P (map_option f v) \<longleftrightarrow> holds_opt (\<lambda>x. P (f x)) v"
  by (simp add: holds_opt_def split: option.splits)

lemma value_holds_simps:
  "value_holds e d p OpEq ColCategory (JStr s) \<longleftrightarrow> p_category p = s"
  "value_holds e d p OpEq ColSubcategory (JStr s) \<longleftrightarrow> p_subcategory p = Some s"
  "value_holds e d p OpGe ColPrice (JNum r) \<longleftrightarrow> r \<le> hundredths (p_price p)"
  "value_holds e d p OpLe ColPrice (JNum r) \<longleftrightarrow> hundredths (p_price p) \<le> r"
  "value_holds e d p OpGe ColCreatedAt (JStr s) \<longleftrightarrow> after_ts e (p_created_at p) s"
  "value_holds e d p OpLe ColCreatedAt (JStr s) \<longleftrightarrow> before_ts e (p_created_at p) s"
  "value_holds e d p OpIlike ColCity (JStr (contains_pattern s)) \<longleftrightarrow> contains_ci (p_city p) s"
  "value_holds e d p OpIlike ColAddress (JStr (contains_pattern s)) \<longleftrightarrow> contains_ci (p_address_text p) s"
  "value_holds e d p OpText ColNameDescription (JStr s) \<longleftrightarrow> fts_match e (p_name p @ '' '' @ p_description p) s"
  "value_holds e d p OpGe ColSellerRate (JNum r) \<longleftrightarrow> r \<le> hundredths (seller_rate d p)"
  "value_holds e d p OpEq ColStatus (JStr s) \<longleftrightarrow> product_status_text (p_status p) = s"
  by (auto simp: value_holds_def clause_holds_def placeholder_def text_holds_def json_text_def json_rat_def
      compares_def ilike_contains after_ts_def before_ts_def Let_def split: option.splits)

lemma product_status_text_inject [simp]: "product_status_text a = product_status_text b \<longleftrightarrow> a = b"
  by (cases a; cases b) simp_all

lemma satisfied_Nil: "satisfied e d p ([], [])"
  by (simp add: satisfied_def)

lemma satisfied_filters:
  "satisfied e d p (buildSearchFilters dto base prefix) \<longleftrightarrow>
     matches_request e d dto p \<and> (prefix \<noteq> [] \<longrightarrow> holds_opt (\<lambda>s. p_status p = s) (sd_status dto))"
  by (auto simp: buildSearchFilters_def satisfied_push aligned_push aligned_Nil satisfied_Nil
      holds_text_value holds_pattern_value holds_map value_holds_simps matches_request_def)
    (auto simp: holds_opt_def)

lemma filters_select:
  assumes "buildSearchFilters dto (length leading) prefix = (clauses, params)"
  shows "list_all (clause_holds e d (leading @ params @ rest) p) clauses \<longleftrightarrow>
    matches_request e d dto p \<and> (prefix \<noteq> [] \<longrightarrow> holds_opt (\<lambda>s. p_status p = s) (sd_status dto))"
  using satisfied_clauses [of leading clauses params e d rest p] aligned_filters [of "length leading" dto prefix]
    satisfied_filters [of e d p dto "length leading" prefix] assms by simp

section \<open>Order\<close>

definition listed_before :: "env \<Rightarrow> db \<Rightarrow> sort_column \<times> bool \<Rightarrow> product_row \<Rightarrow> product_row \<Rightarrow> bool" where
  "listed_before e d s p q \<longleftrightarrow>
     (case s of (c, asc) \<Rightarrow>
        directed asc (sort_value e d c p) < directed asc (sort_value e d c q) \<or>
        (sort_value e d c p = sort_value e d c q \<and> p_id q \<le> p_id p))"

lemma directed_inject [simp]: "directed asc a = directed asc b \<longleftrightarrow> a = b"
  by (simp add: directed_def)

lemma sorted_stable:
  fixes k :: "'a \<Rightarrow> 'k::linorder" and l :: "'a \<Rightarrow> 'l::linorder"
  assumes "sorted (map l xs)"
  shows "sorted_wrt (\<lambda>x y. k x < k y \<or> (k x = k y \<and> l x \<le> l y)) (sort_key k xs)"
  using assms
proof (induction xs)
  case Nil
  then show ?case by simp
next
  case (Cons a xs)
  let ?R = "\<lambda>x y. k x < k y \<or> (k x = k y \<and> l x \<le> l y)"
  have la: "\<forall>y \<in> set xs. l a \<le> l y" using Cons.prems by auto
  have ins: "sorted_wrt ?R (insort_key k a ys)"
    if "sorted_wrt ?R ys" and "\<forall>y \<in> set ys. l a \<le> l y" for ys
    using that
  proof (induction ys)
    case Nil
    then show ?case by simp
  next
    case (Cons y ys)
    show ?case
    proof (cases "k a \<le> k y")
      case True
      have "?R a z" if "z \<in> set (y # ys)" for z
      proof -
        have "k y \<le> k z" using that Cons.prems(1) by auto
        with True have "k a \<le> k z" by (rule order_trans)
        moreover have "l a \<le> l z" using that Cons.prems(2) by auto
        ultimately show ?thesis by (auto simp: le_less)
      qed
      with True Cons.prems(1) show ?thesis by auto
    next
      case False
      have "?R y z" if "z \<in> set (insort_key k a ys)" for z
        using that False Cons.prems(1) by (auto simp: set_insort_key)
      with False Cons show ?thesis by simp
    qed
  qed
  from Cons have "sorted_wrt ?R (sort_key k xs)" by simp
  with la show ?case by (auto intro: ins)
qed

lemma order_listing_sorted: "sorted_wrt (listed_before e d s) (order_listing e d s ps)"
proof (cases s)
  case (Pair c asc)
  have "sorted (map (\<lambda>p. - p_id p) (order_desc p_id ps))" by (rule sorted_order_desc)
  from sorted_stable [OF this, of "\<lambda>p. directed asc (sort_value e d c p)"]
  have "sorted_wrt (listed_before e d s) (sort_key (\<lambda>p. directed asc (sort_value e d c p)) (order_desc p_id ps))"
    by (rule sorted_wrt_mono_rel [rotated]) (auto simp: Pair listed_before_def)
  then show ?thesis by (simp add: Pair order_listing_def order_asc_def)
qed

lemma set_order_listing [simp]: "set (order_listing e d s ps) = set ps"
  by (cases s) (simp add: order_listing_def)

lemma length_order_listing [simp]: "length (order_listing e d s ps) = length ps"
  by (cases s) (simp add: order_listing_def order_asc_def order_desc_def)

section \<open>The searches\<close>

lemma assertSearch_reads: "reads (assertSearchCategoryPair c s)"
  by (auto simp: assertSearchCategoryPair_def reads_assertCategoryPair split: option.splits)

lemma resolveSort_reads: "reads (resolveSort dto)"
  by (simp add: resolveSort_def split: option.splits)

lemma run_listing_Inr:
  assumes "run_listing e fixed clauses params s l off d = (Inr rows, d')"
  shows "d' = d \<and> rows = page l off (order_listing e d s
    (filter (\<lambda>p. fixed d p \<and> list_all (clause_holds e d params p) clauses) (listing_view d)))"
  using assms by (auto simp: run_listing_def andThen_run unless_run split: if_splits)

text \<open>The block and ownership filter of a viewer, on identifiers.\<close>

definition visible :: "int option \<Rightarrow> db \<Rightarrow> product_row \<Rightarrow> bool" where
  "visible viewer d p \<longleftrightarrow> p_status p = Available \<and> p_deleted_at p = None \<and>
     (case viewer of None \<Rightarrow> True
      | Some v \<Rightarrow> p_owner_id p \<noteq> v \<and> \<not> hasBlockBetweenUsers v (p_owner_id p) d)"

lemma jint_not_null [simp]: "jint n \<noteq> JNull"
  by (simp add: jint_def)

lemma visible_to_iff:
  "p_deleted_at p = None \<Longrightarrow> visible_to (jopt jint v) d p \<longleftrightarrow> visible v d p"
  by (cases v) (auto simp: visible_to_def visible_def hasBlockBetweenUsers_def list_ex_iff)

lemma searchProducts_rows:
  assumes "searchProducts e dto viewer d = (Inr res, d')"
  shows "\<exists>s rows. d' = d \<and> (\<exists>d0. resolveSort dto d = (Inr s, d0)) \<and>
    rows = page (limit_of dto) (offset_of dto) (order_listing e d s
      (filter (\<lambda>p. visible viewer d p \<and> matches_request e d dto p) (products d))) \<and>
    res = [(''items'', JArr (map (\<lambda>p. listing_object e d (Some (favorite_flag (jopt jint viewer) d p)) p) rows))]"
proof -
  obtain clauses params where f: "buildSearchFilters dto 0 [] = (clauses, params)" by fastforce
  let ?rest = "[JNum (of_nat (limit_of dto)), JNum (of_nat (offset_of dto)), jopt jint viewer]"
  have v: "placeholder (params @ ?rest) (length params + 3) = jopt jint viewer"
    by (simp add: placeholder_def nth_append)
  have v': "placeholder (params @ ?rest) (Suc (Suc (Suc (length params)))) = jopt jint viewer"
    using v by (simp add: numeral_3_eq_3)
  from assms f obtain d0 s d1 rows d2 where
    a: "assertSearchCategoryPair (sd_category dto) (sd_subcategory dto) d = (Inr (), d0)" and
    r: "resolveSort dto d0 = (Inr s, d1)" and
    q: "run_listing e (visible_to (jopt jint viewer)) clauses (params @ ?rest) s (limit_of dto) (offset_of dto) d1
        = (Inr rows, d2)" and
    res: "res = [(''items'', JArr (map (\<lambda>p. listing_object e d2 (Some (favorite_flag (jopt jint viewer) d2 p)) p) rows))]"
      "d' = d2"
    by (auto simp: searchProducts_def Let_def v v' elim!: andThen_InrE)
  have d: "d0 = d" "d1 = d" "d2 = d"
    using readsD [OF assertSearch_reads a] readsD [OF resolveSort_reads r] run_listing_Inr [OF q] by simp_all
  have sel: "list_all (clause_holds e d (params @ ?rest) p) clauses \<longleftrightarrow> matches_request e d dto p" for p
    using filters_select [of dto "[]" "[]" clauses params e d ?rest p] f by simp
  have "filter (\<lambda>p. visible_to (jopt jint viewer) d p \<and>
        list_all (clause_holds e d (params @ ?rest) p) clauses) (listing_view d) =
      filter (\<lambda>p. visible viewer d p \<and> matches_request e d dto p) (products d)"
    unfolding listing_view_def filter_filter
    by (rule filter_cong) (auto simp: sel visible_to_iff visible_def)
  then have "rows = page (limit_of dto) (offset_of dto) (order_listing e d s
      (filter (\<lambda>p. visible viewer d p \<and> matches_request e d dto p) (products d)))"
    using run_listing_Inr [OF q] d by simp
  with res d r show ?thesis by auto
qed

lemma aligned_indices:
  "aligned base (cs, ps) \<Longrightarrow> map cl_index cs = map (\<lambda>i. base + i + 1) [0..<length ps]"
  by (auto simp: aligned_def intro: nth_equalityI)

text \<open>
  C32. The filters of a search are what the request asks for: the clauses name the placeholders of their
  own parameters, counted after the leading ones, and with any leading and trailing parameters the
  statement keeps exactly the products that match the request (category, subcategory unless "all",
  price and date bounds, substrings of city and address whatever the case, words, seller rating), and
  for a prefixed query the requested status.
\<close>

theorem filters_exact:
  "case buildSearchFilters dto (length leading) prefix of (clauses, params) \<Rightarrow>
     map cl_index clauses = map (\<lambda>i. length leading + i + 1) [0..<length params] \<and>
     (list_all (clause_holds e d (leading @ params @ rest) p) clauses \<longleftrightarrow>
        matches_request e d dto p \<and> (prefix = [] \<or> holds_opt (\<lambda>s. p_status p = s) (sd_status dto)))"
proof -
  obtain clauses params where f: "buildSearchFilters dto (length leading) prefix = (clauses, params)" by fastforce
  have "aligned (length leading) (clauses, params)" using aligned_filters [of "length leading" dto prefix] f by simp
  then have "map cl_index clauses = map (\<lambda>i. length leading + i + 1) [0..<length params]"
    by (rule aligned_indices)
  with filters_select [OF f, of e d rest p] show ?thesis by (auto simp: f)
qed

text \<open>
  C20. A search returns one page of the matching products: exactly those that are available, not
  deleted, match the request and, for a viewer, belong to someone else with no block between them, in
  the requested order with the newest identifier first among equals, cut by offset and limit.
\<close>

theorem search_exact:
  assumes "searchProducts e dto viewer d = (Inr res, d')"
  shows "\<exists>s rows ordered. d' = d \<and>
    res = [(''items'', JArr (map (\<lambda>p. listing_object e d (Some (favorite_flag (jopt jint viewer) d p)) p) rows))] \<and>
    rows = take (limit_of dto) (drop (offset_of dto) ordered) \<and>
    set ordered = {p \<in> set (products d). visible viewer d p \<and> matches_request e d dto p} \<and>
    length ordered = length (filter (\<lambda>p. visible viewer d p \<and> matches_request e d dto p) (products d)) \<and>
    sorted_wrt (listed_before e d s) ordered \<and> fst (resolveSort dto d) = Inr s"
proof -
  obtain s rows d0 where "d' = d" and s: "resolveSort dto d = (Inr s, d0)" and
    rows: "rows = page (limit_of dto) (offset_of dto) (order_listing e d s
      (filter (\<lambda>p. visible viewer d p \<and> matches_request e d dto p) (products d)))" and
    "res = [(''items'', JArr (map (\<lambda>p. listing_object e d (Some (favorite_flag (jopt jint viewer) d p)) p) rows))]"
    using searchProducts_rows [OF assms] by blast
  then show ?thesis
    by (intro exI [of _ s] exI [of _ rows] exI [of _ "order_listing e d s
      (filter (\<lambda>p. visible viewer d p \<and> matches_request e d dto p) (products d))"])
      (auto simp: page_def order_listing_sorted)
qed

definition any_search :: search_dto where
  "any_search =
     \<lparr>sd_category = None, sd_subcategory = None, sd_minPrice = None, sd_maxPrice = None, sd_fromDate = None,
      sd_toDate = None, sd_minRate = None, sd_city = None, sd_addressText = None, sd_q = None,
      sd_sortBy = None, sd_sortDir = None, sd_limit = None, sd_offset = None, sd_status = None\<rparr>"

theorem search_exact_witness:
  "\<exists>res d' s rows ordered. searchProducts sample_env (any_search\<lparr>sd_city := Some ''CAI''\<rparr>) (Some 2) sample_db = (Inr res, d') \<and>
     rows = take (limit_of (any_search\<lparr>sd_city := Some ''CAI''\<rparr>)) (drop 0 ordered) \<and>
     sorted_wrt (listed_before sample_env sample_db s) ordered"
proof -
  obtain res d' where "searchProducts sample_env (any_search\<lparr>sd_city := Some ''CAI''\<rparr>) (Some 2) sample_db = (Inr res, d')"
    by (simp add: searchProducts_def any_search_def assertSearchCategoryPair_def andThen_run
        buildSearchFilters_def push_def pattern_value_def text_value_def resolveSort_def sortColumnMap_def
        run_listing_def unless_run clause_binds_def Let_def)
  with search_exact [OF this] show ?thesis by (auto simp: offset_of_def any_search_def)
qed

text \<open>
  The list of one's own products contains only these: one page of the products the user owns that
  are not deleted, match the request and have the requested status, in the requested order.
\<close>

theorem my_products_exact:
  assumes "listMyProducts e sub dto d = (Inr res, d')"
  shows "\<exists>s rows ordered. d' = d \<and> res = [(''items'', JArr (map (listing_object e d None) rows))] \<and>
    rows = take (limit_of dto) (drop (offset_of dto) ordered) \<and>
    set ordered = {p \<in> set (products d). p_owner_id p = sub \<and> p_deleted_at p = None \<and>
      matches_request e d dto p \<and> holds_opt (\<lambda>s. p_status p = s) (sd_status dto)} \<and>
    sorted_wrt (listed_before e d s) ordered \<and> fst (resolveSort dto d) = Inr s"
proof -
  obtain clauses params where f: "buildSearchFilters dto 1 ''plv.'' = (clauses, params)" by fastforce
  let ?rest = "[JNum (of_nat (limit_of dto)), JNum (of_nat (offset_of dto))]"
  have v: "placeholder ([jint sub] @ params @ ?rest) 1 = jint sub" by (simp add: placeholder_def)
  from assms f obtain d0 s d1 rows d2 where
    a: "assertSearchCategoryPair (sd_category dto) (sd_subcategory dto) d = (Inr (), d0)" and
    r: "resolveSort dto d0 = (Inr s, d1)" and
    q: "run_listing e (\<lambda>d p. jint (p_owner_id p) = placeholder ([jint sub] @ params @ ?rest) 1) clauses
        ([jint sub] @ params @ ?rest) s (limit_of dto) (offset_of dto) d1 = (Inr rows, d2)" and
    res: "res = [(''items'', JArr (map (listing_object e d2 None) rows))]" "d' = d2"
    by (auto simp: listMyProducts_def Let_def elim!: andThen_InrE)
  have d: "d0 = d" "d1 = d" "d2 = d"
    using readsD [OF assertSearch_reads a] readsD [OF resolveSort_reads r] run_listing_Inr [OF q] by simp_all
  have sel: "list_all (clause_holds e d ([jint sub] @ params @ ?rest) p) clauses \<longleftrightarrow>
      matches_request e d dto p \<and> holds_opt (\<lambda>s. p_status p = s) (sd_status dto)" for p
    using filters_select [of dto "[jint sub]" "''plv.''" clauses params e d ?rest p] f by simp
  define ordered where "ordered = order_listing e d s
    (filter (\<lambda>p. p_owner_id p = sub \<and> matches_request e d dto p \<and> holds_opt (\<lambda>s. p_status p = s) (sd_status dto))
      (listing_view d))"
  have "rows = page (limit_of dto) (offset_of dto) ordered"
    using run_listing_Inr [OF q] unfolding d v ordered_def sel by simp
  moreover have "set ordered = {p \<in> set (products d). p_owner_id p = sub \<and> p_deleted_at p = None \<and>
      matches_request e d dto p \<and> holds_opt (\<lambda>s. p_status p = s) (sd_status dto)}"
    by (auto simp: ordered_def listing_view_def)
  moreover have "sorted_wrt (listed_before e d s) ordered"
    unfolding ordered_def by (rule order_listing_sorted)
  ultimately show ?thesis
    using res d r by (intro exI [of _ s] exI [of _ rows] exI [of _ ordered]) (simp add: page_def)
qed

theorem my_products_exact_witness:
  "\<exists>res d' ordered. listMyProducts sample_env 1 any_search sample_db = (Inr res, d') \<and>
     set ordered = {p \<in> set (products sample_db). p_owner_id p = 1 \<and> p_deleted_at p = None \<and>
       matches_request sample_env sample_db any_search p \<and>
       holds_opt (\<lambda>s. p_status p = s) (sd_status any_search)}"
proof -
  obtain res d' where "listMyProducts sample_env 1 any_search sample_db = (Inr res, d')"
    by (simp add: listMyProducts_def any_search_def assertSearchCategoryPair_def andThen_run
        buildSearchFilters_def push_def pattern_value_def text_value_def resolveSort_def sortColumnMap_def
        run_listing_def unless_run clause_binds_def Let_def)
  with my_products_exact [OF this] show ?thesis by blast
qed

end
