(* ===== verification/Social.thy ===== *)
theory Social
  imports Listing Blocks
begin

text \<open>
  \<open>src/src/favorites/favorites.service.ts\<close>, \<open>src/src/ratings/ratings.service.ts\<close>,
  \<open>src/src/reports/reports.service.ts\<close> and \<open>src/src/categories/categories.service.ts\<close>: what users say of
  products and of each other, and the tree of categories.
\<close>

section \<open>FavoritesService\<close>

definition fav_hasBlockBetweenUsers :: "int \<Rightarrow> int \<Rightarrow> db \<Rightarrow> bool" where
  "fav_hasBlockBetweenUsers userId otherUserId d =
     list_ex (\<lambda>b. (b_blocker_id b = userId \<and> b_blocked_id b = otherUserId) \<or>
                  (b_blocker_id b = otherUserId \<and> b_blocked_id b = userId)) (user_blocks d)"

definition insert_favorite :: "int \<Rightarrow> int \<Rightarrow> unit svc" where
  "insert_favorite userId productId =
     (\<lambda>d. if is_favorite userId productId d then (Inr (), d)
          else if \<not> user_exists d userId \<or> \<not> list_ex (\<lambda>p. p_id p = productId) (products d)
          then (Inl (PgErr FK_VIOLATION), d)
          else (Inr (), d\<lparr>user_favorites := user_favorites d @
                 [\<lparr>fv_user_id = userId, fv_product_id = productId, fv_created_at = clock d\<rparr>]\<rparr>))"

definition addFavorite :: "env \<Rightarrow> int \<Rightarrow> int \<Rightarrow> jobject svc" where
  "addFavorite e userSub productId =
     andThen (gets (live_product productId)) (\<lambda>product.
     case product of
       None \<Rightarrow> throw (NotFound ''Product not found'')
     | Some p \<Rightarrow>
         andThen (bind_bigint (int8_parse e (p_owner_id p))) (\<lambda>owner.
         andThen (gets (fav_hasBlockBetweenUsers userSub owner)) (\<lambda>blocked.
         andThen (unless (\<not> blocked) (BadRequest ''Cannot favorite this product'')) (\<lambda>_.
         andThen (insert_favorite userSub productId) (\<lambda>_.
         ret [(''message'', JStr ''Product added to favorites'')])))))"

definition removeFavorite :: "int \<Rightarrow> int \<Rightarrow> jobject svc" where
  "removeFavorite userSub productId =
     andThen (modify (\<lambda>d. d\<lparr>user_favorites :=
       delete_where (\<lambda>f. fv_user_id f = userSub \<and> fv_product_id f = productId) (user_favorites d)\<rparr>)) (\<lambda>_.
     ret [(''message'', JStr ''Product removed from favorites'')])"

definition favorite_rows :: "int \<Rightarrow> db \<Rightarrow> (favorite_row \<times> product_row) list" where
  "favorite_rows userSub d =
     concat (map (\<lambda>f. map (\<lambda>p. (f, p)) (filter (\<lambda>p. p_id p = fv_product_id f \<and>
         \<not> list_ex (\<lambda>ub. (b_blocker_id ub = userSub \<and> b_blocked_id ub = p_owner_id p) \<or>
                         (b_blocked_id ub = userSub \<and> b_blocker_id ub = p_owner_id p)) (user_blocks d))
         (listing_view d)))
       (filter (\<lambda>f. fv_user_id f = userSub) (user_favorites d)))"

definition favorite_key :: "bool \<Rightarrow> favorite_row \<times> product_row \<Rightarrow> int" where
  "favorite_key byPrice fp = (if byPrice then p_price (snd fp) else fv_created_at (fst fp))"

definition listFavorites ::
  "env \<Rightarrow> int \<Rightarrow> string option \<Rightarrow> string option \<Rightarrow> nat option \<Rightarrow> nat option \<Rightarrow> jobject svc" where
  "listFavorites e userSub sortBy sortDir limit offset =
     gets (\<lambda>d.
       let byPrice = (sortBy = Some ''price'');
           asc = (js_lower (case sortDir of None \<Rightarrow> ''desc'' | Some s \<Rightarrow> s) = ''asc'');
           byId = order_desc (\<lambda>fp. p_id (snd fp)) (favorite_rows userSub d);
           rows = (if asc then order_asc (favorite_key byPrice) byId else order_desc (favorite_key byPrice) byId)
       in [(''items'', JArr (map (\<lambda>fp. listing_object e d (Some (JBool True)) (snd fp))
             (page (case limit of None \<Rightarrow> DEFAULT_PAGE_SIZE | Some n \<Rightarrow> n)
                   (case offset of None \<Rightarrow> 0 | Some n \<Rightarrow> n) rows)))])"

section \<open>RatingsService\<close>

definition rating_object :: "env \<Rightarrow> rating_row \<Rightarrow> json" where
  "rating_object e r =
     JObj [(''id'', int8_parse e (rt_id r)), (''rater_id'', int8_parse e (rt_rater_id r)),
           (''rated_user_id'', int8_parse e (rt_rated_user_id r)), (''rating_value'', jint (rt_rating_value r)),
           (''comment'', jopt JStr (rt_comment r)), (''created_at'', JStr (ts_text e (rt_created_at r))),
           (''updated_at'', JStr (ts_text e (rt_updated_at r)))]"

definition upsert_rating :: "int \<Rightarrow> int \<Rightarrow> int \<Rightarrow> string option \<Rightarrow> rating_row svc" where
  "upsert_rating rater rated v comment =
     andThen (nextval T_ratings) (\<lambda>i.
     (\<lambda>d. if \<not> (1 \<le> v \<and> v \<le> 5) \<or> rater = rated then (Inl (PgErr CHECK_VIOLATION), d)
          else (case row_where (\<lambda>r. rt_rater_id r = rater \<and> rt_rated_user_id r = rated) (user_ratings d) of
                  Some old \<Rightarrow>
                    (let new = old\<lparr>rt_rating_value := v, rt_comment := comment, rt_updated_at := clock d\<rparr>
                     in (Inr new, d\<lparr>user_ratings :=
                           update_where (\<lambda>r. rt_rater_id r = rater \<and> rt_rated_user_id r = rated)
                             (\<lambda>r. r\<lparr>rt_rating_value := v, rt_comment := comment, rt_updated_at := clock d\<rparr>)
                             (user_ratings d)\<rparr>))
                | None \<Rightarrow>
                    if \<not> user_exists d rater \<or> \<not> user_exists d rated then (Inl (PgErr FK_VIOLATION), d)
                    else
                      (let new = \<lparr>rt_id = i, rt_rater_id = rater, rt_rated_user_id = rated, rt_rating_value = v,
                                  rt_comment = comment, rt_created_at = clock d, rt_updated_at = clock d\<rparr>
                       in (Inr new, d\<lparr>user_ratings := user_ratings d @ [new]\<rparr>)))))"

definition rateUser :: "env \<Rightarrow> int \<Rightarrow> int \<Rightarrow> int \<Rightarrow> string option \<Rightarrow> jobject svc" where
  "rateUser e userSub ratedUserId ratingValue comment =
     andThen (unless (userSub \<noteq> ratedUserId) (BadRequest ''You cannot rate yourself'')) (\<lambda>_.
     andThen (assertUserExists ratedUserId ''Rated user'') (\<lambda>_.
     andThen (tryCatch (upsert_rating userSub ratedUserId ratingValue comment)
                (\<lambda>error. if isForeignKeyViolation error then throw (NotFound ''Rated user not found'')
                         else throw error)) (\<lambda>row.
     ret [(''rating'', rating_object e row)])))"

definition getUserRatingSummary :: "env \<Rightarrow> int \<Rightarrow> jobject svc" where
  "getUserRatingSummary e userId =
     gets (\<lambda>d.
       let rated = filter (\<lambda>r. rt_rated_user_id r = userId) (user_ratings d)
       in [(''summary'', JObj [(''avg_rating'', JStr (numeric2_text (average_rating userId d))),
                               (''ratings_count'', jint (int (length rated)))]),
           (''ratings'', JArr (map (rating_object e) (page 20 0 (order_desc rt_created_at rated))))])"

section \<open>ReportsService\<close>

definition report_head :: "env \<Rightarrow> report_row \<Rightarrow> jobject" where
  "report_head e r =
     [(''id'', int8_parse e (rp_id r)), (''reporter_id'', int8_parse e (rp_reporter_id r)),
      (''reported_user_id'', int8_parse e (rp_reported_user_id r)), (''reason'', JStr (rp_reason r)),
      (''status'', JStr (report_status_text (rp_status r)))]"

definition report_times :: "env \<Rightarrow> report_row \<Rightarrow> jobject" where
  "report_times e r =
     [(''created_at'', JStr (ts_text e (rp_created_at r))), (''updated_at'', JStr (ts_text e (rp_updated_at r)))]"

definition insert_report :: "int \<Rightarrow> int \<Rightarrow> string \<Rightarrow> report_row svc" where
  "insert_report reporter reported reason =
     andThen (nextval T_reports) (\<lambda>i.
     (\<lambda>d. if reporter = reported then (Inl (PgErr CHECK_VIOLATION), d)
          else if \<not> user_exists d reporter \<or> \<not> user_exists d reported then (Inl (PgErr FK_VIOLATION), d)
          else
            (let r = \<lparr>rp_id = i, rp_reporter_id = reporter, rp_reported_user_id = reported, rp_reason = reason,
                      rp_status = Open, rp_reviewed_by = None, rp_reviewed_at = None,
                      rp_created_at = clock d, rp_updated_at = clock d\<rparr>
             in (Inr r, d\<lparr>user_reports := user_reports d @ [r]\<rparr>))))"

definition createReport :: "env \<Rightarrow> int \<Rightarrow> int \<Rightarrow> string \<Rightarrow> jobject svc" where
  "createReport e userSub reportedUserId reason =
     andThen (unless (userSub \<noteq> reportedUserId) (BadRequest ''You cannot report yourself'')) (\<lambda>_.
     andThen (assertUserExists reportedUserId ''Reported user'') (\<lambda>_.
     andThen (tryCatch (insert_report userSub reportedUserId reason)
                (\<lambda>error. if isForeignKeyViolation error then throw (NotFound ''Reported user not found'')
                         else throw error)) (\<lambda>row.
     ret [(''report'', JObj (report_head e row @ report_times e row))])))"

definition getMyReports :: "env \<Rightarrow> int \<Rightarrow> nat \<Rightarrow> nat \<Rightarrow> jobject svc" where
  "getMyReports e userSub limit offset =
     gets (\<lambda>d. [(''reports'', JArr (map
       (\<lambda>r. JObj (report_head e r @
          [(''reviewed_by'', jopt (int8_parse e) (rp_reviewed_by r)),
           (''reviewed_at'', jopt (\<lambda>t. JStr (ts_text e t)) (rp_reviewed_at r))] @ report_times e r))
       (page limit offset (order_desc rp_created_at
          (filter (\<lambda>r. rp_reporter_id r = userSub) (user_reports d))))))])"

section \<open>CategoriesService\<close>

definition category_object :: "env \<Rightarrow> category_row \<Rightarrow> json" where
  "category_object e c =
     JObj [(''id'', int8_parse e (c_id c)), (''parent_id'', jopt (int8_parse e) (c_parent_id c)),
           (''name'', JStr (c_name c)), (''created_at'', JStr (ts_text e (c_created_at c)))]"

definition parent_key :: "category_row \<Rightarrow> int" where
  "parent_key c = (case c_parent_id c of None \<Rightarrow> 0 | Some p \<Rightarrow> p)"

definition listCategories :: "env \<Rightarrow> nat \<Rightarrow> nat \<Rightarrow> jobject svc" where
  "listCategories e limit offset =
     gets (\<lambda>d. [(''categories'', JArr (map (category_object e)
       (page limit offset
         (order_asc parent_key (order_asc (\<lambda>c. collation e (c_name c)) (categories d))))))])"

definition category_exists :: "int \<Rightarrow> db \<Rightarrow> bool" where
  "category_exists i d = list_ex (\<lambda>c. c_id c = i) (categories d)"

definition sibling_key :: "category_row \<Rightarrow> int \<times> string" where
  "sibling_key c = (parent_key c, js_lower (c_name c))"

definition insert_category :: "string \<Rightarrow> int option \<Rightarrow> category_row svc" where
  "insert_category name parentId =
     andThen (nextval T_categories) (\<lambda>i.
     (\<lambda>d. let c = \<lparr>c_id = i, c_parent_id = parentId, c_name = name, c_created_at = clock d\<rparr> in
          if parentId = Some i then (Inl (PgErr CHECK_VIOLATION), d)
          else if list_ex (\<lambda>c'. sibling_key c' = sibling_key c) (categories d)
          then (Inl (PgErr UNIQUE_VIOLATION), d)
          else if (case parentId of None \<Rightarrow> False | Some p \<Rightarrow> \<not> category_exists p d)
          then (Inl (PgErr FK_VIOLATION), d)
          else (Inr c, d\<lparr>categories := categories d @ [c]\<rparr>)))"

definition createCategory :: "env \<Rightarrow> string \<Rightarrow> int option \<Rightarrow> jobject svc" where
  "createCategory e name parentId =
     andThen (gets (\<lambda>d. case parentId of None \<Rightarrow> True | Some p \<Rightarrow> category_exists p d)) (\<lambda>found.
     andThen (unless found (NotFound ''Parent category not found'')) (\<lambda>_.
     andThen (tryCatch (insert_category name parentId)
                (\<lambda>err. if err = PgErr ''23505''
                       then throw (Conflict ''A category with that name already exists under the same parent'')
                       else throw err)) (\<lambda>row.
     ret [(''category'', category_object e row)])))"

text \<open>\<open>DELETE ... RETURNING\<close>, refused by the foreign key of a child.\<close>

definition delete_category_row :: "int \<Rightarrow> category_row option svc" where
  "delete_category_row i =
     (\<lambda>d. case row_where (\<lambda>c. c_id c = i) (categories d) of
        None \<Rightarrow> (Inr None, d)
      | Some c \<Rightarrow>
          if list_ex (\<lambda>c'. c_parent_id c' = Some i) (categories d) then (Inl (PgErr FK_VIOLATION), d)
          else (Inr (Some c), d\<lparr>categories := delete_where (\<lambda>c. c_id c = i) (categories d)\<rparr>))"

definition deleteCategory :: "env \<Rightarrow> int \<Rightarrow> jobject svc" where
  "deleteCategory e i =
     andThen (tryCatch (delete_category_row i)
                (\<lambda>err. if err = PgErr ''23503''
                       then throw (Conflict ''Category cannot be deleted: it has child categories or products referencing it'')
                       else throw err)) (\<lambda>result.
     case result of
       None \<Rightarrow> throw (NotFound ''Category not found'')
     | Some row \<Rightarrow> ret [(''category'', category_object e row)])"

end
