(* ===== verification/SocialProps.thy ===== *)
theory SocialProps
  imports Social
begin

text \<open>
  Favourites are a set of pairs, a user has at most one rating per rated user and averages stay between
  one and five, and categories form a forest with distinct names among siblings.
\<close>

interpretation favorite_blocks: block_check fav_hasBlockBetweenUsers
  by unfold_locales (auto simp: fav_hasBlockBetweenUsers_def blocks_pair_def list_ex_iff)

section \<open>Favourites\<close>

definition favorite_pairs :: "db \<Rightarrow> (int \<times> int) set" where
  "favorite_pairs d = (\<lambda>f. (fv_user_id f, fv_product_id f)) ` set (user_favorites d)"

lemma is_favorite_iff: "is_favorite u p d \<longleftrightarrow> (u, p) \<in> favorite_pairs d"
  by (auto simp: is_favorite_def favorite_pairs_def list_ex_iff)

lemma addFavorite_Inr:
  assumes "addFavorite e u p d = (Inr res, d')"
  shows "live_product p d \<noteq> None \<and>
    (if is_favorite u p d then d' = d
     else d' = d\<lparr>user_favorites := user_favorites d @
       [\<lparr>fv_user_id = u, fv_product_id = p, fv_created_at = clock d\<rparr>]\<rparr>)"
  using assms
  by (auto simp: addFavorite_def andThen_run bind_bigint_run unless_run insert_favorite_def
      split: option.splits if_splits)

lemma addFavorite_again:
  assumes "addFavorite e u p d = (Inr res, d')"
  shows "addFavorite e u p d' = (Inr res, d')"
proof -
  note d' = addFavorite_Inr [OF assms]
  have fav: "is_favorite u p d'" using d' by (auto simp: is_favorite_def split: if_splits)
  have lp: "live_product p d' = live_product p d" and blk: "user_blocks d' = user_blocks d"
    using d' by (auto simp: live_product_def split: if_splits)
  have hb: "fav_hasBlockBetweenUsers x y d' = fav_hasBlockBetweenUsers x y d" for x y
    by (rule favorite_blocks.block_cong [OF blk])
  obtain q n where q: "live_product p d = Some q" "pg_bigint (int8_parse e (p_owner_id q)) = Some n"
    "\<not> fav_hasBlockBetweenUsers u n d" "res = [(''message'', JStr ''Product added to favorites'')]"
    using assms by (auto simp: addFavorite_def andThen_run bind_bigint_run unless_run
        split: option.splits if_splits prod.splits sum.splits)
  then show ?thesis
    by (simp add: addFavorite_def andThen_run bind_bigint_run unless_run insert_favorite_def lp hb fav)
qed

text \<open>
  Favourites behave as a set: adding one puts exactly that pair in, adding it again changes nothing
  and gives the same answer, and removing it takes exactly that pair out.
\<close>

theorem favorites_are_a_set:
  assumes "addFavorite e u p d = (Inr res, d1)" and "removeFavorite u p d1 = (r, d2)"
  shows "favorite_pairs d1 = insert (u, p) (favorite_pairs d) \<and>
    addFavorite e u p d1 = (Inr res, d1) \<and>
    favorite_pairs d2 = favorite_pairs d - {(u, p)}"
proof -
  have 1: "favorite_pairs d1 = insert (u, p) (favorite_pairs d)"
    using addFavorite_Inr [OF assms(1)] by (auto simp: favorite_pairs_def is_favorite_iff split: if_splits)
  have "favorite_pairs d2 = favorite_pairs d1 - {(u, p)}"
    using assms(2) by (auto simp: removeFavorite_def favorite_pairs_def)
  with 1 addFavorite_again [OF assms(1)] show ?thesis by auto
qed

theorem favorites_are_a_set_witness:
  "\<exists>res d1. addFavorite sample_env 2 1 sample_db = (Inr res, d1) \<and>
     addFavorite sample_env 2 1 d1 = (Inr res, d1) \<and>
     favorite_pairs (snd (removeFavorite 2 1 d1)) = {}"
proof -
  obtain res d1 where a: "addFavorite sample_env 2 1 sample_db = (Inr res, d1)"
    by (simp add: addFavorite_def live_product_def andThen_run bind_bigint_run unless_run
        fav_hasBlockBetweenUsers_def insert_favorite_def is_favorite_def user_exists_def
        int8_as_string_def int_str_def nat_str.simps digit_char_def pg_bigint_def is_digit_def
        digits_nat_def digit_val_def samples)
  have e: "favorite_pairs sample_db = {}" by (simp add: favorite_pairs_def samples)
  from favorites_are_a_set [OF a prod.collapse [symmetric]] a e show ?thesis by auto
qed

section \<open>Ratings\<close>

definition rating_ok :: "rating_row \<Rightarrow> bool" where
  "rating_ok r \<longleftrightarrow> 1 \<le> rt_rating_value r \<and> rt_rating_value r \<le> 5 \<and> rt_rater_id r \<noteq> rt_rated_user_id r"

definition rating_pair :: "rating_row \<Rightarrow> int \<times> int" where
  "rating_pair r = (rt_rater_id r, rt_rated_user_id r)"

definition ratings_ok :: "db \<Rightarrow> bool" where
  "ratings_ok d \<longleftrightarrow> distinct (map rating_pair (user_ratings d)) \<and> (\<forall>r \<in> set (user_ratings d). rating_ok r)"

lemma upsert_rating_ok: "keeps ratings_ok (upsert_rating a b v c)"
proof (rule keepsI)
  fix d assume ok: "ratings_ok d"
  show "ratings_ok (snd (upsert_rating a b v c d))"
  proof (cases "(1 \<le> v \<and> v \<le> 5) \<and> a \<noteq> b")
    case False
    with ok show ?thesis by (auto simp: upsert_rating_def ratings_ok_def)
  next
    case True
    show ?thesis
    proof (cases "row_where (\<lambda>r. rt_rater_id r = a \<and> rt_rated_user_id r = b) (user_ratings d)")
      case None
      then have "\<forall>r \<in> set (user_ratings d). rating_pair r \<noteq> (a, b)"
        by (auto simp: row_where_None rating_pair_def)
      with None True ok show ?thesis
        by (auto simp: upsert_rating_def ratings_ok_def rating_ok_def Let_def)
          (auto simp: rating_pair_def)
    next
      case (Some old)
      have "map rating_pair (update_where P (\<lambda>r. r\<lparr>rt_rating_value := v, rt_comment := c, rt_updated_at := clock d\<rparr>)
          (user_ratings d)) = map rating_pair (user_ratings d)" for P
        by (rule map_update_where) (simp add: rating_pair_def)
      with True Some ok show ?thesis
        by (simp add: upsert_rating_def ratings_ok_def Let_def rating_ok_def)
    qed
  qed
qed

lemma rateUser_ok: "keeps ratings_ok (rateUser e a b v c)"
  unfolding rateUser_def by (intro keeps_rules upsert_rating_ok)

lemma sum_bounds:
  assumes "\<forall>v \<in> set vs. 1 \<le> v \<and> v \<le> (5::int)"
  shows "int (length vs) \<le> sum_list vs \<and> sum_list vs \<le> 5 * int (length vs)"
  using assms by (induction vs) auto

lemma round2_of_int: "round2 (of_int n) = 100 * n"
proof -
  have "round2 (of_int (n * 100) / 100) = n * 100" by (rule round2_hundredths)
  then show ?thesis by simp
qed

lemma average_bounds:
  assumes "ratings_ok d" and "ratings_of u d \<noteq> []"
  shows "100 \<le> average_rating u d \<and> average_rating u d \<le> 500"
proof -
  let ?vs = "ratings_of u d"
  let ?q = "of_int (sum_list ?vs) / of_nat (length ?vs) :: rat"
  have "\<forall>v \<in> set ?vs. 1 \<le> v \<and> v \<le> 5"
    using assms(1) by (auto simp: ratings_of_def ratings_ok_def rating_ok_def)
  from sum_bounds [OF this] have b: "int (length ?vs) \<le> sum_list ?vs" "sum_list ?vs \<le> 5 * int (length ?vs)" by auto
  have pos: "(0::rat) < of_nat (length ?vs)" using assms(2) by simp
  have "(of_int (int (length ?vs)) :: rat) \<le> of_int (sum_list ?vs)"
    and "(of_int (sum_list ?vs) :: rat) \<le> of_int (5 * int (length ?vs))"
    using b by (simp_all only: of_int_le_iff)
  with pos have "of_int 1 \<le> ?q" and "?q \<le> of_int 5" by (simp_all add: field_simps)
  from round2_mono [OF this(1)] round2_mono [OF this(2)] assms(2) show ?thesis
    by (simp add: average_rating_def Let_def round2_of_int del: of_int_1 of_int_numeral)
qed

lemma one_rating_of_pair:
  assumes "distinct (map rating_pair rs)" and "row_where (\<lambda>r. rating_pair r = k) rs = Some old"
  shows "\<exists>x. filter (\<lambda>r. rating_pair r = k) rs = [x]"
  using assms
proof (induction rs)
  case (Cons x xs)
  show ?case
  proof (cases "rating_pair x = k")
    case True
    with Cons.prems(1) have "filter (\<lambda>r. rating_pair r = k) xs = []" by (auto simp: filter_empty_conv image_iff)
    with True show ?thesis by simp
  next
    case False
    with Cons show ?thesis by auto
  qed
qed simp

text \<open>The upsert leaves one rating of the pair, with the new value, and the others as they were.\<close>

lemma upsert_rating_exact:
  assumes "ratings_ok d" and "a \<noteq> b" and "upsert_rating a b v c d = (Inr row, d')"
  shows "(\<exists>r. filter (\<lambda>r. rating_pair r = (a, b)) (user_ratings d') = [r] \<and> rt_rating_value r = v \<and> rt_comment r = c) \<and>
    filter (\<lambda>r. rating_pair r \<noteq> (a, b)) (user_ratings d') = filter (\<lambda>r. rating_pair r \<noteq> (a, b)) (user_ratings d)"
proof -
  let ?P = "\<lambda>r. rating_pair r = (a, b)"
  let ?f = "\<lambda>r. r\<lparr>rt_rating_value := v, rt_comment := c, rt_updated_at := clock d\<rparr>"
  have P: "(\<lambda>r. rt_rater_id r = a \<and> rt_rated_user_id r = b) = ?P" by (auto simp: rating_pair_def)
  have v: "1 \<le> v" "v \<le> 5" using assms(3) by (auto simp: upsert_rating_def split: if_splits)
  show ?thesis
  proof (cases "row_where ?P (user_ratings d)")
    case None
    then have e: "filter ?P (user_ratings d) = []" by (auto simp: row_where_None filter_empty_conv)
    from None assms(2,3) v obtain new where "user_ratings d' = user_ratings d @ [new]" "?P new"
      "rt_rating_value new = v" "rt_comment new = c"
      by (auto simp: upsert_rating_def P Let_def split: if_splits) (auto simp: rating_pair_def)
    with e show ?thesis by simp
  next
    case (Some old)
    have upd: "user_ratings d' = update_where ?P ?f (user_ratings d)"
      using Some assms(2,3) v by (auto simp: upsert_rating_def P Let_def)
    have fu: "filter ?P (update_where ?P ?f xs) = map ?f (filter ?P xs)"
      and fn: "filter (\<lambda>r. \<not> ?P r) (update_where ?P ?f xs) = filter (\<lambda>r. \<not> ?P r) xs" for xs
      by (induction xs) (simp_all add: update_where_def rating_pair_def)
    obtain x where x: "filter ?P (user_ratings d) = [x]"
      using one_rating_of_pair [OF _ Some] assms(1) by (auto simp: ratings_ok_def)
    show ?thesis unfolding upd fu fn x by simp
  qed
qed

text \<open>
  C36. A rating replaces the earlier one of the same user: after a successful \<open>rateUser\<close> there is exactly
  one rating of the pair, with the given value and comment, ratings of other pairs are unchanged, every
  stored value is between 1 and 5, and the average of a rated user is between 1.00 and 5.00.
\<close>

theorem rating_upsert:
  assumes "ratings_ok d" and "rateUser e a b v c d = (Inr res, d')"
  shows "ratings_ok d' \<and> a \<noteq> b \<and> 1 \<le> v \<and> v \<le> 5 \<and>
    (\<exists>r. filter (\<lambda>r. rating_pair r = (a, b)) (user_ratings d') = [r] \<and> rt_rating_value r = v \<and> rt_comment r = c) \<and>
    filter (\<lambda>r. rating_pair r \<noteq> (a, b)) (user_ratings d') = filter (\<lambda>r. rating_pair r \<noteq> (a, b)) (user_ratings d) \<and>
    100 \<le> average_rating b d' \<and> average_rating b d' \<le> 500"
proof -
  have ok': "ratings_ok d'" using keepsD [OF rateUser_ok assms] .
  obtain row where ab: "a \<noteq> b" and u: "upsert_rating a b v c d = (Inr row, d')"
    using assms(2)
    by (auto simp: rateUser_def andThen_run unless_run assertUserExists_run tryCatch_run
        split: if_splits prod.splits sum.splits)
  have v: "1 \<le> v" "v \<le> 5" using u by (auto simp: upsert_rating_def split: if_splits)
  note one = upsert_rating_exact [OF assms(1) ab u]
  then obtain r where "filter (\<lambda>r. rating_pair r = (a, b)) (user_ratings d') = [r]" by blast
  then have "r \<in> set (filter (\<lambda>r. rating_pair r = (a, b)) (user_ratings d'))" by simp
  then have "r \<in> set (user_ratings d')" "rt_rated_user_id r = b" by (simp_all add: rating_pair_def)
  then have "ratings_of b d' \<noteq> []" by (auto simp: ratings_of_def filter_empty_conv)
  from average_bounds [OF ok' this] one v ab ok' show ?thesis by blast
qed

theorem rating_upsert_witness:
  "\<exists>res d'. rateUser sample_env 2 1 4 None sample_db = (Inr res, d') \<and> average_rating 1 d' \<le> 500"
proof -
  obtain res d' where r: "rateUser sample_env 2 1 4 None sample_db = (Inr res, d')"
    by (simp add: rateUser_def andThen_run unless_run assertUserExists_run live_user_def tryCatch_run
        upsert_rating_def user_exists_def Let_def samples)
  have "ratings_ok sample_db" by (simp add: ratings_ok_def samples)
  from rating_upsert [OF this r] r show ?thesis by blast
qed

section \<open>Categories\<close>

text \<open>
  The tree: identifiers are unique, no two siblings have the same name up to case, and the parent of a
  category exists and is older, so that the parents form a forest.
\<close>

definition categories_ok :: "db \<Rightarrow> bool" where
  "categories_ok d \<longleftrightarrow> ids_ok c_id (categories d) (seqs d T_categories) \<and>
     distinct (map sibling_key (categories d)) \<and>
     (\<forall>c \<in> set (categories d). case c_parent_id c of None \<Rightarrow> True
        | Some p \<Rightarrow> category_exists p d \<and> p < c_id c)"

lemma category_exists_seqs [simp]: "category_exists p (d\<lparr>seqs := s\<rparr>) = category_exists p d"
  by (simp add: category_exists_def)

lemma insert_category_run:
  "insert_category name parent d =
     (let i = seqs d T_categories + 1; d1 = d\<lparr>seqs := (seqs d)(T_categories := i)\<rparr>;
          c = \<lparr>c_id = i, c_parent_id = parent, c_name = name, c_created_at = clock d\<rparr> in
      if parent = Some i then (Inl (PgErr CHECK_VIOLATION), d1)
      else if \<exists>c' \<in> set (categories d). sibling_key c' = sibling_key c then (Inl (PgErr UNIQUE_VIOLATION), d1)
      else if (case parent of None \<Rightarrow> False | Some p \<Rightarrow> \<not> category_exists p d) then (Inl (PgErr FK_VIOLATION), d1)
      else (Inr c, d1\<lparr>categories := categories d @ [c]\<rparr>))"
  by (simp add: insert_category_def Let_def list_ex_iff category_exists_def split: option.splits)

lemma insert_category_ok: "keeps categories_ok (insert_category name parent)"
proof (rule keepsI)
  fix d assume ok: "categories_ok d"
  let ?i = "seqs d T_categories + 1"
  let ?c = "\<lparr>c_id = ?i, c_parent_id = parent, c_name = name, c_created_at = clock d\<rparr>"
  let ?seq = "d\<lparr>seqs := (seqs d)(T_categories := ?i)\<rparr>"
  have ids: "ids_ok c_id (categories d) (seqs d T_categories)" using ok by (simp add: categories_ok_def)
  have seq: "categories_ok ?seq"
    using ok ids_ok_mono [OF ids, of ?i] by (simp add: categories_ok_def split: option.splits)
  show "categories_ok (snd (insert_category name parent d))"
  proof (cases "parent = Some ?i \<or> (\<exists>c' \<in> set (categories d). sibling_key c' = sibling_key ?c) \<or>
      (case parent of None \<Rightarrow> False | Some p \<Rightarrow> \<not> category_exists p d)")
    case True
    with seq show ?thesis by (auto simp: insert_category_run Let_def)
  next
    case False
    then have r: "snd (insert_category name parent d) = ?seq\<lparr>categories := categories d @ [?c]\<rparr>"
      by (simp add: insert_category_run Let_def)
    have par: "p < ?i \<and> category_exists p d" if "parent = Some p" for p
    proof -
      from False that have "category_exists p d" by simp
      then obtain q where "q \<in> set (categories d)" "c_id q = p" by (auto simp: category_exists_def list_ex_iff)
      with ids have "p \<le> seqs d T_categories" by (auto simp: ids_ok_def)
      with \<open>category_exists p d\<close> show ?thesis by simp
    qed
    have mono: "category_exists p d \<Longrightarrow> category_exists p (?seq\<lparr>categories := categories d @ [?c]\<rparr>)" for p
      by (auto simp: category_exists_def)
    have "ids_ok c_id (categories d @ [?c]) ?i" using ids by (rule ids_ok_append) simp
    moreover have "distinct (map sibling_key (categories d @ [?c]))"
      using ok False by (auto simp: categories_ok_def)
    moreover have "\<forall>c \<in> set (categories d). case c_parent_id c of None \<Rightarrow> True
        | Some p \<Rightarrow> category_exists p (?seq\<lparr>categories := categories d @ [?c]\<rparr>) \<and> p < c_id c"
      using ok mono by (auto simp: categories_ok_def split: option.splits)
    moreover have "case parent of None \<Rightarrow> True
        | Some p \<Rightarrow> category_exists p (?seq\<lparr>categories := categories d @ [?c]\<rparr>) \<and> p < ?i"
      using par mono by (auto split: option.splits)
    ultimately show ?thesis unfolding r by (simp add: categories_ok_def cong: option.case_cong)
  qed
qed

lemma delete_category_ok: "keeps categories_ok (delete_category_row i)"
proof (rule keepsI)
  fix d assume ok: "categories_ok d"
  show "categories_ok (snd (delete_category_row i d))"
  proof (cases "row_where (\<lambda>c. c_id c = i) (categories d) = None \<or>
      list_ex (\<lambda>c'. c_parent_id c' = Some i) (categories d)")
    case True
    with ok show ?thesis by (auto simp: delete_category_row_def split: option.splits)
  next
    case False
    then have r: "snd (delete_category_row i d) =
        d\<lparr>categories := delete_where (\<lambda>c. c_id c = i) (categories d)\<rparr>"
      by (auto simp: delete_category_row_def)
    have nc: "c_parent_id c \<noteq> Some i" if "c \<in> set (categories d)" for c
      using False that by (auto simp: list_ex_iff)
    have "case c_parent_id c of None \<Rightarrow> True
        | Some p \<Rightarrow> category_exists p (d\<lparr>categories := delete_where (\<lambda>c. c_id c = i) (categories d)\<rparr>) \<and> p < c_id c"
      if "c \<in> set (categories d)" for c
    proof (cases "c_parent_id c")
      case (Some p)
      with ok that have "category_exists p d \<and> p < c_id c" by (auto simp: categories_ok_def)
      moreover have "p \<noteq> i" using nc [OF that] Some by simp
      ultimately show ?thesis using Some by (auto simp: category_exists_def list_ex_iff)
    qed simp
    with ok show ?thesis
      unfolding r by (simp add: categories_ok_def ids_ok_delete distinct_delete_where)
  qed
qed

text \<open>
  Categories stay a forest with distinct sibling names (up to case): creations and deletions, also
  failed ones, keep identifiers unique, every parent present and older than its children, and no two
  siblings with the same name; and a creation under an existing parent fails exactly when a sibling
  already has the name.
\<close>

theorem categories_forest:
  assumes "categories_ok d" and "parent = None \<or> category_exists (the parent) d"
  shows "categories_ok (snd (createCategory e name parent d)) \<and>
    categories_ok (snd (deleteCategory e i d)) \<and>
    (isl (fst (createCategory e name parent d)) \<longleftrightarrow>
      (\<exists>c \<in> set (categories d). parent_key c = (case parent of None \<Rightarrow> 0 | Some p \<Rightarrow> p) \<and>
         js_lower (c_name c) = js_lower name))"
proof (intro conjI)
  have "keeps categories_ok (createCategory e name parent)"
    unfolding createCategory_def by (intro keeps_rules insert_category_ok)
  with assms(1) show "categories_ok (snd (createCategory e name parent d))" by (simp add: keeps_def)
  have "keeps categories_ok (deleteCategory e i)"
    unfolding deleteCategory_def by (intro keeps_rules delete_category_ok)
  with assms(1) show "categories_ok (snd (deleteCategory e i d))" by (simp add: keeps_def)
  have np: "parent \<noteq> Some (seqs d T_categories + 1)"
    using assms by (auto simp: categories_ok_def ids_ok_def category_exists_def list_ex_iff)
  show "isl (fst (createCategory e name parent d)) \<longleftrightarrow>
      (\<exists>c \<in> set (categories d). parent_key c = (case parent of None \<Rightarrow> 0 | Some p \<Rightarrow> p) \<and>
         js_lower (c_name c) = js_lower name)"
    using assms(2) np
    by (cases parent) (auto simp: createCategory_def andThen_run unless_run tryCatch_run
        insert_category_run Let_def sibling_key_def parent_key_def UNIQUE_VIOLATION_def)
qed

theorem categories_forest_witness:
  "categories_ok (snd (createCategory sample_env ''Cars'' None sample_db)) \<and>
   \<not> isl (fst (createCategory sample_env ''Cars'' None sample_db))"
proof -
  have "categories_ok sample_db" by (simp add: categories_ok_def samples)
  from categories_forest [OF this, of None sample_env "''Cars''" 1] show ?thesis
    by (simp add: sample_db_def empty_db_def)
qed

end
