(* ===== verification/Chat.thy ===== *)
theory Chat
  imports Listing Blocks
begin

text \<open>
  \<open>src/src/chat/chat.service.ts\<close>: conversations between two users, their messages, and who may see or
  change them. A conversation keeps the smaller user first; the lists return timestamps as \<open>Date\<close>
  values of the driver, turned into ISO strings by \<open>normalizeTimestamp\<close>.
\<close>

section \<open>Reading the driver's values\<close>

definition chat_toPositiveInt :: "json \<Rightarrow> int option" where
  "chat_toPositiveInt value =
     (case value of
        JNum r \<Rightarrow> if is_integer r \<and> r > 0 then Some \<lfloor>r\<rfloor> else None
      | JStr s \<Rightarrow>
          if length (js_trim s) > 0 then
            (case string_number s of
               JNum parsed \<Rightarrow> if is_integer parsed \<and> parsed > 0 then Some \<lfloor>parsed\<rfloor> else None
             | _ \<Rightarrow> None)
          else None
      | _ \<Rightarrow> None)"

definition normalizeTimestamp :: "env \<Rightarrow> json \<Rightarrow> json" where
  "normalizeTimestamp e value =
     (case value of
        JStr s \<Rightarrow> JStr s
      | JDate t \<Rightarrow> JStr (toISOString t)
      | _ \<Rightarrow> JStr (js_String e (coalesce value (JStr []))))"

definition normalizeMessageRow :: "env \<Rightarrow> jobject \<Rightarrow> jobject" where
  "normalizeMessageRow e row =
     spread row
       [(''sent_at'', normalizeTimestamp e (obj_get row ''sent_at'')),
        (''read_at'', if obj_get row ''read_at'' = JNull then JNull
                      else normalizeTimestamp e (obj_get row ''read_at''))]"

definition normalizeConversationRow :: "env \<Rightarrow> jobject \<Rightarrow> jobject" where
  "normalizeConversationRow e row =
     spread row
       [(''created_at'', normalizeTimestamp e (obj_get row ''created_at'')),
        (''last_message_sent_at'', if obj_get row ''last_message_sent_at'' = JNull then JNull
                                   else normalizeTimestamp e (obj_get row ''last_message_sent_at''))]"

section \<open>Blocks and errors\<close>

definition chat_hasBlockBetweenUsers :: "int \<Rightarrow> int \<Rightarrow> db \<Rightarrow> bool" where
  "chat_hasBlockBetweenUsers userAId userBId d =
     list_ex (\<lambda>b. (b_blocker_id b = userAId \<and> b_blocked_id b = userBId) \<or>
                  (b_blocker_id b = userBId \<and> b_blocked_id b = userAId)) (user_blocks d)"

definition NOT_PARTICIPANT :: string where "NOT_PARTICIPANT = ''NOT_PARTICIPANT''"
definition CONVERSATION_BLOCKED :: string where "CONVERSATION_BLOCKED = ''CONVERSATION_BLOCKED''"

definition forbiddenChatException :: "string \<Rightarrow> string \<Rightarrow> jobject \<Rightarrow> exn" where
  "forbiddenChatException reason message context =
     HttpExn 403 message [(''reason'', JStr reason), (''context'', JObj context)]"

section \<open>Rows of the lists\<close>

definition conversation_by_id :: "int \<Rightarrow> db \<Rightarrow> conversation_row option" where
  "conversation_by_id i d = row_where (\<lambda>c. cv_id c = i) (conversations d)"

definition message_by_id :: "int \<Rightarrow> db \<Rightarrow> message_row option" where
  "message_by_id i d = row_where (\<lambda>m. m_id m = i) (messages d)"

definition peer_of :: "int \<Rightarrow> conversation_row \<Rightarrow> int" where
  "peer_of userId c = (if cv_user_a_id c = userId then cv_user_b_id c else cv_user_a_id c)"

definition last_message_of :: "db \<Rightarrow> conversation_row \<Rightarrow> message_row option" where
  "last_message_of d c =
     (case cv_last_message_id c of None \<Rightarrow> None | Some i \<Rightarrow> message_by_id i d)"

definition conversation_product :: "db \<Rightarrow> conversation_row \<Rightarrow> product_row option" where
  "conversation_product d c =
     (case cv_product_id c of None \<Rightarrow> None | Some i \<Rightarrow> live_product i d)"

definition first_image :: "db \<Rightarrow> product_row option \<Rightarrow> image_row option" where
  "first_image d p =
     (case p of
        None \<Rightarrow> None
      | Some p \<Rightarrow>
          (case order_asc i_sort_order (filter (\<lambda>i. i_product_id i = p_id p) (product_images d)) of
             [] \<Rightarrow> None
           | i # _ \<Rightarrow> Some i))"

definition unread_count :: "int \<Rightarrow> int \<Rightarrow> db \<Rightarrow> nat" where
  "unread_count userId conversationId d =
     length (filter (\<lambda>m. m_conversation_id m = conversationId \<and> m_sender_id m \<noteq> userId \<and>
                         m_read_at m = None) (messages d))"

definition conversation_row_object :: "env \<Rightarrow> int \<Rightarrow> db \<Rightarrow> conversation_row \<Rightarrow> jobject" where
  "conversation_row_object e userId d c =
     (let m = last_message_of d c; p = conversation_product d c; img = first_image d p in
      [(''id'', int8_parse e (cv_id c)),
       (''product_id'', jopt (int8_parse e) (cv_product_id c)),
       (''created_at'', JDate (cv_created_at c)),
       (''last_message_id'', jopt (\<lambda>m. int8_parse e (m_id m)) m),
       (''last_message_text'', jopt (\<lambda>m. JStr (m_message_text m)) m),
       (''last_message_sent_at'', jopt (\<lambda>m. JDate (m_sent_at m)) m),
       (''peer_user_id'', int8_parse e (peer_of userId c)),
       (''unread_count'', jint (int (unread_count userId (cv_id c) d))),
       (''product_name'', jopt (\<lambda>p. JStr (p_name p)) p),
       (''product_price'', jopt (\<lambda>p. JStr (numeric2_text (p_price p))) p),
       (''product_image_file_id'', jopt (\<lambda>i. int8_parse e (i_file_id i)) img),
       (''product_image_object_key'', jopt (\<lambda>i. JStr (i_object_key i)) img)])"

definition message_row_object :: "env \<Rightarrow> message_row \<Rightarrow> jobject" where
  "message_row_object e m =
     [(''id'', int8_parse e (m_id m)), (''conversation_id'', int8_parse e (m_conversation_id m)),
      (''sender_id'', int8_parse e (m_sender_id m)), (''message_text'', JStr (m_message_text m)),
      (''sent_at'', JDate (m_sent_at m)), (''read_at'', jopt JDate (m_read_at m))]"

section \<open>Who may act on a conversation\<close>

definition assertConversationParticipant :: "env \<Rightarrow> int \<Rightarrow> int \<Rightarrow> unit svc" where
  "assertConversationParticipant e conversationId userId =
     andThen (gets (conversation_by_id conversationId)) (\<lambda>query.
     case query of
       None \<Rightarrow> throw (NotFound ''Conversation not found'')
     | Some conversation \<Rightarrow>
         (case (chat_toPositiveInt (int8_parse e (cv_user_a_id conversation)),
                chat_toPositiveInt (int8_parse e (cv_user_b_id conversation))) of
            (Some userAId, Some userBId) \<Rightarrow>
              (let context = [(''conversationId'', jint conversationId), (''userId'', jint userId),
                              (''userAId'', jint userAId), (''userBId'', jint userBId)];
                   otherUserId = (if userAId = userId then userBId else userAId)
               in
               if userAId \<noteq> userId \<and> userBId \<noteq> userId
               then throw (forbiddenChatException NOT_PARTICIPANT
                             ''Not a participant of this conversation'' context)
               else
                 andThen (gets (chat_hasBlockBetweenUsers userId otherUserId)) (\<lambda>blocked.
                 unless (\<not> blocked) (forbiddenChatException CONVERSATION_BLOCKED
                   ''Conversation is not available'' context)))
          | _ \<Rightarrow> throw (NotFound ''Conversation participants are invalid'')))"

definition getConversationParticipants :: "env \<Rightarrow> int \<Rightarrow> (int \<times> int) svc" where
  "getConversationParticipants e conversationId =
     andThen (gets (conversation_by_id conversationId)) (\<lambda>query.
     case query of
       None \<Rightarrow> throw (NotFound ''Conversation not found'')
     | Some row \<Rightarrow>
         (case (chat_toPositiveInt (int8_parse e (cv_user_a_id row)),
                chat_toPositiveInt (int8_parse e (cv_user_b_id row))) of
            (Some userAId, Some userBId) \<Rightarrow> ret (userAId, userBId)
          | _ \<Rightarrow> throw (NotFound ''Conversation participants are invalid'')))"

definition getConversationById :: "env \<Rightarrow> int \<Rightarrow> int \<Rightarrow> jobject svc" where
  "getConversationById e userId conversationId =
     andThen (assertConversationParticipant e conversationId userId) (\<lambda>_.
     andThen (gets (\<lambda>d. map (conversation_row_object e userId d)
        (filter (\<lambda>c. cv_id c = conversationId \<and> user_exists d (peer_of userId c)) (conversations d)))) (\<lambda>rows.
     case rows of
       [] \<Rightarrow> throw (NotFound ''Conversation not found'')
     | row # _ \<Rightarrow> ret [(''conversation'', JObj (normalizeConversationRow e row))]))"

section \<open>Opening a conversation\<close>

text \<open>
  The product a new conversation is about. The comparison \<open>ownerId === userId\<close> is between the driver's
  value of \<open>owner_id\<close> and a number.
\<close>

definition validated_product :: "env \<Rightarrow> int \<Rightarrow> int \<Rightarrow> int option \<Rightarrow> int option svc" where
  "validated_product e userId participantId productId =
     (if productId = None \<or> productId = Some 0 then ret None
      else
        andThen (gets (live_product (the productId))) (\<lambda>product.
        case product of
          None \<Rightarrow> throw (NotFound ''Product not found'')
        | Some p \<Rightarrow>
            (let ownerId = int8_parse e (p_owner_id p);
                 isParticipantOwner = (ownerId = jint userId \<or> ownerId = jint participantId)
             in andThen (unless (p_status p = Available \<or> isParticipantOwner)
                           (Forbidden ''Product is not available for conversation'')) (\<lambda>_.
                ret productId))))"

definition insert_conversation :: "int \<Rightarrow> int \<Rightarrow> int option \<Rightarrow> int svc" where
  "insert_conversation a b productId =
     andThen (nextval T_conversations) (\<lambda>i.
     (\<lambda>d. if \<not> a < b then (Inl (PgErr CHECK_VIOLATION), d)
          else if list_ex (\<lambda>c. cv_user_a_id c = a \<and> cv_user_b_id c = b) (conversations d)
          then (Inl (PgErr UNIQUE_VIOLATION), d)
          else if \<not> user_exists d a \<or> \<not> user_exists d b \<or>
                  (case productId of None \<Rightarrow> False
                   | Some p \<Rightarrow> \<not> list_ex (\<lambda>q. p_id q = p) (products d))
          then (Inl (PgErr FK_VIOLATION), d)
          else (Inr i, d\<lparr>conversations := conversations d @
                 [\<lparr>cv_id = i, cv_user_a_id = a, cv_user_b_id = b, cv_product_id = productId,
                   cv_last_message_id = None, cv_created_at = clock d\<rparr>]\<rparr>)))"

text \<open>The existing conversation of the pair, or a new one.\<close>

definition existing_or_new :: "env \<Rightarrow> int \<Rightarrow> int \<Rightarrow> int \<Rightarrow> int option \<Rightarrow> jobject svc" where
  "existing_or_new e userId userAId userBId validatedProductId =
     andThen (gets (\<lambda>d. row_where (\<lambda>c. cv_user_a_id c = userAId \<and> cv_user_b_id c = userBId)
                         (conversations d))) (\<lambda>existing.
     case existing of
       Some conversation \<Rightarrow>
         andThen (if validatedProductId \<noteq> None \<and>
                     \<not> truthy (jopt (int8_parse e) (cv_product_id conversation))
                  then modify (\<lambda>d. d\<lparr>conversations :=
                         update_where (\<lambda>c. cv_id c = cv_id conversation)
                           (\<lambda>c. c\<lparr>cv_product_id := validatedProductId\<rparr>) (conversations d)\<rparr>)
                  else ret ()) (\<lambda>_.
         getConversationById e userId (cv_id conversation))
     | None \<Rightarrow>
         andThen (tryCatch (insert_conversation userAId userBId validatedProductId)
                    (\<lambda>error. if isForeignKeyViolation error
                             then throw (NotFound ''Participant or product not found'')
                             else throw error)) (\<lambda>i.
         getConversationById e userId i))"

definition getOrCreateConversation :: "env \<Rightarrow> int \<Rightarrow> int \<Rightarrow> int option \<Rightarrow> jobject svc" where
  "getOrCreateConversation e userId participantId productId =
     andThen (unless (userId \<noteq> participantId)
                (BadRequest ''Cannot start conversation with yourself'')) (\<lambda>_.
     andThen (assertUserExists participantId ''Participant'') (\<lambda>_.
     andThen (gets (chat_hasBlockBetweenUsers userId participantId)) (\<lambda>blocked.
     andThen (unless (\<not> blocked)
                (forbiddenChatException CONVERSATION_BLOCKED ''Conversation is not allowed''
                   [(''userId'', jint userId), (''participantId'', jint participantId)])) (\<lambda>_.
     andThen (validated_product e userId participantId productId) (\<lambda>validatedProductId.
     existing_or_new e userId (min userId participantId) (max userId participantId)
       validatedProductId)))))"

section \<open>Lists\<close>

definition in_scope :: "string \<Rightarrow> int \<Rightarrow> db \<Rightarrow> conversation_row \<Rightarrow> bool" where
  "in_scope scope userId d c =
     (scope = ''all'' \<or>
      (case conversation_product d c of
         None \<Rightarrow> False
       | Some p \<Rightarrow> (scope = ''buy'' \<and> p_owner_id p \<noteq> userId) \<or> (scope = ''sell'' \<and> p_owner_id p = userId)))"

definition conversation_rows :: "int \<Rightarrow> string \<Rightarrow> db \<Rightarrow> conversation_row list" where
  "conversation_rows userId scope d =
     filter (\<lambda>c. user_exists d (peer_of userId c) \<and>
                 (cv_user_a_id c = userId \<or> cv_user_b_id c = userId) \<and>
                 \<not> list_ex (\<lambda>ub. (b_blocker_id ub = userId \<and> b_blocked_id ub = peer_of userId c) \<or>
                                 (b_blocked_id ub = userId \<and> b_blocker_id ub = peer_of userId c)) (user_blocks d) \<and>
                 in_scope scope userId d c) (conversations d)"

definition recency :: "db \<Rightarrow> conversation_row \<Rightarrow> int" where
  "recency d c = (case last_message_of d c of None \<Rightarrow> cv_created_at c | Some m \<Rightarrow> m_sent_at m)"

definition listConversations :: "env \<Rightarrow> int \<Rightarrow> string \<Rightarrow> nat \<Rightarrow> nat \<Rightarrow> jobject svc" where
  "listConversations e userId scope limit offset =
     gets (\<lambda>d. [(''conversations'', JArr (map
       (\<lambda>c. JObj (normalizeConversationRow e (conversation_row_object e userId d c)))
       (page limit offset (order_desc (recency d) (conversation_rows userId scope d)))))])"

definition listMessages :: "env \<Rightarrow> int \<Rightarrow> int \<Rightarrow> nat \<Rightarrow> string option \<Rightarrow> jobject svc" where
  "listMessages e userId conversationId limit before =
     andThen (assertConversationParticipant e conversationId userId) (\<lambda>_.
     andThen (case before of
                None \<Rightarrow> ret None
              | Some s \<Rightarrow> (case ts_parse e s of
                             None \<Rightarrow> throw (PgErr INVALID_DATETIME)
                           | Some t \<Rightarrow> ret (Some t))) (\<lambda>bound.
     gets (\<lambda>d. [(''messages'', JArr (map (\<lambda>m. JObj (normalizeMessageRow e (message_row_object e m)))
       (page limit 0 (order_desc m_sent_at
         (filter (\<lambda>m. m_conversation_id m = conversationId \<and>
                      (case bound of None \<Rightarrow> True | Some t \<Rightarrow> m_sent_at m < t)) (messages d))))))])))"

section \<open>Sending and reading\<close>

text \<open>\<open>LENGTH(BTRIM(text)) > 0\<close>: \<open>BTRIM\<close> takes spaces only.\<close>

definition message_check :: "string \<Rightarrow> bool" where
  "message_check text = list_ex (\<lambda>c. c \<noteq> CHR '' '') text"

definition insert_message :: "int \<Rightarrow> int \<Rightarrow> string \<Rightarrow> message_row svc" where
  "insert_message conversationId senderId messageText =
     andThen (nextval T_messages) (\<lambda>i.
     (\<lambda>d. if \<not> message_check messageText then (Inl (PgErr CHECK_VIOLATION), d)
          else if conversation_by_id conversationId d = None \<or> \<not> user_exists d senderId
          then (Inl (PgErr FK_VIOLATION), d)
          else
            (let m = \<lparr>m_id = i, m_conversation_id = conversationId, m_sender_id = senderId,
                      m_message_text = messageText, m_sent_at = clock d, m_read_at = None\<rparr>
             in (Inr m, d\<lparr>messages := messages d @ [m]\<rparr>))))"

definition sendMessage :: "env \<Rightarrow> int \<Rightarrow> int \<Rightarrow> string \<Rightarrow> jobject svc" where
  "sendMessage e userId conversationId messageText =
     andThen (assertConversationParticipant e conversationId userId) (\<lambda>_.
     andThen (tryCatch (insert_message conversationId userId messageText)
                (\<lambda>error. if isForeignKeyViolation error then throw (NotFound ''Conversation not found'')
                         else throw error)) (\<lambda>m.
     andThen (modify (\<lambda>d. d\<lparr>conversations :=
       update_where (\<lambda>c. cv_id c = conversationId) (\<lambda>c. c\<lparr>cv_last_message_id := Some (m_id m)\<rparr>)
         (conversations d)\<rparr>)) (\<lambda>_.
     ret [(''message'', JObj (normalizeMessageRow e (message_row_object e m)))])))"

definition stamp_read :: "int \<Rightarrow> message_row \<Rightarrow> message_row" where
  "stamp_read now m = m\<lparr>m_read_at := Some (case m_read_at m of None \<Rightarrow> now | Some t \<Rightarrow> t)\<rparr>"

definition markRead :: "env \<Rightarrow> int \<Rightarrow> int \<Rightarrow> jobject svc" where
  "markRead e userId messageId =
     andThen (gets (message_by_id messageId)) (\<lambda>message.
     case message of
       None \<Rightarrow> throw (NotFound ''Message not found'')
     | Some row \<Rightarrow>
         (case (chat_toPositiveInt (int8_parse e (m_conversation_id row)),
                chat_toPositiveInt (int8_parse e (m_sender_id row))) of
            (Some normalizedConversationId, Some normalizedSenderId) \<Rightarrow>
              andThen (assertConversationParticipant e normalizedConversationId userId) (\<lambda>_.
              andThen (unless (normalizedSenderId \<noteq> userId)
                         (Forbidden ''Only recipients can mark messages as read'')) (\<lambda>_.
              andThen (modify (\<lambda>d. d\<lparr>messages :=
                update_where (\<lambda>m. m_id m = messageId) (stamp_read (clock d)) (messages d)\<rparr>)) (\<lambda>_.
              andThen (gets (message_by_id messageId)) (\<lambda>updated.
              ret [(''message'', (case updated of
                     None \<Rightarrow> JObj (normalizeMessageRow e [])
                   | Some m \<Rightarrow> JObj (normalizeMessageRow e (message_row_object e m))))]))))
          | _ \<Rightarrow> throw (NotFound ''Message has invalid ownership data'')))"

end
