(* ===== verification/ChatProps.thy ===== *)
theory ChatProps
  imports Chat
begin

text \<open>
  Conversations are unique per pair and closed to others; a message belongs to one of the two
  participants, only its recipient marks it as read, once; a block closes the conversation for both.
\<close>

interpretation chat_blocks: block_check chat_hasBlockBetweenUsers
  by unfold_locales (auto simp: chat_hasBlockBetweenUsers_def blocks_pair_def list_ex_iff)

lemma chat_toPositiveInt_eq: "chat_toPositiveInt = toPositiveInt"
  by (auto simp: fun_eq_iff chat_toPositiveInt_def toPositiveInt_def split: json.splits)

section \<open>The invariant\<close>

definition cv_pair :: "conversation_row \<Rightarrow> int \<times> int" where
  "cv_pair c = (cv_user_a_id c, cv_user_b_id c)"

definition in_conversation :: "int \<Rightarrow> conversation_row \<Rightarrow> bool" where
  "in_conversation u c \<longleftrightarrow> cv_user_a_id c = u \<or> cv_user_b_id c = u"

definition message_ok :: "db \<Rightarrow> message_row \<Rightarrow> bool" where
  "message_ok d m \<longleftrightarrow>
     (\<exists>c \<in> set (conversations d). cv_id c = m_conversation_id m \<and> in_conversation (m_sender_id m) c)"

definition last_ok :: "db \<Rightarrow> conversation_row \<Rightarrow> bool" where
  "last_ok d c \<longleftrightarrow> (\<forall>i. cv_last_message_id c = Some i \<longrightarrow>
     (\<exists>m \<in> set (messages d). m_id m = i \<and> m_conversation_id m = cv_id c))"

definition chat_ok :: "db \<Rightarrow> bool" where
  "chat_ok d \<longleftrightarrow>
     (\<forall>u \<in> set (users d). 0 < u_id u) \<and>
     ids_ok cv_id (conversations d) (seqs d T_conversations) \<and>
     ids_ok m_id (messages d) (seqs d T_messages) \<and>
     distinct (map cv_pair (conversations d)) \<and>
     (\<forall>c \<in> set (conversations d). 0 < cv_user_a_id c \<and> cv_user_a_id c < cv_user_b_id c \<and>
        user_exists d (cv_user_a_id c) \<and> user_exists d (cv_user_b_id c) \<and> last_ok d c) \<and>
     (\<forall>m \<in> set (messages d). message_ok d m)"

lemma user_exists_chat [simp]:
  "user_exists (d\<lparr>conversations := cs\<rparr>) i = user_exists d i"
  "user_exists (d\<lparr>messages := ms\<rparr>) i = user_exists d i"
  "user_exists (d\<lparr>clock := t\<rparr>) i = user_exists d i"
  by (simp_all add: user_exists_def)

lemma chat_ok_conversation:
  assumes "chat_ok d" and "conversation_by_id i d = Some c"
  shows "c \<in> set (conversations d) \<and> cv_id c = i \<and> 0 < cv_user_a_id c \<and> 0 < cv_user_b_id c \<and>
    cv_user_a_id c < cv_user_b_id c \<and> user_exists d (cv_user_a_id c) \<and> user_exists d (cv_user_b_id c)"
  using assms unfolding conversation_by_id_def chat_ok_def
  by (auto dest!: row_where_Some)

lemma user_exists_pos: "chat_ok d \<Longrightarrow> user_exists d u \<Longrightarrow> 0 < u"
  by (auto simp: chat_ok_def user_exists_def list_ex_iff)

lemma chat_ok_message:
  assumes "chat_ok d" and "message_by_id i d = Some m"
  shows "\<exists>c. conversation_by_id (m_conversation_id m) d = Some c \<and> in_conversation (m_sender_id m) c \<and>
    0 < m_conversation_id m \<and> 0 < m_sender_id m \<and> m \<in> set (messages d) \<and> m_id m = i"
proof -
  from assms(2) have m: "m \<in> set (messages d)" "m_id m = i"
    by (auto simp: message_by_id_def dest!: row_where_Some)
  with assms(1) obtain c where c: "c \<in> set (conversations d)" "cv_id c = m_conversation_id m"
    "in_conversation (m_sender_id m) c" by (auto simp: chat_ok_def message_ok_def)
  have ids: "ids_ok cv_id (conversations d) (seqs d T_conversations)" using assms(1) by (simp add: chat_ok_def)
  have by_id: "conversation_by_id (m_conversation_id m) d = Some c"
    unfolding conversation_by_id_def c(2) [symmetric] by (rule ids_ok_row [OF ids c(1)])
  have "0 < m_sender_id m"
    using chat_ok_conversation [OF assms(1) by_id] c(3) by (auto simp: in_conversation_def)
  moreover have "0 < m_conversation_id m" using ids_ok_pos [OF ids c(1)] c(2) by simp
  ultimately show ?thesis using by_id c(3) m by blast
qed

section \<open>Who may act\<close>

definition may_chat :: "int \<Rightarrow> conversation_row \<Rightarrow> db \<Rightarrow> bool" where
  "may_chat u c d \<longleftrightarrow> in_conversation u c \<and> \<not> chat_hasBlockBetweenUsers u (peer_of u c) d"

definition chat_context :: "int \<Rightarrow> int \<Rightarrow> conversation_row \<Rightarrow> jobject" where
  "chat_context cid u c = [(''conversationId'', jint cid), (''userId'', jint u),
     (''userAId'', jint (cv_user_a_id c)), (''userBId'', jint (cv_user_b_id c))]"

lemma assert_run:
  assumes "int8_ok e" and "chat_ok d"
  shows "assertConversationParticipant e cid u d =
    (case conversation_by_id cid d of
       None \<Rightarrow> (Inl (NotFound ''Conversation not found''), d)
     | Some c \<Rightarrow>
         if \<not> in_conversation u c then
           (Inl (forbiddenChatException NOT_PARTICIPANT ''Not a participant of this conversation''
                   (chat_context cid u c)), d)
         else if \<not> may_chat u c d then
           (Inl (forbiddenChatException CONVERSATION_BLOCKED ''Conversation is not available''
                   (chat_context cid u c)), d)
         else (Inr (), d))"
proof (cases "conversation_by_id cid d")
  case None
  then show ?thesis by (simp add: assertConversationParticipant_def)
next
  case (Some c)
  from chat_ok_conversation [OF assms(2) this] assms(1) Some show ?thesis
    by (auto simp: assertConversationParticipant_def chat_toPositiveInt_eq in_conversation_def Let_def
        may_chat_def peer_of_def chat_context_def andThen_run unless_run)
qed

lemma reads_assert: "reads (assertConversationParticipant e cid u)"
  unfolding assertConversationParticipant_def reads_def
  by (auto simp: andThen_run unless_run Let_def split: option.splits)

lemma reads_getConversationById: "reads (getConversationById e u cid)"
  unfolding getConversationById_def
proof (intro reads_andThen reads_assert)
  show "reads (gets f)" for f :: "db \<Rightarrow> jobject list" by simp
  show "reads (case rows of [] \<Rightarrow> throw (NotFound ''Conversation not found'')
      | row # x \<Rightarrow> ret [(''conversation'', JObj (normalizeConversationRow e row))])" for rows
    by (cases rows) simp_all
qed

lemma reads_validated_product: "reads (validated_product e u v p)"
  unfolding validated_product_def reads_def
  by (auto simp: andThen_run unless_run Let_def split: option.splits)

lemma assert_InrE:
  assumes "int8_ok e" and "chat_ok d" and "assertConversationParticipant e cid u d = (Inr x, d')"
  obtains c where "conversation_by_id cid d = Some c" and "may_chat u c d" and "d' = d"
  using assms by (auto simp: assert_run split: option.splits if_splits)

section \<open>Every operation keeps the invariant\<close>

lemma chat_ok_next:
  "chat_ok d \<Longrightarrow> chat_ok (d\<lparr>seqs := (seqs d)(t := seqs d t + 1)\<rparr>)"
  by (auto simp: chat_ok_def message_ok_def last_ok_def elim: ids_ok_mono)

lemma message_ok_cong:
  assumes "message_ok d m" and "\<And>c. c \<in> set (conversations d) \<Longrightarrow>
    \<exists>c' \<in> set (conversations d'). cv_id c' = cv_id c \<and> cv_pair c' = cv_pair c"
  shows "message_ok d' m"
  using assms unfolding message_ok_def in_conversation_def cv_pair_def by (metis Pair_inject)

lemma last_ok_cong:
  assumes "last_ok d c" and "\<And>m. m \<in> set (messages d) \<Longrightarrow>
    \<exists>m' \<in> set (messages d'). m_id m' = m_id m \<and> m_conversation_id m' = m_conversation_id m"
  shows "last_ok d' c"
  using assms unfolding last_ok_def by metis

lemma insert_conversation_run:
  "insert_conversation a b p d =
     (let i = seqs d T_conversations + 1; d1 = d\<lparr>seqs := (seqs d)(T_conversations := i)\<rparr>;
          c = \<lparr>cv_id = i, cv_user_a_id = a, cv_user_b_id = b, cv_product_id = p,
               cv_last_message_id = None, cv_created_at = clock d\<rparr> in
      if \<not> a < b then (Inl (PgErr CHECK_VIOLATION), d1)
      else if (a, b) \<in> cv_pair ` set (conversations d) then (Inl (PgErr UNIQUE_VIOLATION), d1)
      else if \<not> user_exists d a \<or> \<not> user_exists d b \<or>
              (case p of None \<Rightarrow> False | Some p \<Rightarrow> \<not> list_ex (\<lambda>q. p_id q = p) (products d))
      then (Inl (PgErr FK_VIOLATION), d1)
      else (Inr i, d1\<lparr>conversations := conversations d @ [c]\<rparr>))"
proof -
  have "list_ex (\<lambda>c. cv_user_a_id c = a \<and> cv_user_b_id c = b) xs \<longleftrightarrow> (a, b) \<in> cv_pair ` set xs" for xs
    by (induction xs) (auto simp: cv_pair_def)
  then show ?thesis by (simp add: insert_conversation_def Let_def cong: option.case_cong)
qed

lemma keeps_insert_conversation: "keeps chat_ok (insert_conversation a b p)"
proof (rule keepsI)
  fix d assume ok: "chat_ok d"
  let ?i = "seqs d T_conversations + 1"
  let ?c = "\<lparr>cv_id = ?i, cv_user_a_id = a, cv_user_b_id = b, cv_product_id = p,
               cv_last_message_id = None, cv_created_at = clock d\<rparr>"
  let ?d1 = "d\<lparr>seqs := (seqs d)(T_conversations := ?i)\<rparr>"
  let ?d2 = "?d1\<lparr>conversations := conversations d @ [?c]\<rparr>"
  have "snd (insert_conversation a b p d) = ?d1 \<or>
      (a < b \<and> (a, b) \<notin> cv_pair ` set (conversations d) \<and> (user_exists d a \<and> user_exists d b) \<and>
       snd (insert_conversation a b p d) = ?d2)"
    by (simp add: insert_conversation_run Let_def)
  moreover have "chat_ok ?d2" if n: "a < b" "(a, b) \<notin> cv_pair ` set (conversations d)" "user_exists d a \<and> user_exists d b"
  proof -
    have "0 < a" using user_exists_pos [OF ok] n(3) by blast
    moreover have "ids_ok cv_id (conversations d @ [?c]) ?i"
      using ok by (intro ids_ok_append) (simp_all add: chat_ok_def)
    moreover have "distinct (map cv_pair (conversations d @ [?c]))"
      using ok n(2) by (simp add: chat_ok_def) (simp add: cv_pair_def)
    moreover have "message_ok ?d2 m" if "m \<in> set (messages d)" for m
    proof (rule message_ok_cong [of d])
      show "message_ok d m" using ok that by (simp add: chat_ok_def)
    qed auto
    moreover have "last_ok ?d2 c" if "c \<in> set (conversations d)" for c
    proof (rule last_ok_cong [of d])
      show "last_ok d c" using ok that by (simp add: chat_ok_def)
    qed auto
    ultimately show ?thesis using ok n(1,3) by (simp add: chat_ok_def last_ok_def [of _ ?c])
  qed
  ultimately show "chat_ok (snd (insert_conversation a b p d))"
    using chat_ok_next [OF ok, of T_conversations] by metis
qed

text \<open>An update of conversations that keeps identifiers and pairs.\<close>

lemma chat_ok_update_conversations:
  assumes ok: "chat_ok d"
    and f: "\<And>c. cv_id (f c) = cv_id c" "\<And>c. cv_pair (f c) = cv_pair c"
    and last: "\<And>c. c \<in> set (conversations d) \<Longrightarrow> P c \<Longrightarrow> last_ok d (f c)"
  shows "chat_ok (d\<lparr>conversations := update_where P f (conversations d)\<rparr>)" (is "chat_ok ?d")
proof -
  have ids: "ids_ok cv_id (update_where P f (conversations d)) (seqs d T_conversations)"
    using ok f(1) by (intro ids_ok_update) (simp_all add: chat_ok_def)
  have pairs: "map cv_pair (update_where P f (conversations d)) = map cv_pair (conversations d)"
    by (rule map_update_where) (rule f(2))
  have ab: "cv_user_a_id (f c) = cv_user_a_id c" "cv_user_b_id (f c) = cv_user_b_id c" for c
    using f(2) [of c] by (simp_all add: cv_pair_def)
  have msg: "message_ok ?d m" if "m \<in> set (messages d)" for m
  proof (rule message_ok_cong [of d])
    show "message_ok d m" using ok that by (simp add: chat_ok_def)
    fix c assume "c \<in> set (conversations d)"
    then have "(if P c then f c else c) \<in> set (conversations ?d)" by (auto simp: set_update_where)
    then show "\<exists>c' \<in> set (conversations ?d). cv_id c' = cv_id c \<and> cv_pair c' = cv_pair c"
      by (rule rev_bexI) (simp add: f)
  qed
  have l: "last_ok ?d c = last_ok d c" for c by (simp add: last_ok_def)
  have "\<forall>c \<in> set (update_where P f (conversations d)).
      0 < cv_user_a_id c \<and> cv_user_a_id c < cv_user_b_id c \<and>
      user_exists d (cv_user_a_id c) \<and> user_exists d (cv_user_b_id c) \<and> last_ok d c"
    using ok last by (simp add: chat_ok_def ab)
  with ok ids pairs msg show ?thesis unfolding chat_ok_def l by simp
qed

lemma insert_message_run:
  "insert_message cid u t d =
     (let i = seqs d T_messages + 1; d1 = d\<lparr>seqs := (seqs d)(T_messages := i)\<rparr>;
          m = \<lparr>m_id = i, m_conversation_id = cid, m_sender_id = u, m_message_text = t,
               m_sent_at = clock d, m_read_at = None\<rparr> in
      if \<not> message_check t then (Inl (PgErr CHECK_VIOLATION), d1)
      else if conversation_by_id cid d = None \<or> \<not> user_exists d u then (Inl (PgErr FK_VIOLATION), d1)
      else (Inr m, d1\<lparr>messages := messages d @ [m]\<rparr>))"
  by (simp add: insert_message_def Let_def conversation_by_id_def)

lemma chat_ok_new_message:
  assumes ok: "chat_ok d" and c: "conversation_by_id cid d = Some c" "in_conversation u c"
  shows "chat_ok (d\<lparr>seqs := (seqs d)(T_messages := seqs d T_messages + 1),
    messages := messages d @ [\<lparr>m_id = seqs d T_messages + 1, m_conversation_id = cid, m_sender_id = u,
      m_message_text = t, m_sent_at = clock d, m_read_at = None\<rparr>]\<rparr>)" (is "chat_ok ?d")
proof -
  let ?m = "\<lparr>m_id = seqs d T_messages + 1, m_conversation_id = cid, m_sender_id = u,
      m_message_text = t, m_sent_at = clock d, m_read_at = None\<rparr>"
  have ids: "ids_ok m_id (messages d @ [?m]) (seqs d T_messages + 1)"
    using ok by (intro ids_ok_append) (simp_all add: chat_ok_def)
  have mok: "message_ok ?d m = message_ok d m" for m by (simp add: message_ok_def)
  have new: "message_ok d ?m"
    using chat_ok_conversation [OF ok c(1)] c(2) by (auto simp: message_ok_def)
  have lst: "last_ok ?d c" if "c \<in> set (conversations d)" for c
  proof (rule last_ok_cong [of d])
    show "last_ok d c" using ok that by (simp add: chat_ok_def)
  qed auto
  from ok ids new lst show ?thesis unfolding chat_ok_def mok by simp
qed

lemma chat_ok_stamp:
  assumes ok: "chat_ok d"
  shows "chat_ok (d\<lparr>messages := update_where (\<lambda>m. m_id m = i) (stamp_read t) (messages d)\<rparr>)" (is "chat_ok ?d")
proof -
  have ids: "ids_ok m_id (update_where (\<lambda>m. m_id m = i) (stamp_read t) (messages d)) (seqs d T_messages)"
    using ok by (intro ids_ok_update) (simp_all add: chat_ok_def stamp_read_def)
  have st: "message_ok d (stamp_read t m) = message_ok d m" for m by (simp add: message_ok_def stamp_read_def)
  have mok: "message_ok ?d m = message_ok d m" for m by (simp add: message_ok_def)
  have lst: "last_ok ?d c" if "c \<in> set (conversations d)" for c
  proof (rule last_ok_cong [of d])
    show "last_ok d c" using ok that by (simp add: chat_ok_def)
    fix m assume "m \<in> set (messages d)"
    then have "(if m_id m = i then stamp_read t m else m) \<in> set (messages ?d)" by (auto simp: set_update_where)
    then show "\<exists>m' \<in> set (messages ?d). m_id m' = m_id m \<and> m_conversation_id m' = m_conversation_id m"
      by (rule rev_bexI) (simp add: stamp_read_def)
  qed
  from ok ids lst show ?thesis unfolding chat_ok_def mok by (simp add: st)
qed

section \<open>Sending\<close>

lemma sendMessage_run:
  assumes "int8_ok e" and "chat_ok d" and "conversation_by_id cid d = Some c" and "may_chat u c d"
  shows "sendMessage e u cid t d =
    (let i = seqs d T_messages + 1; d1 = d\<lparr>seqs := (seqs d)(T_messages := i)\<rparr>;
         m = \<lparr>m_id = i, m_conversation_id = cid, m_sender_id = u, m_message_text = t,
              m_sent_at = clock d, m_read_at = None\<rparr> in
     if \<not> message_check t then (Inl (PgErr CHECK_VIOLATION), d1)
     else (Inr [(''message'', JObj (normalizeMessageRow e (message_row_object e m)))],
           d1\<lparr>messages := messages d @ [m],
               conversations := update_where (\<lambda>c. cv_id c = cid) (\<lambda>c. c\<lparr>cv_last_message_id := Some i\<rparr>)
                 (conversations d)\<rparr>))"
proof -
  have "assertConversationParticipant e cid u d = (Inr (), d)"
    using assms by (simp add: assert_run may_chat_def)
  moreover have "user_exists d u"
    using chat_ok_conversation [OF assms(2,3)] assms(4) by (auto simp: may_chat_def in_conversation_def)
  ultimately show ?thesis
    using assms(3) by (simp add: sendMessage_def andThen_run tryCatch_run insert_message_run Let_def
        CHECK_VIOLATION_def FK_VIOLATION_def)
qed

lemma sendMessage_refused:
  assumes "int8_ok e" and "chat_ok d"
    and "\<nexists>c. conversation_by_id cid d = Some c \<and> may_chat u c d"
  shows "\<exists>x. sendMessage e u cid t d = (Inl x, d)"
proof -
  have "\<exists>x. assertConversationParticipant e cid u d = (Inl x, d)"
    using assms by (auto simp: assert_run may_chat_def split: option.split)
  then show ?thesis by (auto simp: sendMessage_def andThen_run)
qed

lemma conversation_by_id_update:
  assumes "\<And>c. cv_id (f c) = cv_id c"
  shows "row_where (\<lambda>c. cv_id c = i) (update_where P f cs) =
    map_option (\<lambda>c. if P c then f c else c) (row_where (\<lambda>c. cv_id c = i) cs)"
  by (rule row_where_update) (simp add: assms)

lemma keeps_sendMessage:
  assumes "int8_ok e"
  shows "keeps chat_ok (sendMessage e u cid t)"
proof (rule keepsI)
  fix d assume ok: "chat_ok d"
  show "chat_ok (snd (sendMessage e u cid t d))"
  proof (cases "\<exists>c. conversation_by_id cid d = Some c \<and> may_chat u c d")
    case False
    with sendMessage_refused [OF assms ok] ok show ?thesis by (metis snd_conv)
  next
    case True
    then obtain c where c: "conversation_by_id cid d = Some c" "may_chat u c d" by blast
    then have ic: "in_conversation u c" by (simp add: may_chat_def)
    note new = chat_ok_new_message [OF ok c(1) ic, of t]
    let ?d = "d\<lparr>seqs := (seqs d)(T_messages := seqs d T_messages + 1),
      messages := messages d @ [\<lparr>m_id = seqs d T_messages + 1, m_conversation_id = cid, m_sender_id = u,
        m_message_text = t, m_sent_at = clock d, m_read_at = None\<rparr>]\<rparr>"
    have "chat_ok (?d\<lparr>conversations := update_where (\<lambda>c. cv_id c = cid)
        (\<lambda>c. c\<lparr>cv_last_message_id := Some (seqs d T_messages + 1)\<rparr>) (conversations ?d)\<rparr>)"
      by (rule chat_ok_update_conversations [OF new]) (simp_all add: cv_pair_def last_ok_def)
    with chat_ok_next [OF ok, of T_messages] show ?thesis
      by (simp add: sendMessage_run [OF assms ok c] Let_def)
  qed
qed


definition sample_chat :: db where
  "sample_chat = sample_db\<lparr>
     conversations := [\<lparr>cv_id = 1, cv_user_a_id = 1, cv_user_b_id = 2, cv_product_id = None,
       cv_last_message_id = Some 1, cv_created_at = 0\<rparr>],
     messages := [\<lparr>m_id = 1, m_conversation_id = 1, m_sender_id = 2, m_message_text = ''Hi'',
       m_sent_at = 0, m_read_at = None\<rparr>],
     seqs := (seqs sample_db)(T_conversations := 1, T_messages := 1)\<rparr>"

lemma sample_chat_ok: "chat_ok sample_chat"
  by (simp add: chat_ok_def sample_chat_def samples ids_ok_def message_ok_def last_ok_def in_conversation_def
      user_exists_def)


section \<open>Reading\<close>

lemma markRead_run:
  assumes "int8_ok e" and "chat_ok d" and "message_by_id i d = Some m"
  shows "markRead e u i d =
    (case assertConversationParticipant e (m_conversation_id m) u d of
       (Inl x, d1) \<Rightarrow> (Inl x, d1)
     | (Inr _, d1) \<Rightarrow>
         if m_sender_id m = u then (Inl (Forbidden ''Only recipients can mark messages as read''), d)
         else (Inr [(''message'', JObj (normalizeMessageRow e (message_row_object e (stamp_read (clock d) m))))],
               d\<lparr>messages := update_where (\<lambda>m. m_id m = i) (stamp_read (clock d)) (messages d)\<rparr>))"
proof -
  have "message_by_id i (d\<lparr>messages := update_where (\<lambda>m. m_id m = i) (stamp_read (clock d)) (messages d)\<rparr>) =
      map_option (\<lambda>m. if m_id m = i then stamp_read (clock d) m else m) (message_by_id i d)"
    unfolding message_by_id_def by simp (rule row_where_update, simp add: stamp_read_def)
  then have upd: "message_by_id i (d\<lparr>messages := update_where (\<lambda>m. m_id m = i) (stamp_read (clock d)) (messages d)\<rparr>) =
      Some (stamp_read (clock d) m)"
    using assms(3) by (auto simp: message_by_id_def dest: row_where_Some)
  obtain r d1 where a0: "assertConversationParticipant e (m_conversation_id m) u d = (r, d1)" by fastforce
  with readsD [OF reads_assert a0] have a: "assertConversationParticipant e (m_conversation_id m) u d = (r, d)"
    by simp
  from chat_ok_message [OF assms(2,3)] have pos: "0 < m_conversation_id m" "0 < m_sender_id m" by auto
  show ?thesis
    using assms(1,3) pos upd a
    by (cases r) (simp_all add: markRead_def andThen_run unless_run chat_toPositiveInt_eq)
qed

lemma keeps_markRead:
  assumes "int8_ok e"
  shows "keeps chat_ok (markRead e u i)"
proof (rule keepsI)
  fix d assume ok: "chat_ok d"
  show "chat_ok (snd (markRead e u i d))"
  proof (cases "message_by_id i d")
    case None
    with ok show ?thesis by (simp add: markRead_def)
  next
    case (Some m)
    obtain r d1 where a: "assertConversationParticipant e (m_conversation_id m) u d = (r, d1)" by fastforce
    with readsD [OF reads_assert a] ok chat_ok_stamp [OF ok] show ?thesis
      by (simp add: markRead_run [OF assms ok Some] split: sum.split)
  qed
qed

lemma update_where_Cons:
  "update_where P f (x # xs) = (if P x then f x else x) # update_where P f xs"
  by (simp add: update_where_def)

lemma unread_count_stamp:
  assumes "distinct (map m_id ms)" and "m \<in> set ms" and "m_read_at m = None" and "m_conversation_id m = c"
    and "m_sender_id m \<noteq> u"
  shows "length (filter (\<lambda>m. m_conversation_id m = c \<and> m_sender_id m \<noteq> u \<and> m_read_at m = None)
       (update_where (\<lambda>x. m_id x = m_id m) (stamp_read t) ms)) + 1 =
     length (filter (\<lambda>m. m_conversation_id m = c \<and> m_sender_id m \<noteq> u \<and> m_read_at m = None) ms)"
  using assms
proof (induction ms)
  case Nil
  then show ?case by simp
next
  case (Cons x xs)
  show ?case
  proof (cases "m_id x = m_id m")
    case True
    with Cons.prems(1,2) have x: "x = m" by (auto simp: image_iff)
    from Cons.prems(1) x have "m_id y \<noteq> m_id m" if "y \<in> set xs" for y
      using that by (auto simp: image_iff)
    then have "update_where (\<lambda>x. m_id x = m_id m) (stamp_read t) xs = xs"
      by (auto simp: update_where_def intro: map_idI)
    with Cons.prems x show ?thesis by (simp add: update_where_Cons) (simp add: stamp_read_def)
  next
    case False
    with Cons show ?thesis by (auto simp: update_where_Cons)
  qed
qed

lemma stamp_read_twice: "stamp_read s (stamp_read t m) = stamp_read t m"
  by (simp add: stamp_read_def)

lemma message_after_stamp:
  assumes "message_by_id i d = Some m"
  shows "message_by_id i (d\<lparr>messages := update_where (\<lambda>m. m_id m = i) (stamp_read t) (messages d)\<rparr>) =
    Some (stamp_read t m)"
proof -
  have "row_where (\<lambda>x. m_id x = i) (update_where (\<lambda>m. m_id m = i) (stamp_read t) (messages d)) =
      map_option (\<lambda>m. if m_id m = i then stamp_read t m else m) (row_where (\<lambda>x. m_id x = i) (messages d))"
    by (rule row_where_update) (simp add: stamp_read_def)
  with assms show ?thesis by (auto simp: message_by_id_def dest: row_where_Some)
qed

text \<open>Marking again, at any later time, changes nothing and answers the same.\<close>

lemma markRead_again:
  assumes "int8_ok e" and "chat_ok d" and "message_by_id i d = Some m" and "m_sender_id m \<noteq> u"
    and "conversation_by_id (m_conversation_id m) d = Some c" and "may_chat u c d"
    and "d' = d\<lparr>messages := update_where (\<lambda>m. m_id m = i) (stamp_read (clock d)) (messages d), clock := t\<rparr>"
  shows "markRead e u i d' =
    (Inr [(''message'', JObj (normalizeMessageRow e (message_row_object e (stamp_read (clock d) m))))], d')"
proof -
  have ok: "chat_ok d'"
    using chat_ok_stamp [OF assms(2), of i "clock d"] unfolding assms(7)
    by (simp add: chat_ok_def message_ok_def last_ok_def)
  have m: "message_by_id i d' = Some (stamp_read (clock d) m)"
    using message_after_stamp [OF assms(3), of "clock d"] by (simp add: assms(7) message_by_id_def)
  have "assertConversationParticipant e (m_conversation_id m) u d' = (Inr (), d')"
    using assms(5,6) unfolding assert_run [OF assms(1) ok]
    by (simp add: assms(7) conversation_by_id_def may_chat_def chat_hasBlockBetweenUsers_def)
  moreover have "update_where (\<lambda>m. m_id m = i) (stamp_read t) (messages d') = messages d'" for t
    by (auto simp: assms(7) update_where_def stamp_read_twice)
  moreover have "m_conversation_id (stamp_read (clock d) m) = m_conversation_id m"
    "m_sender_id (stamp_read (clock d) m) = m_sender_id m" by (simp_all add: stamp_read_def)
  ultimately show ?thesis
    using assms(4) unfolding markRead_run [OF assms(1) ok m] by (simp add: stamp_read_twice)
qed

text \<open>
  Marking a message as read: it succeeds exactly for the participant who did not send it and is not
  blocked; it sets the reading time of that message only, keeps an earlier reading time, so that marking
  again at any later time changes no message and answers the same, and takes a message that was unread off the
  reader's unread count.
\<close>

theorem mark_read_once:
  assumes "int8_ok e" and "chat_ok d" and "message_by_id i d = Some m" and "markRead e u i d = (r, d')"
  shows "((\<exists>x. r = Inr x) \<longleftrightarrow> m_sender_id m \<noteq> u \<and>
      (\<exists>c. conversation_by_id (m_conversation_id m) d = Some c \<and> may_chat u c d)) \<and>
    (\<forall>x. r = Inr x \<longrightarrow>
       messages d' = update_where (\<lambda>m. m_id m = i) (stamp_read (clock d)) (messages d) \<and>
       message_by_id i d' = Some (stamp_read (clock d) m) \<and>
       markRead e u i (d'\<lparr>clock := t\<rparr>) = (Inr x, d'\<lparr>clock := t\<rparr>) \<and>
       (m_read_at m = None \<longrightarrow>
         unread_count u (m_conversation_id m) d' + 1 = unread_count u (m_conversation_id m) d)) \<and>
    (\<forall>x. r = Inl x \<longrightarrow> d' = d)"
proof -
  obtain ra d1 where a0: "assertConversationParticipant e (m_conversation_id m) u d = (ra, d1)" by fastforce
  from readsD [OF reads_assert a0] have d1: "d1 = d" .
  note a = a0 [unfolded d1]
  from chat_ok_message [OF assms(2,3)] obtain c where
    c: "conversation_by_id (m_conversation_id m) d = Some c" "m \<in> set (messages d)" "m_id m = i" by blast
  have allowed: "(\<exists>x. ra = Inr x) \<longleftrightarrow> may_chat u c d"
    using a c(1) by (auto simp: assert_run [OF assms(1,2)] may_chat_def split: if_splits)
  note run = markRead_run [OF assms(1-3), of u]
  show ?thesis
  proof (cases "may_chat u c d \<and> m_sender_id m \<noteq> u")
    case False
    with allowed run a assms(4) c(1) show ?thesis by (cases ra) (auto split: if_splits)
  next
    case True
    then have ra: "ra = Inr ()" using allowed by auto
    let ?f = "stamp_read (clock d)"
    have d': "d' = d\<lparr>messages := update_where (\<lambda>m. m_id m = i) ?f (messages d)\<rparr>"
      and r: "r = Inr [(''message'', JObj (normalizeMessageRow e (message_row_object e (?f m))))]"
      using run a ra True assms(4) by auto
    have by': "message_by_id i d' = Some (?f m)" unfolding d' by (rule message_after_stamp [OF assms(3)])
    have again: "markRead e u i (d'\<lparr>clock := t\<rparr>) = (r, d'\<lparr>clock := t\<rparr>)"
      unfolding r by (rule markRead_again [OF assms(1-3) _ c(1)]) (use True d' in simp_all)
    have unread: "unread_count u (m_conversation_id m) d' + 1 = unread_count u (m_conversation_id m) d"
      if "m_read_at m = None"
      using unread_count_stamp [of "messages d" m "m_conversation_id m" u "clock d"] assms(2) c that True
      by (simp add: unread_count_def d' chat_ok_def ids_ok_def)
    have "(\<exists>x. r = Inr x) \<longleftrightarrow> m_sender_id m \<noteq> u \<and>
      (\<exists>c. conversation_by_id (m_conversation_id m) d = Some c \<and> may_chat u c d)"
      using True c(1) r by simp
    moreover have "messages d' = update_where (\<lambda>m. m_id m = i) ?f (messages d)" by (simp add: d')
    ultimately show ?thesis using by' again unread r by simp
  qed
qed

theorem mark_read_once_witness:
  "\<exists>x d'. markRead sample_env 1 1 (sample_chat\<lparr>clock := 7\<rparr>) = (Inr x, d') \<and>
     markRead sample_env 1 1 (d'\<lparr>clock := 9\<rparr>) = (Inr x, d'\<lparr>clock := 9\<rparr>) \<and>
     unread_count 1 1 d' + 1 = unread_count 1 1 sample_chat"
proof -
  let ?d = "sample_chat\<lparr>clock := 7\<rparr>"
  let ?m = "\<lparr>m_id = 1, m_conversation_id = 1, m_sender_id = 2, m_message_text = ''Hi'',
       m_sent_at = 0, m_read_at = None\<rparr>"
  have ok: "chat_ok ?d" using sample_chat_ok by (simp add: chat_ok_def message_ok_def last_ok_def)
  have m: "message_by_id 1 ?d = Some ?m" by (simp add: message_by_id_def sample_chat_def samples)
  have may: "\<exists>c. conversation_by_id 1 ?d = Some c \<and> may_chat 1 c ?d"
    by (simp add: conversation_by_id_def sample_chat_def samples may_chat_def in_conversation_def
        chat_hasBlockBetweenUsers_def)
  obtain r d' where s: "markRead sample_env 1 1 ?d = (r, d')" by fastforce
  note p = mark_read_once [OF sample_int8_ok ok m s, of 9]
  from p may obtain x where "r = Inr x" by auto
  with p s show ?thesis by (auto simp: unread_count_def)
qed

section \<open>Opening a conversation\<close>

lemma row_where_conj:
  "row_where P xs = Some x \<Longrightarrow> Q x \<Longrightarrow> row_where (\<lambda>x. P x \<and> Q x) xs = Some x"
  by (induction xs) (auto split: if_splits)

lemma filter_row_where:
  "(case map f (filter P xs) of [] \<Rightarrow> a | y # ys \<Rightarrow> k y) =
   (case row_where P xs of None \<Rightarrow> a | Some x \<Rightarrow> k (f x))"
  by (induction xs) auto

lemma getConversationById_run:
  assumes "int8_ok e" and "chat_ok d" and "conversation_by_id i d = Some c" and "may_chat u c d"
  shows "getConversationById e u i d =
    (Inr [(''conversation'', JObj (normalizeConversationRow e (conversation_row_object e u d c)))], d)"
proof -
  have "assertConversationParticipant e i u d = (Inr (), d)"
    using assms by (simp add: assert_run may_chat_def)
  moreover have "user_exists d (peer_of u c)"
    using chat_ok_conversation [OF assms(2,3)] by (auto simp: peer_of_def)
  then have "row_where (\<lambda>c. cv_id c = i \<and> user_exists d (peer_of u c)) (conversations d) = Some c"
    using assms(3) unfolding conversation_by_id_def by (rule row_where_conj [rotated])
  ultimately show ?thesis
    by (simp add: getConversationById_def andThen_run filter_row_where)
qed

lemma keeps_getOrCreate:
  assumes "int8_ok e"
  shows "keeps chat_ok (getOrCreateConversation e u v p)"
proof -
  have upd: "keeps chat_ok (modify (\<lambda>d. d\<lparr>conversations :=
      update_where (\<lambda>c. cv_id c = i) (\<lambda>c. c\<lparr>cv_product_id := q\<rparr>) (conversations d)\<rparr>))" for i q
  proof (rule keeps_modify)
    fix d assume ok: "chat_ok d"
    show "chat_ok (d\<lparr>conversations :=
        update_where (\<lambda>c. cv_id c = i) (\<lambda>c. c\<lparr>cv_product_id := q\<rparr>) (conversations d)\<rparr>)"
    proof (rule chat_ok_update_conversations [OF ok])
      fix c assume "c \<in> set (conversations d)"
      with ok have "last_ok d c" by (simp add: chat_ok_def)
      then show "last_ok d (c\<lparr>cv_product_id := q\<rparr>)" by (simp add: last_ok_def)
    qed (simp_all add: cv_pair_def)
  qed
  show ?thesis
    unfolding getOrCreateConversation_def existing_or_new_def
    by (intro keeps_rules upd keeps_insert_conversation reads_validated_product [THEN reads_keeps]
        reads_getConversationById [THEN reads_keeps])
qed

text \<open>
  The chat stays well formed: opening a conversation, sending and marking as read, successful or not,
  keep conversations unique per unordered pair of distinct existing users, every message written by a
  participant of its conversation, and every last-message reference inside its own conversation.
\<close>

theorem chat_invariant:
  assumes "int8_ok e" and "chat_ok d"
  shows "chat_ok (snd (getOrCreateConversation e u v p d)) \<and> chat_ok (snd (sendMessage e u cid t d)) \<and>
    chat_ok (snd (markRead e u i d))"
  using assms keeps_getOrCreate [OF assms(1)] keeps_sendMessage [OF assms(1)] keeps_markRead [OF assms(1)]
  by (simp add: keeps_def)

theorem chat_invariant_witness:
  "chat_ok (snd (getOrCreateConversation sample_env 1 2 (Some 1) sample_chat)) \<and>
   chat_ok (snd (sendMessage sample_env 1 1 ''Hello'' sample_chat)) \<and>
   chat_ok (snd (markRead sample_env 1 1 sample_chat))"
  by (rule chat_invariant [OF sample_int8_ok sample_chat_ok])

lemma min_max_pair: "a \<noteq> (b::int) \<Longrightarrow> min a b < max a b"
  by simp

definition conversation_of :: "int \<Rightarrow> int \<Rightarrow> db \<Rightarrow> conversation_row option" where
  "conversation_of u v d =
     row_where (\<lambda>c. cv_user_a_id c = min u v \<and> cv_user_b_id c = max u v) (conversations d)"

lemma conversation_of_sym: "conversation_of u v d = conversation_of v u d"
  by (simp add: conversation_of_def min.commute max.commute)

lemma conversation_of_by_id:
  assumes "chat_ok d" and "conversation_of u v d = Some c"
  shows "conversation_by_id (cv_id c) d = Some c \<and> in_conversation u c \<and> in_conversation v c \<and>
    (u \<noteq> v \<longrightarrow> peer_of u c = v)"
proof -
  have c: "c \<in> set (conversations d)" "cv_user_a_id c = min u v" "cv_user_b_id c = max u v"
    using assms(2) by (auto simp: conversation_of_def dest!: row_where_Some)
  moreover have "ids_ok cv_id (conversations d) (seqs d T_conversations)" using assms(1) by (simp add: chat_ok_def)
  from ids_ok_row [OF this c(1)] have "conversation_by_id (cv_id c) d = Some c" by (simp add: conversation_by_id_def)
  ultimately show ?thesis by (auto simp: in_conversation_def peer_of_def min_def max_def)
qed

lemma conversation_object_id:
  "obj_get (normalizeConversationRow e (conversation_row_object e u d c)) ''id'' = int8_parse e (cv_id c)"
  by (simp add: normalizeConversationRow_def conversation_row_object_def Let_def)

text \<open>The steps of a successful call.\<close>

lemma getOrCreate_InrE:
  assumes "getOrCreateConversation e u v p d = (Inr r, d')"
  obtains q c dc where "u \<noteq> v" and "live_user d v" and "\<not> chat_hasBlockBetweenUsers u v d"
    and "validated_product e u v p d = (Inr q, d)"
    and "conversation_of u v dc = Some c" and "getConversationById e u (cv_id c) dc = (Inr r, d')"
    and "user_blocks dc = user_blocks d" and "users dc = users d"
    and "conversation_of u v d \<noteq> None \<Longrightarrow> map cv_id (conversations dc) = map cv_id (conversations d)"
proof -
  from assms obtain q d1 where 1: "u \<noteq> v" "live_user d v" "\<not> chat_hasBlockBetweenUsers u v d"
    and vq: "validated_product e u v p d = (Inr q, d1)"
    and rest: "existing_or_new e u (min u v) (max u v) q d1 = (Inr r, d')"
    unfolding getOrCreateConversation_def
    by (auto simp: assertUserExists_run elim!: andThen_InrE unless_InrE split: if_splits)
  have d1: "d1 = d" using readsD [OF reads_validated_product vq] .
  show thesis
  proof (cases "conversation_of u v d")
    case (Some c)
    define dc where "dc = (if q \<noteq> None \<and> \<not> truthy (jopt (int8_parse e) (cv_product_id c))
      then d\<lparr>conversations := update_where (\<lambda>x. cv_id x = cv_id c) (\<lambda>c. c\<lparr>cv_product_id := q\<rparr>) (conversations d)\<rparr>
      else d)"
    have g: "getConversationById e u (cv_id c) dc = (Inr r, d')"
      using rest Some unfolding d1 dc_def existing_or_new_def conversation_of_def
      by (auto simp: andThen_run split: if_splits)
    have "row_where (\<lambda>c. cv_user_a_id c = min u v \<and> cv_user_b_id c = max u v)
        (update_where (\<lambda>x. cv_id x = cv_id c) (\<lambda>c. c\<lparr>cv_product_id := q\<rparr>) (conversations d)) =
        map_option (\<lambda>x. if cv_id x = cv_id c then x\<lparr>cv_product_id := q\<rparr> else x)
          (row_where (\<lambda>c. cv_user_a_id c = min u v \<and> cv_user_b_id c = max u v) (conversations d))"
      by (rule row_where_update) simp
    with Some have "\<exists>c'. conversation_of u v dc = Some c' \<and> cv_id c' = cv_id c"
      by (auto simp: conversation_of_def dc_def)
    then obtain c' where c': "conversation_of u v dc = Some c'" "cv_id c' = cv_id c" by blast
    have "map cv_id (conversations dc) = map cv_id (conversations d)"
      by (simp add: dc_def map_update_where)
    moreover have "user_blocks dc = user_blocks d" "users dc = users d" by (simp_all add: dc_def)
    ultimately show thesis using that [OF 1 vq [unfolded d1] c'(1)] g c'(2) by simp
  next
    case None
    from rest None obtain i d2 where ins: "insert_conversation (min u v) (max u v) q d = (Inr i, d2)"
      and g: "getConversationById e u i d2 = (Inr r, d')"
      unfolding d1 existing_or_new_def conversation_of_def
      by (auto simp: tryCatch_run elim!: andThen_InrE split: sum.splits prod.splits if_splits)
    have i: "i = seqs d T_conversations + 1" and
      d2: "d2 = d\<lparr>seqs := (seqs d)(T_conversations := i), conversations := conversations d @
        [\<lparr>cv_id = i, cv_user_a_id = min u v, cv_user_b_id = max u v, cv_product_id = q,
               cv_last_message_id = None, cv_created_at = clock d\<rparr>]\<rparr>"
      using ins by (auto simp: insert_conversation_run Let_def split: if_splits)
    have "conversation_of u v d2 = Some \<lparr>cv_id = i, cv_user_a_id = min u v, cv_user_b_id = max u v,
        cv_product_id = q, cv_last_message_id = None, cv_created_at = clock d\<rparr>"
      using None by (simp add: conversation_of_def d2 row_where_append)
    from that [OF 1 vq [unfolded d1] this] g None show thesis by (simp add: d2)
  qed
qed

definition response_id :: "jobject \<Rightarrow> json" where
  "response_id r = get_prop (obj_get r ''conversation'') ''id''"

lemma response_id_run:
  "response_id [(''conversation'', JObj (normalizeConversationRow e (conversation_row_object e u d c)))] =
     int8_parse e (cv_id c)"
  by (simp add: response_id_def conversation_object_id)

lemma open_existing:
  assumes "int8_ok e" and ok: "chat_ok d" and "u \<noteq> v" and "live_user d v"
    and nb: "\<not> chat_hasBlockBetweenUsers u v d" and c: "conversation_of u v d = Some c"
  shows "\<exists>r. getOrCreateConversation e u v None d = (Inr r, d) \<and> response_id r = int8_parse e (cv_id c)"
proof -
  from conversation_of_by_id [OF ok c] nb assms(3) have "may_chat u c d"
    and i: "conversation_by_id (cv_id c) d = Some c" by (simp_all add: may_chat_def)
  from getConversationById_run [OF assms(1) ok i this(1)] assms(3,4) nb c show ?thesis
    by (simp add: getOrCreateConversation_def existing_or_new_def andThen_run unless_run
        assertUserExists_run validated_product_def conversation_of_def response_id_run)
qed

text \<open>
  C34. One conversation per pair: after a successful \<open>getOrCreateConversation\<close> of \<open>u\<close> with \<open>v\<close> exactly one
  conversation of the two exists and the answer carries its identifier; if it existed before, no
  conversation was added; and when \<open>v\<close> opens the chat with \<open>u\<close> afterwards he gets the same conversation
  and nothing changes.
\<close>

theorem one_conversation_per_pair:
  assumes "int8_ok e" and "chat_ok d" and "live_user d u"
    and "getOrCreateConversation e u v p d = (Inr r, d')"
  shows "\<exists>c. conversation_of u v d' = Some c \<and> response_id r = int8_parse e (cv_id c) \<and>
    (\<forall>c' \<in> set (conversations d'). cv_pair c' = cv_pair c \<longrightarrow> c' = c) \<and>
    (conversation_of u v d \<noteq> None \<longrightarrow> map cv_id (conversations d') = map cv_id (conversations d)) \<and>
    (\<exists>r2. getOrCreateConversation e v u None d' = (Inr r2, d') \<and> response_id r2 = response_id r)"
proof -
  have ok': "chat_ok d'" using keepsD [OF keeps_getOrCreate [OF assms(1)] assms(2,4)] .
  obtain q c dc where uv: "u \<noteq> v" and nb: "\<not> chat_hasBlockBetweenUsers u v d"
    and cdc: "conversation_of u v dc = Some c" and g: "getConversationById e u (cv_id c) dc = (Inr r, d')"
    and fr: "user_blocks dc = user_blocks d" "users dc = users d"
    and old: "conversation_of u v d \<noteq> None \<Longrightarrow> map cv_id (conversations dc) = map cv_id (conversations d)"
    using getOrCreate_InrE [OF assms(4)] by metis
  have d': "dc = d'" using readsD [OF reads_getConversationById g] by simp
  note c = cdc [unfolded d']
  from conversation_of_by_id [OF ok' c] uv have i: "conversation_by_id (cv_id c) d' = Some c"
    and ic: "in_conversation u c" "peer_of u c = v" by blast+
  have nb': "\<not> chat_hasBlockBetweenUsers u v d'" using nb chat_blocks.block_cong fr(1) d' by metis
  with ic have "may_chat u c d'" by (simp add: may_chat_def)
  from getConversationById_run [OF assms(1) ok' i this] g d'
  have rid: "response_id r = int8_parse e (cv_id c)" by (auto simp: response_id_run)
  have "live_user d' u" using assms(3) fr(2) d' by (simp add: live_user_def)
  from open_existing [OF assms(1) ok' _ this, of v c] uv nb' c
  have return: "\<exists>r2. getOrCreateConversation e v u None d' = (Inr r2, d') \<and> response_id r2 = response_id r"
    by (metis chat_blocks.block_symmetric conversation_of_sym rid)
  have "c \<in> set (conversations d')" using c by (auto simp: conversation_of_def dest!: row_where_Some)
  moreover have "inj_on cv_pair (set (conversations d'))"
    using ok' by (simp add: chat_ok_def distinct_map)
  ultimately have "\<forall>c' \<in> set (conversations d'). cv_pair c' = cv_pair c \<longrightarrow> c' = c"
    by (auto dest: inj_onD)
  with c rid old return d' show ?thesis by blast
qed

theorem one_conversation_per_pair_witness:
  "\<exists>r d' r2. getOrCreateConversation sample_env 2 1 (Some 1) sample_db = (Inr r, d') \<and>
     getOrCreateConversation sample_env 1 2 None d' = (Inr r2, d') \<and> response_id r2 = response_id r"
proof -
  have ok: "chat_ok sample_db" by (simp add: chat_ok_def samples)
  have live: "live_user sample_db 2" by (simp add: live_user_def samples)
  obtain r d' where g: "getOrCreateConversation sample_env 2 1 (Some 1) sample_db = (r, d')" by fastforce
  have "\<not> isl (fst (getOrCreateConversation sample_env 2 1 (Some 1) sample_db))"
    by (simp add: getOrCreateConversation_def existing_or_new_def andThen_run unless_run tryCatch_run
        assertUserExists_run validated_product_def live_product_def insert_conversation_def
        chat_hasBlockBetweenUsers_def live_user_def user_exists_def getConversationById_def
        assertConversationParticipant_def conversation_by_id_def chat_toPositiveInt_eq Let_def
        samples peer_of_def int8_as_string_def int_str_def toPositiveInt_def js_trim_digits nat_str_digits is_integer_def)
  with g obtain x where "r = Inr x" by (cases r) auto
  with one_conversation_per_pair [OF sample_int8_ok ok live g [unfolded this]] g show ?thesis by blast
qed

section \<open>Blocks\<close>

text \<open>
  C24. A block closes the chat for both sides: once either user has blocked the other, neither can open,
  read, list the messages of, or write to their conversation, or mark its messages as read, and it is
  missing from both conversation lists; everything they try leaves the state as it was.
\<close>

theorem block_closes_chat:
  assumes "int8_ok e" and "chat_ok d" and "blockUser a b d0 = (Inr res, d)"
    and "{u, v} = {a, b}" and "conversation_of u v d = Some c"
  shows "(\<exists>x. getOrCreateConversation e u v p d = (Inl x, d)) \<and>
    (\<exists>x. getConversationById e u (cv_id c) d = (Inl x, d)) \<and>
    (\<exists>x. listMessages e u (cv_id c) limit before d = (Inl x, d)) \<and>
    (\<exists>x. sendMessage e u (cv_id c) t d = (Inl x, d)) \<and>
    (\<forall>m. message_by_id i d = Some m \<and> m_conversation_id m = cv_id c \<longrightarrow>
       (\<exists>x. markRead e u i d = (Inl x, d))) \<and>
    c \<notin> set (conversation_rows u scope d)"
proof -
  have blocked: "chat_hasBlockBetweenUsers u v d"
    using chat_blocks.after_block [OF assms(3)] assms(4) by (auto simp: doubleton_eq_iff)
  have uv: "u \<noteq> v" using assms(3,4) by (auto simp: blockUser_def unless_run andThen_run doubleton_eq_iff split: if_splits)
  from conversation_of_by_id [OF assms(2,5)] uv have i: "conversation_by_id (cv_id c) d = Some c"
    and pc: "peer_of u c = v" and "in_conversation u c" by blast+
  with blocked have may: "\<not> may_chat u c d" by (simp add: may_chat_def)
  have asrt: "\<exists>x. assertConversationParticipant e (cv_id c) u d = (Inl x, d)"
    using i may by (simp add: assert_run [OF assms(1,2)])
  have "\<exists>x. getOrCreateConversation e u v p d = (Inl x, d)"
    using blocked uv by (simp add: getOrCreateConversation_def andThen_run unless_run assertUserExists_run)
  moreover have "\<exists>x. getConversationById e u (cv_id c) d = (Inl x, d)"
    "\<exists>x. listMessages e u (cv_id c) limit before d = (Inl x, d)"
    "\<exists>x. sendMessage e u (cv_id c) t d = (Inl x, d)"
    using asrt by (auto simp: getConversationById_def listMessages_def sendMessage_def andThen_run)
  moreover have "\<exists>x. markRead e u i d = (Inl x, d)"
    if "message_by_id i d = Some m" "m_conversation_id m = cv_id c" for m
    using markRead_run [OF assms(1,2) that(1), of u] that(2) asrt by auto
  moreover have "list_ex (\<lambda>ub. (b_blocker_id ub = u \<and> b_blocked_id ub = peer_of u c) \<or>
      (b_blocked_id ub = u \<and> b_blocker_id ub = peer_of u c)) (user_blocks d)"
    using blocked unfolding pc by (auto simp: chat_hasBlockBetweenUsers_def list_ex_iff)
  then have "c \<notin> set (conversation_rows u scope d)" by (simp add: conversation_rows_def)
  ultimately show ?thesis by blast
qed

theorem block_closes_chat_witness:
  "\<exists>d c. blockUser 2 1 sample_chat = (Inr [(''message'', JStr ''User blocked'')], d) \<and>
     conversation_of 1 2 d = Some c \<and> (\<exists>x. sendMessage sample_env 1 (cv_id c) ''Hello'' d = (Inl x, d))"
proof -
  obtain d where b: "blockUser 2 1 sample_chat = (Inr [(''message'', JStr ''User blocked'')], d)"
    and d: "d = sample_chat\<lparr>user_blocks := [\<lparr>b_blocker_id = 2, b_blocked_id = 1, b_created_at = 0\<rparr>]\<rparr>"
    by (simp add: blockUser_def insert_block_def andThen_run unless_run sample_chat_def samples
        live_user_def user_exists_def)
  have ok: "chat_ok d"
    using sample_chat_ok unfolding d by (simp add: chat_ok_def message_ok_def last_ok_def user_exists_def)
  obtain c where c: "conversation_of 1 2 d = Some c"
    unfolding d by (simp add: conversation_of_def sample_chat_def)
  from block_closes_chat [OF sample_int8_ok ok b _ c] b c show ?thesis by blast
qed

section \<open>A product that is no longer available\<close>

text \<open>
  The owner of a sold or archived product cannot open a chat about it: with the driver's documented
  reading of \<open>BIGINT\<close> as strings the comparison of \<open>owner_id\<close> with the caller's number never holds, so
  everyone, the owner included, is refused; with a driver that reads numbers the owner passes.
\<close>

theorem sold_product_refuses_its_owner:
  assumes "live_product pid d = Some p" and "p_status p \<noteq> Available" and "pid \<noteq> 0"
    and "u \<noteq> v" and "live_user d v" and "\<not> chat_hasBlockBetweenUsers u v d" and "p_owner_id p = u"
  shows "(int8_parse e = int8_as_string \<longrightarrow> getOrCreateConversation e u v (Some pid) d =
       (Inl (Forbidden ''Product is not available for conversation''), d)) \<and>
    (int8_parse e = int8_as_number \<longrightarrow> validated_product e u v (Some pid) d = (Inr (Some pid), d))"
  using assms
  by (simp add: getOrCreateConversation_def validated_product_def andThen_run unless_run Let_def
      assertUserExists_run int8_as_string_def int8_as_number_def jint_def)

theorem sold_product_refuses_its_owner_witness:
  "getOrCreateConversation sample_env 1 2 (Some 1) (sample_db\<lparr>products := [sample_product\<lparr>p_status := Sold\<rparr>]\<rparr>) =
     (Inl (Forbidden ''Product is not available for conversation''),
      sample_db\<lparr>products := [sample_product\<lparr>p_status := Sold\<rparr>]\<rparr>)"
  using sold_product_refuses_its_owner [of 1 "sample_db\<lparr>products := [sample_product\<lparr>p_status := Sold\<rparr>]\<rparr>"
      "sample_product\<lparr>p_status := Sold\<rparr>" 1 2 sample_env]
  by (simp add: live_product_def live_user_def samples chat_hasBlockBetweenUsers_def)

end
