(* ===== verification/Files.thy ===== *)
theory Files
  imports Guards Products
begin

text \<open>
  \<open>src/src/files\<close>: the public address of a stored file, upload intents signed for Cloudinary, and the
  life of a row of \<open>files\<close> from \<open>pending\<close> to \<open>uploaded\<close>. The locale \<open>storage_uploader\<close> is what
  \<open>FilesService\<close> expects of a \<open>StorageUploader\<close>.
\<close>

section \<open>FileReadUrlService\<close>

text \<open>An empty string and the missing second part of \<open>split\<close> both mean no format.\<close>

definition subtype_of :: "string \<Rightarrow> string" where
  "subtype_of mimeType =
     (case split_str (CHR ''/'') mimeType of
        _ # s # _ \<Rightarrow> js_lower (hd (split_str (CHR ''+'') s))
      | _ \<Rightarrow> [])"

definition resolveFormat :: "string \<Rightarrow> string option" where
  "resolveFormat mimeType =
     (if mimeType = [] \<or> (\<not> starts_with mimeType ''image/'' \<and> \<not> starts_with mimeType ''video/'')
      then None
      else
        (let subtype = subtype_of mimeType in
         if subtype = [] then None
         else if subtype = ''jpeg'' then Some ''jpg''
         else Some subtype))"

definition buildReadUrl :: "env \<Rightarrow> string \<Rightarrow> string \<Rightarrow> string" where
  "buildReadUrl e objectKey mimeType =
     (let resourceType = (if starts_with mimeType ''image/'' then ''image''
                          else if starts_with mimeType ''video/'' then ''video'' else ''raw'');
          publicIdWithOptionalFormat =
            (case resolveFormat mimeType of None \<Rightarrow> objectKey | Some f \<Rightarrow> objectKey @ ''.'' @ f)
      in ''https://res.cloudinary.com/'' @ cloudinaryCloudName (cfg e) @ ''/'' @ resourceType @ ''/upload/'' @
         publicIdWithOptionalFormat)"

section \<open>Storage uploaders\<close>

record upload_params =
  up_objectKey :: string
  up_mimeType :: string
  up_expiresInSeconds :: rat

record upload_intent =
  ui_method :: string
  ui_url :: string
  ui_headers :: "(string \<times> string) list option"
  ui_fields :: "(string \<times> string) list option"
  ui_expiresAt :: int

text \<open>\<open>Object.keys(params).sort()\<close>: an insertion sort by the code units of the names.\<close>

fun str_le :: "string \<Rightarrow> string \<Rightarrow> bool" where
  "str_le [] t = True"
| "str_le (c # s) [] = False"
| "str_le (c # s) (d # t) =
     ((of_char c :: nat) < of_char d \<or> (c = d \<and> str_le s t))"

fun insert_param :: "string \<times> string \<Rightarrow> (string \<times> string) list \<Rightarrow> (string \<times> string) list" where
  "insert_param p [] = [p]"
| "insert_param p (q # qs) = (if str_le (fst p) (fst q) then p # q # qs else q # insert_param p qs)"

definition sort_params :: "(string \<times> string) list \<Rightarrow> (string \<times> string) list" where
  "sort_params ps = foldr insert_param ps []"

definition signParams :: "env \<Rightarrow> (string \<times> string) list \<Rightarrow> string \<Rightarrow> string" where
  "signParams e params apiSecret =
     (let payload = join_str ''&'' (map (\<lambda>(k, v). k @ ''='' @ v) (sort_params params))
      in sha1_hex e (payload @ apiSecret))"

text \<open>\<open>expiresAt\<close> is the instant whose ISO text the intent carries.\<close>

definition cloudinary_createUploadIntent :: "env \<Rightarrow> upload_params \<Rightarrow> upload_intent svc" where
  "cloudinary_createUploadIntent e params =
     gets (\<lambda>d.
       let expiresInSeconds = max 1 (up_expiresInSeconds params);
           timestampSeconds = clock d div 1000;
           timestamp = int_str timestampSeconds;
           signature = signParams e [(''public_id'', up_objectKey params), (''timestamp'', timestamp)]
                         (cloudinaryApiSecret (cfg e))
       in \<lparr>ui_method = ''POST'',
           ui_url = ''https://api.cloudinary.com/v1_1/'' @ cloudinaryCloudName (cfg e) @ ''/auto/upload'',
           ui_headers = None,
           ui_fields = Some [(''api_key'', cloudinaryApiKey (cfg e)), (''public_id'', up_objectKey params),
                             (''timestamp'', timestamp), (''signature'', signature)],
           ui_expiresAt = \<lfloor>(of_int timestampSeconds + expiresInSeconds) * 1000\<rfloor>\<rparr>)"

definition resolveStorageUploader ::
  "app_config \<Rightarrow> (upload_params \<Rightarrow> upload_intent svc) \<Rightarrow> (upload_params \<Rightarrow> upload_intent svc) svc" where
  "resolveStorageUploader appConfig cloudinaryUploader =
     (if storageProvider appConfig = ''cloudinary'' then ret cloudinaryUploader
      else throw (JsErr (''Unsupported storage provider: '' @ storageProvider appConfig)))"

section \<open>FilesService\<close>

record create_upload_intent_dto =
  ci_ownerType :: string
  ci_ownerId :: "rat option"
  ci_purpose :: file_purpose
  ci_filename :: string
  ci_mimeType :: string
  ci_fileSizeBytes :: "rat option"

definition safe_char :: "char \<Rightarrow> bool" where
  "safe_char c =
     (let n = of_char c :: nat in
      (97 \<le> n \<and> n \<le> 122) \<or> (65 \<le> n \<and> n \<le> 90) \<or> (48 \<le> n \<and> n \<le> 57) \<or>
      c = CHR ''.'' \<or> c = CHR ''_'' \<or> c = CHR ''-'')"

text \<open>\<open>replace(/\.[^.]+$/, '')\<close>.\<close>

definition strip_extension :: "string \<Rightarrow> string" where
  "strip_extension s =
     (let ext = takeWhile (\<lambda>c. c \<noteq> CHR ''.'') (rev s)
      in if ext = [] \<or> length ext = length s then s
         else rev (drop (length ext + 1) (rev s)))"

definition safe_base_name :: "string \<Rightarrow> string \<Rightarrow> string" where
  "safe_base_name filename mimeType =
     (let safeFilename = map (\<lambda>c. if safe_char c then c else CHR ''_'') filename;
          isImageOrVideo = (starts_with mimeType ''image/'' \<or> starts_with mimeType ''video/'')
      in if isImageOrVideo then strip_extension safeFilename else safeFilename)"

definition buildObjectKey :: "env \<Rightarrow> string \<Rightarrow> rat option \<Rightarrow> string \<Rightarrow> string \<Rightarrow> string svc" where
  "buildObjectKey e ownerType ownerId filename mimeType =
     andThen (gets clock) (\<lambda>now.
     andThen (draw (\<lambda>i. random_hex e i 4)) (\<lambda>r.
     ret (ownerType @ ''/'' @ (case ownerId of None \<Rightarrow> ''temp'' | Some n \<Rightarrow> js_String e (JNum n)) @ ''/'' @
          int_str now @ ''-'' @ r @ ''-'' @ safe_base_name filename mimeType)))"

definition OWNER_TYPES :: "string list" where
  "OWNER_TYPES = [''user'', ''product'', ''message'']"

definition file_checks :: "file_row \<Rightarrow> bool" where
  "file_checks f =
     (f_owner_type f \<in> set OWNER_TYPES \<and>
      (case f_file_size_bytes f of None \<Rightarrow> True | Some n \<Rightarrow> 0 \<le> n) \<and>
      list_ex (\<lambda>c. c \<noteq> CHR '' '') (f_object_key f) \<and>
      (case f_owner_id f of None \<Rightarrow> True | Some n \<Rightarrow> 0 < n) \<and>
      (f_status f = Uploaded \<longrightarrow> f_uploaded_at f \<noteq> None) \<and>
      (f_status f = Failed \<longrightarrow> f_failed_at f \<noteq> None) \<and>
      (f_status f = Deleted \<longrightarrow> f_deleted_at f \<noteq> None))"

definition file_key :: "file_row \<Rightarrow> string \<times> string \<times> string" where
  "file_key f = (f_storage_provider f, (case f_bucket f of None \<Rightarrow> [] | Some b \<Rightarrow> b), f_object_key f)"

text \<open>A number parameter of a \<open>BIGINT\<close> column.\<close>

definition bind_number :: "rat option \<Rightarrow> int option svc" where
  "bind_number v =
     (case v of
        None \<Rightarrow> ret None
      | Some r \<Rightarrow> if is_integer r then ret (Some \<lfloor>r\<rfloor>) else throw (PgErr INVALID_TEXT))"

definition insert_file :: "file_row \<Rightarrow> int svc" where
  "insert_file f =
     andThen (nextval T_files) (\<lambda>i.
     (\<lambda>d. if \<not> file_checks f then (Inl (PgErr CHECK_VIOLATION), d)
          else if list_ex (\<lambda>g. file_key g = file_key f) (files d) then (Inl (PgErr UNIQUE_VIOLATION), d)
          else if (case f_uploader_user_id f of None \<Rightarrow> False | Some u \<Rightarrow> \<not> user_exists d u)
          then (Inl (PgErr FK_VIOLATION), d)
          else (Inr i, d\<lparr>files := files d @ [f\<lparr>f_id := i\<rparr>]\<rparr>)))"

definition pending_file ::
  "env \<Rightarrow> int \<Rightarrow> create_upload_intent_dto \<Rightarrow> string \<Rightarrow> int option \<Rightarrow> int option \<Rightarrow> int \<Rightarrow> file_row" where
  "pending_file e userSub dto objectKey ownerId fileSize now =
     \<lparr>f_id = 0, f_uploader_user_id = Some userSub, f_owner_type = ci_ownerType dto, f_owner_id = ownerId,
      f_purpose = ci_purpose dto, f_storage_provider = storageProvider (cfg e),
      f_bucket = (if storageProvider (cfg e) = ''cloudinary'' then None else Some (storageBucket (cfg e))),
      f_object_key = objectKey, f_original_filename = Some (ci_filename dto),
      f_mime_type = Some (ci_mimeType dto), f_file_size_bytes = fileSize, f_checksum_sha256 = None,
      f_status = Pending, f_uploaded_at = None, f_failed_at = None, f_deleted_at = None,
      f_created_at = now, f_updated_at = now\<rparr>"

definition str_map :: "(string \<times> string) list \<Rightarrow> json" where
  "str_map kvs = JObj (map (\<lambda>(k, v). (k, JStr v)) kvs)"

definition upload_object :: "upload_intent \<Rightarrow> jobject" where
  "upload_object u =
     [(''method'', JStr (ui_method u)), (''url'', JStr (ui_url u)),
      (''expiresAt'', JStr (toISOString (ui_expiresAt u)))] @
     (case ui_headers u of None \<Rightarrow> [] | Some h \<Rightarrow> [(''headers'', str_map h)]) @
     (case ui_fields u of None \<Rightarrow> [] | Some f \<Rightarrow> [(''fields'', str_map f)])"

definition createUploadIntent ::
  "env \<Rightarrow> (upload_params \<Rightarrow> upload_intent svc) \<Rightarrow> int \<Rightarrow> create_upload_intent_dto \<Rightarrow> jobject svc" where
  "createUploadIntent e uploader userSub dto =
     andThen (buildObjectKey e (ci_ownerType dto) (ci_ownerId dto) (ci_filename dto) (ci_mimeType dto)) (\<lambda>objectKey.
     andThen (bind_number (ci_ownerId dto)) (\<lambda>ownerId.
     andThen (bind_number (ci_fileSizeBytes dto)) (\<lambda>fileSize.
     andThen (gets clock) (\<lambda>now.
     andThen (insert_file (pending_file e userSub dto objectKey ownerId fileSize now)) (\<lambda>fileId.
     andThen (uploader \<lparr>up_objectKey = objectKey, up_mimeType = ci_mimeType dto,
                        up_expiresInSeconds = storageUploadTtlSeconds (cfg e)\<rparr>) (\<lambda>uploadIntent.
     ret [(''file'', JObj [(''id'', int8_parse e fileId), (''objectKey'', JStr objectKey),
                           (''status'', JStr ''pending'')]),
          (''upload'', JObj (upload_object uploadIntent))]))))))"

definition markUploaded :: "env \<Rightarrow> int \<Rightarrow> int \<Rightarrow> string option \<Rightarrow> jobject svc" where
  "markUploaded e userSub fileId checksumSha256 =
     andThen (gets (file_by_id fileId)) (\<lambda>file.
     case file of
       None \<Rightarrow> throw (NotFound ''File not found'')
     | Some row \<Rightarrow>
         andThen (unless (is_owner e (f_uploader_user_id row) userSub) (Forbidden ''Not allowed'')) (\<lambda>_.
         andThen (modify (\<lambda>d. d\<lparr>files := update_where (\<lambda>f. f_id f = fileId)
           (\<lambda>f. f\<lparr>f_status := Uploaded, f_uploaded_at := Some (clock d),
                  f_checksum_sha256 := (case checksumSha256 of None \<Rightarrow> f_checksum_sha256 f | Some c \<Rightarrow> Some c),
                  f_updated_at := clock d\<rparr>) (files d)\<rparr>)) (\<lambda>_.
         ret [(''file'', JObj [(''id'', jint fileId), (''objectKey'', JStr (f_object_key row)),
                               (''status'', JStr ''uploaded'')])])))"

definition file_object :: "env \<Rightarrow> file_row \<Rightarrow> jobject" where
  "file_object e f =
     [(''id'', int8_parse e (f_id f)), (''uploader_user_id'', jopt (int8_parse e) (f_uploader_user_id f)),
      (''owner_type'', JStr (f_owner_type f)), (''owner_id'', jopt (int8_parse e) (f_owner_id f)),
      (''purpose'', JStr (file_purpose_text (f_purpose f))), (''object_key'', JStr (f_object_key f)),
      (''mime_type'', jopt JStr (f_mime_type f)), (''file_size_bytes'', jopt (int8_parse e) (f_file_size_bytes f)),
      (''status'', JStr (file_status_text (f_status f))), (''created_at'', JStr (ts_text e (f_created_at f))),
      (''uploaded_at'', jopt (\<lambda>t. JStr (ts_text e t)) (f_uploaded_at f))]"

definition getFile :: "env \<Rightarrow> auth_user \<Rightarrow> int \<Rightarrow> jobject svc" where
  "getFile e user fileId =
     andThen (gets (file_by_id fileId)) (\<lambda>query.
     case query of
       None \<Rightarrow> throw (NotFound ''File not found'')
     | Some file \<Rightarrow>
         andThen (unless (truthy (au_isAdmin user) \<or> is_owner e (f_uploader_user_id file) (au_sub user))
                    (Forbidden ''Not allowed'')) (\<lambda>_.
         ret [(''file'', JObj (spread (file_object e file)
           [(''readUrl'', JStr (buildReadUrl e (f_object_key file)
              (case f_mime_type file of None \<Rightarrow> [] | Some m \<Rightarrow> m)))]))]))"

end
