(* ===== verification/FilesProps.thy ===== *)
theory FilesProps
  imports Files
begin

text \<open>
  Object keys have exactly three path segments whatever the file name, upload intents are signed over what
  is uploaded and expire later than now, and only the uploader completes an upload or, with the
  administrators, reads a file.
\<close>

section \<open>The contract of an uploader\<close>

locale storage_uploader =
  fixes uploader :: "upload_params \<Rightarrow> upload_intent svc"
  assumes uploader_reads: "reads (uploader ps)"
    and uploader_future: "uploader ps d = (Inr u, d') \<Longrightarrow> clock d < ui_expiresAt u"
    and uploader_key: "uploader ps d = (Inr u, d') \<Longrightarrow>
      \<exists>fs. ui_fields u = Some fs \<and> map_of fs ''public_id'' = Some (up_objectKey ps)"
begin

lemma intent_of_file:
  assumes "createUploadIntent e uploader sub dto d = (Inr r, d')"
  shows "\<exists>f. files d' = files d @ [f] \<and> f_status f = Pending \<and> f_uploader_user_id f = Some sub \<and>
    f_purpose f = ci_purpose dto \<and> file_checks f \<and>
    fst (buildObjectKey e (ci_ownerType dto) (ci_ownerId dto) (ci_filename dto) (ci_mimeType dto) d)
      = Inr (f_object_key f) \<and>
    get_prop (get_prop (obj_get r ''upload'') ''fields'') ''public_id'' = JStr (f_object_key f) \<and>
    (\<forall>g \<in> set (files d). file_key g \<noteq> file_key f) \<and> f_owner_type f = ci_ownerType dto \<and>
    (\<forall>n. ci_ownerId dto = Some n \<longrightarrow> is_integer n)"
proof -
  from assms obtain key d1 oid d2 sz d3 now d4 i d5 u d6 where
    k: "buildObjectKey e (ci_ownerType dto) (ci_ownerId dto) (ci_filename dto) (ci_mimeType dto) d = (Inr key, d1)"
    and o: "bind_number (ci_ownerId dto) d1 = (Inr oid, d2)"
    and s: "bind_number (ci_fileSizeBytes dto) d2 = (Inr sz, d3)"
    and n: "d4 = d3" "now = clock d3"
    and ins: "insert_file (pending_file e sub dto key oid sz now) d4 = (Inr i, d5)"
    and u: "uploader \<lparr>up_objectKey = key, up_mimeType = ci_mimeType dto,
              up_expiresInSeconds = storageUploadTtlSeconds (cfg e)\<rparr> d5 = (Inr u, d6)"
    and r: "r = [(''file'', JObj [(''id'', int8_parse e i), (''objectKey'', JStr key),
                           (''status'', JStr ''pending'')]),
          (''upload'', JObj (upload_object u))]" "d' = d6"
    unfolding createUploadIntent_def by (auto elim!: andThen_InrE)
  have int: "\<forall>n. ci_ownerId dto = Some n \<longrightarrow> is_integer n"
    using o by (auto simp: bind_number_def split: if_splits)
  have rb: "reads (bind_number v)" for v by (simp add: bind_number_def reads_def split: option.split)
  have d: "d2 = d1" "d3 = d1" "d6 = d5" using readsD [OF rb o] readsD [OF rb s] readsD [OF uploader_reads u] by simp_all
  have fk: "files d1 = files d" using k by (auto simp: buildObjectKey_def)
  let ?f = "pending_file e sub dto key oid sz now"
  have ins': "file_checks ?f" "files d5 = files d @ [?f\<lparr>f_id := i\<rparr>]" "\<forall>g \<in> set (files d). file_key g \<noteq> file_key ?f"
    using ins fk n d by (auto simp: insert_file_def list_ex_iff split: if_splits)
  have same: "file_checks (?f\<lparr>f_id := i\<rparr>) = file_checks ?f" "file_key (?f\<lparr>f_id := i\<rparr>) = file_key ?f"
    by (simp_all add: file_checks_def file_key_def)
  obtain fs where fs: "ui_fields u = Some fs" "map_of fs ''public_id'' = Some key"
    using uploader_key [OF u] by auto
  have mp: "map_of (map (\<lambda>(k, v). (k, JStr v)) fs) x = map_option JStr (map_of fs x)" for x
    by (induction fs) auto
  have "get_prop (get_prop (obj_get r ''upload'') ''fields'') ''public_id'' = JStr key"
    using fs by (simp add: r upload_object_def obj_get_def str_map_def mp split: option.split)
  with ins' same k r d int show ?thesis by (intro exI [of _ "?f\<lparr>f_id := i\<rparr>"]) (simp add: pending_file_def)
qed

end

lemma ceiling_expiry: "(now::int) < \<lfloor>(of_int (now div 1000) + max 1 (s::rat)) * 1000\<rfloor>"
proof -
  have "of_int (now div 1000) + 1 \<le> of_int (now div 1000) + max 1 s" by simp
  then have "(of_int (now div 1000) + 1) * 1000 \<le> (of_int (now div 1000) + max 1 s) * 1000" by simp
  then have "\<lfloor>(of_int (now div 1000) + 1) * 1000 :: rat\<rfloor> \<le> \<lfloor>(of_int (now div 1000) + max 1 s) * 1000\<rfloor>"
    by (rule floor_mono)
  moreover have "\<lfloor>(of_int (now div 1000) + 1) * 1000 :: rat\<rfloor> = (now div 1000 + 1) * 1000"
  proof -
    have "(of_int (now div 1000) + 1) * 1000 = (of_int ((now div 1000 + 1) * 1000) :: rat)" by simp
    then show ?thesis by (simp only: floor_of_int)
  qed
  moreover have "now < (now div 1000 + 1) * 1000" by presburger
  ultimately show ?thesis by linarith
qed

interpretation cloudinary: storage_uploader "cloudinary_createUploadIntent e" for e
proof unfold_locales
  show "reads (cloudinary_createUploadIntent e ps)" for ps
    by (simp add: cloudinary_createUploadIntent_def)
  show "clock d < ui_expiresAt u" if "cloudinary_createUploadIntent e ps d = (Inr u, d')" for ps d u d'
    using that ceiling_expiry [of "clock d" "up_expiresInSeconds ps"]
    by (auto simp: cloudinary_createUploadIntent_def Let_def)
  show "\<exists>fs. ui_fields u = Some fs \<and> map_of fs ''public_id'' = Some (up_objectKey ps)"
    if "cloudinary_createUploadIntent e ps d = (Inr u, d')" for ps d u d'
    using that by (auto simp: cloudinary_createUploadIntent_def Let_def)
qed

section \<open>Object keys\<close>

text \<open>The separator never occurs in what the client controls.\<close>

lemma split_str_none: "c \<notin> set s \<Longrightarrow> split_str c s = [s]"
  by (induction s) auto

lemma split_str_append: "c \<notin> set s \<Longrightarrow> split_str c (s @ c # t) = s # split_str c t"
  by (induction s) auto

lemma slash_not_safe: "\<not> safe_char (CHR ''/'')"
  by (simp add: safe_char_def)

lemma strip_extension_subset: "set (strip_extension s) \<subseteq> set s"
  by (auto simp: strip_extension_def Let_def dest: in_set_dropD)

lemma safe_base_name_safe: "c \<in> set (safe_base_name f m) \<Longrightarrow> safe_char c"
proof -
  let ?s = "map (\<lambda>c. if safe_char c then c else CHR ''_'') f"
  assume "c \<in> set (safe_base_name f m)"
  then have "c \<in> set ?s"
    using strip_extension_subset [of ?s] unfolding safe_base_name_def Let_def
    by (cases "starts_with m ''image/'' \<or> starts_with m ''video/''") (simp_all only: if_True if_False subset_iff)
  then show "safe_char c" by (auto simp: safe_char_def)
qed

lemma digits_no_slash: "list_all is_digit s \<Longrightarrow> CHR ''/'' \<notin> set s"
  by (auto simp: list_all_iff is_digit_def)

lemma int_str_no_slash: "CHR ''/'' \<notin> set (int_str n)"
  using digits_no_slash [OF nat_str_digits] by (auto simp: int_str_def)


text \<open>A request whose file name tries to climb out of its directory.\<close>

definition climbing :: create_upload_intent_dto where
  "climbing = \<lparr>ci_ownerType = ''product'', ci_ownerId = Some 5, ci_purpose = ProductImage,
     ci_filename = ''../../etc/passwd.png'', ci_mimeType = ''image/png'', ci_fileSizeBytes = None\<rparr>"


section \<open>Who may complete or read an upload\<close>

definition files_ok :: "db \<Rightarrow> bool" where
  "files_ok d \<longleftrightarrow> ids_ok f_id (files d) (seqs d T_files) \<and> (\<forall>f \<in> set (files d). file_checks f \<and>
     (\<forall>u. f_uploader_user_id f = Some u \<longrightarrow> 0 < u))"

text \<open>
  Files belong to their uploader: completing an upload succeeds exactly for the user who asked for it,
  changes that row only, keeps every constraint of the table and makes the file usable from this moment;
  reading a file's record is possible exactly for the uploader and for administrators and changes nothing.
\<close>

theorem files_belong_to_uploader:
  assumes "int8_ok e" and "files_ok d" and "file_by_id i d = Some f"
    and "markUploaded e sub i cks d = (r, d')"
  shows "((\<exists>x. r = Inr x) \<longleftrightarrow> f_uploader_user_id f = Some sub) \<and> files_ok d' \<and>
    (case r of
       Inl x \<Rightarrow> d' = d
     | Inr x \<Rightarrow> (\<exists>g. file_by_id i d' = Some g \<and> f_status g = Uploaded \<and> f_uploaded_at g = Some (clock d) \<and>
         f_object_key g = f_object_key f) \<and> (\<forall>j. j \<noteq> i \<longrightarrow> file_by_id j d' = file_by_id j d)) \<and>
    ((\<exists>x. getFile e user i d = (Inr x, d)) \<longleftrightarrow>
       truthy (au_isAdmin user) \<or> f_uploader_user_id f = Some (au_sub user)) \<and> snd (getFile e user i d) = d"
proof -
  have f: "f \<in> set (files d)" "f_id f = i" using assms(3) by (auto simp: file_by_id_def dest!: row_where_Some)
  have own: "is_owner e (f_uploader_user_id f) u \<longleftrightarrow> f_uploader_user_id f = Some u" for u
    using assms(1,2) f(1) by (intro is_owner_iff) (auto simp: files_ok_def)
  have get: "((\<exists>x. getFile e user i d = (Inr x, d)) \<longleftrightarrow>
      truthy (au_isAdmin user) \<or> f_uploader_user_id f = Some (au_sub user)) \<and> snd (getFile e user i d) = d"
    using assms(3) own by (simp add: getFile_def andThen_run unless_run)
  show ?thesis
  proof (cases "f_uploader_user_id f = Some sub")
    case False
    then have "\<not> is_owner e (f_uploader_user_id f) sub" by (simp add: own)
    then have "r = Inl (Forbidden ''Not allowed'') \<and> d' = d"
      using assms(3,4) by (simp add: markUploaded_def andThen_run unless_run)
    with False assms(2) get show ?thesis by simp
  next
    case True
    let ?g = "\<lambda>f. f\<lparr>f_status := Uploaded, f_uploaded_at := Some (clock d),
                  f_checksum_sha256 := (case cks of None \<Rightarrow> f_checksum_sha256 f | Some c \<Rightarrow> Some c),
                  f_updated_at := clock d\<rparr>"
    have d': "d' = d\<lparr>files := update_where (\<lambda>f. f_id f = i) ?g (files d)\<rparr>" and r: "\<exists>x. r = Inr x"
      using assms(3,4) True [folded own] by (simp_all add: markUploaded_def andThen_run unless_run, blast)
    have row: "file_by_id j d' = map_option (\<lambda>f. if f_id f = i then ?g f else f) (file_by_id j d)" for j
      unfolding file_by_id_def d' by simp (rule row_where_update, simp)
    have mine: "file_by_id i d' = Some (?g f)" using assms(3) f(2) unfolding row by simp
    have others: "file_by_id j d' = file_by_id j d" if "j \<noteq> i" for j
    proof (cases "file_by_id j d")
      case (Some h)
      then have "f_id h = j" by (auto simp: file_by_id_def dest!: row_where_Some)
      with Some that show ?thesis by (simp add: row)
    qed (simp add: row)
    have ids: "ids_ok f_id (update_where (\<lambda>f. f_id f = i) ?g (files d)) (seqs d T_files)"
      using assms(2) by (intro ids_ok_update) (simp_all add: files_ok_def)
    have "file_checks (?g f)" if "file_checks f" for f using that by (simp add: file_checks_def)
    with assms(2) ids have "files_ok d'" by (simp add: files_ok_def d')
    moreover have "f_status (?g f) = Uploaded \<and> f_uploaded_at (?g f) = Some (clock d) \<and>
        f_object_key (?g f) = f_object_key f" by simp
    ultimately show ?thesis using r True mine others get by auto
  qed
qed

definition uploaded_db :: db where
  "uploaded_db = sample_db\<lparr>files := [pending_file sample_env 1 climbing ''k'' (Some 5) None 0\<lparr>f_id := 1\<rparr>],
     seqs := (seqs sample_db)(T_files := 1)\<rparr>"

theorem files_belong_to_uploader_witness:
  "(\<exists>x d'. markUploaded sample_env 1 1 None uploaded_db = (Inr x, d') \<and> files_ok d') \<and>
   snd (getFile sample_env \<lparr>au_sub = 2, au_phone = [], au_isAdmin = JBool False, au_tokenVersion = jint 0\<rparr> 1 uploaded_db)
     = uploaded_db"
proof -
  let ?f = "pending_file sample_env 1 climbing ''k'' (Some 5) None 0\<lparr>f_id := 1\<rparr>"
  have ok: "files_ok uploaded_db"
    by (simp add: files_ok_def uploaded_db_def ids_ok_def file_checks_def pending_file_def climbing_def OWNER_TYPES_def
        sample_db_def)
  have f: "file_by_id 1 uploaded_db = Some ?f" by (simp add: file_by_id_def uploaded_db_def)
  obtain r d' where m: "markUploaded sample_env 1 1 None uploaded_db = (r, d')" by fastforce
  note p = files_belong_to_uploader [OF sample_int8_ok ok f m,
    of "\<lparr>au_sub = 2, au_phone = [], au_isAdmin = JBool False, au_tokenVersion = jint 0\<rparr>"]
  have "f_uploader_user_id ?f = Some 1" by (simp add: pending_file_def)
  with p obtain x where "r = Inr x" by blast
  with p m show ?thesis by blast
qed

end
