(* ===== verification/Relations.thy ===== *)
theory Relations
  imports Files Chat
begin

text \<open>
  \<open>src/src/common/relations/fk-expansion.service.ts\<close>: every response is walked, the identifiers under
  foreign-key names are collected, each entity is fetched with one statement, and the names are replaced
  by the records found. An object of the walk is any non-array object, a \<open>Date\<close> included, which has no
  entries.
\<close>

section \<open>Rules\<close>

datatype entity = EUser | ECategory | EProduct | EMessage | EConversation | EFile

record fk_rule =
  fr_entity :: entity
  fr_outputKey :: "string option"
  fr_unless_owner_type :: bool

definition rule_of :: "entity \<Rightarrow> fk_rule" where
  "rule_of en = \<lparr>fr_entity = en, fr_outputKey = None, fr_unless_owner_type = False\<rparr>"

definition FK_RULES :: "(string \<times> fk_rule) list" where
  "FK_RULES =
     [(''admin_id'', rule_of EUser), (''avatar_file_id'', rule_of EFile), (''blocked_id'', rule_of EUser),
      (''blocker_id'', rule_of EUser), (''conversation_id'', rule_of EConversation),
      (''file_id'', rule_of EFile), (''last_message_id'', rule_of EMessage),
      (''owner_id'', (rule_of EUser)\<lparr>fr_unless_owner_type := True\<rparr>),
      (''parent_id'', rule_of ECategory), (''peer_user_id'', rule_of EUser),
      (''product_id'', rule_of EProduct),
      (''product_image_file_id'', (rule_of EFile)\<lparr>fr_outputKey := Some ''product_image''\<rparr>),
      (''rated_user_id'', rule_of EUser), (''rater_id'', rule_of EUser),
      (''reported_user_id'', rule_of EUser), (''reporter_id'', rule_of EUser),
      (''reviewed_by'', (rule_of EUser)\<lparr>fr_outputKey := Some ''reviewed_by''\<rparr>),
      (''sender_id'', rule_of EUser), (''target_user_id'', rule_of EUser),
      (''uploader_user_id'', rule_of EUser), (''user_a_id'', rule_of EUser),
      (''user_b_id'', rule_of EUser), (''user_id'', rule_of EUser)]"

text \<open>The rule of a key in its object: \<open>rule && (!rule.shouldExpand || rule.shouldExpand(node))\<close>.\<close>

definition active_rule :: "jobject \<Rightarrow> string \<Rightarrow> fk_rule option" where
  "active_rule node key =
     (case map_of FK_RULES key of
        None \<Rightarrow> None
      | Some rule \<Rightarrow>
          if \<not> fr_unless_owner_type rule \<or> \<not> has_own node ''owner_type'' then Some rule else None)"

definition deriveOutputKey :: "string \<Rightarrow> string" where
  "deriveOutputKey key = (if ends_with key ''_id'' then take (length key - 3) key else key)"

definition output_key :: "fk_rule \<Rightarrow> string \<Rightarrow> string" where
  "output_key rule key = (case fr_outputKey rule of None \<Rightarrow> deriveOutputKey key | Some k \<Rightarrow> k)"

section \<open>collectIds\<close>

fun collectIds :: "json \<Rightarrow> (entity \<times> int) list"
  and collect_list :: "json list \<Rightarrow> (entity \<times> int) list"
  and collect_fields :: "jobject \<Rightarrow> jobject \<Rightarrow> (entity \<times> int) list" where
  "collectIds (JArr vs) = collect_list vs"
| "collectIds (JObj kvs) = collect_fields kvs kvs"
| "collectIds _ = []"
| "collect_list [] = []"
| "collect_list (v # vs) = collectIds v @ collect_list vs"
| "collect_fields node [] = []"
| "collect_fields node ((key, rawValue) # kvs) =
     (case active_rule node key of
        None \<Rightarrow> []
      | Some rule \<Rightarrow> (case fk_toPositiveInt rawValue of None \<Rightarrow> [] | Some i \<Rightarrow> [(fr_entity rule, i)])) @
     collectIds rawValue @ collect_fields node kvs"

definition ids_of :: "entity \<Rightarrow> (entity \<times> int) list \<Rightarrow> int list" where
  "ids_of en pairs = remdups (map snd (filter (\<lambda>p. fst p = en) pairs))"

section \<open>Records\<close>

definition avatar_of :: "env \<Rightarrow> db \<Rightarrow> user_row \<Rightarrow> json" where
  "avatar_of e d u =
     (let f = (case u_avatar_file_id u of None \<Rightarrow> None | Some i \<Rightarrow> file_by_id i d);
          avatar_file_id = jopt (int8_parse e) (u_avatar_file_id u);
          object_key = jopt (\<lambda>f. JStr (f_object_key f)) f;
          mime_type = jopt (\<lambda>f. jopt JStr (f_mime_type f)) f
      in if truthy avatar_file_id \<and> truthy object_key then
           JObj [(''id'', avatar_file_id),
                 (''purpose'', coalesce (jopt (\<lambda>f. JStr (file_purpose_text (f_purpose f))) f) (JStr ''avatar'')),
                 (''object_key'', object_key), (''mime_type'', mime_type),
                 (''status'', coalesce (jopt (\<lambda>f. JStr (file_status_text (f_status f))) f) (JStr ''uploaded'')),
                 (''created_at'', jopt (\<lambda>f. JStr (ts_text e (f_created_at f))) f),
                 (''uploaded_at'', jopt (\<lambda>f. jopt (\<lambda>t. JStr (ts_text e t)) (f_uploaded_at f)) f),
                 (''url'', JStr (buildReadUrl e (js_String e object_key)
                             (case coalesce mime_type (JStr []) of JStr m \<Rightarrow> m | _ \<Rightarrow> [])))]
         else JNull)"

definition app_user_columns :: "env \<Rightarrow> user_row \<Rightarrow> jobject" where
  "app_user_columns e u =
     [(''id'', int8_parse e (u_id u)), (''name'', JStr (u_name u)), (''phone'', JStr (u_phone u)),
      (''status'', JStr (user_status_text (u_status u)))]"

definition user_record :: "env \<Rightarrow> db \<Rightarrow> user_row \<Rightarrow> jobject" where
  "user_record e d u =
     spread (mapToAppUser e (app_user_columns e u))
       [(''rate'', JStr (numeric2_text (average_rating (u_id u) d))),
        (''contactInfo'', jopt JStr (u_contact_info u)), (''avatar'', avatar_of e d u)]"

definition fetchUsers :: "env \<Rightarrow> int list \<Rightarrow> db \<Rightarrow> jobject list" where
  "fetchUsers e ids d =
     map (user_record e d) (filter (\<lambda>u. u_id u \<in> set ids \<and> u_deleted_at u = None) (users d))"

definition category_record :: "env \<Rightarrow> category_row \<Rightarrow> jobject" where
  "category_record e c =
     [(''id'', int8_parse e (c_id c)), (''parent_id'', jopt (int8_parse e) (c_parent_id c)),
      (''name'', JStr (c_name c)), (''created_at'', JStr (ts_text e (c_created_at c)))]"

definition fetchCategories :: "env \<Rightarrow> int list \<Rightarrow> db \<Rightarrow> jobject list" where
  "fetchCategories e ids d =
     map (category_record e) (filter (\<lambda>c. c_id c \<in> set ids) (categories d))"

definition account_row :: "int \<Rightarrow> db \<Rightarrow> user_row option" where
  "account_row i d = row_where (\<lambda>u. u_id u = i \<and> u_deleted_at u = None) (users d)"

definition product_record :: "env \<Rightarrow> db \<Rightarrow> product_row \<Rightarrow> jobject" where
  "product_record e d p =
     (let owner = account_row (p_owner_id p) d;
          owner_name = jopt (\<lambda>u. JStr (u_name u)) owner
      in [(''id'', int8_parse e (p_id p)), (''name'', JStr (p_name p)),
          (''price'', JStr (numeric2_text (p_price p))),
          (''status'', JStr (product_status_text (p_status p))), (''city'', JStr (p_city p)),
          (''created_at'', JStr (ts_text e (p_created_at p))),
          (''owner'', if truthy owner_name then jopt (\<lambda>u. JObj (user_record e d u)) owner else JNull)])"

definition fetchProducts :: "env \<Rightarrow> int list \<Rightarrow> db \<Rightarrow> jobject list" where
  "fetchProducts e ids d =
     map (product_record e d) (filter (\<lambda>p. p_id p \<in> set ids \<and> p_deleted_at p = None) (products d))"

definition message_record :: "env \<Rightarrow> message_row \<Rightarrow> jobject" where
  "message_record e m =
     [(''id'', int8_parse e (m_id m)), (''message_text'', JStr (m_message_text m)),
      (''sent_at'', JStr (ts_text e (m_sent_at m))), (''read_at'', jopt (\<lambda>t. JStr (ts_text e t)) (m_read_at m))]"

definition fetchMessages :: "env \<Rightarrow> int list \<Rightarrow> db \<Rightarrow> jobject list" where
  "fetchMessages e ids d = map (message_record e) (filter (\<lambda>m. m_id m \<in> set ids) (messages d))"

definition conversation_record :: "env \<Rightarrow> conversation_row \<Rightarrow> jobject" where
  "conversation_record e c =
     [(''id'', int8_parse e (cv_id c)), (''created_at'', JStr (ts_text e (cv_created_at c)))]"

definition fetchConversations :: "env \<Rightarrow> int list \<Rightarrow> db \<Rightarrow> jobject list" where
  "fetchConversations e ids d =
     map (conversation_record e) (filter (\<lambda>c. cv_id c \<in> set ids) (conversations d))"

definition file_record :: "env \<Rightarrow> file_row \<Rightarrow> jobject" where
  "file_record e f =
     [(''id'', int8_parse e (f_id f)), (''purpose'', JStr (file_purpose_text (f_purpose f))),
      (''object_key'', JStr (f_object_key f)), (''mime_type'', jopt JStr (f_mime_type f)),
      (''status'', JStr (file_status_text (f_status f))), (''created_at'', JStr (ts_text e (f_created_at f))),
      (''uploaded_at'', jopt (\<lambda>t. JStr (ts_text e t)) (f_uploaded_at f)),
      (''url'', JStr (buildReadUrl e (f_object_key f) (case f_mime_type f of None \<Rightarrow> [] | Some m \<Rightarrow> m)))]"

definition fetchFiles :: "env \<Rightarrow> int list \<Rightarrow> db \<Rightarrow> jobject list" where
  "fetchFiles e ids d = map (file_record e) (filter (\<lambda>f. f_id f \<in> set ids) (files d))"

section \<open>resolveEntities and transformNode\<close>

definition fetch_entity :: "env \<Rightarrow> entity \<Rightarrow> int list \<Rightarrow> db \<Rightarrow> jobject list" where
  "fetch_entity e en ids d =
     (case en of
        EUser \<Rightarrow> fetchUsers e ids d
      | ECategory \<Rightarrow> fetchCategories e ids d
      | EProduct \<Rightarrow> fetchProducts e ids d
      | EMessage \<Rightarrow> fetchMessages e ids d
      | EConversation \<Rightarrow> fetchConversations e ids d
      | EFile \<Rightarrow> fetchFiles e ids d)"

text \<open>A \<open>Map\<close> made from records: the last one with a key stays.\<close>

definition resolver_map :: "jobject list \<Rightarrow> int \<Rightarrow> jobject option" where
  "resolver_map records i = row_where (\<lambda>r. js_Number (obj_get r ''id'') = jint i) (rev records)"

definition resolveEntities :: "env \<Rightarrow> (entity \<times> int) list \<Rightarrow> db \<Rightarrow> entity \<Rightarrow> int \<Rightarrow> jobject option" where
  "resolveEntities e pairs d en =
     resolver_map (if ids_of en pairs = [] then [] else fetch_entity e en (ids_of en pairs) d)"

definition expanded :: "(entity \<Rightarrow> int \<Rightarrow> jobject option) \<Rightarrow> entity \<Rightarrow> json \<Rightarrow> json" where
  "expanded maps en value =
     (case fk_toPositiveInt value of None \<Rightarrow> JNull | Some i \<Rightarrow> jopt JObj (maps en i))"

fun transformNode :: "(entity \<Rightarrow> int \<Rightarrow> jobject option) \<Rightarrow> json \<Rightarrow> json"
  and transform_list :: "(entity \<Rightarrow> int \<Rightarrow> jobject option) \<Rightarrow> json list \<Rightarrow> json list"
  and transform_fields ::
    "(entity \<Rightarrow> int \<Rightarrow> jobject option) \<Rightarrow> jobject \<Rightarrow> jobject \<Rightarrow> jobject \<Rightarrow> jobject" where
  "transformNode maps (JArr vs) = JArr (transform_list maps vs)"
| "transformNode maps (JObj kvs) = JObj (transform_fields maps kvs kvs [])"
| "transformNode maps (JDate t) = JObj []"
| "transformNode maps JUndef = JUndef"
| "transformNode maps JNull = JNull"
| "transformNode maps (JBool b) = JBool b"
| "transformNode maps (JNum r) = JNum r"
| "transformNode maps JNonFinite = JNonFinite"
| "transformNode maps (JStr s) = JStr s"
| "transform_list maps [] = []"
| "transform_list maps (v # vs) = transformNode maps v # transform_list maps vs"
| "transform_fields maps node [] out = out"
| "transform_fields maps node ((key, value) # kvs) out =
     transform_fields maps node kvs
       (case active_rule node key of
          Some rule \<Rightarrow>
            (let outputKey = output_key rule key in
             if has_own out outputKey then out
             else out @ [(outputKey, expanded maps (fr_entity rule) value)])
        | None \<Rightarrow> if has_own out key then out else out @ [(key, transformNode maps value)])"

definition expand :: "env \<Rightarrow> json \<Rightarrow> json svc" where
  "expand e payload =
     gets (\<lambda>d. transformNode (resolveEntities e (collectIds payload) d) payload)"

end
