(* ===== verification/RelationsProps.thy ===== *)
theory RelationsProps
  imports Relations ChatProps
begin

text \<open>
  The two passes of the expansion (collect, fetch in batches, replace) amount to looking every identifier
  up where it stands; no expanded object keeps a foreign key, and deleted users are not shown.
\<close>

section \<open>Looking up in a batch\<close>

lemma row_where_map: "row_where P (map f xs) = map_option f (row_where (\<lambda>x. P (f x)) xs)"
  by (induction xs) auto

lemma row_where_filter: "row_where P (filter Q xs) = row_where (\<lambda>x. Q x \<and> P x) xs"
  by (induction xs) auto

lemma row_where_rev:
  assumes "\<And>x y. x \<in> set xs \<Longrightarrow> y \<in> set xs \<Longrightarrow> P x \<Longrightarrow> P y \<Longrightarrow> x = y"
  shows "row_where P (rev xs) = row_where P xs"
proof (cases "row_where P xs")
  case None
  then have "row_where P (rev xs) = None" by (simp add: row_where_None)
  with None show ?thesis by simp
next
  case (Some x)
  then have x: "x \<in> set xs" "P x" by (auto dest: row_where_Some)
  then obtain y where y: "row_where P (rev xs) = Some y"
    by (metis option.exhaust row_where_None set_rev)
  have "y \<in> set xs" "P y" using row_where_Some [OF y] by simp_all
  then have "y = x" using x by (intro assms)
  with y Some show ?thesis by simp
qed

lemma js_Number_int8: "int8_ok e \<Longrightarrow> 0 < n \<Longrightarrow> js_Number (int8_parse e n) = jint n"
  by (auto simp: int8_ok_def int8_as_string_def int8_as_number_def int_str_pos jint_def)

lemma batch_lookup:
  assumes ids: "ids_ok key xs n"
    and num: "\<And>x. 0 < key x \<Longrightarrow> js_Number (obj_get (rec x) ''id'') = jint (key x)"
  shows "resolver_map (map rec (filter (\<lambda>x. key x \<in> S \<and> Q x) xs)) i =
    (if i \<in> S then map_option rec (row_where (\<lambda>x. key x = i \<and> Q x) xs) else None)"
proof -
  let ?ys = "filter (\<lambda>x. key x \<in> S \<and> Q x) xs"
  let ?P = "\<lambda>x. js_Number (obj_get (rec x) ''id'') = jint i"
  have P: "?P x \<longleftrightarrow> key x = i" if "x \<in> set xs" for x
    using ids_ok_pos [OF ids that] by (simp add: num)
  have inj: "x = y" if "x \<in> set xs" "y \<in> set xs" "key x = key y" for x y
    using ids that unfolding ids_ok_def by (metis distinct_map inj_onD)
  have "resolver_map (map rec ?ys) i = map_option rec (row_where ?P (rev ?ys))"
    by (simp add: resolver_map_def rev_map row_where_map)
  also have "row_where ?P (rev ?ys) = row_where ?P ?ys"
    proof (rule row_where_rev)
      fix x y assume "x \<in> set ?ys" "y \<in> set ?ys" "?P x" "?P y"
      then show "x = y" using P [of x] P [of y] by (intro inj) simp_all
    qed
  also have "\<dots> = row_where (\<lambda>x. (key x \<in> S \<and> Q x) \<and> ?P x) xs" by (rule row_where_filter)
  also have "\<dots> = row_where (\<lambda>x. i \<in> S \<and> key x = i \<and> Q x) xs"
    by (rule row_where_cong) (auto simp: P)
  finally show ?thesis by (simp add: row_where_None)
qed

section \<open>Lookups without batches\<close>

definition direct :: "env \<Rightarrow> db \<Rightarrow> entity \<Rightarrow> int \<Rightarrow> jobject option" where
  "direct e d en i =
     (case en of
        EUser \<Rightarrow> map_option (user_record e d) (account_row i d)
      | ECategory \<Rightarrow> map_option (category_record e) (row_where (\<lambda>c. c_id c = i) (categories d))
      | EProduct \<Rightarrow> map_option (product_record e d) (live_product i d)
      | EMessage \<Rightarrow> map_option (message_record e) (message_by_id i d)
      | EConversation \<Rightarrow> map_option (conversation_record e) (conversation_by_id i d)
      | EFile \<Rightarrow> map_option (file_record e) (file_by_id i d))"

definition tables_ok :: "db \<Rightarrow> bool" where
  "tables_ok d \<longleftrightarrow> ids_ok u_id (users d) (seqs d T_users) \<and> ids_ok c_id (categories d) (seqs d T_categories) \<and>
     ids_ok p_id (products d) (seqs d T_products) \<and> ids_ok m_id (messages d) (seqs d T_messages) \<and>
     ids_ok cv_id (conversations d) (seqs d T_conversations) \<and> ids_ok f_id (files d) (seqs d T_files)"

lemma user_record_id: "int8_ok e \<Longrightarrow> 0 < u_id u \<Longrightarrow> obj_get (user_record e d u) ''id'' = jint (u_id u)"
  by (simp add: user_record_def mapToAppUser_def app_user_columns_def toNumber_int8 jint_def)

lemma set_ids_of: "i \<in> set (ids_of en pairs) \<longleftrightarrow> (en, i) \<in> set pairs"
  by (force simp: ids_of_def)

lemma resolve_is_direct:
  assumes e: "int8_ok e" and t: "tables_ok d" and i: "(en, i) \<in> set pairs"
  shows "resolveEntities e pairs d en i = direct e d en i"
proof -
  let ?S = "set (ids_of en pairs)"
  have S: "i \<in> ?S" and ne: "ids_of en pairs \<noteq> []" using i set_ids_of [of i en pairs] by auto
  have true: "filter (\<lambda>x. P x \<and> True) xs = filter P xs" for P :: "'x \<Rightarrow> bool" and xs by simp
  show ?thesis
  proof (cases en)
    case EUser
    have "resolver_map (fetchUsers e (ids_of en pairs) d) i = map_option (user_record e d) (account_row i d)"
      unfolding fetchUsers_def account_row_def
      by (subst batch_lookup [of u_id _ "seqs d T_users"])
        (use t S e in \<open>simp_all add: tables_ok_def user_record_id\<close>, simp_all add: jint_def)
    with EUser ne show ?thesis by (simp add: resolveEntities_def fetch_entity_def direct_def)
  next
    case EProduct
    have "resolver_map (fetchProducts e (ids_of en pairs) d) i = map_option (product_record e d) (live_product i d)"
      unfolding fetchProducts_def live_product_def
      by (subst batch_lookup [of p_id _ "seqs d T_products"])
        (use t S e in \<open>simp_all add: tables_ok_def product_record_def js_Number_int8 Let_def\<close>)
    with EProduct ne show ?thesis by (simp add: resolveEntities_def fetch_entity_def direct_def)
  next
    case ECategory
    have "resolver_map (fetchCategories e (ids_of en pairs) d) i =
        map_option (category_record e) (row_where (\<lambda>c. c_id c = i) (categories d))"
      using batch_lookup [of c_id "categories d" "seqs d T_categories" "category_record e" ?S "\<lambda>_. True" i] t S e
      by (simp add: fetchCategories_def tables_ok_def category_record_def js_Number_int8)
    with ECategory ne show ?thesis by (simp add: resolveEntities_def fetch_entity_def direct_def)
  next
    case EMessage
    have "resolver_map (fetchMessages e (ids_of en pairs) d) i = map_option (message_record e) (message_by_id i d)"
      using batch_lookup [of m_id "messages d" "seqs d T_messages" "message_record e" ?S "\<lambda>_. True" i] t S e
      by (simp add: fetchMessages_def message_by_id_def tables_ok_def message_record_def js_Number_int8)
    with EMessage ne show ?thesis by (simp add: resolveEntities_def fetch_entity_def direct_def)
  next
    case EConversation
    have "resolver_map (fetchConversations e (ids_of en pairs) d) i =
        map_option (conversation_record e) (conversation_by_id i d)"
      using batch_lookup [of cv_id "conversations d" "seqs d T_conversations" "conversation_record e" ?S "\<lambda>_. True" i] t S e
      by (simp add: fetchConversations_def conversation_by_id_def tables_ok_def conversation_record_def js_Number_int8)
    with EConversation ne show ?thesis by (simp add: resolveEntities_def fetch_entity_def direct_def)
  next
    case EFile
    have "resolver_map (fetchFiles e (ids_of en pairs) d) i = map_option (file_record e) (file_by_id i d)"
      using batch_lookup [of f_id "files d" "seqs d T_files" "file_record e" ?S "\<lambda>_. True" i] t S e
      by (simp add: fetchFiles_def file_by_id_def tables_ok_def file_record_def js_Number_int8)
    with EFile ne show ?thesis by (simp add: resolveEntities_def fetch_entity_def direct_def)
  qed
qed

text \<open>The second pass asks only for what the first collected.\<close>

lemma transform_cong:
  "(\<And>en i. (en, i) \<in> set (collectIds p) \<Longrightarrow> m en i = m' en i) \<Longrightarrow> transformNode m p = transformNode m' p"
  "(\<And>en i. (en, i) \<in> set (collect_list ps) \<Longrightarrow> m en i = m' en i) \<Longrightarrow> transform_list m ps = transform_list m' ps"
  "(\<And>en i. (en, i) \<in> set (collect_fields node kvs) \<Longrightarrow> m en i = m' en i) \<Longrightarrow>
     transform_fields m node kvs out = transform_fields m' node kvs out"
proof (induction p and ps and node kvs arbitrary: and and out
    rule: collectIds_collect_list_collect_fields.induct)
  case (7 node key rawValue kvs)
  have v: "transformNode m rawValue = transformNode m' rawValue" using 7 by simp
  have x: "expanded m (fr_entity rule) rawValue = expanded m' (fr_entity rule) rawValue"
    if "active_rule node key = Some rule" for rule
    using 7(3) that by (auto simp: expanded_def split: option.splits)
  have r: "transform_fields m node kvs o1 = transform_fields m' node kvs o1" for o1 using 7 by simp
  show ?case by (cases "active_rule node key") (simp_all add: r v x Let_def)
qed simp_all

section \<open>Keys of an expanded object\<close>

lemma rule_output_key:
  assumes "active_rule node k = Some rule"
  shows "output_key rule k = ''reviewed_by'' \<or> map_of FK_RULES (output_key rule k) = None"
proof -
  have all: "list_all (\<lambda>(k, rule). output_key rule k = ''reviewed_by'' \<or> map_of FK_RULES (output_key rule k) = None)
      FK_RULES" by code_simp
  from assms have "map_of FK_RULES k = Some rule"
    by (auto simp: active_rule_def split: option.splits if_splits)
  then have "(k, rule) \<in> set FK_RULES" by (rule map_of_SomeD)
  with all show ?thesis by (auto simp: list_all_iff)
qed

lemma transform_fields_keys:
  assumes "distinct (map fst out)"
    and "\<And>k. has_own out k \<Longrightarrow> k = ''reviewed_by'' \<or> active_rule node k = None"
  shows "distinct (map fst (transform_fields m node kvs out)) \<and>
    (\<forall>k. has_own (transform_fields m node kvs out) k \<longrightarrow> k = ''reviewed_by'' \<or> active_rule node k = None)"
  using assms
proof (induction kvs arbitrary: out)
  case Nil
  then show ?case by auto
next
  case (Cons kv kvs)
  obtain k v where kv: "kv = (k, v)" by fastforce
  let ?out = "case active_rule node k of
          Some rule \<Rightarrow> (let outputKey = output_key rule k in
             if has_own out outputKey then out else out @ [(outputKey, expanded m (fr_entity rule) v)])
        | None \<Rightarrow> if has_own out k then out else out @ [(k, transformNode m v)]"
  have app: "has_own (out @ [(a, b)]) x \<longleftrightarrow> has_own out x \<or> x = a" for a b x by (auto simp: has_own_def)
  have snoc: "distinct (map fst (out @ [(a, b)])) \<longleftrightarrow> distinct (map fst out) \<and> \<not> has_own out a" for a b
    by (auto simp: has_own_def)
  have "distinct (map fst ?out) \<and>
      (\<forall>x. has_own ?out x \<longrightarrow> x = ''reviewed_by'' \<or> active_rule node x = None)"
  proof (cases "active_rule node k")
    case None
    with Cons.prems show ?thesis by (auto simp: app snoc simp del: map_append)
  next
    case (Some rule)
    from rule_output_key [OF Some] have "output_key rule k = ''reviewed_by'' \<or> active_rule node (output_key rule k) = None"
      by (auto simp: active_rule_def)
    with Cons.prems Some show ?thesis by (auto simp: app snoc Let_def simp del: map_append)
  qed
  note both = this
  show ?case unfolding kv transform_fields.simps
    by (rule Cons.IH [OF both [THEN conjunct1] both [THEN conjunct2, rule_format]])
qed



end
