(* ===== verification/Users.thy ===== *)
theory Users
  imports Relations Auth
begin

text \<open>
  \<open>src/src/users/users.service.ts\<close>: the own profile, the public profile with its products, changes of
  profile and password, and the deletion of the own account.
\<close>

section \<open>Profiles\<close>

text \<open>The columns \<open>avatar_*\<close> of the profile statements: the row of \<open>files\<close> behind \<open>avatar_file_id\<close>, if any.\<close>

definition buildAvatarFile :: "env \<Rightarrow> db \<Rightarrow> user_row \<Rightarrow> json" where
  "buildAvatarFile e d row =
     (let f = (case u_avatar_file_id row of None \<Rightarrow> None | Some i \<Rightarrow> file_by_id i d);
          avatar_file_id = jopt (int8_parse e) (u_avatar_file_id row);
          avatar_object_key = jopt (\<lambda>f. JStr (f_object_key f)) f;
          avatar_mime_type = jopt (\<lambda>f. jopt JStr (f_mime_type f)) f
      in if \<not> truthy avatar_file_id \<or> \<not> truthy avatar_object_key then JNull
         else
           JObj [(''id'', avatar_file_id),
                 (''purpose'', coalesce (jopt (\<lambda>f. JStr (file_purpose_text (f_purpose f))) f) (JStr ''avatar'')),
                 (''object_key'', avatar_object_key), (''mime_type'', avatar_mime_type),
                 (''status'', coalesce (jopt (\<lambda>f. JStr (file_status_text (f_status f))) f) (JStr ''uploaded'')),
                 (''created_at'', jopt (\<lambda>f. JStr (ts_text e (f_created_at f))) f),
                 (''uploaded_at'', jopt (\<lambda>f. jopt (\<lambda>t. JStr (ts_text e t)) (f_uploaded_at f)) f),
                 (''url'', JStr (buildReadUrl e (js_String e avatar_object_key)
                             (case coalesce avatar_mime_type (JStr []) of JStr m \<Rightarrow> m | _ \<Rightarrow> [])))])"

definition rate_text :: "db \<Rightarrow> user_row \<Rightarrow> json" where
  "rate_text d row = JStr (numeric2_text (average_rating (u_id row) d))"

definition getMe :: "env \<Rightarrow> int \<Rightarrow> jobject svc" where
  "getMe e userSub =
     andThen (gets (\<lambda>d. (account_row userSub d, d))) (\<lambda>(query, d).
     case query of
       None \<Rightarrow> throw (NotFound ''User not found'')
     | Some row \<Rightarrow>
         ret [(''user'', JObj (spread (mapToAppUser e (app_user_columns e row))
           [(''rate'', rate_text d row), (''contactInfo'', jopt JStr (u_contact_info row)),
            (''avatar'', buildAvatarFile e d row)]))])"

definition blocks_exist :: "int \<Rightarrow> int \<Rightarrow> db \<Rightarrow> bool" where
  "blocks_exist blocker blocked d =
     list_ex (\<lambda>b. b_blocker_id b = blocker \<and> b_blocked_id b = blocked) (user_blocks d)"

definition ads_count :: "int \<Rightarrow> db \<Rightarrow> nat" where
  "ads_count userId d =
     length (filter (\<lambda>p. p_owner_id p = userId \<and> p_deleted_at p = None) (products d))"

definition profile_products :: "env \<Rightarrow> int \<Rightarrow> int option \<Rightarrow> nat \<Rightarrow> nat \<Rightarrow> db \<Rightarrow> json list" where
  "profile_products e userId viewerUserId limit offset d =
     map (\<lambda>p. listing_object e d
            (Some (case viewerUserId of None \<Rightarrow> JNull | Some v \<Rightarrow> JBool (is_favorite v (p_id p) d))) p)
       (page limit offset (order_desc p_created_at
         (filter (\<lambda>p. p_owner_id p = userId \<and> p_status p = Available) (listing_view d))))"

definition getPublicProfile ::
  "env \<Rightarrow> int \<Rightarrow> nat option \<Rightarrow> nat option \<Rightarrow> int option \<Rightarrow> jobject svc" where
  "getPublicProfile e userId dtoLimit dtoOffset viewerUserId =
     (let viewer = (viewerUserId \<noteq> None \<and> viewerUserId \<noteq> Some 0) in
     andThen (gets (\<lambda>d. (viewer \<and> blocks_exist (the viewerUserId) userId d,
                         viewer \<and> blocks_exist userId (the viewerUserId) d))) (\<lambda>(blockedByMe, blockedMe).
     andThen (unless (\<not> (viewer \<and> (blockedByMe \<or> blockedMe))) (NotFound ''User not found'')) (\<lambda>_.
     andThen (gets (\<lambda>d. (account_row userId d, d))) (\<lambda>(user, d).
     case user of
       None \<Rightarrow> throw (NotFound ''User not found'')
     | Some row \<Rightarrow>
         (let limit = (case dtoLimit of None \<Rightarrow> DEFAULT_PAGE_SIZE | Some n \<Rightarrow> n);
              offset = (case dtoOffset of None \<Rightarrow> 0 | Some n \<Rightarrow> n)
          in ret
           [(''user'', JObj (spread (mapToAppUser e (app_user_columns e row))
              [(''created_at'', JStr (ts_text e (u_created_at row))),
               (''ads_count'', jint (int (ads_count (u_id row) d))), (''rate'', rate_text d row),
               (''contactInfo'', jopt JStr (u_contact_info row)), (''avatar'', buildAvatarFile e d row),
               (''blocked_by_me'', if viewer then JBool blockedByMe else JNull),
               (''blocked_me'', if viewer then JBool blockedMe else JNull)])),
            (''products'', JArr (profile_products e userId viewerUserId limit offset d))])))))"

section \<open>Changes\<close>

record update_profile_dto =
  pd_name :: json
  pd_owns_avatarFileId :: bool
  pd_avatarFileId :: "rat option"
  pd_owns_contactInfo :: bool
  pd_contactInfo :: "string option"

text \<open>
  As for products: the DTO is an instance of a class whose fields are own properties, mentioned in the
  body or not.
\<close>

definition UpdateProfileDto :: "jobject \<Rightarrow> update_profile_dto" where
  "UpdateProfileDto body =
     \<lparr>pd_name = obj_get body ''name'',
      pd_owns_avatarFileId = True, pd_avatarFileId = body_number body ''avatarFileId'',
      pd_owns_contactInfo = True, pd_contactInfo = body_string body ''contactInfo''\<rparr>"

definition checkAvatarFile :: "env \<Rightarrow> int \<Rightarrow> rat \<Rightarrow> unit svc" where
  "checkAvatarFile e userSub avatarFileId =
     andThen (unless (is_integer avatarFileId) (PgErr INVALID_TEXT)) (\<lambda>_.
     andThen (gets (file_by_id \<lfloor>avatarFileId\<rfloor>)) (\<lambda>file.
     case file of
       None \<Rightarrow> throw (NotFound ''Avatar file not found'')
     | Some f \<Rightarrow>
         andThen (unless (is_owner e (f_uploader_user_id f) userSub) (Forbidden ''Not allowed to use this file'')) (\<lambda>_.
         unless (f_status f = Uploaded \<and> f_purpose f = Avatar)
           (BadRequest ''Avatar file must be an uploaded avatar''))))"

definition profile_patched :: "update_profile_dto \<Rightarrow> int \<Rightarrow> user_row \<Rightarrow> user_row" where
  "profile_patched dto now u =
     u\<lparr>u_name := (case pd_name dto of JStr s \<Rightarrow> s | _ \<Rightarrow> u_name u),
       u_avatar_file_id := (if pd_owns_avatarFileId dto then map_option floor (pd_avatarFileId dto)
                            else u_avatar_file_id u),
       u_contact_info := (if pd_owns_contactInfo dto then pd_contactInfo dto else u_contact_info u),
       u_updated_at := now\<rparr>"

definition updateMe :: "env \<Rightarrow> int \<Rightarrow> update_profile_dto \<Rightarrow> jobject svc" where
  "updateMe e userSub dto =
     andThen (unless (pd_name dto \<noteq> JUndef \<or> pd_owns_avatarFileId dto \<or> pd_owns_contactInfo dto)
                (BadRequest ''Nothing to update'')) (\<lambda>_.
     andThen (case pd_avatarFileId dto of None \<Rightarrow> ret () | Some i \<Rightarrow> checkAvatarFile e userSub i) (\<lambda>_.
     andThen (modify (\<lambda>d. d\<lparr>users := update_where (\<lambda>u. u_id u = userSub \<and> u_deleted_at u = None)
       (profile_patched dto (clock d)) (users d)\<rparr>)) (\<lambda>_.
     getMe e userSub)))"

definition changePassword :: "env \<Rightarrow> int \<Rightarrow> string \<Rightarrow> string \<Rightarrow> jobject svc" where
  "changePassword e userSub oldPassword newPassword =
     andThen (gets (account_row userSub)) (\<lambda>query.
     case query of
       None \<Rightarrow> throw (NotFound ''User not found'')
     | Some row \<Rightarrow>
         andThen (unless (bcrypt_compare e oldPassword (u_password_hash row)) (BadRequest ''Invalid old password'')) (\<lambda>_.
         andThen (draw (\<lambda>i. bcrypt_hash e newPassword 12 (random_hex e i 16))) (\<lambda>newPasswordHash.
         andThen (modify (\<lambda>d. d\<lparr>users := update_where (\<lambda>u. u_id u = userSub \<and> u_deleted_at u = None)
           (\<lambda>u. u\<lparr>u_password_hash := newPasswordHash, u_updated_at := clock d\<rparr>) (users d)\<rparr>)) (\<lambda>_.
         ret [(''message'', JStr ''Password changed successfully'')]))))"

text \<open>The statement that ends an account, shared by its owner and the administrators.\<close>

definition soft_delete :: "int \<Rightarrow> user_row \<Rightarrow> user_row" where
  "soft_delete now u =
     u\<lparr>u_deleted_at := Some now, u_token_version := u_token_version u + 1, u_updated_at := now\<rparr>"

definition deleteMe :: "int \<Rightarrow> jobject svc" where
  "deleteMe userSub =
     andThen (gets (account_row userSub)) (\<lambda>query.
     andThen (modify (\<lambda>d. d\<lparr>users := update_where (\<lambda>u. u_id u = userSub \<and> u_deleted_at u = None)
       (soft_delete (clock d)) (users d)\<rparr>)) (\<lambda>_.
     andThen (unless (query \<noteq> None) (NotFound ''User not found'')) (\<lambda>_.
     ret [(''message'', JStr ''Account deleted'')])))"

lemma buildAvatarFile_eq: "buildAvatarFile e d u = avatar_of e d u"
  by (simp add: buildAvatarFile_def avatar_of_def Let_def)

lemma getMe_run:
  "getMe e i d = (case account_row i d of None \<Rightarrow> (Inl (NotFound ''User not found''), d)
     | Some u \<Rightarrow> (Inr [(''user'', JObj (user_record e d u))], d))"
  by (simp add: getMe_def buildAvatarFile_eq user_record_def rate_text_def split: option.split)

end
