(* ===== verification/Admin.thy ===== *)
theory Admin
  imports Users Social Guards
begin

text \<open>
  \<open>src/src/admin/admin.service.ts\<close>: what administrators see and change, with the audit log every
  change leaves. A failed insert into the log is swallowed.
\<close>

section \<open>The audit log\<close>

definition insert_audit :: "int \<Rightarrow> string \<Rightarrow> string \<Rightarrow> int \<Rightarrow> jobject \<Rightarrow> unit svc" where
  "insert_audit actorId action targetType targetId payload =
     andThen (nextval T_audit) (\<lambda>i.
     (\<lambda>d. if \<not> user_exists d actorId then (Inl (PgErr FK_VIOLATION), d)
          else (Inr (), d\<lparr>admin_audit_logs := admin_audit_logs d @
                 [\<lparr>al_id = i, al_actor_id = actorId, al_action = action, al_target_type = targetType,
                   al_target_id = Some targetId, al_payload = payload, al_created_at = clock d\<rparr>]\<rparr>)))"

definition logAdminAction :: "int \<Rightarrow> string \<Rightarrow> string \<Rightarrow> json \<Rightarrow> jobject \<Rightarrow> unit svc" where
  "logAdminAction actorId action targetType targetId payload =
     tryCatch
       (andThen (bind_bigint targetId) (\<lambda>i. insert_audit actorId action targetType i payload))
       (\<lambda>_. ret ())"

section \<open>Users\<close>

definition admin_user_object :: "env \<Rightarrow> user_row \<Rightarrow> jobject \<Rightarrow> jobject" where
  "admin_user_object e u extra =
     spread (mapToAppUser e (app_user_columns e u))
       ([(''is_admin'', JBool (u_is_admin u))] @ extra @
        [(''created_at'', JStr (ts_text e (u_created_at u))), (''updated_at'', JStr (ts_text e (u_updated_at u)))])"

definition published_count :: "int \<Rightarrow> db \<Rightarrow> nat" where
  "published_count userId d =
     length (filter (\<lambda>p. p_owner_id p = userId \<and> p_deleted_at p = None) (products d))"

definition reports_count :: "int \<Rightarrow> db \<Rightarrow> nat" where
  "reports_count userId d = length (filter (\<lambda>r. rp_reported_user_id r = userId) (user_reports d))"

definition q_matches :: "string \<Rightarrow> user_row \<Rightarrow> bool" where
  "q_matches q u =
     (ilike (u_name u) (contains_pattern q) = Some True \<or> ilike (u_phone u) (contains_pattern q) = Some True)"

definition listUsers ::
  "env \<Rightarrow> user_status option \<Rightarrow> string option \<Rightarrow> nat option \<Rightarrow> nat option \<Rightarrow> jobject svc" where
  "listUsers e status q dtoLimit dtoOffset =
     (let limit = (case dtoLimit of None \<Rightarrow> 50 | Some n \<Rightarrow> n);
          offset = (case dtoOffset of None \<Rightarrow> 0 | Some n \<Rightarrow> n)
      in gets (\<lambda>d. [(''users'', JArr (map
           (\<lambda>u. JObj (admin_user_object e u
              [(''published_products_count'', jint (int (published_count (u_id u) d))),
               (''reports_count'', jint (int (reports_count (u_id u) d)))]))
           (page limit offset (order_desc u_created_at
             (filter (\<lambda>u. (case status of None \<Rightarrow> True | Some s \<Rightarrow> u_status u = s) \<and>
                          (case q of None \<Rightarrow> True | Some w \<Rightarrow> w = [] \<or> q_matches w u) \<and>
                          u_deleted_at u = None) (users d))))))]))"

definition getUserDetails :: "env \<Rightarrow> int \<Rightarrow> jobject svc" where
  "getUserDetails e userId =
     andThen (gets (account_row userId)) (\<lambda>query.
     case query of
       None \<Rightarrow> throw (NotFound ''User not found'')
     | Some row \<Rightarrow>
         (let user = mapToAppUser e (app_user_columns e row) in
          ret [(''user'', JObj (spread user
            [(''status'', JStr (user_status_text (u_status row))), (''profileState'', obj_get user ''profileState''),
             (''avatar_file_id'', jopt (int8_parse e) (u_avatar_file_id row)),
             (''contactInfo'', jopt JStr (u_contact_info row)), (''is_admin'', JBool (u_is_admin row)),
             (''created_at'', JStr (ts_text e (u_created_at row))),
             (''updated_at'', JStr (ts_text e (u_updated_at row)))]))]))"

definition first_uploaded_image :: "int \<Rightarrow> db \<Rightarrow> int option" where
  "first_uploaded_image productId d =
     (case filter (\<lambda>(i, f). f_status f = Uploaded) (product_image_rows productId d) of
        [] \<Rightarrow> None
      | (i, f) # _ \<Rightarrow> Some (i_file_id i))"

definition listUserListings ::
  "env \<Rightarrow> int \<Rightarrow> product_status option \<Rightarrow> nat option \<Rightarrow> nat option \<Rightarrow> jobject svc" where
  "listUserListings e userId status dtoLimit dtoOffset =
     andThen (assertUserExists userId ''User'') (\<lambda>_.
     gets (\<lambda>d. [(''items'', JArr (map
       (\<lambda>p. JObj [(''id'', int8_parse e (p_id p)), (''name'', JStr (p_name p)),
                  (''price'', JStr (numeric2_text (p_price p))),
                  (''status'', JStr (product_status_text (p_status p))), (''city'', JStr (p_city p)),
                  (''created_at'', JStr (ts_text e (p_created_at p))),
                  (''product_image_file_id'', jopt (int8_parse e) (first_uploaded_image (p_id p) d))])
       (page (case dtoLimit of None \<Rightarrow> DEFAULT_PAGE_SIZE | Some n \<Rightarrow> n)
             (case dtoOffset of None \<Rightarrow> 0 | Some n \<Rightarrow> n)
         (order_desc p_created_at
           (filter (\<lambda>p. p_owner_id p = userId \<and> p_deleted_at p = None \<and>
                        (p_status p = Available \<or> p_status p = Sold) \<and>
                        (case status of None \<Rightarrow> True | Some s \<Rightarrow> p_status p = s)) (products d))))))]))"

definition listAdmins :: "env \<Rightarrow> nat option \<Rightarrow> nat option \<Rightarrow> jobject svc" where
  "listAdmins e dtoLimit dtoOffset =
     gets (\<lambda>d. [(''admins'', JArr (map (\<lambda>u. JObj (admin_user_object e u []))
       (page (case dtoLimit of None \<Rightarrow> DEFAULT_PAGE_SIZE | Some n \<Rightarrow> n)
             (case dtoOffset of None \<Rightarrow> 0 | Some n \<Rightarrow> n)
         (order_desc u_created_at (filter (\<lambda>u. u_is_admin u \<and> u_deleted_at u = None) (users d))))))])"

text \<open>\<open>UPDATE users ... WHERE id = $1 AND deleted_at IS NULL RETURNING ...\<close>.\<close>

definition update_live_user :: "int \<Rightarrow> (int \<Rightarrow> user_row \<Rightarrow> user_row) \<Rightarrow> user_row option svc" where
  "update_live_user userId f =
     (\<lambda>d. (Inr (map_option (f (clock d)) (account_row userId d)),
           d\<lparr>users := update_where (\<lambda>u. u_id u = userId \<and> u_deleted_at u = None) (f (clock d)) (users d)\<rparr>))"

definition set_admin :: "bool \<Rightarrow> int \<Rightarrow> user_row \<Rightarrow> user_row" where
  "set_admin b now u = u\<lparr>u_is_admin := b, u_token_version := u_token_version u + 1, u_updated_at := now\<rparr>"

definition returned_admin :: "env \<Rightarrow> user_row option \<Rightarrow> jobject svc" where
  "returned_admin e row =
     (case row of
        None \<Rightarrow> throw (JsErr ''Cannot read properties of undefined'')
      | Some u \<Rightarrow> ret [(''user'', JObj (admin_user_object e u [(''token_version'', jint (u_token_version u))]))])"

definition promoteAdmin :: "env \<Rightarrow> int \<Rightarrow> int \<Rightarrow> jobject svc" where
  "promoteAdmin e adminSub userId =
     andThen (gets (account_row userId)) (\<lambda>before.
     case before of
       None \<Rightarrow> throw (NotFound ''User not found'')
     | Some b \<Rightarrow>
         andThen (unless (\<not> u_is_admin b) (Conflict ''User is already an admin'')) (\<lambda>_.
         andThen (update_live_user userId (set_admin True)) (\<lambda>row.
         andThen (logAdminAction adminSub ''promote_admin'' ''user'' (jint userId) [(''is_admin'', JBool True)]) (\<lambda>_.
         returned_admin e row))))"

definition demoteAdmin :: "env \<Rightarrow> int \<Rightarrow> int \<Rightarrow> jobject svc" where
  "demoteAdmin e adminSub userId =
     andThen (unless (adminSub \<noteq> userId) (BadRequest ''Admins cannot demote themselves'')) (\<lambda>_.
     andThen (gets (account_row userId)) (\<lambda>before.
     case before of
       None \<Rightarrow> throw (NotFound ''User not found'')
     | Some b \<Rightarrow>
         andThen (unless (u_is_admin b) (Conflict ''User is not an admin'')) (\<lambda>_.
         andThen (update_live_user userId (set_admin False)) (\<lambda>row.
         andThen (logAdminAction adminSub ''demote_admin'' ''user'' (jint userId) [(''is_admin'', JBool False)]) (\<lambda>_.
         returned_admin e row)))))"

definition userStatusKey :: "int \<Rightarrow> string" where
  "userStatusKey userId = ''user:status:'' @ int_str userId"

definition updateUserStatus :: "env \<Rightarrow> int \<Rightarrow> int \<Rightarrow> user_status \<Rightarrow> jobject svc" where
  "updateUserStatus e adminSub userId status =
     andThen (update_live_user userId (\<lambda>now u. u\<lparr>u_status := status, u_updated_at := now\<rparr>)) (\<lambda>query.
     case query of
       None \<Rightarrow> throw (NotFound ''User not found'')
     | Some row \<Rightarrow>
         andThen (logAdminAction adminSub ''update_user_status'' ''user'' (jint userId)
                    [(''status'', JStr (user_status_text status))]) (\<lambda>_.
         andThen (redis_del e (userStatusKey userId)) (\<lambda>_.
         ret [(''user'', JObj (admin_user_object e row []))])))"

definition deleteUser :: "env \<Rightarrow> int \<Rightarrow> int \<Rightarrow> jobject svc" where
  "deleteUser e adminSub userId =
     andThen (update_live_user userId soft_delete) (\<lambda>query.
     andThen (unless (query \<noteq> None) (NotFound ''User not found'')) (\<lambda>_.
     andThen (logAdminAction adminSub ''delete_user'' ''user'' (jint userId) []) (\<lambda>_.
     andThen (redis_del e (userStatusKey userId)) (\<lambda>_.
     ret [(''message'', JStr ''User deleted'')]))))"

section \<open>Warnings, reports, categories\<close>

definition insert_warning :: "int \<Rightarrow> int \<Rightarrow> string \<Rightarrow> warning_row svc" where
  "insert_warning adminId targetUserId message =
     andThen (nextval T_warnings) (\<lambda>i.
     (\<lambda>d. if \<not> user_exists d adminId \<or> \<not> user_exists d targetUserId then (Inl (PgErr FK_VIOLATION), d)
          else
            (let w = \<lparr>w_id = i, w_admin_id = Some adminId, w_target_user_id = Some targetUserId,
                      w_message = message, w_created_at = clock d\<rparr>
             in (Inr w, d\<lparr>admin_warnings := admin_warnings d @ [w]\<rparr>))))"

definition warning_object :: "env \<Rightarrow> warning_row \<Rightarrow> json" where
  "warning_object e w =
     JObj [(''id'', int8_parse e (w_id w)), (''admin_id'', jopt (int8_parse e) (w_admin_id w)),
           (''target_user_id'', jopt (int8_parse e) (w_target_user_id w)), (''message'', JStr (w_message w)),
           (''created_at'', JStr (ts_text e (w_created_at w)))]"

definition createWarning :: "env \<Rightarrow> int \<Rightarrow> int \<Rightarrow> string \<Rightarrow> jobject svc" where
  "createWarning e adminSub targetUserId message =
     andThen (assertUserExists targetUserId ''Target user'') (\<lambda>_.
     andThen (tryCatch (insert_warning adminSub targetUserId message)
                (\<lambda>error. if isForeignKeyViolation error then throw (NotFound ''Target user not found'')
                         else throw error)) (\<lambda>w.
     andThen (logAdminAction adminSub ''create_warning'' ''user'' (jint targetUserId)
                [(''message'', JStr message)]) (\<lambda>_.
     ret [(''warning'', warning_object e w)])))"

definition admin_report_object :: "env \<Rightarrow> report_row \<Rightarrow> json" where
  "admin_report_object e r =
     JObj [(''id'', int8_parse e (rp_id r)), (''reporter_id'', int8_parse e (rp_reporter_id r)),
           (''reported_user_id'', int8_parse e (rp_reported_user_id r)), (''description'', JStr (rp_reason r)),
           (''created_at'', JStr (ts_text e (rp_created_at r)))]"

definition listReports :: "env \<Rightarrow> nat option \<Rightarrow> nat option \<Rightarrow> jobject svc" where
  "listReports e dtoLimit dtoOffset =
     gets (\<lambda>d. [(''reports'', JArr (map (admin_report_object e)
       (page (case dtoLimit of None \<Rightarrow> DEFAULT_PAGE_SIZE | Some n \<Rightarrow> n)
             (case dtoOffset of None \<Rightarrow> 0 | Some n \<Rightarrow> n)
         (order_desc rp_created_at (user_reports d)))))])"

definition listUserReports :: "env \<Rightarrow> int \<Rightarrow> nat option \<Rightarrow> nat option \<Rightarrow> jobject svc" where
  "listUserReports e userId dtoLimit dtoOffset =
     andThen (assertUserExists userId ''User'') (\<lambda>_.
     gets (\<lambda>d. [(''reports'', JArr (map (admin_report_object e)
       (page (case dtoLimit of None \<Rightarrow> DEFAULT_PAGE_SIZE | Some n \<Rightarrow> n)
             (case dtoOffset of None \<Rightarrow> 0 | Some n \<Rightarrow> n)
         (order_desc rp_created_at (filter (\<lambda>r. rp_reported_user_id r = userId) (user_reports d))))))]))"

definition reviewed_report :: "report_status \<Rightarrow> int \<Rightarrow> int \<Rightarrow> report_row \<Rightarrow> report_row" where
  "reviewed_report status adminId now r =
     r\<lparr>rp_status := status, rp_reviewed_by := Some adminId, rp_reviewed_at := Some now, rp_updated_at := now\<rparr>"

definition updateReportStatus :: "env \<Rightarrow> int \<Rightarrow> int \<Rightarrow> report_status \<Rightarrow> jobject svc" where
  "updateReportStatus e adminSub reportId status =
     andThen (gets (\<lambda>d. row_where (\<lambda>r. rp_id r = reportId) (user_reports d))) (\<lambda>found.
     andThen (gets (\<lambda>d. found = None \<or> user_exists d adminSub)) (\<lambda>fk.
     andThen (unless fk (PgErr FK_VIOLATION)) (\<lambda>_.
     andThen (gets clock) (\<lambda>now.
     andThen (modify (\<lambda>d. d\<lparr>user_reports :=
       update_where (\<lambda>r. rp_id r = reportId) (reviewed_report status adminSub now) (user_reports d)\<rparr>)) (\<lambda>_.
     case map_option (reviewed_report status adminSub now) found of
       None \<Rightarrow> throw (NotFound ''Report not found'')
     | Some r \<Rightarrow>
         andThen (logAdminAction adminSub ''update_report_status'' ''report'' (jint reportId)
                    [(''status'', JStr (report_status_text status))]) (\<lambda>_.
         ret [(''report'', JObj (report_head e r @
                [(''reviewed_by'', jopt (int8_parse e) (rp_reviewed_by r)),
                 (''created_at'', JStr (ts_text e (rp_created_at r))),
                 (''reviewed_at'', jopt (\<lambda>t. JStr (ts_text e t)) (rp_reviewed_at r)),
                 (''updated_at'', JStr (ts_text e (rp_updated_at r)))]))]))))))"

definition admin_createCategory :: "env \<Rightarrow> int \<Rightarrow> string \<Rightarrow> int option \<Rightarrow> jobject svc" where
  "admin_createCategory e adminSub name parentId =
     andThen (createCategory e name parentId) (\<lambda>result.
     andThen (logAdminAction adminSub ''create_category'' ''category'' (get_prop (obj_get result ''category'') ''id'')
                [(''name'', JStr name), (''parentId'', jopt jint parentId)]) (\<lambda>_.
     ret result))"

definition admin_deleteCategory :: "env \<Rightarrow> int \<Rightarrow> int \<Rightarrow> jobject svc" where
  "admin_deleteCategory e adminSub categoryId =
     andThen (deleteCategory e categoryId) (\<lambda>result.
     andThen (logAdminAction adminSub ''delete_category'' ''category'' (jint categoryId) []) (\<lambda>_.
     ret result))"

end
