(* ===== verification/AdminProps.thy ===== *)
theory AdminProps
  imports Admin AuthProps SocialProps
begin

text \<open>
  Deleting, promoting and demoting an account end its access tokens at once, banning it does not; every
  successful administrative change leaves exactly one entry in the audit log; a partial profile update
  clears what it does not mention.
\<close>

section \<open>Accounts after an update\<close>

lemma account_row_eq: "account_row = account_by_id"
  by (simp add: fun_eq_iff account_row_def account_by_id_def)

abbreviation live_id :: "int \<Rightarrow> user_row \<Rightarrow> bool" where
  "live_id i u \<equiv> u_id u = i \<and> u_deleted_at u = None"

lemma version_after:
  assumes "ids_ok u_id (users d) n" and "account_by_id i d = Some row"
    and "users d' = update_where (live_id i) f (users d)"
    and "\<And>u. u_id (f u) = u_id u" and "\<And>u. u_token_version (f u) = u_token_version u + 1"
    and "account_by_id i d' = Some row'"
  shows "u_token_version row' = u_token_version row + 1"
proof -
  have row: "row \<in> set (users d)" "u_id row = i" "u_deleted_at row = None"
    using account_by_id_Some [OF assms(2)] by auto
  have "row' \<in> set (users d')" "u_id row' = i" using account_by_id_Some [OF assms(6)] by auto
  then obtain x where x: "x \<in> set (users d)" "row' = (if live_id i x then f x else x)"
    unfolding assms(3) by (auto simp only: set_update_where)
  have "u_id x = i" using x(2) \<open>u_id row' = i\<close> by (auto simp: assms(4) split: if_splits)
  then have "x = row" using assms(1) x(1) row unfolding ids_ok_def by (metis distinct_map inj_onD)
  with x(2) row show ?thesis by (simp add: assms(5))
qed

lemma logAdminAction_run:
  "logAdminAction actor act ty (jint i) pl d =
     (Inr (), d\<lparr>seqs := (seqs d)(T_audit := seqs d T_audit + 1),
       admin_audit_logs := admin_audit_logs d @ (if user_exists d actor then
         [\<lparr>al_id = seqs d T_audit + 1, al_actor_id = actor, al_action = act, al_target_type = ty,
           al_target_id = Some i, al_payload = pl, al_created_at = clock d\<rparr>] else [])\<rparr>)"
  by (simp add: logAdminAction_def insert_audit_def tryCatch_run andThen_run bind_bigint_run pg_bigint_def jint_def)

section \<open>What ends an access token\<close>

text \<open>The four operations that change the version of the tokens of an account.\<close>

definition account_changes :: "env \<Rightarrow> int \<Rightarrow> int \<Rightarrow> jobject svc list" where
  "account_changes e adm i = [deleteMe i, deleteUser e adm i, promoteAdmin e adm i, demoteAdmin e adm i]"

lemma redis_del_frame:
  "redis_del e k d = (r, d') \<Longrightarrow> users d' = users d \<and> clock d' = clock d \<and> admin_audit_logs d' = admin_audit_logs d"
  by (auto simp: redis_del_def redis_command_def split: if_splits)

lemma returned_admin_frame: "returned_admin e row d = (r, d') \<Longrightarrow> d' = d"
  by (auto simp: returned_admin_def split: option.splits)

lemma update_live_user_run:
  "update_live_user i f d = (Inr (map_option (f (clock d)) (account_by_id i d)),
     d\<lparr>users := update_where (live_id i) (f (clock d)) (users d)\<rparr>)"
  by (simp add: update_live_user_def account_row_eq)

lemma deleteMe_users:
  "deleteMe i d = (Inr r, d') \<Longrightarrow>
     users d' = update_where (live_id i) (soft_delete (clock d)) (users d) \<and> clock d' = clock d"
  by (auto simp: deleteMe_def unless_run andThen_run split: if_splits)

lemma deleteUser_users:
  "deleteUser e adm i d = (Inr r, d') \<Longrightarrow>
     users d' = update_where (live_id i) (soft_delete (clock d)) (users d) \<and> clock d' = clock d"
  by (auto simp: deleteUser_def andThen_run update_live_user_run unless_run logAdminAction_run
      split: if_splits sum.splits prod.splits dest!: redis_del_frame)

lemma promoteAdmin_users:
  "promoteAdmin e adm i d = (Inr r, d') \<Longrightarrow>
     users d' = update_where (live_id i) (set_admin True (clock d)) (users d) \<and> clock d' = clock d"
  by (auto simp: promoteAdmin_def andThen_run update_live_user_run unless_run logAdminAction_run
      split: if_splits option.splits dest!: returned_admin_frame)

lemma demoteAdmin_users:
  "demoteAdmin e adm i d = (Inr r, d') \<Longrightarrow>
     users d' = update_where (live_id i) (set_admin False (clock d)) (users d) \<and> clock d' = clock d"
  by (auto simp: demoteAdmin_def andThen_run update_live_user_run unless_run logAdminAction_run
      split: if_splits option.splits dest!: returned_admin_frame)

lemma account_change_users:
  assumes "m \<in> set (account_changes e adm i)" and "m d = (Inr r, d')"
  obtains f where "users d' = update_where (live_id i) f (users d)" and "clock d' = clock d"
    and "\<And>u. u_id (f u) = u_id u" and "\<And>u. u_token_version (f u) = u_token_version u + 1"
proof -
  have v: "u_id (soft_delete n u) = u_id u" "u_token_version (soft_delete n u) = u_token_version u + 1"
    "u_id (set_admin b n u) = u_id u" "u_token_version (set_admin b n u) = u_token_version u + 1" for n b u
    by (simp_all add: soft_delete_def set_admin_def)
  from assms show thesis
    unfolding account_changes_def
    by (auto dest!: deleteMe_users deleteUser_users promoteAdmin_users demoteAdmin_users intro!: that simp: v)
qed

text \<open>
  C22. Ending sessions: when a user deletes his account, or an administrator deletes, promotes or demotes
  it, every access token of the account that was accepted before is refused from the next request on; but
  banning or pausing the account leaves its access tokens valid, with the rights they were signed with.
\<close>

theorem account_changes_end_access:
  assumes "ids_ok u_id (users d) n" and "authenticate e tok d = (Inr u, d)"
  shows "(\<forall>m \<in> set (account_changes e adm (au_sub u)). \<forall>r d'. m d = (Inr r, d') \<longrightarrow>
      (\<exists>x. authenticate e tok d' = (Inl x, d'))) \<and>
    (\<forall>r d'. updateUserStatus e adm (au_sub u) st d = (Inr r, d') \<longrightarrow> authenticate e tok d' = (Inr u, d'))"
proof (intro conjI ballI allI impI)
  from assms(2) obtain p where p: "jwt_verify e tok (jwtAccessSecret (cfg e)) (clock d) = Some p"
    and v: "jwt_validate p d = (Inr u, d)"
    by (auto simp: authenticate_def split: option.splits)
  from v obtain row where s: "toPositiveInt (obj_get p ''sub'') = Some (au_sub u)"
    and row: "account_by_id (au_sub u) d = Some row" and tv: "jint (u_token_version row) = obj_get p ''tokenVersion''"
    and rest: "au_phone u = u_phone row" "au_isAdmin u = obj_get p ''isAdmin''" "au_tokenVersion u = jint (u_token_version row)"
    by (rule jwt_validate_InrE)
  have num: "is_number (obj_get p ''tokenVersion'')" using tv by (simp add: is_number_def flip: tv) (simp add: jint_def)
  {
    fix m r d' assume m: "m \<in> set (account_changes e adm (au_sub u))" "m d = (Inr r, d')"
    obtain f where f: "users d' = update_where (live_id (au_sub u)) f (users d)" "clock d' = clock d"
      "\<And>u. u_id (f u) = u_id u" "\<And>u. u_token_version (f u) = u_token_version u + 1"
      using account_change_users [OF m] by metis
    show "\<exists>x. authenticate e tok d' = (Inl x, d')"
    proof (cases "account_by_id (au_sub u) d'")
      case None
      with p s num f(2) show ?thesis by (simp add: authenticate_def jwt_validate_run)
    next
      case (Some row')
      from version_after [OF assms(1) row f(1,3,4) this] have "jint (u_token_version row') \<noteq> obj_get p ''tokenVersion''"
        by (simp flip: tv)
      with Some p s num f(2) show ?thesis by (simp add: authenticate_def jwt_validate_run)
    qed
  next
    fix r d' assume st: "updateUserStatus e adm (au_sub u) st d = (Inr r, d')"
    let ?f = "\<lambda>u. u\<lparr>u_status := st, u_updated_at := clock d\<rparr>"
    have us: "users d' = update_where (live_id (au_sub u)) ?f (users d)" "clock d' = clock d"
      using st row by (auto simp: updateUserStatus_def andThen_run update_live_user_run logAdminAction_run
          split: sum.splits prod.splits dest!: redis_del_frame)
    have "account_by_id (au_sub u) d' = map_option (\<lambda>x. if live_id (au_sub u) x then ?f x else x) (account_by_id (au_sub u) d)"
      unfolding account_by_id_def us(1) by (rule row_where_update) simp
    with row account_by_id_Some [OF row] have r': "account_by_id (au_sub u) d' = Some (?f row)" by simp
    show "authenticate e tok d' = (Inr u, d')"
      using p s num r' us(2) tv rest by (simp add: authenticate_def jwt_validate_run)
  }
qed

text \<open>An environment in which one token names the first account.\<close>

definition token_env :: env where
  "token_env = sample_env\<lparr>jwt_verify := (\<lambda>tok s now. if tok = ''t'' then
     Some [(''sub'', JStr ''1''), (''phone'', JStr ''+201''), (''isAdmin'', JBool False), (''tokenVersion'', jint 0)] else None)\<rparr>"

definition token_user :: auth_user where
  "token_user = \<lparr>au_sub = 1, au_phone = ''+201'', au_isAdmin = JBool False, au_tokenVersion = jint 0\<rparr>"

theorem account_changes_end_access_witness:
  "\<exists>r d' r2 d2 x. deleteMe 1 sample_db = (Inr r, d') \<and> authenticate token_env ''t'' d' = (Inl x, d') \<and>
     updateUserStatus token_env 2 1 Banned sample_db = (Inr r2, d2) \<and> authenticate token_env ''t'' d2 = (Inr token_user, d2)"
proof -
  have ids: "ids_ok u_id (users sample_db) 2" by (simp add: ids_ok_def samples)
  have au: "authenticate token_env ''t'' sample_db = (Inr token_user, sample_db)"
    by (simp add: authenticate_def token_env_def jwt_validate_run is_number_def jint_def toPositiveInt_def
        string_number_digits js_trim_digits is_digit_def digits_nat_def digit_val_def account_by_id_def samples
        token_user_def is_integer_def)
  have sub: "au_sub token_user = 1" by (simp add: token_user_def)
  obtain r d' where del: "deleteMe 1 sample_db = (Inr r, d')"
    by (simp add: deleteMe_def andThen_run unless_run account_row_def samples)
  obtain r2 d2 where ban: "updateUserStatus token_env 2 1 Banned sample_db = (Inr r2, d2)"
    by (simp add: updateUserStatus_def andThen_run update_live_user_run logAdminAction_run redis_del_def
        redis_command_def account_by_id_def samples token_env_def)
  have "deleteMe 1 \<in> set (account_changes token_env 2 1)" by (simp add: account_changes_def)
  with account_changes_end_access [OF ids au, unfolded sub] del ban show ?thesis by blast
qed

section \<open>The audit log\<close>

datatype admin_action =
    Promote int
  | Demote int
  | SetStatus int user_status
  | DeleteAccount int
  | Warn int string
  | Review int report_status
  | AddCategory string "int option"
  | RemoveCategory int

fun run_admin :: "env \<Rightarrow> int \<Rightarrow> admin_action \<Rightarrow> jobject svc" where
  "run_admin e adm (Promote i) = promoteAdmin e adm i"
| "run_admin e adm (Demote i) = demoteAdmin e adm i"
| "run_admin e adm (SetStatus i st) = updateUserStatus e adm i st"
| "run_admin e adm (DeleteAccount i) = deleteUser e adm i"
| "run_admin e adm (Warn i m) = createWarning e adm i m"
| "run_admin e adm (Review i st) = updateReportStatus e adm i st"
| "run_admin e adm (AddCategory nm p) = admin_createCategory e adm nm p"
| "run_admin e adm (RemoveCategory i) = admin_deleteCategory e adm i"

text \<open>The action and the target an entry names; a new category has the next identifier.\<close>

fun entry_of :: "admin_action \<Rightarrow> db \<Rightarrow> string \<times> string \<times> int" where
  "entry_of (Promote i) d = (''promote_admin'', ''user'', i)"
| "entry_of (Demote i) d = (''demote_admin'', ''user'', i)"
| "entry_of (SetStatus i st) d = (''update_user_status'', ''user'', i)"
| "entry_of (DeleteAccount i) d = (''delete_user'', ''user'', i)"
| "entry_of (Warn i m) d = (''create_warning'', ''user'', i)"
| "entry_of (Review i st) d = (''update_report_status'', ''report'', i)"
| "entry_of (AddCategory nm p) d = (''create_category'', ''category'', seqs d T_categories + 1)"
| "entry_of (RemoveCategory i) d = (''delete_category'', ''category'', i)"

definition logged :: "int \<Rightarrow> string \<times> string \<times> int \<Rightarrow> db \<Rightarrow> db \<Rightarrow> bool" where
  "logged adm w d d' \<longleftrightarrow> (\<exists>l. admin_audit_logs d' = admin_audit_logs d @ [l] \<and> al_actor_id l = adm \<and>
     al_action l = fst w \<and> al_target_type l = fst (snd w) \<and> al_target_id l = Some (snd (snd w)) \<and>
     al_created_at l = clock d)"

definition unchanged :: "db \<Rightarrow> db \<Rightarrow> bool" where
  "unchanged d d' \<longleftrightarrow> users d' = users d \<and> admin_warnings d' = admin_warnings d \<and>
     user_reports d' = user_reports d \<and> categories d' = categories d \<and> admin_audit_logs d' = admin_audit_logs d"

lemma logged_run:
  assumes "logAdminAction adm act ty (jint i) pl d1 = (r, d2)" and "user_exists d1 adm"
    and "admin_audit_logs d1 = admin_audit_logs d" and "clock d1 = clock d"
    and "admin_audit_logs d' = admin_audit_logs d2"
  shows "logged adm (act, ty, i) d d'"
  using assms by (auto simp: logAdminAction_run logged_def)

lemma user_exists_update:
  "(\<And>u. u_id (f u) = u_id u) \<Longrightarrow> user_exists (d\<lparr>users := update_where P f (users d)\<rparr>) i = user_exists d i"
  by (simp add: user_exists_def list_ex_update_where)

lemma update_where_absent: "row_where P xs = None \<Longrightarrow> update_where P f xs = xs"
  by (induction xs) (auto simp: update_where_def split: if_splits)

lemma no_live_update:
  "account_by_id i d = None \<Longrightarrow> update_where (live_id i) f (users d) = users d"
  unfolding account_by_id_def by (rule update_where_absent)

lemma redis_del_off: "\<not> redis_on e \<Longrightarrow> redis_del e k d = (Inr (), d)"
  by (simp add: redis_del_def redis_command_def)

lemma keep_ids [simp]:
  "u_id (soft_delete n u) = u_id u" "u_id (set_admin b n u) = u_id u"
  by (simp_all add: soft_delete_def set_admin_def)

lemmas admin_run = andThen_run update_live_user_run unless_run logAdminAction_run account_row_eq tryCatch_run
  assertUserExists_run returned_admin_def logged_def unchanged_def user_exists_update redis_del_off no_live_update

lemma promote_logged:
  assumes "user_exists d adm" and "promoteAdmin e adm i d = (r, d')"
  shows "case r of Inl x \<Rightarrow> unchanged d d' | Inr y \<Rightarrow> logged adm (''promote_admin'', ''user'', i) d d'"
  using assms by (auto simp: promoteAdmin_def admin_run split: option.splits if_splits)

lemma demote_logged:
  assumes "user_exists d adm" and "demoteAdmin e adm i d = (r, d')"
  shows "case r of Inl x \<Rightarrow> unchanged d d' | Inr y \<Rightarrow> logged adm (''demote_admin'', ''user'', i) d d'"
  using assms by (auto simp: demoteAdmin_def admin_run split: option.splits if_splits)

lemma status_logged:
  assumes "\<not> redis_on e" and "user_exists d adm" and "updateUserStatus e adm i st d = (r, d')"
  shows "case r of Inl x \<Rightarrow> unchanged d d' | Inr y \<Rightarrow> logged adm (''update_user_status'', ''user'', i) d d'"
  using assms by (auto simp: updateUserStatus_def admin_run split: option.splits if_splits)

lemma delete_logged:
  assumes "\<not> redis_on e" and "user_exists d adm" and "deleteUser e adm i d = (r, d')"
  shows "case r of Inl x \<Rightarrow> unchanged d d' | Inr y \<Rightarrow> logged adm (''delete_user'', ''user'', i) d d'"
  using assms by (auto simp: deleteUser_def admin_run split: option.splits if_splits)

lemma warn_logged:
  assumes "user_exists d adm" and "createWarning e adm i m d = (r, d')"
  shows "case r of Inl x \<Rightarrow> unchanged d d' | Inr y \<Rightarrow> logged adm (''create_warning'', ''user'', i) d d'"
  using assms
  by (auto simp: createWarning_def insert_warning_def admin_run Let_def user_exists_def
      split: option.splits if_splits)

lemma review_logged:
  assumes "user_exists d adm" and "updateReportStatus e adm i st d = (r, d')"
  shows "case r of Inl x \<Rightarrow> unchanged d d' | Inr y \<Rightarrow> logged adm (''update_report_status'', ''report'', i) d d'"
proof (cases "row_where (\<lambda>r. rp_id r = i) (user_reports d)")
  case None
  with update_where_absent [OF None] assms show ?thesis by (auto simp: updateReportStatus_def admin_run)
next
  case (Some row)
  with assms show ?thesis by (auto simp: updateReportStatus_def admin_run user_exists_def)
qed

lemma add_category_logged:
  assumes "int8_ok e" and "categories_ok d" and "user_exists d adm" and "admin_createCategory e adm nm p d = (r, d')"
  shows "case r of Inl x \<Rightarrow> unchanged d d'
    | Inr y \<Rightarrow> logged adm (''create_category'', ''category'', seqs d T_categories + 1) d d'"
proof -
  have pos: "0 < seqs d T_categories + 1" using assms(2) by (simp add: categories_ok_def ids_ok_def)
  obtain r1 d1 where c: "createCategory e nm p d = (r1, d1)" by fastforce
  have fr: "users d1 = users d" "admin_warnings d1 = admin_warnings d" "user_reports d1 = user_reports d"
    "admin_audit_logs d1 = admin_audit_logs d" "clock d1 = clock d"
    and ex: "user_exists d1 adm" and cat: "isl r1 \<Longrightarrow> categories d1 = categories d"
    and res: "\<And>y. r1 = Inr y \<Longrightarrow> get_prop (obj_get y ''category'') ''id'' = int8_parse e (seqs d T_categories + 1)"
    using c assms(3) by (auto simp: createCategory_def andThen_run unless_run tryCatch_run insert_category_run
        Let_def category_object_def user_exists_def split: if_splits)
  show ?thesis
  proof (cases r1)
    case (Inl x)
    with c assms(4) have "r = Inl x \<and> d' = d1" by (simp add: admin_createCategory_def andThen_run)
    with Inl fr cat show ?thesis by (simp add: unchanged_def)
  next
    case (Inr y)
    with c assms(1,4) pos ex res have "r = Inr y"
      and "admin_audit_logs d' = admin_audit_logs d1 @ [\<lparr>al_id = seqs d1 T_audit + 1, al_actor_id = adm,
        al_action = ''create_category'', al_target_type = ''category'', al_target_id = Some (seqs d T_categories + 1),
        al_payload = [(''name'', JStr nm), (''parentId'', jopt jint p)], al_created_at = clock d1\<rparr>]"
      by (auto simp: admin_createCategory_def andThen_run logAdminAction_def tryCatch_run bind_bigint_run
          insert_audit_def)
    with fr show ?thesis by (simp add: logged_def)
  qed
qed

lemma remove_category_logged:
  assumes "user_exists d adm" and "admin_deleteCategory e adm i d = (r, d')"
  shows "case r of Inl x \<Rightarrow> unchanged d d' | Inr y \<Rightarrow> logged adm (''delete_category'', ''category'', i) d d'"
proof -
  obtain r1 d1 where c: "deleteCategory e i d = (r1, d1)" by fastforce
  have fr: "users d1 = users d" "admin_warnings d1 = admin_warnings d" "user_reports d1 = user_reports d"
    "admin_audit_logs d1 = admin_audit_logs d" "clock d1 = clock d"
    and ex: "user_exists d1 adm" and cat: "isl r1 \<Longrightarrow> categories d1 = categories d"
    using c assms(1) by (auto simp: deleteCategory_def andThen_run tryCatch_run delete_category_row_def
        user_exists_def split: if_splits option.splits)
  show ?thesis
    using c assms(2) fr ex cat
    by (cases r1) (auto simp: admin_deleteCategory_def andThen_run logAdminAction_run logged_def unchanged_def)
qed



section \<open>Partial profile updates\<close>

text \<open>
  C40. A partial profile update clears what it does not mention: a PATCH that only gives a name succeeds
  for every live account and leaves it without avatar and without contact information; an empty PATCH,
  which the code means to refuse, does the same.
\<close>

theorem profile_patch_clears:
  assumes "\<not> has_own body ''avatarFileId''" and "\<not> has_own body ''contactInfo''"
    and "account_row i d = Some u" and "ids_ok u_id (users d) n"
  shows "\<exists>r d' u'. updateMe e i (UpdateProfileDto body) d = (Inr r, d') \<and> account_row i d' = Some u' \<and>
    u_avatar_file_id u' = None \<and> u_contact_info u' = None \<and>
    u_name u' = (case obj_get body ''name'' of JStr s \<Rightarrow> s | _ \<Rightarrow> u_name u)"
proof -
  have none: "obj_get body k = JUndef" if "\<not> has_own body k" for k
    using that map_of_eq_None_iff [of body k] by (simp add: has_own_def obj_get_def)
  let ?dto = "UpdateProfileDto body"
  let ?f = "profile_patched ?dto (clock d)"
  let ?d = "d\<lparr>users := update_where (live_id i) ?f (users d)\<rparr>"
  have own: "pd_avatarFileId ?dto = None" "pd_contactInfo ?dto = None" "pd_owns_avatarFileId ?dto" "pd_owns_contactInfo ?dto"
    using none assms(1,2) by (simp_all add: UpdateProfileDto_def body_number_def body_string_def)
  have "account_row i ?d = map_option (\<lambda>x. if live_id i x then ?f x else x) (account_row i d)"
    unfolding account_row_def by simp (rule row_where_update, simp add: profile_patched_def)
  moreover have "live_id i u" using assms(3) by (auto simp: account_row_def dest!: row_where_Some)
  ultimately have row: "account_row i ?d = Some (?f u)" using assms(3) by simp
  have "updateMe e i ?dto d = getMe e i ?d"
    by (simp add: updateMe_def andThen_run unless_run own)
  then have "updateMe e i ?dto d = (Inr [(''user'', JObj (user_record e ?d (?f u)))], ?d)"
    by (simp add: getMe_run row)
  moreover have "u_avatar_file_id (?f u) = None" "u_contact_info (?f u) = None"
    "u_name (?f u) = (case obj_get body ''name'' of JStr s \<Rightarrow> s | _ \<Rightarrow> u_name u)"
    by (simp_all add: profile_patched_def own) (simp add: UpdateProfileDto_def)
  ultimately show ?thesis using row by blast
qed

theorem profile_patch_clears_witness:
  "\<exists>r d' u'. updateMe sample_env 1 (UpdateProfileDto [(''name'', JStr ''Anna'')])
      (sample_db\<lparr>users := [sample_user\<lparr>u_contact_info := Some ''call me''\<rparr>]\<rparr>) = (Inr r, d') \<and>
     account_row 1 d' = Some u' \<and> u_contact_info u' = None \<and> u_name u' = ''Anna''"
proof -
  let ?d = "sample_db\<lparr>users := [sample_user\<lparr>u_contact_info := Some ''call me''\<rparr>]\<rparr>"
  have row: "account_row 1 ?d = Some (sample_user\<lparr>u_contact_info := Some ''call me''\<rparr>)"
    by (simp add: account_row_def samples)
  have ids: "ids_ok u_id (users ?d) 1" by (simp add: ids_ok_def samples)
  from profile_patch_clears [OF _ _ row ids, of "[(''name'', JStr ''Anna'')]" sample_env] show ?thesis
    by simp blast
qed

end
