(* ===== verification/Sockets.thy ===== *)
theory Sockets
  imports Chat Relations
begin

text \<open>
  The sockets of the chat: \<open>src/src/chat/chat-socket-registry.service.ts\<close>,
  \<open>chat-joined-payload.builder.ts\<close> and \<open>POST /chat/conversations\<close> of \<open>chat.controller.ts\<close>.

  The state holds the database, the socket objects by their \<open>id\<close>, the registry
  \<open>socketsByUserId\<close>, and what socket.io does for the code: rooms (pairs of a room and a member), and the
  events it delivered. \<open>to(room).emit\<close> delivers to the members that are connected, a disconnection
  takes the socket out of every room.
\<close>

section \<open>State\<close>

record ws_user =
  wu_sub :: int
  wu_phone :: json
  wu_isAdmin :: json

text \<open>
  A \<open>Socket\<close>: the fields of the handshake the code reads, \<open>client.data.user\<close>, whether
  \<open>handleConnection\<close> still waits for the verification of the token, and whether it is connected.
\<close>

record socket =
  sk_auth_token :: json
  sk_authorization :: json
  sk_request_id :: json
  sk_user :: "ws_user option"
  sk_pending :: bool
  sk_connected :: bool

record delivery =
  dl_socket :: string
  dl_room :: "string option"
  dl_event :: string
  dl_payload :: json

record gateway =
  gw_db :: db
  gw_server :: bool
  gw_sockets :: "string \<Rightarrow> socket option"
  gw_registry :: "int \<Rightarrow> string list option"
  gw_rooms :: "(string \<times> string) list"
  gw_sent :: "delivery list"

type_synonym 'a wsvc = "(gateway, 'a) act"

definition on_db :: "'a svc \<Rightarrow> 'a wsvc" where
  "on_db m = (\<lambda>g. case m (gw_db g) of (r, d) \<Rightarrow> (r, g\<lparr>gw_db := d\<rparr>))"

section \<open>socket.io\<close>

definition join :: "string \<Rightarrow> string \<Rightarrow> unit wsvc" where
  "join sid room =
     modify (\<lambda>g. if (room, sid) \<in> set (gw_rooms g) then g
                 else g\<lparr>gw_rooms := gw_rooms g @ [(room, sid)]\<rparr>)"

definition is_connected :: "string \<Rightarrow> gateway \<Rightarrow> bool" where
  "is_connected sid g = (case gw_sockets g sid of None \<Rightarrow> False | Some s \<Rightarrow> sk_connected s)"

definition emit_to_room :: "string \<Rightarrow> string \<Rightarrow> json \<Rightarrow> unit wsvc" where
  "emit_to_room room event payload =
     modify (\<lambda>g. g\<lparr>gw_sent := gw_sent g @
       map (\<lambda>m. \<lparr>dl_socket = snd m, dl_room = Some room, dl_event = event, dl_payload = payload\<rparr>)
         (filter (\<lambda>m. fst m = room \<and> is_connected (snd m) g) (gw_rooms g))\<rparr>)"

definition emit_to_socket :: "string \<Rightarrow> string \<Rightarrow> json \<Rightarrow> unit wsvc" where
  "emit_to_socket sid event payload =
     modify (\<lambda>g. if is_connected sid g
                 then g\<lparr>gw_sent := gw_sent g @
                   [\<lparr>dl_socket = sid, dl_room = None, dl_event = event, dl_payload = payload\<rparr>]\<rparr>
                 else g)"

section \<open>ChatSocketRegistryService\<close>

definition setServer :: "unit wsvc" where
  "setServer = modify (\<lambda>g. g\<lparr>gw_server := True\<rparr>)"

definition registerUserSocket :: "int \<Rightarrow> string \<Rightarrow> unit wsvc" where
  "registerUserSocket userId sid =
     modify (\<lambda>g.
       let sockets = (case gw_registry g userId of None \<Rightarrow> [] | Some s \<Rightarrow> s)
       in g\<lparr>gw_registry := (gw_registry g)(userId := Some (if sid \<in> set sockets then sockets else sockets @ [sid]))\<rparr>)"

definition unregisterUserSocket :: "int \<Rightarrow> string \<Rightarrow> unit wsvc" where
  "unregisterUserSocket userId sid =
     modify (\<lambda>g.
       case gw_registry g userId of
         None \<Rightarrow> g
       | Some sockets \<Rightarrow>
           (let rest = filter (\<lambda>s. s \<noteq> sid) sockets
            in g\<lparr>gw_registry := (gw_registry g)(userId := if rest = [] then None else Some rest)\<rparr>))"

definition roomName :: "string \<Rightarrow> string" where
  "roomName conversationId = ''conversation:'' @ conversationId"

text \<open>\<open>[...new Set(xs)]\<close>: the first occurrences, in their order.\<close>

definition unique :: "'a list \<Rightarrow> 'a list" where
  "unique xs = rev (remdups (rev xs))"

definition emitConversationJoinedToParticipants :: "int \<Rightarrow> json list \<Rightarrow> json \<Rightarrow> unit wsvc" where
  "emitConversationJoinedToParticipants conversationId participantUserIds payload =
     andThen (gets gw_server) (\<lambda>server.
     if \<not> server then ret ()
     else
       (let room = roomName (int_str conversationId);
            uniqueUserIds = unique (List.map_filter chat_toPositiveInt participantUserIds)
        in
        andThen (forEach uniqueUserIds (\<lambda>userId.
          andThen (gets (\<lambda>g. gw_registry g userId)) (\<lambda>sockets.
          case sockets of
            None \<Rightarrow> ret ()
          | Some sids \<Rightarrow> forEach sids (\<lambda>sid. join sid room)))) (\<lambda>_.
        emit_to_room room ''conversation.joined'' payload)))"

section \<open>The payload of a join\<close>

definition buildConversationJoinedPayload :: "env \<Rightarrow> jobject \<Rightarrow> json svc" where
  "buildConversationJoinedPayload e conversationResponse =
     andThen (expand e (JObj conversationResponse)) (\<lambda>expanded.
     ret (JObj [(''success'', JBool True), (''statusCode'', jint 200),
                (''data'', coalesce (get_prop expanded ''conversation'') JNull)]))"

section \<open>Opening a conversation over HTTP\<close>

definition createConversation :: "env \<Rightarrow> int \<Rightarrow> int \<Rightarrow> int option \<Rightarrow> jobject wsvc" where
  "createConversation e userSub participantId productId =
     andThen (on_db (getOrCreateConversation e userSub participantId productId)) (\<lambda>response.
     andThen (case js_Number (get_prop (obj_get response ''conversation'') ''id'') of
                JNum r \<Rightarrow>
                  (if is_integer r \<and> r > 0 then
                     andThen (on_db (getConversationParticipants e \<lfloor>r\<rfloor>)) (\<lambda>participants.
                     andThen (on_db (buildConversationJoinedPayload e response)) (\<lambda>payload.
                     emitConversationJoinedToParticipants \<lfloor>r\<rfloor>
                       [jint (fst participants), jint (snd participants)] payload))
                   else ret ())
              | _ \<Rightarrow> ret ()) (\<lambda>_.
     ret response))"

section \<open>Lemmas\<close>

lemma on_db_run [act_simps]: "on_db m g = (fst (m (gw_db g)), g\<lparr>gw_db := snd (m (gw_db g))\<rparr>)"
  by (simp add: on_db_def split: prod.split)

lemma set_unique [simp]: "set (unique xs) = set xs"
  by (simp add: unique_def)

lemma roomName_inject [simp]: "roomName x = roomName y \<longleftrightarrow> x = y"
  by (simp add: roomName_def)

lemma js_String_int8: "int8_ok e \<Longrightarrow> 0 < n \<Longrightarrow> js_String e (int8_parse e n) = int_str n"
  by (auto simp: int8_ok_def int8_as_string_def int8_as_number_def js_String_def)

end
