(* ===== verification/Gateway.thy ===== *)
theory Gateway
  imports Sockets Users
begin

text \<open>
  \<open>src/src/chat/chat.gateway.ts\<close> and \<open>chat-ws-exception.filter.ts\<close>: connecting, disconnecting, the three
  events of the chat, and what a client learns of an error. \<open>ws_step\<close> is the machine they make with the
  rest of the server: any client may connect, send or leave at any time, also while its token is being
  verified.

  What the gateway writes to the log is not part of the state; \<open>failure_log\<close> is the entry a failed event
  leaves.
\<close>

section \<open>Connecting\<close>

text \<open>\<open>s.replace(/^Bearer\s+/i, '')\<close>.\<close>

definition strip_bearer :: "string \<Rightarrow> string" where
  "strip_bearer s =
     (if js_lower (take 6 s) = ''bearer'' \<and> takeWhile is_ws (drop 6 s) \<noteq> []
      then dropWhile is_ws (drop 6 s) else s)"

fun non_empty_string :: "json \<Rightarrow> string option" where
  "non_empty_string (JStr s) = (if length s > 0 then Some s else None)"
| "non_empty_string _ = None"

definition extractToken :: "socket \<Rightarrow> exn + string" where
  "extractToken client =
     (case non_empty_string (sk_auth_token client) of
        Some authToken \<Rightarrow> Inr (strip_bearer authToken)
      | None \<Rightarrow>
          (case non_empty_string (sk_authorization client) of
             Some header \<Rightarrow> Inr (strip_bearer header)
           | None \<Rightarrow> Inl (JsErr ''Missing token'')))"

definition handleDisconnect :: "string \<Rightarrow> unit wsvc" where
  "handleDisconnect sid =
     andThen (gets (\<lambda>g. gw_sockets g sid)) (\<lambda>client.
     case client of
       None \<Rightarrow> ret ()
     | Some s \<Rightarrow>
         (case sk_user s of
            None \<Rightarrow> ret ()
          | Some user \<Rightarrow> if wu_sub user \<noteq> 0 then unregisterUserSocket (wu_sub user) sid else ret ()))"

text \<open>\<open>client.disconnect(true)\<close>, and what a client does by leaving; a second time it does nothing.\<close>

definition disconnect :: "string \<Rightarrow> unit wsvc" where
  "disconnect sid =
     andThen (gets (is_connected sid)) (\<lambda>connected.
     if \<not> connected then ret ()
     else
       andThen (modify (\<lambda>g. g\<lparr>gw_rooms := filter (\<lambda>m. snd m \<noteq> sid) (gw_rooms g),
         gw_sockets := (gw_sockets g)(sid :=
           map_option (\<lambda>s. s\<lparr>sk_connected := False\<rparr>) (gw_sockets g sid))\<rparr>)) (\<lambda>_.
       handleDisconnect sid))"

definition ws_subject :: "jobject \<Rightarrow> int option" where
  "ws_subject payload =
     (case js_Number (obj_get payload ''sub'') of
        JNum r \<Rightarrow> if is_integer r \<and> \<not> r \<le> 0 then Some \<lfloor>r\<rfloor> else None
      | _ \<Rightarrow> None)"

text \<open>The verification of the token, from the handshake and the clock.\<close>

definition verified_user :: "env \<Rightarrow> socket \<Rightarrow> int \<Rightarrow> ws_user option" where
  "verified_user e client now =
     (case extractToken client of
        Inl _ \<Rightarrow> None
      | Inr token \<Rightarrow>
          (case jwt_verify e token (jwtAccessSecret (cfg e)) now of
             None \<Rightarrow> None
           | Some payload \<Rightarrow>
               map_option (\<lambda>sub. \<lparr>wu_sub = sub, wu_phone = obj_get payload ''phone'',
                                   wu_isAdmin = obj_get payload ''isAdmin''\<rparr>) (ws_subject payload)))"

definition handleConnection :: "env \<Rightarrow> string \<Rightarrow> unit wsvc" where
  "handleConnection e sid =
     andThen (gets (\<lambda>g. gw_sockets g sid)) (\<lambda>client.
     case client of
       None \<Rightarrow> ret ()
     | Some s \<Rightarrow>
         andThen (gets (\<lambda>g. verified_user e s (clock (gw_db g)))) (\<lambda>user.
         case user of
           None \<Rightarrow> disconnect sid
         | Some u \<Rightarrow>
             andThen (modify (\<lambda>g. g\<lparr>gw_sockets :=
               (gw_sockets g)(sid := Some (s\<lparr>sk_user := Some u\<rparr>))\<rparr>)) (\<lambda>_.
             registerUserSocket (wu_sub u) sid)))"

definition getUser :: "string \<Rightarrow> ws_user wsvc" where
  "getUser sid =
     andThen (gets (\<lambda>g. gw_sockets g sid)) (\<lambda>client.
     case client of
       None \<Rightarrow> throw (Unauthorized ''Unauthorized'')
     | Some s \<Rightarrow>
         (case sk_user s of None \<Rightarrow> throw (Unauthorized ''Unauthorized'') | Some u \<Rightarrow> ret u))"

section \<open>The three events\<close>

definition joinConversation :: "env \<Rightarrow> string \<Rightarrow> int \<Rightarrow> json wsvc" where
  "joinConversation e sid conversationId =
     andThen (getUser sid) (\<lambda>user.
     andThen (on_db (assertConversationParticipant e conversationId (wu_sub user))) (\<lambda>_.
     andThen (on_db (getConversationById e (wu_sub user) conversationId)) (\<lambda>conversationResponse.
     andThen (on_db (buildConversationJoinedPayload e conversationResponse)) (\<lambda>outboundPayload.
     let room = roomName (int_str conversationId) in
     andThen (join sid room) (\<lambda>_.
     andThen (emit_to_room room ''conversation.joined'' outboundPayload) (\<lambda>_.
     ret (JObj [(''success'', JBool True), (''room'', JStr room)])))))))"

definition ws_sendMessage :: "env \<Rightarrow> string \<Rightarrow> int \<Rightarrow> string \<Rightarrow> json wsvc" where
  "ws_sendMessage e sid conversationId messageText =
     andThen (getUser sid) (\<lambda>user.
     andThen (on_db (sendMessage e (wu_sub user) conversationId messageText)) (\<lambda>response.
     andThen (on_db (expand e (JObj (spread [(''success'', JBool True)] response)))) (\<lambda>wsPayload.
     let room = roomName (int_str conversationId) in
     andThen (join sid room) (\<lambda>_.
     andThen (emit_to_room room ''message.received'' wsPayload) (\<lambda>_.
     ret wsPayload)))))"

definition ws_markRead :: "env \<Rightarrow> string \<Rightarrow> int \<Rightarrow> json wsvc" where
  "ws_markRead e sid messageId =
     andThen (getUser sid) (\<lambda>user.
     andThen (on_db (markRead e (wu_sub user) messageId)) (\<lambda>response.
     andThen (on_db (expand e (JObj (spread [(''success'', JBool True)] response)))) (\<lambda>wsPayload.
     let conversationId = get_prop (obj_get response ''message'') ''conversation_id'';
         room = roomName (js_String e conversationId) in
     andThen (join sid room) (\<lambda>_.
     andThen (emit_to_room room ''message.read'' wsPayload) (\<lambda>_.
     ret wsPayload)))))"

section \<open>Validation errors\<close>

text \<open>What the validation pipe reports: \<open>ValidationError\<close> of the class-validator package.\<close>

datatype validation_error =
  VError (v_property: string) (v_value: json) (v_constraints: "(string \<times> string) list option")
    (v_children: "validation_error list")

fun walk_error :: "string \<Rightarrow> validation_error \<Rightarrow> json list"
  and walk_errors :: "string \<Rightarrow> validation_error list \<Rightarrow> json list" where
  "walk_error parentPath (VError prop val constraints children) =
     (let field = (if parentPath \<noteq> [] then parentPath @ ''.'' @ prop else prop) in
      (case constraints of
         None \<Rightarrow> []
       | Some cs \<Rightarrow> map (\<lambda>(r, m). JObj [(''field'', JStr field), (''rule'', JStr r),
                                       (''message'', JStr m), (''value'', val)]) cs) @
      walk_errors field children)"
| "walk_errors parentPath [] = []"
| "walk_errors parentPath (err # errs) = walk_error parentPath err @ walk_errors parentPath errs"

definition flattenValidationErrors :: "validation_error list \<Rightarrow> json list" where
  "flattenValidationErrors errors = walk_errors [] errors"

definition validation_exception :: "validation_error list \<Rightarrow> exn" where
  "validation_exception errors =
     WsErr (JObj [(''code'', JStr ''VALIDATION_ERROR''), (''message'', JStr ''Invalid payload''),
                  (''details'', JArr (flattenValidationErrors errors))])"

section \<open>ChatWsExceptionFilter\<close>

text \<open>\<open>exception.getResponse()\<close> of a NestJS exception, always an object here.\<close>

definition http_response :: "string \<Rightarrow> jobject \<Rightarrow> json" where
  "http_response msg extra = JObj ((''message'', JStr msg) # extra)"

text \<open>\<open>xs.join(', ')\<close>: nothing for \<open>null\<close> and \<open>undefined\<close>.\<close>

definition join_comma :: "env \<Rightarrow> json list \<Rightarrow> string" where
  "join_comma e vs = join_str '', '' (map (\<lambda>v. if nullish v then [] else js_String e v) vs)"

definition message_of :: "env \<Rightarrow> json \<Rightarrow> string \<Rightarrow> string" where
  "message_of e m fallback =
     (case m of JArr vs \<Rightarrow> join_comma e vs | JStr s \<Rightarrow> s | _ \<Rightarrow> fallback)"

definition is_object :: "json \<Rightarrow> bool" where
  "is_object v = (case v of JArr _ \<Rightarrow> True | JObj _ \<Rightarrow> True | JDate _ \<Rightarrow> True | _ \<Rightarrow> False)"

definition extractBadRequestDetails :: "env \<Rightarrow> json \<Rightarrow> string \<times> json" where
  "extractBadRequestDetails e response =
     (case response of
        JStr s \<Rightarrow> (s, JUndef)
      | _ \<Rightarrow>
          (if \<not> is_object response then (''Invalid payload'', JUndef)
           else (message_of e (get_prop response ''message'') ''Invalid payload'',
                 (case get_prop response ''details'' of JArr ds \<Rightarrow> JArr ds | _ \<Rightarrow> JUndef))))"

definition extractForbiddenDetails :: "env \<Rightarrow> json \<Rightarrow> string \<times> json \<times> json" where
  "extractForbiddenDetails e response =
     (case response of
        JStr s \<Rightarrow> (s, JUndef, JUndef)
      | _ \<Rightarrow>
          (if \<not> is_object response then (''Forbidden'', JUndef, JUndef)
           else (message_of e (get_prop response ''message'') ''Forbidden'',
                 (case get_prop response ''reason'' of JStr r \<Rightarrow> JStr r | _ \<Rightarrow> JUndef),
                 (let context = get_prop response ''context'' in
                  if is_object context then context else JUndef))))"

text \<open>The result of \<open>normalizeError\<close>; an optional field is \<open>JUndef\<close> when it is missing.\<close>

record ws_error =
  we_code :: json
  we_event :: string
  we_message :: json
  we_details :: json
  we_reason :: json
  we_context :: json
  we_correlationId :: string
  we_timestamp :: string
  we_statusCode :: nat

definition plain_error :: "string \<Rightarrow> string \<Rightarrow> string \<Rightarrow> string \<Rightarrow> string \<Rightarrow> nat \<Rightarrow> ws_error" where
  "plain_error code msg event correlationId timestamp status =
     \<lparr>we_code = JStr code, we_event = event, we_message = JStr msg, we_details = JUndef, we_reason = JUndef,
      we_context = JUndef, we_correlationId = correlationId, we_timestamp = timestamp,
      we_statusCode = status\<rparr>"

definition or_default :: "string \<Rightarrow> string \<Rightarrow> string" where
  "or_default s fallback = (if s = [] then fallback else s)"

definition normalizeError :: "env \<Rightarrow> exn \<Rightarrow> string \<Rightarrow> string \<Rightarrow> int \<Rightarrow> ws_error" where
  "normalizeError e exception event correlationId now =
     (let timestamp = toISOString now;
          internal = plain_error ''INTERNAL_ERROR'' ''Internal server error'' event correlationId timestamp 500
      in case exception of
        WsErr wsError \<Rightarrow>
          (if is_object wsError then
             internal\<lparr>we_code := coalesce (get_prop wsError ''code'') (JStr ''INTERNAL_ERROR''),
               we_message := coalesce (get_prop wsError ''message'') (JStr ''Internal server error''),
               we_details := get_prop wsError ''details'',
               we_statusCode := if get_prop wsError ''code'' = JStr ''VALIDATION_ERROR'' then 400 else 500\<rparr>
           else (case wsError of JStr s \<Rightarrow> internal\<lparr>we_message := JStr s\<rparr> | _ \<Rightarrow> internal))
      | HttpExn status msg extra \<Rightarrow>
          (if status = 400 then
             (case extractBadRequestDetails e (http_response msg extra) of (m, details) \<Rightarrow>
                (plain_error ''VALIDATION_ERROR'' m event correlationId timestamp 400)\<lparr>we_details := details\<rparr>)
           else if status = 401 then
             plain_error ''UNAUTHORIZED'' (or_default msg ''Unauthorized'') event correlationId timestamp 401
           else if status = 403 then
             (case extractForbiddenDetails e (http_response msg extra) of (m, reason, context) \<Rightarrow>
                (plain_error ''FORBIDDEN'' m event correlationId timestamp 403)
                  \<lparr>we_reason := reason, we_context := context\<rparr>)
           else if status = 404 then
             plain_error ''NOT_FOUND'' (or_default msg ''Not found'') event correlationId timestamp 404
           else internal)
      | _ \<Rightarrow> internal)"

definition exposeSafeContext :: "string \<Rightarrow> json \<Rightarrow> json \<Rightarrow> json" where
  "exposeSafeContext event code context =
     (if event \<noteq> ''message.send'' \<or> code \<noteq> JStr ''FORBIDDEN'' \<or> \<not> truthy context then JUndef
      else (case chat_toPositiveInt (get_prop context ''conversationId'') of
              None \<Rightarrow> JObj []
            | Some conversationId \<Rightarrow> JObj [(''conversationId'', jint conversationId)]))"

definition error_envelope :: "string \<Rightarrow> ws_error \<Rightarrow> json" where
  "error_envelope event n =
     JObj [(''success'', JBool False),
           (''error'', JObj [(''code'', we_code n), (''event'', JStr (we_event n)),
              (''message'', we_message n), (''details'', we_details n), (''reason'', we_reason n),
              (''context'', exposeSafeContext event (we_code n) (we_context n)),
              (''correlationId'', JStr (we_correlationId n)), (''timestamp'', JStr (we_timestamp n)),
              (''statusCode'', jint (int (we_statusCode n)))])]"

definition error_exception :: "string \<Rightarrow> json \<Rightarrow> ws_error \<Rightarrow> json" where
  "error_exception event payload n =
     JObj [(''status'', JStr ''error''), (''message'', we_message n),
           (''cause'', JObj [(''pattern'', JStr event), (''data'', payload), (''code'', we_code n),
                            (''correlationId'', JStr (we_correlationId n))])]"

text \<open>The entry in the log: its level, and the two fields that are read out of the context.\<close>

datatype log_level = Warn_level | Error_level

definition extractConversationId :: "json \<Rightarrow> json \<Rightarrow> int option" where
  "extractConversationId payload context =
     (case (if is_object payload then chat_toPositiveInt (get_prop payload ''conversationId'') else None) of
        Some i \<Rightarrow> Some i
      | None \<Rightarrow> chat_toPositiveInt (get_prop context ''conversationId''))"

definition extractParticipantIds :: "json \<Rightarrow> (int \<times> int) option" where
  "extractParticipantIds context =
     (case (chat_toPositiveInt (get_prop context ''userAId''), chat_toPositiveInt (get_prop context ''userBId'')) of
        (Some a, Some b) \<Rightarrow> Some (a, b)
      | _ \<Rightarrow> None)"

definition failure_log :: "json \<Rightarrow> ws_error \<Rightarrow> log_level \<times> int option \<times> (int \<times> int) option" where
  "failure_log payload n =
     (if we_statusCode n \<ge> 500 then Error_level else Warn_level,
      extractConversationId payload (we_context n), extractParticipantIds (we_context n))"

definition filter_correlationId :: "env \<Rightarrow> socket option \<Rightarrow> string svc" where
  "filter_correlationId e client =
     (case non_empty_string (case client of None \<Rightarrow> JUndef | Some s \<Rightarrow> sk_request_id s) of
        Some h \<Rightarrow> ret h
      | None \<Rightarrow> draw (\<lambda>i. random_hex e i 16))"

definition catch :: "env \<Rightarrow> string \<Rightarrow> string \<Rightarrow> json \<Rightarrow> exn \<Rightarrow> unit wsvc" where
  "catch e sid event payload exception =
     andThen (gets (\<lambda>g. gw_sockets g sid)) (\<lambda>client.
     andThen (on_db (filter_correlationId e client)) (\<lambda>correlationId.
     andThen (gets (\<lambda>g. normalizeError e exception event correlationId (clock (gw_db g)))) (\<lambda>normalized.
     andThen (emit_to_socket sid ''chat.error'' (error_envelope event normalized)) (\<lambda>_.
     emit_to_socket sid ''exception'' (error_exception event payload normalized)))))"

section \<open>One event\<close>

text \<open>An event after the pipe: the body it let through, or its errors.\<close>

datatype ws_event =
    JoinEvent int
  | SendEvent int string
  | ReadEvent int
  | InvalidEvent "validation_error list"

fun handler :: "env \<Rightarrow> string \<Rightarrow> ws_event \<Rightarrow> json wsvc" where
  "handler e sid (JoinEvent conversationId) = joinConversation e sid conversationId"
| "handler e sid (SendEvent conversationId text) = ws_sendMessage e sid conversationId text"
| "handler e sid (ReadEvent messageId) = ws_markRead e sid messageId"
| "handler e sid (InvalidEvent errors) = throw (validation_exception errors)"

text \<open>An event named \<open>pattern\<close> with raw data: the handler, and the filter on what it throws.\<close>

definition on_event :: "env \<Rightarrow> string \<Rightarrow> string \<Rightarrow> json \<Rightarrow> ws_event \<Rightarrow> unit wsvc" where
  "on_event e sid pattern data ev =
     tryCatch (andThen (handler e sid ev) (\<lambda>_. ret ())) (catch e sid pattern data)"

section \<open>The machine\<close>

text \<open>
  A client connects with its handshake; the verification of its token ends later; it sends events and
  leaves; meanwhile conversations are opened over HTTP, users block and unblock each other, delete
  their accounts, and time passes.
\<close>

definition new_socket :: "json \<Rightarrow> json \<Rightarrow> json \<Rightarrow> socket" where
  "new_socket tok authorization request_id =
     \<lparr>sk_auth_token = tok, sk_authorization = authorization, sk_request_id = request_id,
      sk_user = None, sk_pending = True, sk_connected = True\<rparr>"

definition verification_ended :: "string \<Rightarrow> gateway \<Rightarrow> gateway" where
  "verification_ended sid g = g\<lparr>gw_sockets := (gw_sockets g)(sid :=
     map_option (\<lambda>s. s\<lparr>sk_pending := False\<rparr>) (gw_sockets g sid))\<rparr>"

inductive ws_step :: "env \<Rightarrow> gateway \<Rightarrow> gateway \<Rightarrow> bool" for e where
  init: "ws_step e g (snd (setServer g))"
| connects: "gw_sockets g sid = None \<Longrightarrow>
    ws_step e g (g\<lparr>gw_sockets := (gw_sockets g)(sid \<mapsto> new_socket tok authorization request_id)\<rparr>)"
| verified: "gw_sockets g sid = Some s \<Longrightarrow> sk_pending s \<Longrightarrow>
    ws_step e g (snd (handleConnection e sid (verification_ended sid g)))"
| event: "is_connected sid g \<Longrightarrow> ws_step e g (snd (on_event e sid pattern data ev g))"
| leaves: "is_connected sid g \<Longrightarrow> ws_step e g (snd (disconnect sid g))"
| opens: "ws_step e g (snd (createConversation e u v p g))"
| blocks: "ws_step e g (snd (on_db (blockUser u v) g))"
| unblocks: "ws_step e g (snd (on_db (unblockUser u v) g))"
| deletes: "ws_step e g (snd (on_db (deleteMe u) g))"
| time: "clock (gw_db g) \<le> t \<Longrightarrow> ws_step e g (g\<lparr>gw_db := (gw_db g)\<lparr>clock := t\<rparr>\<rparr>)"

definition empty_gateway :: "db \<Rightarrow> gateway" where
  "empty_gateway d = \<lparr>gw_db = d, gw_server = False, gw_sockets = (\<lambda>_. None), gw_registry = (\<lambda>_. None),
     gw_rooms = [], gw_sent = []\<rparr>"

inductive_cases ws_stepE: "ws_step e g g'"

end
