(* ===== verification/GatewayProps.thy ===== *)
theory GatewayProps
  imports Gateway ChatProps AdminProps
begin

text \<open>
  What holds in every state the chat server can reach: the members of a room, and everyone a room event
  was ever delivered to, take part in the conversation of the room; what a client learns of an error;
  and where the machine goes wrong.
\<close>

section \<open>Triples\<close>

text \<open>\<open>triple I P m Q\<close>: from \<open>P\<close>, a result of \<open>m\<close> establishes \<open>Q\<close> and an exception leaves \<open>I\<close>.\<close>

definition triple :: "('s \<Rightarrow> bool) \<Rightarrow> ('s \<Rightarrow> bool) \<Rightarrow> ('s, 'a) act \<Rightarrow> ('a \<Rightarrow> 's \<Rightarrow> bool) \<Rightarrow> bool" where
  "triple I P m Q \<longleftrightarrow> (\<forall>s. P s \<longrightarrow> (case m s of (Inl x, t) \<Rightarrow> I t | (Inr a, t) \<Rightarrow> Q a t))"

lemma triple_andThen:
  "triple I P m Q \<Longrightarrow> (\<And>a. triple I (Q a) (k a) R) \<Longrightarrow> triple I P (andThen m k) R"
  by (fastforce simp: triple_def andThen_run split: prod.splits sum.splits)

lemma triple_ret: "(\<And>s. P s \<Longrightarrow> Q a s) \<Longrightarrow> triple I P (ret a) Q"
  by (simp add: triple_def)

lemma triple_weaken: "triple I P m Q \<Longrightarrow> (\<And>a s. Q a s \<Longrightarrow> R a s) \<Longrightarrow> triple I P m R"
  by (fastforce simp: triple_def split: prod.splits sum.splits)

lemma triple_strengthen: "triple I P m Q \<Longrightarrow> (\<And>s. R s \<Longrightarrow> P s) \<Longrightarrow> triple I R m Q"
  by (simp add: triple_def)

lemma triple_keeps: "triple I I m (\<lambda>_. I) \<longleftrightarrow> keeps I m"
proof -
  have "(case m s of (Inl x, t) \<Rightarrow> I t | (Inr a, t) \<Rightarrow> I t) = I (snd (m s))" for s
    by (simp split: prod.split sum.split)
  then show ?thesis by (simp add: triple_def keeps_def)
qed

lemma triple_forEach:
  "(\<And>x. x \<in> set xs \<Longrightarrow> triple I P (f x) (\<lambda>_. P)) \<Longrightarrow> triple I P (forEach xs f) (\<lambda>_. P)"
  by (induction xs) (auto intro!: triple_ret triple_andThen)

section \<open>Conversations only grow\<close>

definition conv_keys :: "db \<Rightarrow> (int \<times> int \<times> int) list" where
  "conv_keys d = map (\<lambda>c. (cv_id c, cv_user_a_id c, cv_user_b_id c)) (conversations d)"

abbreviation conv_grows :: "(int \<times> int \<times> int) set \<Rightarrow> db \<Rightarrow> bool" where
  "conv_grows K d \<equiv> K \<subseteq> set (conv_keys d)"

lemma conv_keys_update [simp]:
  assumes "\<And>c. cv_id (f c) = cv_id c \<and> cv_user_a_id (f c) = cv_user_a_id c \<and> cv_user_b_id (f c) = cv_user_b_id c"
  shows "conv_keys (d\<lparr>conversations := update_where P f (conversations d)\<rparr>) = conv_keys d"
  unfolding conv_keys_def by (simp add: map_update_where assms)

lemma conv_keys_frame [simp]:
  "conv_keys (d\<lparr>messages := ms\<rparr>) = conv_keys d" "conv_keys (d\<lparr>seqs := s\<rparr>) = conv_keys d"
  "conv_keys (d\<lparr>users := us\<rparr>) = conv_keys d" "conv_keys (d\<lparr>user_blocks := bs\<rparr>) = conv_keys d"
  "conv_keys (d\<lparr>draws := n\<rparr>) = conv_keys d" "conv_keys (d\<lparr>clock := t\<rparr>) = conv_keys d"
  by (simp_all add: conv_keys_def)

lemma conv_key_by_id:
  "conversation_by_id i d = Some c \<Longrightarrow> (i, cv_user_a_id c, cv_user_b_id c) \<in> set (conv_keys d)"
  by (auto simp: conversation_by_id_def conv_keys_def dest!: row_where_Some)

lemma grows_insert_conversation: "keeps (conv_grows K) (insert_conversation a b p)"
  by (rule keepsI) (auto simp: insert_conversation_run Let_def conv_keys_def)

lemma grows_getOrCreate: "keeps (conv_grows K) (getOrCreateConversation e u v p)"
proof -
  have "keeps (conv_grows K) (modify (\<lambda>d. d\<lparr>conversations :=
      update_where (\<lambda>c. cv_id c = i) (\<lambda>c. c\<lparr>cv_product_id := q\<rparr>) (conversations d)\<rparr>))" for i q
    by (rule keeps_modify) simp
  then show ?thesis
    unfolding getOrCreateConversation_def existing_or_new_def
    by (intro keeps_rules grows_insert_conversation reads_validated_product [THEN reads_keeps]
        reads_getConversationById [THEN reads_keeps])
qed

lemma grows_sendMessage: "keeps (conv_grows K) (sendMessage e u cid t)"
proof -
  have "keeps (conv_grows K) (insert_message cid u t)"
    by (rule keepsI) (auto simp: insert_message_run Let_def)
  moreover have "keeps (conv_grows K) (modify (\<lambda>d. d\<lparr>conversations :=
      update_where (\<lambda>c. cv_id c = cid) (\<lambda>c. c\<lparr>cv_last_message_id := q\<rparr>) (conversations d)\<rparr>))" for q
    by (rule keeps_modify) simp
  ultimately show ?thesis
    unfolding sendMessage_def
    by (intro keeps_rules reads_assert [THEN reads_keeps])
qed

lemma keeps_markRead_any:
  assumes "\<And>d ms. I d \<Longrightarrow> I (d\<lparr>messages := ms\<rparr>)"
  shows "keeps I (markRead e u i)"
  unfolding markRead_def
  by (intro keeps_rules keeps_modify assms reads_assert [THEN reads_keeps])

lemma grows_markRead: "keeps (conv_grows K) (markRead e u i)"
  by (rule keeps_markRead_any) simp

section \<open>The invariant\<close>

definition takes_part :: "gateway \<Rightarrow> string \<Rightarrow> string \<Rightarrow> bool" where
  "takes_part g sid room =
     (case gw_sockets g sid of
        None \<Rightarrow> False
      | Some s \<Rightarrow>
          (case sk_user s of
             None \<Rightarrow> False
           | Some w \<Rightarrow> list_ex (\<lambda>(i, a, b). room = roomName (int_str i) \<and> (a = wu_sub w \<or> b = wu_sub w))
                         (conv_keys (gw_db g))))"

definition socket_user :: "gateway \<Rightarrow> string \<Rightarrow> int option" where
  "socket_user g sid =
     (case gw_sockets g sid of None \<Rightarrow> None | Some s \<Rightarrow> map_option wu_sub (sk_user s))"

definition gateway_ok :: "gateway \<Rightarrow> bool" where
  "gateway_ok g \<longleftrightarrow>
     chat_ok (gw_db g) \<and>
     (\<forall>(room, sid) \<in> set (gw_rooms g). takes_part g sid room) \<and>
     (\<forall>m \<in> set (gw_sent g). \<forall>room. dl_room m = Some room \<longrightarrow> takes_part g (dl_socket m) room) \<and>
     (\<forall>u sids. gw_registry g u = Some sids \<longrightarrow> (\<forall>sid \<in> set sids. socket_user g sid = Some u)) \<and>
     (\<forall>sid s. gw_sockets g sid = Some s \<longrightarrow> sk_pending s \<longrightarrow> sk_user s = None)"

lemma takes_part_iff:
  "takes_part g sid room \<longleftrightarrow> (\<exists>u i a b. socket_user g sid = Some u \<and> (i, a, b) \<in> set (conv_keys (gw_db g)) \<and>
     room = roomName (int_str i) \<and> (a = u \<or> b = u))"
  by (auto simp: takes_part_def socket_user_def list_ex_iff split: option.splits)

text \<open>When users of sockets stay and conversations grow, everyone keeps taking part.\<close>

lemma takes_part_mono:
  assumes "takes_part g sid room" and "set (conv_keys (gw_db g)) \<subseteq> set (conv_keys (gw_db g'))"
    and "\<And>u. socket_user g sid = Some u \<Longrightarrow> socket_user g' sid = Some u"
  shows "takes_part g' sid room"
  using assms unfolding takes_part_iff by blast

lemma gateway_okI:
  assumes "gateway_ok g" and "chat_ok (gw_db g')"
    and grow: "set (conv_keys (gw_db g)) \<subseteq> set (conv_keys (gw_db g'))"
    and user: "\<And>sid u. socket_user g sid = Some u \<Longrightarrow> socket_user g' sid = Some u"
    and rooms: "\<And>room sid. (room, sid) \<in> set (gw_rooms g') \<Longrightarrow> (room, sid) \<in> set (gw_rooms g) \<or> takes_part g' sid room"
    and sent: "\<And>m room. m \<in> set (gw_sent g') \<Longrightarrow> dl_room m = Some room \<Longrightarrow>
      m \<in> set (gw_sent g) \<or> (room, dl_socket m) \<in> set (gw_rooms g)"
    and reg: "\<And>u sids sid. gw_registry g' u = Some sids \<Longrightarrow> sid \<in> set sids \<Longrightarrow>
      (\<exists>old. gw_registry g u = Some old \<and> sid \<in> set old) \<or> socket_user g' sid = Some u"
    and pending: "\<And>sid s. gw_sockets g' sid = Some s \<Longrightarrow> sk_pending s \<Longrightarrow> sk_user s = None"
  shows "gateway_ok g'"
proof -
  have mono: "takes_part g sid room \<Longrightarrow> takes_part g' sid room" for sid room
    using takes_part_mono [OF _ grow] user by blast
  have old: "(room, sid) \<in> set (gw_rooms g) \<Longrightarrow> takes_part g sid room" for room sid
    using assms(1) unfolding gateway_ok_def by blast
  have "takes_part g' (dl_socket m) room" if "m \<in> set (gw_sent g')" "dl_room m = Some room" for m room
    using sent [OF that] that(2) assms(1) mono old unfolding gateway_ok_def by blast
  moreover have "takes_part g' sid room" if "(room, sid) \<in> set (gw_rooms g')" for room sid
    using rooms [OF that] mono old by blast
  moreover have "socket_user g' sid = Some u" if "gw_registry g' u = Some sids" "sid \<in> set sids" for u sids sid
    using reg [OF that] assms(1) user unfolding gateway_ok_def by blast
  ultimately show ?thesis using assms(2) pending unfolding gateway_ok_def by blast
qed

section \<open>The parts of a handler\<close>

lemma gateway_ok_chat: "gateway_ok g \<Longrightarrow> chat_ok (gw_db g)"
  by (simp add: gateway_ok_def)

lemma gateway_ok_pending: "gateway_ok g \<Longrightarrow> gw_sockets g sid = Some s \<Longrightarrow> sk_pending s \<Longrightarrow> sk_user s = None"
  by (simp add: gateway_ok_def)

lemma gateway_ok_registry:
  "gateway_ok g \<Longrightarrow> gw_registry g u = Some sids \<Longrightarrow> sid \<in> set sids \<Longrightarrow> socket_user g sid = Some u"
  by (simp add: gateway_ok_def)

lemma gateway_ok_db:
  assumes "gateway_ok g" and "chat_ok d" and "set (conv_keys (gw_db g)) \<subseteq> set (conv_keys d)"
  shows "gateway_ok (g\<lparr>gw_db := d\<rparr>)"
  by (rule gateway_okI [OF assms(1)])
    (use assms gateway_ok_pending [OF assms(1)] in \<open>auto simp: socket_user_def\<close>)

lemma keeps_on_db:
  assumes "keeps chat_ok m" and "\<And>K. keeps (conv_grows K) m"
  shows "keeps gateway_ok (on_db m)"
proof (rule keepsI)
  fix g assume ok: "gateway_ok g"
  have "chat_ok (snd (m (gw_db g)))" using assms(1) gateway_ok_chat [OF ok] by (simp add: keeps_def)
  moreover have "set (conv_keys (gw_db g)) \<subseteq> set (conv_keys (snd (m (gw_db g))))"
    using assms(2) [of "set (conv_keys (gw_db g))"] by (simp add: keeps_def)
  ultimately show "gateway_ok (snd (on_db m g))" by (simp add: on_db_run gateway_ok_db [OF ok])
qed

lemma on_db_reads: "reads m \<Longrightarrow> on_db m g = (fst (m (gw_db g)), g)"
  by (simp add: on_db_run reads_def)

lemma triple_on_db_reads:
  "reads m \<Longrightarrow> (\<And>g. P g \<Longrightarrow> I g) \<Longrightarrow> triple I P (on_db m) (\<lambda>_. P)"
  by (auto simp: triple_def on_db_reads split: sum.split)

lemma reads_expand: "reads (expand e v)"
  by (simp add: expand_def)

lemma reads_payload: "reads (buildConversationJoinedPayload e r)"
  unfolding buildConversationJoinedPayload_def by (intro reads_andThen reads_expand reads_ret)

lemma keeps_emit_to_room: "keeps gateway_ok (emit_to_room room ev v)"
proof (rule keepsI)
  fix g assume ok: "gateway_ok g"
  show "gateway_ok (snd (emit_to_room room ev v g))"
    by (rule gateway_okI [OF ok])
      (use ok in \<open>auto simp: emit_to_room_def socket_user_def gateway_ok_chat gateway_ok_pending\<close>)
qed

lemma keeps_emit_to_socket: "keeps gateway_ok (emit_to_socket sid ev v)"
proof (rule keepsI)
  fix g assume ok: "gateway_ok g"
  show "gateway_ok (snd (emit_to_socket sid ev v g))"
    by (rule gateway_okI [OF ok])
      (use ok in \<open>auto simp: emit_to_socket_def socket_user_def gateway_ok_chat gateway_ok_pending split: if_splits\<close>)
qed

lemma join_run:
  "snd (join sid room g) = g\<lparr>gw_rooms := gw_rooms (snd (join sid room g))\<rparr> \<and>
   set (gw_rooms (snd (join sid room g))) = insert (room, sid) (set (gw_rooms g)) \<and> fst (join sid room g) = Inr ()"
  by (auto simp: join_def)

lemma join_ok:
  assumes "gateway_ok g" and "takes_part g sid room"
  shows "gateway_ok (snd (join sid room g))"
proof -
  let ?g = "snd (join sid room g)"
  have same: "gw_db ?g = gw_db g" "gw_sockets ?g = gw_sockets g" "gw_sent ?g = gw_sent g" "gw_registry ?g = gw_registry g"
    by (simp_all add: join_def)
  have tp: "takes_part ?g = takes_part g" "socket_user ?g = socket_user g"
    unfolding takes_part_def [abs_def] socket_user_def [abs_def] same by (rule refl)+
  show ?thesis
    by (rule gateway_okI [OF assms(1)])
      (use assms join_run [of sid room g] in \<open>auto simp: same tp gateway_ok_chat gateway_ok_pending\<close>)
qed

lemma triple_join:
  "triple gateway_ok (\<lambda>g. gateway_ok g \<and> takes_part g sid room) (join sid room) (\<lambda>_. gateway_ok)"
  using join_run join_ok by (auto simp: triple_def split: prod.splits sum.splits) (metis snd_conv)+

text \<open>A member joins the room of a conversation, an event goes out, a value is returned.\<close>

lemma triple_join_emit:
  "triple gateway_ok (\<lambda>g. gateway_ok g \<and> takes_part g sid room)
     (andThen (join sid room) (\<lambda>_. andThen (emit_to_room room ev v) (\<lambda>_. ret w))) (\<lambda>_. gateway_ok)"
  by (intro triple_andThen [OF triple_join] triple_andThen [where Q = "\<lambda>_. gateway_ok"] triple_ret)
    (simp_all add: triple_keeps keeps_emit_to_room)

abbreviation user_is :: "string \<Rightarrow> int \<Rightarrow> gateway \<Rightarrow> bool" where
  "user_is sid u g \<equiv> gateway_ok g \<and> socket_user g sid = Some u"

lemma triple_getUser: "triple gateway_ok gateway_ok (getUser sid) (\<lambda>w. user_is sid (wu_sub w))"
  by (auto simp: triple_def getUser_def socket_user_def split: option.splits)

lemma participant_takes_part:
  assumes "chat_ok (gw_db g)" and "conversation_by_id cid (gw_db g) = Some c" and "may_chat u c d"
    and "socket_user g sid = Some u"
  shows "takes_part g sid (roomName (int_str cid))"
  using conv_key_by_id [OF assms(2)] assms(3,4)
  unfolding takes_part_iff may_chat_def in_conversation_def by blast

section \<open>The handlers\<close>

lemma triple_assert:
  assumes "int8_ok e"
  shows "triple gateway_ok (user_is sid u) (on_db (assertConversationParticipant e cid u))
    (\<lambda>_ g. gateway_ok g \<and> takes_part g sid (roomName (int_str cid)))"
  unfolding triple_def
proof (intro allI impI)
  fix g assume g: "user_is sid u g"
  obtain r d where a: "assertConversationParticipant e cid u (gw_db g) = (r, d)" by fastforce
  show "case on_db (assertConversationParticipant e cid u) g of (Inl x, t) \<Rightarrow> gateway_ok t
      | (Inr a, t) \<Rightarrow> gateway_ok t \<and> takes_part t sid (roomName (int_str cid))"
  proof (cases r)
    case (Inl x)
    with g a show ?thesis by (simp add: on_db_reads [OF reads_assert])
  next
    case (Inr x)
    with g a assert_InrE [OF assms gateway_ok_chat] participant_takes_part [OF gateway_ok_chat] show ?thesis
      by (simp add: on_db_reads [OF reads_assert]) metis
  qed
qed

lemma keeps_joinConversation:
  assumes "int8_ok e"
  shows "keeps gateway_ok (joinConversation e sid cid)"
  unfolding joinConversation_def Let_def triple_keeps [symmetric]
  by (rule triple_andThen [OF triple_getUser] triple_andThen [OF triple_assert [OF assms]]
      triple_andThen [OF triple_on_db_reads] reads_getConversationById reads_payload triple_join_emit | simp)+

lemma triple_db_success:
  assumes "\<And>d a d'. chat_ok d \<Longrightarrow> m d = (Inr a, d') \<Longrightarrow>
      \<exists>c. conversation_by_id (f a) d = Some c \<and> in_conversation u c"
    and "keeps chat_ok m" and "\<And>K. keeps (conv_grows K) m"
  shows "triple gateway_ok (user_is sid u) (on_db m)
    (\<lambda>a g. gateway_ok g \<and> takes_part g sid (roomName (int_str (f a))))"
  unfolding triple_def
proof (intro allI impI)
  fix g assume g: "user_is sid u g"
  obtain r d where run: "m (gw_db g) = (r, d)" by fastforce
  have ok: "gateway_ok (g\<lparr>gw_db := d\<rparr>)"
    using keeps_on_db [OF assms(2,3)] g run by (simp add: keeps_def on_db_run) (metis fst_conv snd_conv)
  show "case on_db m g of (Inl x, t) \<Rightarrow> gateway_ok t
      | (Inr a, t) \<Rightarrow> gateway_ok t \<and> takes_part t sid (roomName (int_str (f a)))"
  proof (cases r)
    case (Inl x)
    with ok run show ?thesis by (simp add: on_db_run)
  next
    case (Inr a)
    from assms(1) [OF gateway_ok_chat run [unfolded Inr]] g obtain c
      where c: "conversation_by_id (f a) (gw_db g) = Some c" "in_conversation u c" by blast
    have "set (conv_keys (gw_db g)) \<subseteq> set (conv_keys d)"
      using assms(3) [of "set (conv_keys (gw_db g))"] run by (simp add: keeps_def) (metis order_refl snd_conv)
    with conv_key_by_id [OF c(1)] have "(f a, cv_user_a_id c, cv_user_b_id c) \<in> set (conv_keys d)" by blast
    with c(2) g have "takes_part (g\<lparr>gw_db := d\<rparr>) sid (roomName (int_str (f a)))"
      unfolding takes_part_iff in_conversation_def by (simp add: socket_user_def) blast
    with ok run Inr show ?thesis by (simp add: on_db_run)
  qed
qed

lemma sendMessage_participant:
  assumes "int8_ok e" and "chat_ok d" and "sendMessage e u cid t d = (Inr r, d')"
  shows "\<exists>c. conversation_by_id cid d = Some c \<and> in_conversation u c"
proof (rule ccontr)
  assume "\<nexists>c. conversation_by_id cid d = Some c \<and> in_conversation u c"
  then have "\<nexists>c. conversation_by_id cid d = Some c \<and> may_chat u c d" by (auto simp: may_chat_def)
  from sendMessage_refused [OF assms(1,2) this, of t] assms(3) show False by auto
qed

lemma keeps_ws_sendMessage:
  assumes "int8_ok e"
  shows "keeps gateway_ok (ws_sendMessage e sid cid t)"
proof -
  have sent: "triple gateway_ok (user_is sid u) (on_db (sendMessage e u cid t))
      (\<lambda>_ g. gateway_ok g \<and> takes_part g sid (roomName (int_str cid)))" for u
    using triple_db_success [of "sendMessage e u cid t" "\<lambda>_. cid" u sid] sendMessage_participant [OF assms]
      keeps_sendMessage [OF assms] grows_sendMessage by blast
  show ?thesis
    unfolding ws_sendMessage_def Let_def triple_keeps [symmetric]
    by (rule triple_andThen [OF triple_getUser] triple_andThen [OF sent] triple_andThen [OF triple_on_db_reads]
        reads_expand triple_join_emit | simp)+
qed

text \<open>The room of a read message is that of its conversation.\<close>

definition read_conversation :: "jobject \<Rightarrow> json" where
  "read_conversation response = get_prop (obj_get response ''message'') ''conversation_id''"

lemma markRead_InrE:
  assumes "int8_ok e" and "chat_ok d" and "markRead e u i d = (Inr r, d')"
  obtains c cid where "read_conversation r = int8_parse e cid" and "0 < cid"
    and "conversation_by_id cid d = Some c" and "in_conversation u c"
proof -
  from assms(3) obtain m where m: "message_by_id i d = Some m"
    by (cases "message_by_id i d") (auto simp: markRead_def)
  obtain x d1 where a: "assertConversationParticipant e (m_conversation_id m) u d = (x, d1)" by fastforce
  from markRead_run [OF assms(1,2) m, of u] assms(3) a obtain y where y: "x = Inr y"
    and r: "r = [(''message'', JObj (normalizeMessageRow e (message_row_object e (stamp_read (clock d) m))))]"
    by (auto split: sum.splits if_splits)
  have "read_conversation r = int8_parse e (m_conversation_id m)"
    by (simp add: r read_conversation_def normalizeMessageRow_def message_row_object_def stamp_read_def)
  moreover from chat_ok_message [OF assms(2) m] have "0 < m_conversation_id m" by blast
  moreover from assert_InrE [OF assms(1,2) a [unfolded y]] obtain c
    where "conversation_by_id (m_conversation_id m) d = Some c" "may_chat u c d" by blast
  ultimately show thesis using that by (auto simp: may_chat_def)
qed

lemma keeps_ws_markRead:
  assumes "int8_ok e"
  shows "keeps gateway_ok (ws_markRead e sid i)"
proof -
  define f where "f r = the (toPositiveInt (read_conversation r))" for r
  have f: "f r = cid" if "read_conversation r = int8_parse e cid" "0 < cid" for r cid
    using that assms by (simp add: f_def)
  have part: "(\<exists>c. conversation_by_id (f a) d = Some c \<and> in_conversation u c) \<and>
      js_String e (read_conversation a) = int_str (f a)" if "chat_ok d" "markRead e u i d = (Inr a, d')" for u d a d'
    using markRead_InrE [OF assms that] f js_String_int8 [OF assms] by metis
  have marked: "triple gateway_ok (user_is sid u) (on_db (markRead e u i))
      (\<lambda>a g. gateway_ok g \<and> takes_part g sid (roomName (js_String e (read_conversation a))))" for u
  proof -
    have "triple gateway_ok (user_is sid u) (on_db (markRead e u i))
        (\<lambda>a g. gateway_ok g \<and> takes_part g sid (roomName (int_str (f a))))"
      using triple_db_success [of "markRead e u i" f u sid] part keeps_markRead [OF assms] grows_markRead by blast
    then show ?thesis
      using part [OF gateway_ok_chat]
      by (auto simp: triple_def on_db_run split: sum.splits) (metis prod.collapse)
  qed
  show ?thesis
    unfolding ws_markRead_def Let_def triple_keeps [symmetric] read_conversation_def [symmetric]
    by (rule triple_andThen [OF triple_getUser] triple_andThen [OF marked] triple_andThen [OF triple_on_db_reads]
        reads_expand triple_join_emit | simp)+
qed

section \<open>The other steps\<close>

lemma chat_ok_draws [simp]: "chat_ok (d\<lparr>draws := n\<rparr>) = chat_ok d"
  and chat_ok_blocks [simp]: "chat_ok (d\<lparr>user_blocks := bs\<rparr>) = chat_ok d"
  and chat_ok_clock [simp]: "chat_ok (d\<lparr>clock := t\<rparr>) = chat_ok d"
  by (simp_all add: chat_ok_def message_ok_def last_ok_def user_exists_def cong: ball_cong)

lemma chat_ok_users:
  assumes "chat_ok d" and "\<And>u. u_id (f u) = u_id u"
  shows "chat_ok (d\<lparr>users := update_where P f (users d)\<rparr>)"
  using assms
  by (simp add: chat_ok_def message_ok_def last_ok_def user_exists_def list_ex_update_where cong: ball_cong)

lemma keeps_catch: "keeps gateway_ok (catch e sid ev v x)"
proof -
  have "keeps gateway_ok (on_db (filter_correlationId e c))" for c
    unfolding filter_correlationId_def
    by (rule keeps_on_db) (auto simp: keeps_def split: option.split)
  then show ?thesis
    unfolding catch_def by (intro keeps_rules keeps_emit_to_socket)
qed

lemma keeps_on_event:
  assumes "int8_ok e"
  shows "keeps gateway_ok (on_event e sid pattern v ev)"
proof -
  have "keeps gateway_ok (handler e sid ev)"
    using keeps_joinConversation [OF assms] keeps_ws_sendMessage [OF assms] keeps_ws_markRead [OF assms]
    by (cases ev) (simp_all add: keeps_throw)
  then show ?thesis unfolding on_event_def by (intro keeps_rules keeps_catch)
qed

text \<open>What a disconnection leaves.\<close>

lemma disconnect_frame:
  "gw_db (snd (disconnect sid g)) = gw_db g \<and> gw_sent (snd (disconnect sid g)) = gw_sent g \<and>
   set (gw_rooms (snd (disconnect sid g))) \<subseteq> set (gw_rooms g) \<and>
   gw_sockets (snd (disconnect sid g)) = (gw_sockets g)(sid :=
     map_option (\<lambda>s. s\<lparr>sk_connected := False\<rparr>) (gw_sockets g sid)) \<and>
   (\<forall>u sids s. gw_registry (snd (disconnect sid g)) u = Some sids \<longrightarrow> s \<in> set sids \<longrightarrow>
      (\<exists>old. gw_registry g u = Some old \<and> s \<in> set old))"
proof (cases "gw_sockets g sid")
  case None
  then show ?thesis
    by (auto simp: disconnect_def is_connected_def fun_eq_iff)
next
  case (Some s)
  show ?thesis
  proof (cases "sk_connected s")
    case False
    then have "s\<lparr>sk_connected := False\<rparr> = s" by simp
    with Some False show ?thesis by (auto simp: disconnect_def is_connected_def fun_upd_idem_iff)
  next
    case True
    with Some show ?thesis
      by (auto simp: disconnect_def is_connected_def handleDisconnect_def unregisterUserSocket_def Let_def
          split: option.splits if_splits)
  qed
qed

lemma keeps_disconnect: "keeps gateway_ok (disconnect sid)"
proof (rule keepsI)
  fix g assume ok: "gateway_ok g"
  note fr = disconnect_frame [of sid g]
  have user: "socket_user (snd (disconnect sid g)) x = socket_user g x" for x
    using fr by (auto simp: socket_user_def split: option.split)
  show "gateway_ok (snd (disconnect sid g))"
  proof (rule gateway_okI [OF ok])
    show "chat_ok (gw_db (snd (disconnect sid g)))" using fr gateway_ok_chat [OF ok] by simp
    show "sk_user s = None" if "gw_sockets (snd (disconnect sid g)) x = Some s" "sk_pending s" for x s
      using that fr gateway_ok_pending [OF ok] by (auto split: if_splits)
  qed (use fr user in auto)
qed

lemma handleConnection_ok:
  assumes "gateway_ok g" and "gw_sockets g sid = Some s" and "sk_pending s"
  shows "gateway_ok (snd (handleConnection e sid (verification_ended sid g)))"
proof -
  let ?g = "verification_ended sid g"
  have none: "sk_user s = None" by (rule gateway_ok_pending [OF assms])
  have s: "gw_sockets ?g sid = Some (s\<lparr>sk_pending := False\<rparr>)" using assms(2) by (simp add: verification_ended_def)
  have ok: "gateway_ok ?g"
    by (rule gateway_okI [OF assms(1)])
      (use assms(2) gateway_ok_chat [OF assms(1)] gateway_ok_pending [OF assms(1)] none
        in \<open>auto simp: verification_ended_def socket_user_def split: if_splits\<close>)
  show ?thesis
  proof (cases "verified_user e (s\<lparr>sk_pending := False\<rparr>) (clock (gw_db ?g))")
    case None
    with s keeps_disconnect ok show ?thesis by (simp add: handleConnection_def keeps_def)
  next
    case (Some u)
    show ?thesis
      by (rule gateway_okI [OF ok])
        (use Some s none gateway_ok_chat [OF ok] gateway_ok_pending [OF ok]
          in \<open>auto simp: handleConnection_def registerUserSocket_def socket_user_def Let_def
                split: if_splits option.splits\<close>)
  qed
qed

lemma triple_gets: "triple I P (gets f) (\<lambda>a s. P s \<and> a = f s)"
  by (simp add: triple_def)

lemma triple_join_member:
  assumes "cid_a = a \<or> cid_a = b"
  shows "triple gateway_ok
    (\<lambda>g. gateway_ok g \<and> (cid, a, b) \<in> set (conv_keys (gw_db g)) \<and> (\<forall>x \<in> set sids. socket_user g x = Some cid_a))
    (forEach sids (\<lambda>sid. join sid (roomName (int_str cid))))
    (\<lambda>_ g. gateway_ok g \<and> (cid, a, b) \<in> set (conv_keys (gw_db g)))"
proof -
  let ?P = "\<lambda>g. gateway_ok g \<and> (cid, a, b) \<in> set (conv_keys (gw_db g)) \<and> (\<forall>x \<in> set sids. socket_user g x = Some cid_a)"
  have "triple gateway_ok ?P (join sid (roomName (int_str cid))) (\<lambda>_. ?P)" if "sid \<in> set sids" for sid
    unfolding triple_def
  proof (intro allI impI)
    fix g assume P: "?P g"
    let ?g = "snd (join sid (roomName (int_str cid)) g)"
    have "takes_part g sid (roomName (int_str cid))"
      using P that assms unfolding takes_part_iff by blast
    with P have "gateway_ok ?g" by (intro join_ok) auto
    moreover have "gw_db ?g = gw_db g" "gw_sockets ?g = gw_sockets g" by (simp_all add: join_def)
    ultimately have "?P ?g" using P by (simp add: socket_user_def)
    then show "case join sid (roomName (int_str cid)) g of (Inl x, t) \<Rightarrow> gateway_ok t | (Inr x, t) \<Rightarrow> ?P t"
      by (simp add: join_def)
  qed
  then have "triple gateway_ok ?P (forEach sids (\<lambda>sid. join sid (roomName (int_str cid)))) (\<lambda>_. ?P)"
    by (rule triple_forEach)
  then show ?thesis by (rule triple_weaken) simp
qed

lemma keeps_emitConversationJoined:
  "triple gateway_ok (\<lambda>g. gateway_ok g \<and> (cid, a, b) \<in> set (conv_keys (gw_db g)))
     (emitConversationJoinedToParticipants cid [jint a, jint b] v) (\<lambda>_. gateway_ok)"
proof -
  let ?P = "\<lambda>g. gateway_ok g \<and> (cid, a, b) \<in> set (conv_keys (gw_db g))"
  let ?ids = "unique (List.map_filter chat_toPositiveInt [jint a, jint b])"
  have ids: "u = a \<or> u = b" if "u \<in> set ?ids" for u
    using that by (auto simp: List.map_filter_def chat_toPositiveInt_def jint_def split: if_splits)
  have "triple gateway_ok ?P (andThen (gets (\<lambda>g. gw_registry g u)) (\<lambda>sockets.
      case sockets of None \<Rightarrow> ret () | Some sids \<Rightarrow> forEach sids (\<lambda>sid. join sid (roomName (int_str cid))))) (\<lambda>_. ?P)"
    if "u \<in> set ?ids" for u
  proof (rule triple_andThen [OF triple_gets])
    fix r show "triple gateway_ok (\<lambda>g. ?P g \<and> r = gw_registry g u)
        (case r of None \<Rightarrow> ret () | Some sids \<Rightarrow> forEach sids (\<lambda>sid. join sid (roomName (int_str cid)))) (\<lambda>_. ?P)"
    proof (cases r)
      case None
      show ?thesis unfolding None option.case by (rule triple_ret) simp
    next
      case (Some sids)
      have "triple gateway_ok (\<lambda>g. ?P g \<and> Some sids = gw_registry g u)
          (forEach sids (\<lambda>sid. join sid (roomName (int_str cid)))) (\<lambda>_. ?P)"
        by (rule triple_strengthen [OF triple_join_member [OF ids [OF that]]])
          (simp, metis gateway_ok_registry)
      with Some show ?thesis by simp
    qed
  qed
  then have loop: "triple gateway_ok ?P (forEach ?ids (\<lambda>u. andThen (gets (\<lambda>g. gw_registry g u)) (\<lambda>sockets.
      case sockets of None \<Rightarrow> ret () | Some sids \<Rightarrow> forEach sids (\<lambda>sid. join sid (roomName (int_str cid)))))) (\<lambda>_. ?P)"
    by (rule triple_forEach)
  have emit: "triple gateway_ok ?P (emit_to_room room ev v) (\<lambda>_. gateway_ok)" for room ev
    by (rule triple_strengthen [of _ gateway_ok]) (simp_all add: triple_keeps keeps_emit_to_room)
  show ?thesis
    unfolding emitConversationJoinedToParticipants_def Let_def
  proof (rule triple_andThen [OF triple_gets])
    fix server
    show "triple gateway_ok (\<lambda>g. ?P g \<and> server = gw_server g) (if \<not> server then ret () else
        andThen (forEach ?ids (\<lambda>u. andThen (gets (\<lambda>g. gw_registry g u)) (\<lambda>sockets.
          case sockets of None \<Rightarrow> ret () | Some sids \<Rightarrow> forEach sids (\<lambda>sid. join sid (roomName (int_str cid))))))
          (\<lambda>_. emit_to_room (roomName (int_str cid)) ''conversation.joined'' v)) (\<lambda>_. gateway_ok)"
    proof (cases server)
      case True
      then have on: "server = True" by simp
      show ?thesis
        unfolding on not_True_eq_False if_False
        by (rule triple_strengthen [OF triple_andThen [OF loop emit]]) simp
    next
      case False
      then have off: "server = False" by simp
      show ?thesis unfolding off not_False_eq_True if_True by (rule triple_ret) simp
    qed
  qed
qed

lemma participants_key:
  assumes "int8_ok e" and "chat_ok d" and "getConversationParticipants e cid d = (Inr p, d')"
  shows "d' = d \<and> (cid, fst p, snd p) \<in> set (conv_keys d)"
proof -
  from assms(3) obtain c where c: "conversation_by_id cid d = Some c"
    by (cases "conversation_by_id cid d") (auto simp: getConversationParticipants_def)
  with assms chat_ok_conversation [OF assms(2) c] conv_key_by_id [OF c] show ?thesis
    by (simp add: getConversationParticipants_def chat_toPositiveInt_eq)
qed

lemma reads_getConversationParticipants: "reads (getConversationParticipants e cid)"
  unfolding getConversationParticipants_def reads_def by (auto split: option.splits)

lemma keeps_createConversation:
  assumes "int8_ok e"
  shows "keeps gateway_ok (createConversation e u v p)"
proof -
  have part: "triple gateway_ok gateway_ok (on_db (getConversationParticipants e cid))
      (\<lambda>p g. gateway_ok g \<and> (cid, fst p, snd p) \<in> set (conv_keys (gw_db g)))" for cid
    using participants_key [OF assms gateway_ok_chat]
    by (auto simp: triple_def on_db_reads [OF reads_getConversationParticipants] split: sum.split)
      (metis prod.collapse reads_def reads_getConversationParticipants)
  have "keeps gateway_ok (andThen (on_db (getConversationParticipants e cid)) (\<lambda>participants.
      andThen (on_db (buildConversationJoinedPayload e r)) (\<lambda>payload.
      emitConversationJoinedToParticipants cid [jint (fst participants), jint (snd participants)] payload)))" for cid r
    unfolding triple_keeps [symmetric]
    by (rule triple_andThen [OF part] triple_andThen [OF triple_on_db_reads] reads_payload
        keeps_emitConversationJoined | simp)+
  moreover have "keeps gateway_ok (on_db (getOrCreateConversation e u v p))"
    by (rule keeps_on_db [OF keeps_getOrCreate [OF assms] grows_getOrCreate])
  ultimately show ?thesis
    unfolding createConversation_def by (auto intro!: keeps_rules split: json.split)
qed

section \<open>Rooms are private\<close>

lemma keeps_insert_block: "keeps chat_ok (insert_block u v)" "keeps (conv_grows K) (insert_block u v)"
  by (simp_all add: keeps_def insert_block_def)

lemma keeps_step_ops:
  "keeps chat_ok (blockUser u v)" "keeps (conv_grows K) (blockUser u v)"
  "keeps chat_ok (unblockUser u v)" "keeps (conv_grows K) (unblockUser u v)"
  "keeps chat_ok (deleteMe u)" "keeps (conv_grows K) (deleteMe u)"
proof -
  show "keeps chat_ok (blockUser u v)" "keeps (conv_grows K) (blockUser u v)"
    unfolding blockUser_def by (intro keeps_rules keeps_insert_block)+
  show "keeps chat_ok (unblockUser u v)" "keeps (conv_grows K) (unblockUser u v)"
    unfolding unblockUser_def by (intro keeps_rules keeps_modify, simp)+
  show "keeps chat_ok (deleteMe u)" "keeps (conv_grows K) (deleteMe u)"
    unfolding deleteMe_def by (intro keeps_rules keeps_modify, simp_all add: chat_ok_users soft_delete_def)+
qed

lemma ws_step_ok:
  assumes "int8_ok e" and "ws_step e g g'" and "gateway_ok g"
  shows "gateway_ok g'"
  using assms(2,3)
proof (induction rule: ws_step.induct)
  case (init g)
  show ?case
    by (rule gateway_okI [OF init])
      (use gateway_ok_chat [OF init] gateway_ok_pending [OF init] in \<open>auto simp: setServer_def socket_user_def\<close>)
next
  case (connects g sid tok authorization request_id)
  show ?case
    by (rule gateway_okI [OF connects(2)])
      (use connects(1) gateway_ok_chat [OF connects(2)] gateway_ok_pending [OF connects(2)]
        in \<open>auto simp: socket_user_def new_socket_def split: if_splits\<close>)
next
  case (verified g sid s)
  then show ?case by (intro handleConnection_ok)
next
  case (event sid g pattern v ev)
  with keeps_on_event [OF assms(1)] show ?case by (simp add: keeps_def)
next
  case (leaves sid g)
  with keeps_disconnect show ?case by (simp add: keeps_def)
next
  case (opens u v p g)
  with keeps_createConversation [OF assms(1)] show ?case by (simp add: keeps_def)
next
  case (blocks u v g)
  with keeps_on_db [OF keeps_step_ops(1,2)] show ?case by (simp add: keeps_def)
next
  case (unblocks u v g)
  with keeps_on_db [OF keeps_step_ops(3,4)] show ?case by (simp add: keeps_def)
next
  case (deletes u g)
  with keeps_on_db [OF keeps_step_ops(5,6)] show ?case by (simp add: keeps_def)
next
  case (time g t)
  with gateway_ok_db [OF time(2)] gateway_ok_chat [OF time(2)] show ?case by simp
qed

lemma empty_gateway_ok: "chat_ok d \<Longrightarrow> gateway_ok (empty_gateway d)"
  by (simp add: gateway_ok_def empty_gateway_def)

lemma reachable_ok:
  assumes "int8_ok e" and "chat_ok d" and "(ws_step e)\<^sup>*\<^sup>* (empty_gateway d) g"
  shows "gateway_ok g"
  using assms(3) by (induction rule: rtranclp_induct)
    (auto intro: empty_gateway_ok assms(2) ws_step_ok [OF assms(1)])

text \<open>
  C17. Rooms are private: in every state the chat server can reach, whatever clients send and in whatever
  order they connect, leave, block and open conversations, each member of a room is the socket of a user
  who takes part in the conversation of the room, and no event of a room was ever delivered to a
  socket of anyone else.
\<close>

theorem rooms_are_private:
  assumes "int8_ok e" and "chat_ok d" and "(ws_step e)\<^sup>*\<^sup>* (empty_gateway d) g"
  shows "(\<forall>(room, sid) \<in> set (gw_rooms g). takes_part g sid room) \<and>
    (\<forall>m \<in> set (gw_sent g). \<forall>room. dl_room m = Some room \<longrightarrow> takes_part g (dl_socket m) room)"
  using reachable_ok [OF assms] by (simp add: gateway_ok_def)

text \<open>A run: a client connects with the token of the first user and joins the conversation.\<close>

definition client :: socket where
  "client = new_socket (JStr ''Bearer t'') JUndef JUndef"

definition connecting :: gateway where
  "connecting = (empty_gateway sample_chat)\<lparr>gw_sockets := (gw_sockets (empty_gateway sample_chat))(''s'' \<mapsto> client)\<rparr>"

definition user1 :: ws_user where
  "user1 = \<lparr>wu_sub = 1, wu_phone = JStr ''+201'', wu_isAdmin = JBool False\<rparr>"

lemma token_int8_ok: "int8_ok token_env"
  using sample_int8_ok by (simp add: token_env_def int8_ok_def)

lemma sample_texts: "strip_bearer ''Bearer t'' = ''t''" "int_str 1 = ''1''"
  by code_simp+

lemma client_verified: "verified_user token_env (client\<lparr>sk_pending := p, sk_connected := c\<rparr>) now = Some user1"
  by (simp add: verified_user_def extractToken_def client_def new_socket_def sample_texts token_env_def samples ws_subject_def string_number_digits js_trim_digits
      is_digit_def digits_nat_def digit_val_def user1_def is_integer_def)

lemma connecting_reachable: "(ws_step token_env)\<^sup>*\<^sup>* (empty_gateway sample_chat) connecting"
  unfolding connecting_def client_def by (intro r_into_rtranclp ws_step.connects) (simp add: empty_gateway_def)

definition registered :: gateway where
  "registered = snd (handleConnection token_env ''s'' (verification_ended ''s'' connecting))"

lemma registered_simps:
  "gw_db registered = sample_chat" "gw_sockets registered ''s'' = Some (client\<lparr>sk_user := Some user1, sk_pending := False\<rparr>)"
  "gw_rooms registered = []"
  using client_verified [where p = False and c = True]
  by (simp_all add: registered_def handleConnection_def verification_ended_def connecting_def
      registerUserSocket_def Let_def empty_gateway_def client_def new_socket_def)

lemma registered_reachable: "(ws_step token_env)\<^sup>*\<^sup>* (empty_gateway sample_chat) registered"
proof -
  have "ws_step token_env connecting registered"
    unfolding registered_def
    by (rule ws_step.verified [of _ _ client]) (simp_all add: connecting_def client_def new_socket_def)
  with connecting_reachable show ?thesis by (rule rtranclp.rtrancl_into_rtrancl)
qed

theorem rooms_are_private_witness:
  "\<exists>g. (ws_step token_env)\<^sup>*\<^sup>* (empty_gateway sample_chat) g \<and>
     gw_rooms g = [(''conversation:1'', ''s'')] \<and> takes_part g ''s'' ''conversation:1''"
proof -
  let ?g = "snd (on_event token_env ''s'' ''conversation.join'' JNull (JoinEvent 1) registered)"
  have step: "ws_step token_env registered ?g"
    by (rule ws_step.event) (simp add: is_connected_def registered_simps client_def new_socket_def)
  with registered_reachable have reach: "(ws_step token_env)\<^sup>*\<^sup>* (empty_gateway sample_chat) ?g"
    by (rule rtranclp.rtrancl_into_rtrancl)
  obtain c where c: "conversation_by_id 1 sample_chat = Some c" "may_chat 1 c sample_chat"
    by (simp add: conversation_by_id_def sample_chat_def may_chat_def in_conversation_def
        chat_hasBlockBetweenUsers_def samples)
  have "gw_rooms ?g = [(''conversation:1'', ''s'')]"
    using getConversationById_run [OF token_int8_ok sample_chat_ok c] assert_run [OF token_int8_ok sample_chat_ok, of 1 1] c
    by (simp add: on_event_def tryCatch_run joinConversation_def getUser_def registered_simps user1_def on_db_run
        andThen_run join_def emit_to_room_def buildConversationJoinedPayload_def expand_def may_chat_def Let_def
        roomName_def sample_texts)
  moreover from this rooms_are_private [OF token_int8_ok sample_chat_ok reach]
  have "takes_part ?g ''s'' ''conversation:1''" by simp
  ultimately show ?thesis using reach by blast
qed

end
