(* ===== verification/GatewayFaults.thy ===== *)
theory GatewayFaults
  imports GatewayProps
begin

text \<open>
  What clients learn when an event fails, and two faults of the gateway: a client that leaves while its
  token is being verified stays in the registry for ever, and a deleted account keeps its chat.
\<close>

section \<open>What an error reveals\<close>

text \<open>Exceptions that are none of the client's business.\<close>

definition internal :: "exn \<Rightarrow> bool" where
  "internal x = (case x of HttpExn status _ _ \<Rightarrow> status \<notin> {400, 401, 403, 404} | WsErr _ \<Rightarrow> False | _ \<Rightarrow> True)"

lemma normalize_internal:
  "internal x \<Longrightarrow> normalizeError e x ev cid now =
     plain_error ''INTERNAL_ERROR'' ''Internal server error'' ev cid (toISOString now) 500"
  by (cases x) (simp_all add: internal_def normalizeError_def)

lemma normalize_forbidden:
  "normalizeError e (forbiddenChatException reason m c) ev cid now =
     (plain_error ''FORBIDDEN'' m ev cid (toISOString now) 403)\<lparr>we_reason := JStr reason, we_context := JObj c\<rparr>"
  by (simp add: normalizeError_def forbiddenChatException_def extractForbiddenDetails_def http_response_def
      is_object_def message_of_def Let_def)

lemma catch_cong:
  assumes "\<And>cid now. error_envelope ev (normalizeError e x ev cid now) = error_envelope ev (normalizeError e y ev cid now)"
    and "\<And>cid now. error_exception ev v (normalizeError e x ev cid now) = error_exception ev v (normalizeError e y ev cid now)"
  shows "catch e sid ev v x = catch e sid ev v y"
  unfolding catch_def by (simp add: fun_eq_iff andThen_run assms split: sum.split prod.split)

text \<open>
  C28. Errors reveal nothing: whatever goes wrong inside the server, every internal error leaves the state,
  and sends the client, exactly what any other one does; and a refusal depends on the context of the
  exception, which names the two participants, only through the identifier of the conversation.
\<close>

theorem ws_errors_reveal_nothing:
  "(internal x \<and> internal y \<longrightarrow> catch e sid ev v x = catch e sid ev v y) \<and>
   (obj_get c ''conversationId'' = obj_get c' ''conversationId'' \<longrightarrow>
     catch e sid ev v (forbiddenChatException r m c) = catch e sid ev v (forbiddenChatException r m c'))"
proof (intro conjI impI)
  assume "internal x \<and> internal y"
  then show "catch e sid ev v x = catch e sid ev v y"
    by (intro catch_cong) (simp_all add: normalize_internal)
next
  assume c: "obj_get c ''conversationId'' = obj_get c' ''conversationId''"
  show "catch e sid ev v (forbiddenChatException r m c) = catch e sid ev v (forbiddenChatException r m c')"
    by (intro catch_cong)
      (simp_all add: normalize_forbidden error_envelope_def error_exception_def exposeSafeContext_def plain_error_def c)
qed

theorem ws_errors_reveal_nothing_witness:
  "catch sample_env ''s'' ''message.send'' JNull (PgErr CHECK_VIOLATION) =
     catch sample_env ''s'' ''message.send'' JNull (JsErr ''disk full'') \<and>
   catch sample_env ''s'' ''message.send'' JNull (forbiddenChatException NOT_PARTICIPANT ''No''
       [(''conversationId'', jint 1), (''userAId'', jint 5)]) =
     catch sample_env ''s'' ''message.send'' JNull (forbiddenChatException NOT_PARTICIPANT ''No''
       [(''conversationId'', jint 1), (''userAId'', jint 6)])"
  using ws_errors_reveal_nothing [of "PgErr CHECK_VIOLATION" "JsErr ''disk full''" sample_env "''s''" "''message.send''" JNull
      "[(''conversationId'', jint 1), (''userAId'', jint 5)]" "[(''conversationId'', jint 1), (''userAId'', jint 6)]"
      NOT_PARTICIPANT "''No''"]
  by (simp add: internal_def)

section \<open>A socket that left too early\<close>

definition dead_registered :: "string \<Rightarrow> int \<Rightarrow> gateway \<Rightarrow> bool" where
  "dead_registered sid u g \<longleftrightarrow>
     (\<exists>s. gw_sockets g sid = Some s \<and> \<not> sk_connected s \<and> \<not> sk_pending s) \<and>
     (\<exists>sids. gw_registry g u = Some sids \<and> sid \<in> set sids)"

lemma keeps_sockets:
  "keeps (\<lambda>g. gw_sockets g = S \<and> gw_registry g = R) (on_db m)"
  "keeps (\<lambda>g. gw_sockets g = S \<and> gw_registry g = R) (join sid room)"
  "keeps (\<lambda>g. gw_sockets g = S \<and> gw_registry g = R) (emit_to_room room ev v)"
  "keeps (\<lambda>g. gw_sockets g = S \<and> gw_registry g = R) (emit_to_socket sid ev v)"
  by (auto simp: keeps_def on_db_run join_def emit_to_room_def emit_to_socket_def)

lemma keeps_sockets_event: "keeps (\<lambda>g. gw_sockets g = S \<and> gw_registry g = R) (on_event e sid p v ev)"
proof -
  have "keeps (\<lambda>g. gw_sockets g = S \<and> gw_registry g = R) (handler e sid ev)"
    by (cases ev)
      (simp_all add: joinConversation_def ws_sendMessage_def ws_markRead_def getUser_def Let_def,
        (intro keeps_rules keeps_sockets)+)
  then show ?thesis unfolding on_event_def catch_def by (intro keeps_rules keeps_sockets)
qed

lemma keeps_sockets_create:
  "keeps (\<lambda>g. gw_sockets g = S \<and> gw_registry g = R) (createConversation e u v p)"
proof -
  have "keeps (\<lambda>g. gw_sockets g = S \<and> gw_registry g = R) (emitConversationJoinedToParticipants cid ids w)" for cid ids w
    unfolding emitConversationJoinedToParticipants_def Let_def by (intro keeps_rules keeps_sockets)
  then show ?thesis
    unfolding createConversation_def by (auto intro!: keeps_rules keeps_sockets split: json.split)
qed

lemma dead_frame:
  assumes "keeps (\<lambda>g'. gw_sockets g' = gw_sockets g \<and> gw_registry g' = gw_registry g) m" and "dead_registered sid u g"
  shows "dead_registered sid u (snd (m g))"
  using assms by (simp add: keeps_def dead_registered_def)

lemma disconnect_registry:
  assumes "gw_registry g u = Some sids" and "sid \<in> set sids" and "sid \<noteq> other"
  shows "\<exists>sids'. gw_registry (snd (disconnect other g)) u = Some sids' \<and> sid \<in> set sids'"
proof -
  have "filter (\<lambda>s. s \<noteq> other) sids \<noteq> []" using assms(2,3) by (auto simp: filter_empty_conv)
  with assms show ?thesis
    by (auto simp: disconnect_def is_connected_def handleDisconnect_def unregisterUserSocket_def Let_def
        split: option.splits)
qed

lemma dead_disconnect:
  assumes "dead_registered sid u g" and "sid \<noteq> other"
  shows "dead_registered sid u (snd (disconnect other g))"
proof -
  from assms(1) obtain sids where "gw_registry g u = Some sids" "sid \<in> set sids" by (auto simp: dead_registered_def)
  from disconnect_registry [OF this assms(2)] disconnect_frame [of other g] assms show ?thesis
    by (auto simp: dead_registered_def)
qed

lemma dead_connection:
  assumes "dead_registered sid u g" and "sid \<noteq> other"
  shows "dead_registered sid u (snd (handleConnection e other g))"
proof (cases "gw_sockets g other")
  case None
  with assms show ?thesis by (simp add: handleConnection_def)
next
  case (Some s)
  with assms dead_disconnect [OF assms] show ?thesis
    by (cases "verified_user e s (clock (gw_db g))")
      (auto simp: handleConnection_def registerUserSocket_def Let_def dead_registered_def split: option.split)
qed

lemma dead_step:
  assumes "ws_step e g g'" and "dead_registered sid u g"
  shows "dead_registered sid u g'"
  using assms
proof (induction rule: ws_step.induct)
  case (connects g other tok authorization request_id)
  then show ?case by (auto simp: dead_registered_def)
next
  case (verified g other s)
  then have "sid \<noteq> other" by (auto simp: dead_registered_def)
  moreover from this verified(3) have "dead_registered sid u (verification_ended other g)"
    by (auto simp: dead_registered_def verification_ended_def)
  ultimately show ?case by (intro dead_connection)
next
  case (leaves other g)
  then have "sid \<noteq> other" by (auto simp: dead_registered_def is_connected_def)
  with leaves(2) show ?case by (intro dead_disconnect)
next
  case (event other g p v ev)
  then show ?case using dead_frame keeps_sockets_event by blast
next
  case (opens a b p g)
  then show ?case using dead_frame keeps_sockets_create by blast
qed (auto simp: dead_registered_def setServer_def on_db_run)

lemma verified_user_handshake [simp]:
  "verified_user e (s\<lparr>sk_connected := c\<rparr>) = verified_user e s"
  "verified_user e (s\<lparr>sk_pending := p\<rparr>) = verified_user e s"
  "verified_user e (s\<lparr>sk_user := w\<rparr>) = verified_user e s"
  by (simp_all add: fun_eq_iff verified_user_def extractToken_def split: option.split)

text \<open>
  Registered for ever: when a client leaves while its valid token is still being verified, the
  verification ends by registering the closed socket, and no later behaviour of the server or its
  clients removes it: the registry of the user keeps it and every conversation opened later joins it.
\<close>

theorem late_registration_leaks:
  assumes "gw_sockets g sid = Some s" and "sk_connected s" and "sk_pending s" and "sk_user s = None"
    and "verified_user e s (clock (gw_db g)) = Some u"
    and "g1 = snd (disconnect sid g)" and "g2 = snd (handleConnection e sid (verification_ended sid g1))"
    and "(ws_step e)\<^sup>*\<^sup>* g2 g'"
  shows "ws_step e g g1 \<and> ws_step e g1 g2 \<and> \<not> is_connected sid g' \<and>
    (\<exists>sids. gw_registry g' (wu_sub u) = Some sids \<and> sid \<in> set sids)"
proof -
  have s1: "gw_sockets g1 sid = Some (s\<lparr>sk_connected := False\<rparr>)" "gw_db g1 = gw_db g"
    using disconnect_frame [of sid g] assms(1) unfolding assms(6) by simp_all
  have "ws_step e g g1" unfolding assms(6) by (rule ws_step.leaves) (simp add: is_connected_def assms(1,2))
  moreover have "ws_step e g1 g2"
    unfolding assms(7) by (rule ws_step.verified [OF s1(1)]) (simp add: assms(3))
  moreover have "dead_registered sid (wu_sub u) g2"
    using s1 assms(5) unfolding assms(7)
    by (auto simp: handleConnection_def verification_ended_def registerUserSocket_def Let_def dead_registered_def
        split: option.split)
  from assms(8) this have "dead_registered sid (wu_sub u) g'"
    by (induction rule: rtranclp_induct) (auto intro: dead_step)
  ultimately show ?thesis by (auto simp: dead_registered_def is_connected_def)
qed

theorem late_registration_leaks_witness:
  "\<exists>g1 g2. (ws_step token_env)\<^sup>*\<^sup>* (empty_gateway sample_chat) connecting \<and> ws_step token_env connecting g1 \<and>
     ws_step token_env g1 g2 \<and> \<not> is_connected ''s'' g2 \<and>
     (\<exists>sids. gw_registry g2 1 = Some sids \<and> ''s'' \<in> set sids)"
proof -
  have sock: "gw_sockets connecting ''s'' = Some client" by (simp add: connecting_def)
  have fields: "sk_connected client" "sk_pending client" "sk_user client = None"
    by (simp_all add: client_def new_socket_def)
  have "verified_user token_env client (clock (gw_db connecting)) = Some user1"
    using client_verified [of True True] by (simp add: client_def new_socket_def)
  from late_registration_leaks [OF sock fields this refl refl rtranclp.rtrancl_refl] connecting_reachable
  show ?thesis by (auto simp: user1_def)
qed

section \<open>A deleted account\<close>

lemma blocks_after_delete: "user_blocks (snd (deleteMe u d)) = user_blocks d"
  "conversations (snd (deleteMe u d)) = conversations d"
  by (simp_all add: deleteMe_def andThen_run unless_run)

text \<open>
  C37. A deleted account keeps its chat: after its owner deletes it, a socket of the account still sends
  messages, and its old access token, which every HTTP route now refuses, still opens new sockets.
\<close>

theorem deleted_account_keeps_chat:
  assumes "int8_ok e" and "gateway_ok g" and "socket_user g sid = Some u"
    and "conversation_by_id cid (gw_db g) = Some c" and "may_chat u c (gw_db g)" and "message_check t"
    and "authenticate e tok (gw_db g) = (Inr w, gw_db g)" and "au_sub w = u"
    and "tok \<noteq> []" and "list_all (\<lambda>x. \<not> is_ws x) tok"
    and "on_db (deleteMe u) g = (Inr r, g1)"
  shows "(\<exists>y. fst (ws_sendMessage e sid cid t g1) = Inr y) \<and>
    (\<exists>x. fst (authenticate e tok (gw_db g1)) = Inl x) \<and>
    (\<exists>v. verified_user e (new_socket (JStr tok) JUndef JUndef) (clock (gw_db g1)) = Some v \<and> wu_sub v = u)"
proof (intro conjI)
  let ?d = "gw_db g" and ?d1 = "gw_db g1"
  have g1: "g1 = g\<lparr>gw_db := ?d1\<rparr>" and d1: "?d1 = snd (deleteMe u ?d)" and ok: "chat_ok ?d1"
    using assms(11) keeps_step_ops(5) [of u] gateway_ok_chat [OF assms(2)] by (auto simp: on_db_run keeps_def)
  have cl: "clock ?d1 = clock ?d" "users ?d1 = update_where (live_id u) (soft_delete (clock ?d)) (users ?d)"
    unfolding d1 by (simp_all add: deleteMe_def andThen_run unless_run)
  have conv: "conversation_by_id cid ?d1 = Some c" "may_chat u c ?d1"
    using assms(4,5) blocks_after_delete [of u ?d] unfolding d1
    by (simp_all add: conversation_by_id_def may_chat_def chat_hasBlockBetweenUsers_def)
  from assms(3) obtain s w' where sw: "gw_sockets g sid = Some s" "sk_user s = Some w'" "wu_sub w' = u"
    by (auto simp: socket_user_def split: option.splits)
  have "gw_sockets g1 sid = Some s" using sw(1) by (subst g1) simp
  then have "getUser sid g1 = (Inr w', g1)" by (simp add: getUser_def sw)
  moreover have "\<exists>y d2. sendMessage e u cid t ?d1 = (Inr y, d2)"
    using sendMessage_run [OF assms(1) ok conv] assms(6) by (simp add: Let_def)
  ultimately show "\<exists>y. fst (ws_sendMessage e sid cid t g1) = Inr y"
    using sw(3) by (auto simp: ws_sendMessage_def andThen_run on_db_run expand_def Let_def join_def emit_to_room_def)
  from assms(7) obtain p where p: "jwt_verify e tok (jwtAccessSecret (cfg e)) (clock ?d) = Some p"
    and v: "jwt_validate p ?d = (Inr w, ?d)" by (auto simp: authenticate_def split: option.splits)
  from v obtain row where sub: "toPositiveInt (obj_get p ''sub'') = Some u"
    using assms(8) by (auto elim: jwt_validate_InrE)
  have "account_by_id u ?d1 = None"
    unfolding account_by_id_def row_where_None cl(2) by (simp add: soft_delete_def)
  with p sub cl(1) show "\<exists>x. fst (authenticate e tok ?d1) = Inl x"
    by (auto simp: authenticate_def jwt_validate_def unless_run andThen_run)
  have "takeWhile is_ws (drop 6 tok) = []"
    using assms(10) in_set_dropD [of "hd (drop 6 tok)" 6 tok] by (cases "drop 6 tok") (auto simp: list_all_iff)
  then have "strip_bearer tok = tok" by (simp add: strip_bearer_def)
  moreover have "ws_subject p = Some u"
    using sub by (auto simp: toPositiveInt_def ws_subject_def split: json.splits if_splits)
  ultimately show "\<exists>v. verified_user e (new_socket (JStr tok) JUndef JUndef) (clock ?d1) = Some v \<and> wu_sub v = u"
    using p cl(1) assms(9) by (simp add: verified_user_def extractToken_def new_socket_def)
qed

theorem deleted_account_keeps_chat_witness:
  "\<exists>r g1 y. on_db (deleteMe 1) registered = (Inr r, g1) \<and> fst (ws_sendMessage token_env ''s'' 1 ''Hello'' g1) = Inr y"
proof -
  have ok: "gateway_ok registered" by (rule reachable_ok [OF token_int8_ok sample_chat_ok registered_reachable])
  have su: "socket_user registered ''s'' = Some 1" by (simp add: socket_user_def registered_simps user1_def)
  obtain c where c: "conversation_by_id 1 (gw_db registered) = Some c" "may_chat 1 c (gw_db registered)"
    by (simp add: registered_simps conversation_by_id_def sample_chat_def may_chat_def in_conversation_def
        chat_hasBlockBetweenUsers_def samples)
  have au: "authenticate token_env ''t'' (gw_db registered) = (Inr token_user, gw_db registered)"
    by (simp add: registered_simps authenticate_def token_env_def jwt_validate_run is_number_def jint_def
        toPositiveInt_def string_number_digits js_trim_digits is_digit_def digits_nat_def digit_val_def
        account_by_id_def sample_chat_def samples token_user_def is_integer_def)
  obtain r g1 where del: "on_db (deleteMe 1) registered = (Inr r, g1)"
    by (simp add: on_db_run registered_simps deleteMe_def andThen_run unless_run account_row_def sample_chat_def samples)
  have "message_check ''Hello''" "au_sub token_user = 1" "list_all (\<lambda>x. \<not> is_ws x) ''t''"
    by (simp_all add: message_check_def token_user_def is_ws_def)
  from deleted_account_keeps_chat [OF token_int8_ok ok su c this(1) au this(2) _ this(3) del] del
  show ?thesis by auto
qed

end
