(* ===== verification/Logging.thy ===== *)
theory Logging
  imports Guards
begin

text \<open>
  \<open>src/src/common/logging\<close>: what may reach the log. \<open>sanitizeForLog\<close> bounds and redacts a value,
  \<open>payloadShape\<close> reduces it to types, and \<open>logger_write\<close> is the entry the logger makes of a record. The
  properties of an object are taken in their insertion order.
\<close>

section \<open>logging.utils.ts\<close>

definition SENSITIVE_KEYS :: "string list" where
  "SENSITIVE_KEYS =
     [''password'', ''token'', ''authorization'', ''secret'', ''otp'', ''refreshtoken'', ''accesstoken'']"

definition MAX_STRING_LENGTH :: nat where "MAX_STRING_LENGTH = 300"
definition MAX_ARRAY_LENGTH :: nat where "MAX_ARRAY_LENGTH = 20"
definition MAX_OBJECT_KEYS :: nat where "MAX_OBJECT_KEYS = 30"
definition MAX_DEPTH :: nat where "MAX_DEPTH = 4"

text \<open>\<open>key.toLowerCase().replace(/[_-]/g, '')\<close>.\<close>

definition normalizedKey :: "string \<Rightarrow> string" where
  "normalizedKey key = filter (\<lambda>c. c \<noteq> CHR ''_'' \<and> c \<noteq> CHR ''-'') (js_lower key)"

definition sensitive :: "string \<Rightarrow> bool" where
  "sensitive key = List.member SENSITIVE_KEYS (normalizedKey key)"

definition truncated :: "nat \<Rightarrow> string" where
  "truncated n = ''[truncated:'' @ nat_str n @ '']''"

definition sanitize_string :: "string \<Rightarrow> string" where
  "sanitize_string s =
     (if length s > MAX_STRING_LENGTH
      then take MAX_STRING_LENGTH s @ ''...'' @ truncated (length s - MAX_STRING_LENGTH)
      else s)"

lemma size_json_field: "kv \<in> set kvs \<Longrightarrow> size (snd kv) < Suc (size_list (size_prod (\<lambda>_. 0) size) kvs)"
  by (induction kvs) (auto simp: less_Suc_eq_le)

lemma size_json_item: "v \<in> set vs \<Longrightarrow> size v < Suc (size_list size vs)"
  by (induction vs) auto

function sanitizeForLog :: "nat \<Rightarrow> json \<Rightarrow> json" where
  "sanitizeForLog depth JUndef = JUndef"
| "sanitizeForLog depth JNull = JNull"
| "sanitizeForLog depth (JStr s) = JStr (sanitize_string s)"
| "sanitizeForLog depth (JBool b) = JBool b"
| "sanitizeForLog depth (JNum r) = JNum r"
| "sanitizeForLog depth JNonFinite = JNonFinite"
| "sanitizeForLog depth (JDate t) = (if depth \<ge> MAX_DEPTH then JStr ''[depth-limited]'' else JObj [])"
| "sanitizeForLog depth (JArr vs) =
     (if depth \<ge> MAX_DEPTH then JStr ''[depth-limited]''
      else JArr (map (sanitizeForLog (depth + 1)) (take MAX_ARRAY_LENGTH vs) @
                 (if length vs > MAX_ARRAY_LENGTH then [JStr (truncated (length vs - MAX_ARRAY_LENGTH))] else [])))"
| "sanitizeForLog depth (JObj kvs) =
     (if depth \<ge> MAX_DEPTH then JStr ''[depth-limited]''
      else JObj (map (\<lambda>kv. (fst kv, if sensitive (fst kv) then JStr ''[REDACTED]''
                                       else sanitizeForLog (depth + 1) (snd kv)))
                   (take MAX_OBJECT_KEYS kvs)))"
  by pat_completeness auto

termination
  by (relation "measure (\<lambda>(_, v). size v)")
    (auto dest!: in_set_takeD intro: size_json_item size_json_field)

fun js_typeof :: "json \<Rightarrow> string" where
  "js_typeof JUndef = ''undefined''"
| "js_typeof (JBool _) = ''boolean''"
| "js_typeof (JNum _) = ''number''"
| "js_typeof JNonFinite = ''number''"
| "js_typeof (JStr _) = ''string''"
| "js_typeof _ = ''object''"

definition shape_of_child :: "json \<Rightarrow> json" where
  "shape_of_child child =
     (case child of
        JArr vs \<Rightarrow> JStr (''array('' @ nat_str (length vs) @ '')'')
      | JNull \<Rightarrow> JStr ''null''
      | _ \<Rightarrow> JStr (js_typeof child))"

fun payloadShape :: "json \<Rightarrow> json" where
  "payloadShape JUndef = JUndef"
| "payloadShape JNull = JNull"
| "payloadShape (JArr vs) = JObj [(''type'', JStr ''array''), (''length'', jint (int (length vs)))]"
| "payloadShape (JObj kvs) = JObj (map (\<lambda>kv. (fst kv, shape_of_child (snd kv))) kvs)"
| "payloadShape (JDate _) = JObj []"
| "payloadShape v = JObj [(''type'', JStr (js_typeof v))]"

section \<open>AppLogger\<close>

datatype app_log_level = LError | LWarn | LLog | LDebug | LVerbose

fun level_text :: "app_log_level \<Rightarrow> string" where
  "level_text LError = ''error''"
| "level_text LWarn = ''warn''"
| "level_text LLog = ''log''"
| "level_text LDebug = ''debug''"
| "level_text LVerbose = ''verbose''"

definition level_order :: "string list" where
  "level_order = [''error'', ''warn'', ''log'', ''debug'', ''verbose'']"

fun index_of :: "'a list \<Rightarrow> 'a \<Rightarrow> nat" where
  "index_of [] x = 0"
| "index_of (y # ys) x = (if y = x then 0 else Suc (index_of ys x))"

definition isLevelEnabled :: "app_log_level \<Rightarrow> string \<Rightarrow> bool" where
  "isLevelEnabled level configured =
     (let configuredLevel = (if List.member level_order configured then configured else ''log'')
      in index_of level_order (level_text level) \<le> index_of level_order configuredLevel)"

text \<open>
  The record handed to Nest's logger, with the method that is called; \<open>None\<close> when the level is off.
  \<open>requestId\<close> is that of the record or of the request being served. A missing property is \<open>JUndef\<close>.
\<close>

definition nest_method :: "app_log_level \<Rightarrow> string" where
  "nest_method level =
     (case level of LError \<Rightarrow> ''error'' | LWarn \<Rightarrow> ''warn'' | LDebug \<Rightarrow> ''debug'' | LVerbose \<Rightarrow> ''debug''
      | LLog \<Rightarrow> ''log'')"

definition logger_write :: "env \<Rightarrow> json \<Rightarrow> int \<Rightarrow> app_log_level \<Rightarrow> jobject \<Rightarrow> (string \<times> jobject) option" where
  "logger_write e context_requestId now level input =
     (if \<not> isLevelEnabled level (logLevel (cfg e)) then None
      else
        Some (nest_method level,
          spread
            (spread [(''timestamp'', JStr (toISOString now)), (''level'', JStr (level_text level)),
                     (''env'', JStr (nodeEnv (cfg e))),
                     (''requestId'', coalesce (obj_get input ''requestId'') context_requestId)]
               input)
            [(''meta'', if truthy (obj_get input ''meta'') then sanitizeForLog 0 (obj_get input ''meta'')
                       else JUndef)]))"

section \<open>LoggingInterceptor\<close>

record http_request =
  hr_method :: string
  hr_originalUrl :: string
  hr_url :: string
  hr_ip :: string
  hr_body :: json
  hr_query :: json
  hr_user_sub :: json

definition request_user :: "http_request \<Rightarrow> json" where
  "request_user request = (if is_number (hr_user_sub request) then hr_user_sub request else JNull)"

definition request_started :: "env \<Rightarrow> json \<Rightarrow> http_request \<Rightarrow> jobject" where
  "request_started e requestId request =
     [(''service'', JStr ''http''), (''protocol'', JStr ''http''),
      (''routeOrEvent'', JStr (hr_method request @ '' '' @ hr_originalUrl request)),
      (''message'', JStr ''HTTP request started''), (''correlationId'', requestId), (''requestId'', requestId),
      (''userId'', request_user request),
      (''meta'', JObj [(''method'', JStr (hr_method request)), (''path'', JStr (hr_originalUrl request)),
         (''clientIp'', JStr (hr_ip request)),
         (''body'', if logHttpBody (cfg e) then sanitizeForLog 0 (hr_body request) else JUndef)])]"

definition request_completed :: "json \<Rightarrow> http_request \<Rightarrow> nat \<Rightarrow> int \<Rightarrow> json \<Rightarrow> jobject" where
  "request_completed requestId request statusCode durationMs contentLength =
     [(''service'', JStr ''http''), (''protocol'', JStr ''http''),
      (''routeOrEvent'', JStr (hr_method request @ '' '' @ hr_originalUrl request)),
      (''message'', JStr ''HTTP request completed''), (''correlationId'', requestId), (''requestId'', requestId),
      (''userId'', request_user request), (''statusCode'', jint (int statusCode)),
      (''durationMs'', jint durationMs),
      (''meta'', JObj [(''method'', JStr (hr_method request)), (''path'', JStr (hr_originalUrl request)),
         (''responseBytes'', case contentLength of JStr s \<Rightarrow> js_Number (JStr s) | _ \<Rightarrow> contentLength)])]"

text \<open>\<open>CorrelationIdMiddleware\<close>: the identifier a request is logged and answered with.\<close>

definition correlation_id :: "env \<Rightarrow> json \<Rightarrow> json svc" where
  "correlation_id e header =
     (if nullish header then draw (\<lambda>i. JStr (random_hex e i 16)) else ret header)"

end
