(* ===== verification/LoggingProps.thy ===== *)
theory LoggingProps
  imports Logging
begin

text \<open>
  The log depends on a value only up to what is under sensitive keys, and is bounded in depth and width;
  but the body of a request is sanitized twice, and the keys of a password change are not among the
  sensitive ones.
\<close>

section \<open>Redaction\<close>

text \<open>The reference: every value under a sensitive key, at any depth, is replaced; nothing is cut.\<close>

function redact :: "json \<Rightarrow> json" where
  "redact (JArr vs) = JArr (map redact vs)"
| "redact (JObj kvs) = JObj (map (\<lambda>kv. (fst kv, if sensitive (fst kv) then JStr ''[REDACTED]''
                                                 else redact (snd kv))) kvs)"
| "redact JUndef = JUndef"
| "redact JNull = JNull"
| "redact (JBool b) = JBool b"
| "redact (JNum r) = JNum r"
| "redact JNonFinite = JNonFinite"
| "redact (JStr s) = JStr s"
| "redact (JDate t) = JDate t"
  by pat_completeness auto

termination
  by (relation "measure size") (auto intro: size_json_item size_json_field)

lemma sanitize_redact: "sanitizeForLog d (redact v) = sanitizeForLog d v"
proof (induction d v rule: sanitizeForLog.induct)
  case (8 depth vs)
  have "map (sanitizeForLog (depth + 1)) (take MAX_ARRAY_LENGTH (map redact vs)) =
      map (sanitizeForLog (depth + 1)) (take MAX_ARRAY_LENGTH vs)" if "\<not> depth \<ge> MAX_DEPTH"
    unfolding take_map map_map by (rule map_cong [OF refl]) (use 8 that in simp)
  then show ?case by simp
next
  case (9 depth kvs)
  have "map (\<lambda>kv. (fst kv, if sensitive (fst kv) then JStr ''[REDACTED]'' else sanitizeForLog (depth + 1) (snd kv)))
        (take MAX_OBJECT_KEYS (map (\<lambda>kv. (fst kv, if sensitive (fst kv) then JStr ''[REDACTED]'' else redact (snd kv))) kvs)) =
      map (\<lambda>kv. (fst kv, if sensitive (fst kv) then JStr ''[REDACTED]'' else sanitizeForLog (depth + 1) (snd kv)))
        (take MAX_OBJECT_KEYS kvs)" if "\<not> depth \<ge> MAX_DEPTH"
    unfolding take_map map_map by (rule map_cong [OF refl]) (use 9 that in simp)
  then show ?case by simp
qed simp_all

section \<open>Bounds\<close>

definition log_string :: "string \<Rightarrow> bool" where
  "log_string s \<longleftrightarrow> length s \<le> 300 \<or> (\<exists>t n. length t \<le> 303 \<and> s = t @ truncated n)"

fun log_bounded :: "nat \<Rightarrow> json \<Rightarrow> bool" where
  "log_bounded k (JStr s) = log_string s"
| "log_bounded k (JArr vs) = (0 < k \<and> length vs \<le> 21 \<and> list_all (log_bounded (k - 1)) vs)"
| "log_bounded k (JObj kvs) = (0 < k \<and> length kvs \<le> 30 \<and> list_all (\<lambda>kv. log_bounded (k - 1) (snd kv)) kvs)"
| "log_bounded k (JDate t) = False"
| "log_bounded k v = True"

lemma log_string_short: "length s \<le> 300 \<Longrightarrow> log_string s"
  by (simp add: log_string_def)

lemma log_string_marker: "length t \<le> 303 \<Longrightarrow> log_string (t @ truncated n)"
  by (auto simp: log_string_def)

lemma log_string_sanitized: "log_string (sanitize_string s)"
  using log_string_marker [of "take MAX_STRING_LENGTH s @ ''...''" "length s - MAX_STRING_LENGTH"]
  by (simp add: sanitize_string_def MAX_STRING_LENGTH_def log_string_short)

lemma log_string_truncated: "log_string (truncated n)"
  using log_string_marker [of "[]" n] by simp

lemma sanitize_bounded: "log_bounded (MAX_DEPTH - d) (sanitizeForLog d v)"
proof (induction d v rule: sanitizeForLog.induct)
  case (8 depth vs)
  have "list_all (log_bounded (MAX_DEPTH - Suc depth)) (map (sanitizeForLog (depth + 1)) (take MAX_ARRAY_LENGTH vs))"
    if "\<not> depth \<ge> MAX_DEPTH"
    unfolding list_all_iff using 8 that by (auto dest: in_set_takeD)
  then show ?case
    by (simp add: log_string_short log_string_truncated MAX_ARRAY_LENGTH_def)
next
  case (9 depth kvs)
  have "log_bounded (MAX_DEPTH - Suc depth) (if sensitive (fst kv) then JStr ''[REDACTED]'' else sanitizeForLog (depth + 1) (snd kv))"
    if "\<not> depth \<ge> MAX_DEPTH" "kv \<in> set (take MAX_OBJECT_KEYS kvs)" for kv
    using 9 that by (auto simp: log_string_short)
  then show ?case
    by (auto simp: log_string_short MAX_OBJECT_KEYS_def list_all_iff)
qed (simp_all add: log_string_sanitized log_string_short MAX_DEPTH_def)

section \<open>What a request writes\<close>

definition written :: "env \<Rightarrow> json \<Rightarrow> int \<Rightarrow> http_request \<Rightarrow> (string \<times> jobject) option" where
  "written e requestId now request = logger_write e requestId now LLog (request_started e requestId request)"

definition written_meta :: "env \<Rightarrow> json \<Rightarrow> int \<Rightarrow> http_request \<Rightarrow> json" where
  "written_meta e requestId now request =
     (case written e requestId now request of None \<Rightarrow> JUndef | Some (_, entry) \<Rightarrow> obj_get entry ''meta'')"

lemma written_meta_run:
  "written_meta e i now rq =
     (if isLevelEnabled LLog (logLevel (cfg e)) then sanitizeForLog 0 (obj_get (request_started e i rq) ''meta'') else JUndef)"
  by (simp add: written_meta_def written_def logger_write_def request_started_def)


definition sample_request :: http_request where
  "sample_request = \<lparr>hr_method = ''POST'', hr_originalUrl = ''/auth/login'', hr_url = ''/auth/login'', hr_ip = ''::1'',
     hr_body = JUndef, hr_query = JObj [], hr_user_sub = JUndef\<rparr>"


section \<open>Two faults\<close>

definition written_body :: "env \<Rightarrow> json \<Rightarrow> int \<Rightarrow> http_request \<Rightarrow> json" where
  "written_body e i now rq = get_prop (written_meta e i now rq) ''body''"

lemma not_sensitive_meta: "\<not> sensitive ''method''" "\<not> sensitive ''path''" "\<not> sensitive ''clientIp''" "\<not> sensitive ''body''"
  "\<not> sensitive ''oldPassword''" "\<not> sensitive ''newPassword''"
  by code_simp+

lemma written_body_run:
  assumes "isLevelEnabled LLog (logLevel (cfg e))" and "logHttpBody (cfg e)"
  shows "written_body e i now rq = sanitizeForLog 1 (sanitizeForLog 0 (hr_body rq))"
  using assms not_sensitive_meta
  by (simp add: written_body_def written_meta_run request_started_def MAX_DEPTH_def MAX_OBJECT_KEYS_def)

lemma sanitize_twice:
  assumes "length s > 300"
  shows "sanitize_string (sanitize_string s) =
    take 300 s @ ''...'' @ truncated (15 + length (nat_str (length s - 300)))"
  using assms by (simp add: sanitize_string_def MAX_STRING_LENGTH_def truncated_def)

text \<open>
  With body logging on, a password change writes the old and the new password in clear, since
  their keys are not among the sensitive ones; and the count logged of a cut string is wrong: the body
  is sanitized twice, so the second pass counts the characters of the first one's marker.
\<close>

theorem logged_body_faults:
  assumes "isLevelEnabled LLog (logLevel (cfg e))" and "logHttpBody (cfg e)"
    and "length old \<le> 300" and "length new \<le> 300" and "\<not> sensitive k" and "length s > 300"
  shows "written_body e i now (rq\<lparr>hr_body := JObj [(''oldPassword'', JStr old), (''newPassword'', JStr new)]\<rparr>) =
      JObj [(''oldPassword'', JStr old), (''newPassword'', JStr new)] \<and>
    written_body e i now (rq\<lparr>hr_body := JObj [(k, JStr s)]\<rparr>) =
      JObj [(k, JStr (take 300 s @ ''...'' @ truncated (15 + length (nat_str (length s - 300)))))]"
  using assms not_sensitive_meta sanitize_twice [OF assms(6)]
  by (simp add: written_body_run MAX_DEPTH_def MAX_OBJECT_KEYS_def)
    (simp add: sanitize_string_def MAX_STRING_LENGTH_def)

definition logging_env :: env where
  "logging_env = sample_env\<lparr>cfg := sample_cfg\<lparr>logHttpBody := True\<rparr>\<rparr>"

theorem logged_body_faults_witness:
  "written_body logging_env JUndef 0 (sample_request\<lparr>hr_body := JObj [(''oldPassword'', JStr ''a''), (''newPassword'', JStr ''b'')]\<rparr>) =
     JObj [(''oldPassword'', JStr ''a''), (''newPassword'', JStr ''b'')]"
proof -
  have "isLevelEnabled LLog (logLevel (cfg logging_env))"
    by (simp add: logging_env_def samples isLevelEnabled_def level_order_def)
  moreover have "logHttpBody (cfg logging_env)" by (simp add: logging_env_def)
  moreover have "\<not> sensitive ''text''" by code_simp
  ultimately show ?thesis
    using logged_body_faults [of logging_env "''a''" "''b''" "''text''" "replicate 400 CHR ''x''" JUndef 0 sample_request]
    by simp
qed

end
