(* ===== verification/Http.thy ===== *)
theory Http
  imports Logging Relations
begin

text \<open>
  The way of an answer out of the server: \<open>FkExpansionInterceptor\<close>, \<open>HttpResponseEnvelopeInterceptor\<close> and,
  for exceptions, \<open>HttpExceptionFilter\<close>, under \<open>src/src/common\<close>.
\<close>

section \<open>The envelope\<close>

text \<open>\<open>!data || typeof data !== 'object' || Array.isArray(data)\<close> is the negation of this.\<close>

fun own_properties :: "json \<Rightarrow> jobject option" where
  "own_properties (JObj kvs) = Some kvs"
| "own_properties (JDate _) = Some []"
| "own_properties _ = None"

definition isAlreadyEnveloped :: "json \<Rightarrow> bool" where
  "isAlreadyEnveloped data =
     (case own_properties data of
        None \<Rightarrow> False
      | Some payload \<Rightarrow>
          js_typeof (obj_get payload ''success'') = ''boolean'' \<and>
          js_typeof (obj_get payload ''statusCode'') = ''number'' \<and> has_own payload ''data'')"

definition normalizeData :: "json \<Rightarrow> json" where
  "normalizeData data =
     (case own_properties data of
        Some [(singleKey, value)] \<Rightarrow>
          (case own_properties value of
             None \<Rightarrow> value
           | Some own \<Rightarrow> JObj (obj_set singleKey value own))
      | _ \<Rightarrow> data)"

definition envelope :: "nat option \<Rightarrow> json \<Rightarrow> json" where
  "envelope statusCode data =
     (if isAlreadyEnveloped data then data
      else JObj [(''success'', JBool True),
                 (''statusCode'', jint (int (case statusCode of None \<Rightarrow> 200 | Some n \<Rightarrow> n))),
                 (''data'', normalizeData data)])"

text \<open>An answer of a handler goes through the expansion and then into the envelope.\<close>

definition respond :: "env \<Rightarrow> nat option \<Rightarrow> json \<Rightarrow> json svc" where
  "respond e statusCode data = andThen (expand e data) (\<lambda>expanded. ret (envelope statusCode expanded))"

section \<open>HttpExceptionFilter\<close>

definition http_status :: "exn \<Rightarrow> nat" where
  "http_status exception = (case exception of HttpExn status _ _ \<Rightarrow> status | _ \<Rightarrow> 500)"

definition http_error_body :: "exn \<Rightarrow> json" where
  "http_error_body exception =
     (case exception of
        HttpExn _ msg extra \<Rightarrow> JObj ((''message'', JStr msg) # extra)
      | _ \<Rightarrow> JObj [(''message'', JStr ''Internal server error'')])"

definition http_error_message :: "env \<Rightarrow> json \<Rightarrow> json" where
  "http_error_message e errorBody =
     (case errorBody of
        JStr s \<Rightarrow> JStr s
      | _ \<Rightarrow>
          (case get_prop errorBody ''message'' of
             JArr vs \<Rightarrow> JStr (join_str '', '' (map (\<lambda>v. if nullish v then [] else js_String e v) vs))
           | m \<Rightarrow> coalesce m (JStr ''Unknown error'')))"

text \<open>The status, the body that is sent and the level and record that are logged.\<close>

definition http_failure_log :: "json \<Rightarrow> http_request \<Rightarrow> nat \<Rightarrow> json \<Rightarrow> string \<Rightarrow> app_log_level \<times> jobject" where
  "http_failure_log requestId request status msg exceptionType =
     (if status \<ge> 500 then LError else LWarn,
      [(''service'', JStr ''http''), (''protocol'', JStr ''http''),
       (''routeOrEvent'', JStr (hr_method request @ '' '' @ hr_url request)),
       (''message'', JStr ''HTTP request failed''), (''correlationId'', requestId), (''requestId'', requestId),
       (''userId'', request_user request), (''statusCode'', jint (int status)),
       (''meta'', JObj [(''method'', JStr (hr_method request)), (''path'', JStr (hr_url request)),
          (''errorMessage'', msg), (''exceptionType'', JStr exceptionType),
          (''query'', sanitizeForLog 0 (hr_query request))])])"

definition http_catch :: "env \<Rightarrow> http_request \<Rightarrow> int \<Rightarrow> exn \<Rightarrow> nat \<times> json" where
  "http_catch e request now exception =
     (let status = http_status exception in
      (status,
       JObj [(''success'', JBool False), (''statusCode'', jint (int status)), (''data'', JNull),
             (''error'', JObj [(''code'', jint (int status)),
                (''message'', http_error_message e (http_error_body exception)),
                (''timestamp'', JStr (toISOString now)), (''path'', JStr (hr_url request))])]))"

text \<open>
  A request that reached its handler: the answer of the handler, or of the filter on its exception. The
  status of a success is the one Nest set before (200, or 201 for a POST).
\<close>

definition answer :: "env \<Rightarrow> http_request \<Rightarrow> nat \<Rightarrow> json svc \<Rightarrow> (nat \<times> json) svc" where
  "answer e request success handler =
     (\<lambda>d. case andThen handler (respond e (Some success)) d of
            (Inr body, d') \<Rightarrow> (Inr (success, body), d')
          | (Inl exception, d') \<Rightarrow> (Inr (http_catch e request (clock d') exception), d'))"

end
