(* ===== verification/HttpProps.thy ===== *)
theory HttpProps
  imports Http
begin

text \<open>
  Every request is answered by one envelope, and what failed inside the server is not told.
\<close>

definition is_envelope :: "bool \<Rightarrow> nat \<Rightarrow> json \<Rightarrow> bool" where
  "is_envelope ok status v \<longleftrightarrow> get_prop v ''success'' = JBool ok \<and> get_prop v ''statusCode'' = jint (int status) \<and>
     isAlreadyEnveloped v"

lemma envelope_fresh:
  "\<not> isAlreadyEnveloped v \<Longrightarrow> is_envelope True s (envelope (Some s) v)"
  by (simp add: is_envelope_def envelope_def isAlreadyEnveloped_def jint_def)

lemma envelope_idempotent: "envelope s (envelope t v) = envelope t v"
  by (simp add: envelope_def isAlreadyEnveloped_def jint_def)

lemma catch_envelope: "is_envelope False (fst (http_catch e rq now x)) (snd (http_catch e rq now x))"
  by (simp add: is_envelope_def http_catch_def Let_def isAlreadyEnveloped_def jint_def)

lemma respond_run: "respond e s v d = (Inr (envelope s (transformNode (resolveEntities e (collectIds v) d) v)), d)"
  by (simp add: respond_def expand_def)

definition not_http :: "exn \<Rightarrow> bool" where
  "not_http x = (case x of HttpExn _ _ _ \<Rightarrow> False | _ \<Rightarrow> True)"

text \<open>
  Every request is answered: whatever the handler does, one envelope is sent whose \<open>success\<close> tells
  whether it threw and whose \<open>statusCode\<close> is the status of the answer (unless the handler itself returns an
  envelope, which is sent as it is); and an exception that is not meant for the client is answered with
  500 and a fixed text, the same for every such exception.
\<close>

theorem http_answers:
  assumes "handler d = (r, d')" and "answer e rq success handler d = (q, d'')"
  shows "d'' = d' \<and> (case r of
      Inr v \<Rightarrow> \<exists>body. q = Inr (success, body) \<and>
        (\<exists>w. body = envelope (Some success) w \<and> (isAlreadyEnveloped w \<or> is_envelope True success body))
    | Inl x \<Rightarrow> q = Inr (http_catch e rq (clock d') x) \<and> is_envelope False (http_status x) (snd (http_catch e rq (clock d') x)) \<and>
        (not_http x \<longrightarrow> http_catch e rq (clock d') x = http_catch e rq (clock d') (JsErr [])))"
proof (cases r)
  case (Inl x)
  have "is_envelope False (http_status x) (snd (http_catch e rq (clock d') x))"
    using catch_envelope [of e rq "clock d'" x] by (simp add: http_catch_def Let_def)
  moreover have "http_catch e rq (clock d') x = http_catch e rq (clock d') (JsErr [])" if "not_http x"
    using that by (cases x) (simp_all add: not_http_def http_catch_def http_status_def http_error_body_def)
  moreover have "q = Inr (http_catch e rq (clock d') x)" "d'' = d'"
    using assms Inl by (auto simp: answer_def andThen_run)
  ultimately show ?thesis using Inl by simp
next
  case (Inr v)
  define w where "w = transformNode (resolveEntities e (collectIds v) d') v"
  have "q = Inr (success, envelope (Some success) w)" "d'' = d'"
    using assms Inr by (auto simp: answer_def andThen_run respond_run w_def)
  with Inr show ?thesis using envelope_fresh [of w success] by auto
qed

theorem http_answers_witness:
  "answer sample_env \<lparr>hr_method = ''GET'', hr_originalUrl = ''/x'', hr_url = ''/x'', hr_ip = ''::1'', hr_body = JUndef,
       hr_query = JObj [], hr_user_sub = JUndef\<rparr> 200 (throw (PgErr ''08006'')) sample_db =
     (Inr (http_catch sample_env \<lparr>hr_method = ''GET'', hr_originalUrl = ''/x'', hr_url = ''/x'', hr_ip = ''::1'',
        hr_body = JUndef, hr_query = JObj [], hr_user_sub = JUndef\<rparr> (clock sample_db) (JsErr [])), sample_db)"
proof -
  let ?rq = "\<lparr>hr_method = ''GET'', hr_originalUrl = ''/x'', hr_url = ''/x'', hr_ip = ''::1'', hr_body = JUndef,
       hr_query = JObj [], hr_user_sub = JUndef\<rparr>"
  obtain q d'' where run: "answer sample_env ?rq 200 (throw (PgErr ''08006'')) sample_db = (q, d'')" by fastforce
  from http_answers [OF throw_run run] run show ?thesis by (simp add: not_http_def)
qed

end
