(* ===== verification/Seeders.thy ===== *)
theory Seeders
  imports Social Auth
begin

text \<open>
  \<open>src/src/admin/admin-seeder.ts\<close> and \<open>src/src/prod/prod-seeder.ts\<close>, run by \<open>src/scripts/seed-admin.ts\<close> and
  \<open>src/scripts/seed-prod.ts\<close> in one transaction: the first administrator and the tree of categories. Both
  seeders may be run again on a database that has them already.
\<close>

section \<open>The input\<close>

record admin_seed_input =
  asi_phone :: string
  asi_password :: string

text \<open>\<open>/^\+?[1-9]\d{7,15}$/\<close>.\<close>

definition ADMIN_PHONE_REGEX :: "string \<Rightarrow> bool" where
  "ADMIN_PHONE_REGEX phone =
     (let s = (case phone of c # r \<Rightarrow> if c = CHR ''+'' then r else phone | [] \<Rightarrow> []) in
      case s of
        [] \<Rightarrow> False
      | c # r \<Rightarrow> is_digit c \<and> c \<noteq> CHR ''0'' \<and> list_all is_digit r \<and> 7 \<le> length r \<and> length r \<le> 15)"

definition parseAdminSeedInput :: "process_env \<Rightarrow> exn + admin_seed_input" where
  "parseAdminSeedInput env =
     (let phone = js_trim (case env ''ADMIN_PHONE'' of None \<Rightarrow> [] | Some p \<Rightarrow> p);
          password = (case env ''ADMIN_PASSWORD'' of None \<Rightarrow> [] | Some p \<Rightarrow> p)
      in if phone = [] then Inl (JsErr ''ADMIN_PHONE is required'')
         else if \<not> ADMIN_PHONE_REGEX phone then Inl (JsErr ''ADMIN_PHONE must be a valid E.164-like phone number'')
         else if env ''ADMIN_PASSWORD'' = None then Inl (JsErr ''ADMIN_PASSWORD is required'')
         else Inr \<lparr>asi_phone = phone, asi_password = password\<rparr>)"

section \<open>The administrator\<close>

definition insert_admin :: "string \<Rightarrow> string \<Rightarrow> unit svc" where
  "insert_admin phone passwordHash =
     andThen (nextval T_users) (\<lambda>i.
     (\<lambda>d. if list_ex (\<lambda>u. u_phone u = phone) (users d) then (Inl (PgErr UNIQUE_VIOLATION), d)
          else (Inr (), d\<lparr>users := users d @
            [\<lparr>u_id = i, u_name = ''Primary Admin'', u_phone = phone, u_password_hash = passwordHash,
              u_avatar_file_id = None, u_avatar_object_key = None, u_contact_info = None,
              u_status = Active, u_is_admin = True, u_token_version = 0, u_deleted_at = None,
              u_created_at = clock d, u_updated_at = clock d\<rparr>]\<rparr>)))"

definition seeded_admin :: "string \<Rightarrow> int \<Rightarrow> user_row \<Rightarrow> user_row" where
  "seeded_admin passwordHash now u =
     u\<lparr>u_password_hash := passwordHash, u_status := Active, u_is_admin := True, u_updated_at := now\<rparr>"

record admin_seed_result =
  asr_id :: int
  asr_phone :: string
  asr_created :: bool

definition seedAdminUser :: "string \<Rightarrow> string \<Rightarrow> admin_seed_result svc" where
  "seedAdminUser phone passwordHash =
     andThen (gets (\<lambda>d. row_where (\<lambda>u. u_phone u = phone) (users d))) (\<lambda>existing.
     andThen (if existing = None then insert_admin phone passwordHash else ret ()) (\<lambda>_.
     andThen (gets (\<lambda>d. row_where (\<lambda>u. u_phone u = phone) (users d))) (\<lambda>updated.
     andThen (modify (\<lambda>d. d\<lparr>users :=
       update_where (\<lambda>u. u_phone u = phone) (seeded_admin passwordHash (clock d)) (users d)\<rparr>)) (\<lambda>_.
     case updated of
       None \<Rightarrow> throw (JsErr ''Failed to seed admin user'')
     | Some u \<Rightarrow> ret \<lparr>asr_id = u_id u, asr_phone = u_phone u, asr_created = (existing = None)\<rparr>))))"

section \<open>The categories\<close>

definition CATEGORY_TAXONOMY :: "(string \<times> string list) list" where
  "CATEGORY_TAXONOMY =
     [(''Real Estate'',
        [''All'', ''Apartment For Rent'', ''Apartment For Sale'', ''Houses'', ''Lands'',
         ''Commercial Real Estate For Rent'', ''Commercial Real Estate For Sale'', ''Other'']),
      (''Vehicles'',
        [''All'', ''Cars For Sale'', ''Cars For Rent'', ''Spare Parts And Accessories'', ''Motor Cycles'',
         ''Bicycles'', ''Trucks And Heavy Vehicles'']),
      (''Electronics'',
        [''All'', ''Smartphones'', ''Tablets'', ''Laptops And Computers'', ''Accessories'',
         ''Speakers And Headphones'', ''Cameras'', ''Smart Watches And Wearables'', ''Monitors And TVs'', ''Other'']),
      (''Home And Decor'',
        [''All'', ''Furniture'', ''Office Furniture'', ''Kitchen And Dining'', ''Bedding And Bath'', ''Home Decor'',
         ''Home Tools'', ''Lighting'', ''Other'']),
      (''Clothing And Fashion'',
        [''All'', ''Men Clothing'', ''Women Clothing'', ''Kids Clothing'', ''Shoes'', ''Men Accessories'',
         ''Women Accessories And Makeup'', ''Jewelry And Watches'', ''Other'']),
      (''Services'',
        [''All'', ''Maintenance And Repairs'', ''Transportation And Moving'', ''Personal Services'',
         ''Cars Services'', ''Home Services'', ''Lessons And Tutoring'', ''Other''])]"

text \<open>\<open>INSERT ... ON CONFLICT (COALESCE(parent_id, 0), LOWER(name)) DO NOTHING RETURNING id\<close>.\<close>

definition insert_category_on_conflict :: "string \<Rightarrow> int option \<Rightarrow> int option svc" where
  "insert_category_on_conflict name parentId =
     andThen (nextval T_categories) (\<lambda>i.
     (\<lambda>d. let c = \<lparr>c_id = i, c_parent_id = parentId, c_name = name, c_created_at = clock d\<rparr> in
          if parentId = Some i then (Inl (PgErr CHECK_VIOLATION), d)
          else if list_ex (\<lambda>c'. sibling_key c' = sibling_key c) (categories d) then (Inr None, d)
          else if (case parentId of None \<Rightarrow> False | Some p \<Rightarrow> \<not> category_exists p d)
          then (Inl (PgErr FK_VIOLATION), d)
          else (Inr (Some i), d\<lparr>categories := categories d @ [c]\<rparr>)))"

definition upsertCategory :: "string \<Rightarrow> int option \<Rightarrow> (int \<times> bool) svc" where
  "upsertCategory name parentId =
     andThen (insert_category_on_conflict name parentId) (\<lambda>inserted.
     case inserted of
       Some i \<Rightarrow> ret (i, True)
     | None \<Rightarrow>
         andThen (gets (\<lambda>d. row_where (\<lambda>c. parent_key c = (case parentId of None \<Rightarrow> 0 | Some p \<Rightarrow> p) \<and>
                              js_lower (c_name c) = js_lower name) (categories d))) (\<lambda>existing.
         case existing of
           None \<Rightarrow> throw (JsErr (''Failed to resolve category \"'' @ name @ ''\"''))
         | Some c \<Rightarrow> ret (c_id c, False)))"

type_synonym counts = "nat \<times> nat"

definition count_one :: "bool \<Rightarrow> counts \<Rightarrow> counts" where
  "count_one created n = (if created then (fst n + 1, snd n) else (fst n, snd n + 1))"

fun seed_children :: "int \<Rightarrow> string list \<Rightarrow> counts \<Rightarrow> counts svc" where
  "seed_children parentId [] n = ret n"
| "seed_children parentId (child # children) n =
     andThen (upsertCategory child (Some parentId)) (\<lambda>(_, created).
     seed_children parentId children (count_one created n))"

fun seed_parents :: "(string \<times> string list) list \<Rightarrow> counts \<Rightarrow> counts svc" where
  "seed_parents [] n = ret n"
| "seed_parents ((name, children) # parents) n =
     andThen (upsertCategory name None) (\<lambda>(i, created).
     andThen (seed_children i children (count_one created n)) (\<lambda>m.
     seed_parents parents m))"

definition seedCategories :: "counts svc" where
  "seedCategories = seed_parents CATEGORY_TAXONOMY (0, 0)"

section \<open>The whole seed\<close>

record prod_seed_summary =
  ps_created :: bool
  ps_id :: int
  ps_phone :: string
  ps_categories :: counts

definition runProdSeed :: "env \<Rightarrow> admin_seed_input \<Rightarrow> prod_seed_summary svc" where
  "runProdSeed e input =
     andThen (bcrypt e (asi_password input)) (\<lambda>passwordHash.
     andThen (seedAdminUser (asi_phone input) passwordHash) (\<lambda>admin.
     andThen seedCategories (\<lambda>counted.
     ret \<lparr>ps_created = asr_created admin, ps_id = asr_id admin, ps_phone = asr_phone admin,
          ps_categories = counted\<rparr>)))"

text \<open>The scripts, without their connection: the input first, then the transaction.\<close>

definition seed_prod :: "env \<Rightarrow> process_env \<Rightarrow> prod_seed_summary svc" where
  "seed_prod e env =
     (if env ''DATABASE_URL'' = None \<or> env ''DATABASE_URL'' = Some [] then throw (JsErr ''DATABASE_URL is required'')
      else (case parseAdminSeedInput env of
              Inl x \<Rightarrow> throw x
            | Inr input \<Rightarrow> withTransaction (runProdSeed e input)))"

definition seed_admin :: "env \<Rightarrow> process_env \<Rightarrow> admin_seed_result svc" where
  "seed_admin e env =
     (if env ''DATABASE_URL'' = None \<or> env ''DATABASE_URL'' = Some [] then throw (JsErr ''DATABASE_URL is required'')
      else (case parseAdminSeedInput env of
              Inl x \<Rightarrow> throw x
            | Inr input \<Rightarrow>
                andThen (bcrypt e (asi_password input)) (\<lambda>passwordHash.
                withTransaction (seedAdminUser (asi_phone input) passwordHash))))"

end
