(* ===== verification/Dtos.thy ===== *)
theory Dtos
  imports Files Listing Users
begin

text \<open>
  The constraints the decorators of the request DTOs state (\<open>dto/*.ts\<close> of each module), on the fields
  after their conversion to the declared types: lengths, ranges, enumerations, the phone pattern and the
  two validators of the taxonomy. \<open>@IsOptional\<close> lets \<open>null\<close> and \<open>undefined\<close> pass. A field that is only
  declared to be a string (\<open>password\<close>, \<open>q\<close>, \<open>city\<close>) has no constraint here; the format of date strings
  (\<open>@IsDateString\<close>, \<open>IsNotAfter\<close>) is left to the validator's package, so the requests accepted here
  include those it accepts.
\<close>

section \<open>Decorators\<close>

definition length_between :: "nat \<Rightarrow> nat \<Rightarrow> string \<Rightarrow> bool" where
  "length_between lo hi s = (lo \<le> length s \<and> length s \<le> hi)"

definition between :: "'a::linorder \<Rightarrow> 'a \<Rightarrow> 'a \<Rightarrow> bool" where
  "between lo hi x = (lo \<le> x \<and> x \<le> hi)"

definition optional :: "('a \<Rightarrow> bool) \<Rightarrow> 'a option \<Rightarrow> bool" where
  "optional P v = (case v of None \<Rightarrow> True | Some x \<Rightarrow> P x)"

definition one_of :: "string list \<Rightarrow> string \<Rightarrow> bool" where
  "one_of xs s = (s \<in> set xs)"

text \<open>\<open>@Matches(/^\+?[1-9]\d{7,15}$/)\<close>.\<close>

definition phone_matches :: "string \<Rightarrow> bool" where
  "phone_matches s =
     (let digits = (case s of c # cs \<Rightarrow> if c = CHR ''+'' then cs else s | [] \<Rightarrow> [])
      in (case digits of
            [] \<Rightarrow> False
          | c # cs \<Rightarrow> is_digit c \<and> c \<noteq> CHR ''0'' \<and> 7 \<le> length cs \<and> length cs \<le> 15 \<and> list_all is_digit cs))"

section \<open>Accounts\<close>

definition RequestRegistrationOtpDto_ok :: "string \<Rightarrow> string \<Rightarrow> bool" where
  "RequestRegistrationOtpDto_ok name phone = (name \<noteq> [] \<and> length_between 2 150 name \<and> phone_matches phone)"

definition VerifyRegistrationOtpDto_ok :: "string \<Rightarrow> string \<Rightarrow> bool" where
  "VerifyRegistrationOtpDto_ok phone otp = (phone_matches phone \<and> length_between 4 8 otp)"

definition ResetPasswordDto_ok :: "string \<Rightarrow> string \<Rightarrow> bool" where
  "ResetPasswordDto_ok phone otp = (phone_matches phone \<and> length_between 4 8 otp)"

definition LogoutDto_ok :: "string \<Rightarrow> bool" where
  "LogoutDto_ok refreshToken = (refreshToken \<noteq> [])"

definition UpdateProfileDto_ok :: "update_profile_dto \<Rightarrow> bool" where
  "UpdateProfileDto_ok dto =
     ((case pd_name dto of JStr s \<Rightarrow> length_between 2 150 s | v \<Rightarrow> nullish v) \<and>
      optional (length_between 1 255) (pd_contactInfo dto))"

definition GetPublicUserQueryDto_ok :: "nat option \<Rightarrow> bool" where
  "GetPublicUserQueryDto_ok limit = optional (between 1 50) limit"

section \<open>Lists\<close>

text \<open>\<open>ListBlockedUsersDto\<close>, \<open>ListCategoriesDto\<close> and \<open>ListMyReportsDto\<close> have the same two fields.\<close>

definition ListBlockedUsersDto_ok :: "nat option \<Rightarrow> bool" where
  "ListBlockedUsersDto_ok limit = optional (between 1 100) limit"

definition ListAdminPaginationQueryDto_ok :: "nat option \<Rightarrow> nat option \<Rightarrow> bool" where
  "ListAdminPaginationQueryDto_ok limit offset =
     (optional (between 1 100) limit \<and> optional (\<lambda>n. n \<le> 10000) offset)"

definition ListUsersQueryDto_ok :: "string option \<Rightarrow> nat option \<Rightarrow> nat option \<Rightarrow> bool" where
  "ListUsersQueryDto_ok q limit offset =
     (optional (length_between 1 100) q \<and> optional (between 1 100) limit \<and> optional (\<lambda>n. n \<le> 10000) offset)"

definition listing_status_ok :: "product_status option \<Rightarrow> bool" where
  "listing_status_ok status = (status \<noteq> Some Archived)"

definition ListFavoritesDto_ok :: "string option \<Rightarrow> string option \<Rightarrow> nat option \<Rightarrow> bool" where
  "ListFavoritesDto_ok sortBy sortDir limit =
     (optional (one_of [''price'', ''created'']) sortBy \<and> optional (one_of [''asc'', ''desc'']) sortDir \<and>
      optional (between 1 100) limit)"

definition SearchProductsDto_ok :: "search_dto \<Rightarrow> bool" where
  "SearchProductsDto_ok dto =
     (optional isValidCategory (sd_category dto) \<and>
      optional (one_of PRODUCT_SUBCATEGORIES) (sd_subcategory dto) \<and>
      validate_subcategory_for_category True (jopt JStr (sd_category dto)) (jopt JStr (sd_subcategory dto)) \<and>
      optional (\<lambda>r. 0 \<le> r) (sd_minPrice dto) \<and> optional (\<lambda>r. 0 \<le> r) (sd_maxPrice dto) \<and>
      optional (between 0 5) (sd_minRate dto) \<and>
      optional (one_of [''price'', ''address'', ''rate'', ''created'']) (sd_sortBy dto) \<and>
      optional (one_of [''asc'', ''desc'']) (sd_sortDir dto) \<and> optional (between 1 100) (sd_limit dto))"

section \<open>Products and files\<close>

definition MAX_PRICE :: rat where
  "MAX_PRICE = 999999999999 / 100"

definition CreateProductDto_ok :: "create_product_dto \<Rightarrow> bool" where
  "CreateProductDto_ok dto =
     (isValidCategory (cd_category dto) \<and>
      validate_subcategory_for_category False (JStr (cd_category dto)) (jopt JStr (cd_subcategory dto)) \<and>
      length_between 1 255 (cd_name dto) \<and> length_between 1 5000 (cd_description dto) \<and>
      between 0 MAX_PRICE (cd_price dto) \<and> length_between 1 255 (cd_city dto) \<and>
      length_between 1 1000 (cd_addressText dto) \<and> optional (\<lambda>ids. length ids \<le> 10) (cd_imageFileIds dto) \<and>
      optional (one_of CONTACT_METHODS) (cd_preferredContactMethod dto))"

definition UpdateProductDto_ok :: "update_product_dto \<Rightarrow> bool" where
  "UpdateProductDto_ok dto =
     (optional isValidCategory (ud_category dto) \<and>
      validate_subcategory_for_category False
        (case ud_category dto of None \<Rightarrow> JUndef | Some c \<Rightarrow> JStr c) (jopt JStr (ud_subcategory dto)) \<and>
      optional (length_between 1 255) (ud_name dto) \<and> optional (length_between 1 5000) (ud_description dto) \<and>
      optional (between 0 MAX_PRICE) (ud_price dto) \<and> optional (length_between 1 255) (ud_city dto) \<and>
      optional (length_between 1 1000) (ud_addressText dto) \<and>
      optional (\<lambda>ids. length ids \<le> 10) (ud_imageFileIds dto) \<and>
      optional (one_of CONTACT_METHODS) (ud_preferredContactMethod dto))"

definition MIME_TYPES :: "string list" where
  "MIME_TYPES =
     [''image/jpeg'', ''image/png'', ''image/webp'', ''image/gif'', ''video/mp4'', ''video/quicktime'',
      ''video/webm'', ''video/x-msvideo'', ''audio/mpeg'', ''audio/wav'', ''audio/ogg'', ''audio/webm'',
      ''application/pdf'', ''application/msword'',
      ''application/vnd.openxmlformats-officedocument.wordprocessingml.document'', ''application/vnd.ms-excel'',
      ''application/vnd.openxmlformats-officedocument.spreadsheetml.sheet'', ''application/zip'']"

definition CreateUploadIntentDto_ok :: "create_upload_intent_dto \<Rightarrow> bool" where
  "CreateUploadIntentDto_ok dto =
     (one_of OWNER_TYPES (ci_ownerType dto) \<and> optional (\<lambda>r. 1 \<le> r) (ci_ownerId dto) \<and>
      length_between 1 255 (ci_filename dto) \<and> one_of MIME_TYPES (ci_mimeType dto) \<and>
      optional (between 0 (50 * 1024 * 1024)) (ci_fileSizeBytes dto))"

definition MarkUploadedDto_ok :: "string option \<Rightarrow> bool" where
  "MarkUploadedDto_ok checksumSha256 = optional (length_between 64 64) checksumSha256"

section \<open>Conversations, ratings, reports, administration\<close>

definition CreateConversationDto_ok :: "int \<Rightarrow> int option \<Rightarrow> bool" where
  "CreateConversationDto_ok participantId productId = (1 \<le> participantId \<and> optional (\<lambda>i. 1 \<le> i) productId)"

definition ListConversationsDto_ok :: "string option \<Rightarrow> nat option \<Rightarrow> bool" where
  "ListConversationsDto_ok scope limit =
     (optional (one_of [''all'', ''buy'', ''sell'']) scope \<and> optional (between 1 100) limit)"

definition ListMessagesDto_ok :: "nat option \<Rightarrow> bool" where
  "ListMessagesDto_ok limit = optional (between 1 100) limit"

definition CreateRatingDto_ok :: "int \<Rightarrow> int \<Rightarrow> string option \<Rightarrow> bool" where
  "CreateRatingDto_ok ratedUserId ratingValue comment =
     (1 \<le> ratedUserId \<and> between 1 5 ratingValue \<and> optional (length_between 1 2000) comment)"

definition CreateReportDto_ok :: "int \<Rightarrow> string \<Rightarrow> bool" where
  "CreateReportDto_ok reportedUserId reason = (1 \<le> reportedUserId \<and> length_between 5 3000 reason)"

definition CreateWarningDto_ok :: "int \<Rightarrow> string \<Rightarrow> bool" where
  "CreateWarningDto_ok targetUserId message = (1 \<le> targetUserId \<and> length_between 2 2000 message)"

definition CreateCategoryDto_ok :: "string \<Rightarrow> int option \<Rightarrow> bool" where
  "CreateCategoryDto_ok name parentId = (length_between 1 100 name \<and> optional (\<lambda>i. 1 \<le> i) parentId)"

end
