(* ===== verification/Api.thy ===== *)
theory Api
  imports Dtos Admin Sockets Http
begin

text \<open>
  The HTTP surface: a request is one method of one controller (\<open>*.controller.ts\<close>) with its parameters,
  query and body; \<open>handle_call\<close> is what NestJS does with it in the order of \<open>main.ts\<close> and the decorators:
  the throttler, the guards of the route, the validation pipe, the handler. \<open>serve\<close> adds the way of the
  answer out.

  What the throttler counted and whether the parameters and the body convert to the declared types
  (\<open>ParseIntPipe\<close>, \<open>transform\<close>, \<open>forbidNonWhitelisted\<close>) is part of the call; the pipe's list of messages is
  not modelled, only its status.
\<close>

section \<open>Routes\<close>

datatype verb = Get | Post | Patch | Delete

datatype route_guard = Public | OptionalJwt | Jwt | JwtAdmin

datatype auth_request =
    RequestRegistration string string string
  | ResendRegistration string
  | VerifyRegistration string string "string option"
  | Login string string
  | RequestReset string
  | ResetPassword string string string string "string option"
  | Refresh string
  | Logout string

datatype akedly_request =
    AkedlyChallenge
  | AkedlySend string otp_purpose string string "string option" string "string option"

datatype users_request =
    GetMe
  | UpdateMe jobject
  | ChangePassword string string
  | DeleteMe

datatype public_users_request = PublicProfile int "nat option" "nat option"

datatype products_request =
    CreateProduct create_product_dto
  | GetProduct int
  | UpdateProduct int jobject
  | DeleteProduct int
  | UpdateProductStatus int product_status
  | ListMyProducts search_dto
  | SearchProducts search_dto

datatype blocks_request = BlockUser int | UnblockUser int | ListBlocked "nat option" "nat option"

datatype favorites_request =
    AddFavorite int
  | RemoveFavorite int
  | ListFavorites "string option" "string option" "nat option" "nat option"

datatype ratings_request = RateUser int int "string option" | RatingSummary int

datatype reports_request = CreateReport int string | MyReports "nat option" "nat option"

datatype categories_request = ListCategories "nat option" "nat option"

datatype files_request =
    UploadIntent create_upload_intent_dto
  | MarkUploaded int "string option"
  | GetFile int

datatype chat_request =
    CreateConversation int "int option"
  | ListConversations "string option" "nat option" "nat option"
  | GetConversation int
  | ListMessages int "nat option" "string option"

datatype admin_request =
    ListUsers "user_status option" "string option" "nat option" "nat option"
  | UserDetails int
  | UserListings int "product_status option" "nat option" "nat option"
  | UserReports int "nat option" "nat option"
  | ListAdmins "nat option" "nat option"
  | PromoteAdmin int
  | DemoteAdmin int
  | UpdateUserStatus int user_status
  | DeleteUser int
  | CreateWarning int string
  | ListReports "nat option" "nat option"
  | UpdateReportStatus int report_status
  | CreateCategory string "int option"
  | DeleteCategory int

datatype health_request = Live | Ready

datatype api_request =
    AuthApi auth_request
  | AkedlyApi akedly_request
  | UsersApi users_request
  | PublicUsersApi public_users_request
  | ProductsApi products_request
  | BlocksApi blocks_request
  | FavoritesApi favorites_request
  | RatingsApi ratings_request
  | ReportsApi reports_request
  | CategoriesApi categories_request
  | FilesApi files_request
  | ChatApi chat_request
  | AdminApi admin_request
  | HealthApi health_request

section \<open>Methods and guards of the routes\<close>

fun verb_of :: "api_request \<Rightarrow> verb" where
  "verb_of (AuthApi r) = Post"
| "verb_of (AkedlyApi r) = (case r of AkedlyChallenge \<Rightarrow> Get | _ \<Rightarrow> Post)"
| "verb_of (UsersApi r) = (case r of GetMe \<Rightarrow> Get | DeleteMe \<Rightarrow> Delete | _ \<Rightarrow> Patch)"
| "verb_of (PublicUsersApi r) = Get"
| "verb_of (ProductsApi r) =
     (case r of CreateProduct _ \<Rightarrow> Post | UpdateProduct _ _ \<Rightarrow> Patch | UpdateProductStatus _ _ \<Rightarrow> Patch
      | DeleteProduct _ \<Rightarrow> Delete | _ \<Rightarrow> Get)"
| "verb_of (BlocksApi r) = (case r of BlockUser _ \<Rightarrow> Post | UnblockUser _ \<Rightarrow> Delete | _ \<Rightarrow> Get)"
| "verb_of (FavoritesApi r) = (case r of AddFavorite _ \<Rightarrow> Post | RemoveFavorite _ \<Rightarrow> Delete | _ \<Rightarrow> Get)"
| "verb_of (RatingsApi r) = (case r of RateUser _ _ _ \<Rightarrow> Post | _ \<Rightarrow> Get)"
| "verb_of (ReportsApi r) = (case r of CreateReport _ _ \<Rightarrow> Post | _ \<Rightarrow> Get)"
| "verb_of (CategoriesApi r) = Get"
| "verb_of (FilesApi r) = (case r of UploadIntent _ \<Rightarrow> Post | MarkUploaded _ _ \<Rightarrow> Patch | GetFile _ \<Rightarrow> Get)"
| "verb_of (ChatApi r) = (case r of CreateConversation _ _ \<Rightarrow> Post | _ \<Rightarrow> Get)"
| "verb_of (AdminApi r) =
     (case r of PromoteAdmin _ \<Rightarrow> Post | DemoteAdmin _ \<Rightarrow> Delete | UpdateUserStatus _ _ \<Rightarrow> Patch
      | DeleteUser _ \<Rightarrow> Delete | CreateWarning _ _ \<Rightarrow> Post | UpdateReportStatus _ _ \<Rightarrow> Patch
      | CreateCategory _ _ \<Rightarrow> Post | DeleteCategory _ \<Rightarrow> Delete | _ \<Rightarrow> Get)"
| "verb_of (HealthApi r) = Get"

fun guard_of :: "api_request \<Rightarrow> route_guard" where
  "guard_of (AuthApi r) = (case r of Logout _ \<Rightarrow> Jwt | _ \<Rightarrow> Public)"
| "guard_of (AkedlyApi r) = Public"
| "guard_of (UsersApi r) = Jwt"
| "guard_of (PublicUsersApi r) = OptionalJwt"
| "guard_of (ProductsApi r) =
     (case r of GetProduct _ \<Rightarrow> OptionalJwt | SearchProducts _ \<Rightarrow> OptionalJwt | _ \<Rightarrow> Jwt)"
| "guard_of (BlocksApi r) = Jwt"
| "guard_of (FavoritesApi r) = Jwt"
| "guard_of (RatingsApi r) = (case r of RatingSummary _ \<Rightarrow> Public | _ \<Rightarrow> Jwt)"
| "guard_of (ReportsApi r) = Jwt"
| "guard_of (CategoriesApi r) = Public"
| "guard_of (FilesApi r) = Jwt"
| "guard_of (ChatApi r) = Jwt"
| "guard_of (AdminApi r) = JwtAdmin"
| "guard_of (HealthApi r) = Public"

text \<open>The status Nest sets before the handler runs.\<close>

definition success_status :: "api_request \<Rightarrow> nat" where
  "success_status r = (if verb_of r = Post then 201 else 200)"

section \<open>Validation\<close>

fun auth_dto_ok :: "auth_request \<Rightarrow> bool" where
  "auth_dto_ok (RequestRegistration name phone password) = RequestRegistrationOtpDto_ok name phone"
| "auth_dto_ok (ResendRegistration phone) = phone_matches phone"
| "auth_dto_ok (VerifyRegistration phone otp t) = VerifyRegistrationOtpDto_ok phone otp"
| "auth_dto_ok (Login phone password) = phone_matches phone"
| "auth_dto_ok (RequestReset phone) = phone_matches phone"
| "auth_dto_ok (ResetPassword phone otp new confirm t) = ResetPasswordDto_ok phone otp"
| "auth_dto_ok (Refresh t) = True"
| "auth_dto_ok (Logout t) = LogoutDto_ok t"

fun akedly_dto_ok :: "akedly_request \<Rightarrow> bool" where
  "akedly_dto_ok AkedlyChallenge = True"
| "akedly_dto_ok (AkedlySend phone purpose challengeToken nonce turnstileToken ip xForwardedFor) = phone_matches phone"

fun users_dto_ok :: "users_request \<Rightarrow> bool" where
  "users_dto_ok (UpdateMe body) = UpdateProfileDto_ok (UpdateProfileDto body)"
| "users_dto_ok _ = True"

fun public_users_dto_ok :: "public_users_request \<Rightarrow> bool" where
  "public_users_dto_ok (PublicProfile i limit offset) = GetPublicUserQueryDto_ok limit"

fun products_dto_ok :: "products_request \<Rightarrow> bool" where
  "products_dto_ok (CreateProduct dto) = CreateProductDto_ok dto"
| "products_dto_ok (UpdateProduct i body) = UpdateProductDto_ok (UpdateProductDto body)"
| "products_dto_ok (ListMyProducts dto) = SearchProductsDto_ok dto"
| "products_dto_ok (SearchProducts dto) = (SearchProductsDto_ok dto \<and> sd_status dto = None)"
| "products_dto_ok _ = True"

fun blocks_dto_ok :: "blocks_request \<Rightarrow> bool" where
  "blocks_dto_ok (ListBlocked limit offset) = ListBlockedUsersDto_ok limit"
| "blocks_dto_ok _ = True"

fun favorites_dto_ok :: "favorites_request \<Rightarrow> bool" where
  "favorites_dto_ok (ListFavorites sortBy sortDir limit offset) = ListFavoritesDto_ok sortBy sortDir limit"
| "favorites_dto_ok _ = True"

fun ratings_dto_ok :: "ratings_request \<Rightarrow> bool" where
  "ratings_dto_ok (RateUser rated v comment) = CreateRatingDto_ok rated v comment"
| "ratings_dto_ok (RatingSummary i) = True"

fun reports_dto_ok :: "reports_request \<Rightarrow> bool" where
  "reports_dto_ok (CreateReport reported reason) = CreateReportDto_ok reported reason"
| "reports_dto_ok (MyReports limit offset) = ListBlockedUsersDto_ok limit"

fun categories_dto_ok :: "categories_request \<Rightarrow> bool" where
  "categories_dto_ok (ListCategories limit offset) = ListBlockedUsersDto_ok limit"

fun files_dto_ok :: "files_request \<Rightarrow> bool" where
  "files_dto_ok (UploadIntent dto) = CreateUploadIntentDto_ok dto"
| "files_dto_ok (MarkUploaded i checksum) = MarkUploadedDto_ok checksum"
| "files_dto_ok (GetFile i) = True"

fun chat_dto_ok :: "chat_request \<Rightarrow> bool" where
  "chat_dto_ok (CreateConversation participant product) = CreateConversationDto_ok participant product"
| "chat_dto_ok (ListConversations scope limit offset) = ListConversationsDto_ok scope limit"
| "chat_dto_ok (GetConversation i) = True"
| "chat_dto_ok (ListMessages i limit before) = ListMessagesDto_ok limit"

fun admin_dto_ok :: "admin_request \<Rightarrow> bool" where
  "admin_dto_ok (ListUsers status q limit offset) = ListUsersQueryDto_ok q limit offset"
| "admin_dto_ok (UserListings i status limit offset) =
     (listing_status_ok status \<and> ListAdminPaginationQueryDto_ok limit offset)"
| "admin_dto_ok (UserReports i limit offset) = ListAdminPaginationQueryDto_ok limit offset"
| "admin_dto_ok (ListAdmins limit offset) = ListAdminPaginationQueryDto_ok limit offset"
| "admin_dto_ok (ListReports limit offset) = ListAdminPaginationQueryDto_ok limit offset"
| "admin_dto_ok (CreateWarning target message) = CreateWarningDto_ok target message"
| "admin_dto_ok (CreateCategory name parent) = CreateCategoryDto_ok name parent"
| "admin_dto_ok _ = True"

fun dto_ok :: "api_request \<Rightarrow> bool" where
  "dto_ok (AuthApi r) = auth_dto_ok r"
| "dto_ok (AkedlyApi r) = akedly_dto_ok r"
| "dto_ok (UsersApi r) = users_dto_ok r"
| "dto_ok (PublicUsersApi r) = public_users_dto_ok r"
| "dto_ok (ProductsApi r) = products_dto_ok r"
| "dto_ok (BlocksApi r) = blocks_dto_ok r"
| "dto_ok (FavoritesApi r) = favorites_dto_ok r"
| "dto_ok (RatingsApi r) = ratings_dto_ok r"
| "dto_ok (ReportsApi r) = reports_dto_ok r"
| "dto_ok (CategoriesApi r) = categories_dto_ok r"
| "dto_ok (FilesApi r) = files_dto_ok r"
| "dto_ok (ChatApi r) = chat_dto_ok r"
| "dto_ok (AdminApi r) = admin_dto_ok r"
| "dto_ok (HealthApi r) = True"

section \<open>Controllers\<close>

definition extractEndUserIp :: "string \<Rightarrow> string option \<Rightarrow> string" where
  "extractEndUserIp ip xForwardedFor =
     (case xForwardedFor of
        None \<Rightarrow> ip
      | Some s \<Rightarrow> (let first = js_trim (hd (split_str (CHR '','') s)) in if first \<noteq> [] then first else ip))"

text \<open>The object a service returns, as a value.\<close>

definition object :: "jobject svc \<Rightarrow> json svc" where
  "object m = andThen m (\<lambda>kvs. ret (JObj kvs))"

text \<open>A handler that reads \<open>user.sub\<close> of a request without a user fails.\<close>

definition with_user :: "auth_user option \<Rightarrow> (auth_user \<Rightarrow> ('s, 'a) act) \<Rightarrow> ('s, 'a) act" where
  "with_user user f =
     (case user of None \<Rightarrow> throw (JsErr ''Cannot read properties of undefined'') | Some u \<Rightarrow> f u)"

definition viewer_sub :: "auth_user option \<Rightarrow> int option" where
  "viewer_sub user = map_option au_sub user"

definition or_limit :: "nat option \<Rightarrow> nat" where
  "or_limit limit = (case limit of None \<Rightarrow> 20 | Some n \<Rightarrow> n)"

definition or_offset :: "nat option \<Rightarrow> nat" where
  "or_offset offset = (case offset of None \<Rightarrow> 0 | Some n \<Rightarrow> n)"

fun auth_controller :: "env \<Rightarrow> auth_request \<Rightarrow> json svc" where
  "auth_controller e (RequestRegistration name phone password) = object (requestRegistrationOtp e name phone password)"
| "auth_controller e (ResendRegistration phone) = object (resendRegistrationOtp e phone)"
| "auth_controller e (VerifyRegistration phone otp t) = object (verifyRegistrationOtp e phone otp t)"
| "auth_controller e (Login phone password) = object (login e phone password)"
| "auth_controller e (RequestReset phone) = object (requestPasswordResetOtp e phone)"
| "auth_controller e (ResetPassword phone otp new confirm t) = object (resetPassword e phone otp new confirm t)"
| "auth_controller e (Refresh t) = object (refresh e t)"
| "auth_controller e (Logout t) = object (logout e t)"

fun akedly_controller :: "env \<Rightarrow> akedly_request \<Rightarrow> json svc" where
  "akedly_controller e AkedlyChallenge = getAkedlyChallenge e"
| "akedly_controller e (AkedlySend phone purpose challengeToken nonce turnstileToken ip xForwardedFor) =
     object (sendAkedlyOtp e phone purpose
       (JObj [(''challengeToken'', JStr challengeToken), (''nonce'', JStr nonce)])
       (case turnstileToken of None \<Rightarrow> JUndef | Some t \<Rightarrow> JStr t) (extractEndUserIp ip xForwardedFor))"

fun users_controller :: "env \<Rightarrow> auth_user option \<Rightarrow> users_request \<Rightarrow> json svc" where
  "users_controller e user GetMe = with_user user (\<lambda>u. object (getMe e (au_sub u)))"
| "users_controller e user (UpdateMe body) = with_user user (\<lambda>u. object (updateMe e (au_sub u) (UpdateProfileDto body)))"
| "users_controller e user (ChangePassword old new) = with_user user (\<lambda>u. object (changePassword e (au_sub u) old new))"
| "users_controller e user DeleteMe = with_user user (\<lambda>u. object (deleteMe (au_sub u)))"

fun public_users_controller :: "env \<Rightarrow> auth_user option \<Rightarrow> public_users_request \<Rightarrow> json svc" where
  "public_users_controller e user (PublicProfile i limit offset) = object (getPublicProfile e i limit offset (viewer_sub user))"

fun products_controller :: "env \<Rightarrow> auth_user option \<Rightarrow> products_request \<Rightarrow> json svc" where
  "products_controller e user (CreateProduct dto) = with_user user (\<lambda>u. object (createProduct e (au_sub u) dto))"
| "products_controller e user (GetProduct i) = object (getProductById e i (viewer_sub user))"
| "products_controller e user (UpdateProduct i body) =
     with_user user (\<lambda>u. object (updateProduct e (au_sub u) i (UpdateProductDto body)))"
| "products_controller e user (DeleteProduct i) = with_user user (\<lambda>u. object (deleteProduct e (au_sub u) i))"
| "products_controller e user (UpdateProductStatus i status) =
     with_user user (\<lambda>u. object (updateProductStatus e (au_sub u) i status))"
| "products_controller e user (ListMyProducts dto) = with_user user (\<lambda>u. object (listMyProducts e (au_sub u) dto))"
| "products_controller e user (SearchProducts dto) = object (searchProducts e dto (viewer_sub user))"

fun blocks_controller :: "env \<Rightarrow> auth_user option \<Rightarrow> blocks_request \<Rightarrow> json svc" where
  "blocks_controller e user (BlockUser i) = with_user user (\<lambda>u. object (blockUser (au_sub u) i))"
| "blocks_controller e user (UnblockUser i) = with_user user (\<lambda>u. object (unblockUser (au_sub u) i))"
| "blocks_controller e user (ListBlocked limit offset) =
     with_user user (\<lambda>u. object (listBlockedUsers e (au_sub u) (or_limit limit) (or_offset offset)))"

fun favorites_controller :: "env \<Rightarrow> auth_user option \<Rightarrow> favorites_request \<Rightarrow> json svc" where
  "favorites_controller e user (AddFavorite i) = with_user user (\<lambda>u. object (addFavorite e (au_sub u) i))"
| "favorites_controller e user (RemoveFavorite i) = with_user user (\<lambda>u. object (removeFavorite (au_sub u) i))"
| "favorites_controller e user (ListFavorites sortBy sortDir limit offset) =
     with_user user (\<lambda>u. object (listFavorites e (au_sub u) sortBy sortDir limit offset))"

fun ratings_controller :: "env \<Rightarrow> auth_user option \<Rightarrow> ratings_request \<Rightarrow> json svc" where
  "ratings_controller e user (RateUser rated v comment) =
     with_user user (\<lambda>u. object (rateUser e (au_sub u) rated v comment))"
| "ratings_controller e user (RatingSummary i) = object (getUserRatingSummary e i)"

fun reports_controller :: "env \<Rightarrow> auth_user option \<Rightarrow> reports_request \<Rightarrow> json svc" where
  "reports_controller e user (CreateReport reported reason) =
     with_user user (\<lambda>u. object (createReport e (au_sub u) reported reason))"
| "reports_controller e user (MyReports limit offset) =
     with_user user (\<lambda>u. object (getMyReports e (au_sub u) (or_limit limit) (or_offset offset)))"

fun categories_controller :: "env \<Rightarrow> categories_request \<Rightarrow> json svc" where
  "categories_controller e (ListCategories limit offset) =
     object (listCategories e (or_limit limit) (or_offset offset))"

text \<open>The uploader is the one \<open>resolveStorageUploader\<close> chose when the module was built.\<close>

fun files_controller :: "env \<Rightarrow> auth_user option \<Rightarrow> files_request \<Rightarrow> json svc" where
  "files_controller e user (UploadIntent dto) =
     with_user user (\<lambda>u. object (createUploadIntent e (cloudinary_createUploadIntent e) (au_sub u) dto))"
| "files_controller e user (MarkUploaded i checksum) =
     with_user user (\<lambda>u. object (markUploaded e (au_sub u) i checksum))"
| "files_controller e user (GetFile i) = with_user user (\<lambda>u. object (getFile e u i))"

fun chat_controller :: "env \<Rightarrow> auth_user option \<Rightarrow> chat_request \<Rightarrow> json wsvc" where
  "chat_controller e user (CreateConversation participant product) =
     with_user user (\<lambda>u. andThen (createConversation e (au_sub u) participant product) (\<lambda>kvs. ret (JObj kvs)))"
| "chat_controller e user (ListConversations scope limit offset) =
     with_user user (\<lambda>u. on_db (object (listConversations e (au_sub u)
       (case scope of None \<Rightarrow> ''all'' | Some s \<Rightarrow> s) (or_limit limit) (or_offset offset))))"
| "chat_controller e user (GetConversation i) =
     with_user user (\<lambda>u. on_db (object (getConversationById e (au_sub u) i)))"
| "chat_controller e user (ListMessages i limit before) =
     with_user user (\<lambda>u. on_db (object (listMessages e (au_sub u) i (or_limit limit) before)))"

fun admin_controller :: "env \<Rightarrow> auth_user option \<Rightarrow> admin_request \<Rightarrow> json svc" where
  "admin_controller e user (ListUsers status q limit offset) = object (listUsers e status q limit offset)"
| "admin_controller e user (UserDetails i) = object (getUserDetails e i)"
| "admin_controller e user (UserListings i status limit offset) = object (listUserListings e i status limit offset)"
| "admin_controller e user (UserReports i limit offset) = object (listUserReports e i limit offset)"
| "admin_controller e user (ListAdmins limit offset) = object (listAdmins e limit offset)"
| "admin_controller e user (PromoteAdmin i) = with_user user (\<lambda>u. object (promoteAdmin e (au_sub u) i))"
| "admin_controller e user (DemoteAdmin i) = with_user user (\<lambda>u. object (demoteAdmin e (au_sub u) i))"
| "admin_controller e user (UpdateUserStatus i status) =
     with_user user (\<lambda>u. object (updateUserStatus e (au_sub u) i status))"
| "admin_controller e user (DeleteUser i) = with_user user (\<lambda>u. object (deleteUser e (au_sub u) i))"
| "admin_controller e user (CreateWarning target message) =
     with_user user (\<lambda>u. object (createWarning e (au_sub u) target message))"
| "admin_controller e user (ListReports limit offset) = object (listReports e limit offset)"
| "admin_controller e user (UpdateReportStatus i status) =
     with_user user (\<lambda>u. object (updateReportStatus e (au_sub u) i status))"
| "admin_controller e user (CreateCategory name parent) =
     with_user user (\<lambda>u. object (admin_createCategory e (au_sub u) name parent))"
| "admin_controller e user (DeleteCategory i) =
     with_user user (\<lambda>u. object (admin_deleteCategory e (au_sub u) i))"

text \<open>\<open>ready\<close> asks the database for \<open>SELECT 1\<close>; a database that does not answer is outside the model.\<close>

definition health_controller :: "health_request \<Rightarrow> json svc" where
  "health_controller r = ret (JObj [(''status'', JStr ''ok'')])"

fun controller :: "env \<Rightarrow> auth_user option \<Rightarrow> api_request \<Rightarrow> json wsvc" where
  "controller e user (AuthApi r) = on_db (auth_controller e r)"
| "controller e user (AkedlyApi r) = on_db (akedly_controller e r)"
| "controller e user (UsersApi r) = on_db (users_controller e user r)"
| "controller e user (PublicUsersApi r) = on_db (public_users_controller e user r)"
| "controller e user (ProductsApi r) = on_db (products_controller e user r)"
| "controller e user (BlocksApi r) = on_db (blocks_controller e user r)"
| "controller e user (FavoritesApi r) = on_db (favorites_controller e user r)"
| "controller e user (RatingsApi r) = on_db (ratings_controller e user r)"
| "controller e user (ReportsApi r) = on_db (reports_controller e user r)"
| "controller e user (CategoriesApi r) = on_db (categories_controller e r)"
| "controller e user (FilesApi r) = on_db (files_controller e user r)"
| "controller e user (ChatApi r) = chat_controller e user r"
| "controller e user (AdminApi r) = on_db (admin_controller e user r)"
| "controller e user (HealthApi r) = on_db (health_controller r)"

section \<open>A call\<close>

record http_call =
  hc_token :: "string option"
  hc_over_limit :: bool
  hc_converts :: bool
  hc_request :: api_request

text \<open>\<open>JwtAuthGuard\<close>: the bearer token of the request, verified and validated by the strategy.\<close>

definition bearer :: "env \<Rightarrow> string option \<Rightarrow> auth_user svc" where
  "bearer e tok = (case tok of None \<Rightarrow> throw (Unauthorized ''Unauthorized'') | Some t \<Rightarrow> authenticate e t)"

definition authorize :: "env \<Rightarrow> route_guard \<Rightarrow> string option \<Rightarrow> auth_user option svc" where
  "authorize e guard tok =
     (case guard of
        Public \<Rightarrow> ret None
      | OptionalJwt \<Rightarrow> (\<lambda>d. case bearer e tok d of (r, d') \<Rightarrow> (Inr (optionalUser r), d'))
      | Jwt \<Rightarrow> andThen (bearer e tok) (\<lambda>u. ret (Some u))
      | JwtAdmin \<Rightarrow> andThen (bearer e tok) (\<lambda>u. andThen (adminGuard (Some u)) (\<lambda>admin. ret (Some admin))))"

definition handle_call :: "env \<Rightarrow> http_call \<Rightarrow> json wsvc" where
  "handle_call e c =
     andThen (unless (shouldSkip (cfg e) \<or> \<not> hc_over_limit c)
                (HttpExn 429 ''ThrottlerException: Too Many Requests'' [])) (\<lambda>_.
     andThen (on_db (authorize e (guard_of (hc_request c)) (hc_token c))) (\<lambda>user.
     andThen (unless (hc_converts c \<and> dto_ok (hc_request c)) (BadRequest ''Bad Request Exception'')) (\<lambda>_.
     controller e user (hc_request c))))"

definition serve :: "env \<Rightarrow> http_request \<Rightarrow> http_call \<Rightarrow> (nat \<times> json) wsvc" where
  "serve e request c =
     (\<lambda>g. case andThen (handle_call e c)
               (\<lambda>v. on_db (respond e (Some (success_status (hc_request c))) v)) g of
            (Inr body, g') \<Rightarrow> (Inr (success_status (hc_request c), body), g')
          | (Inl exception, g') \<Rightarrow> (Inr (http_catch e request (clock (gw_db g')) exception), g'))"

end
