(* ===== verification/Writes.thy ===== *)
theory Writes
  imports Api ProductProps ChatProps SocialProps FilesProps AdminProps
begin

text \<open>
  An abstract account of what a request may do to the database: \<open>db_write a d d'\<close> is one statement that
  writes on behalf of \<open>a\<close>. The rules name, for each statement of the services, the rows it may touch and
  what it must respect: a member writes rows that are his, an administrator writes accounts, reports,
  categories and the audit log, and a request without an account writes codes, pending registrations,
  sessions, a new account and a password hash. The statements of one transaction are separate writes; a
  transaction that is rolled back is one \<open>outside\<close>.
\<close>

datatype actor = Anyone | Member int | Administrator int

inductive db_write :: "actor \<Rightarrow> db \<Rightarrow> db \<Rightarrow> bool" where
  outside: "seqs d \<le> s \<Longrightarrow> db_write a d (d\<lparr>seqs := s, draws := n, redis_cmds := c\<rparr>)"
| sessions: "db_write a d (d\<lparr>auth_refresh_tokens := x\<rparr>)"
| codes: "otp_frame d d' \<Longrightarrow> db_write Anyone d d'"
| pending: "db_write Anyone d (d\<lparr>pending_registrations := x\<rparr>)"
| account: "u_id r = seqs d T_users + 1 \<Longrightarrow> \<forall>v \<in> set (users d). u_phone v \<noteq> u_phone r \<Longrightarrow> \<not> u_is_admin r \<Longrightarrow>
    db_write Anyone d (d\<lparr>seqs := (seqs d)(T_users := seqs d T_users + 1), users := users d @ [r]\<rparr>)"
| reset: "db_write Anyone d (d\<lparr>users := update_where (\<lambda>r. u_id r = i)
    (\<lambda>r. r\<lparr>u_password_hash := h, u_updated_at := t\<rparr>) (users d)\<rparr>)"
| profile: "(\<And>r. u_id (f r) = u_id r \<and> u_phone (f r) = u_phone r \<and> u_is_admin (f r) = u_is_admin r) \<Longrightarrow>
    db_write (Member u) d (d\<lparr>users := update_where (\<lambda>r. u_id r = u \<and> u_deleted_at r = None) f (users d)\<rparr>)"
| product: "p_id p = seqs d T_products + 1 \<Longrightarrow> p_owner_id p = u \<Longrightarrow> user_exists d u \<Longrightarrow>
    pair_ok (p_category p) (p_subcategory p) \<Longrightarrow> product_checks p \<Longrightarrow>
    db_write (Member u) d (d\<lparr>seqs := (seqs d)(T_products := seqs d T_products + 1), products := products d @ [p]\<rparr>)"
| product_change: "p \<in> set (products d) \<Longrightarrow> p_id p = i \<Longrightarrow> p_owner_id p = u \<Longrightarrow>
    (\<And>q. p_id (f q) = p_id q \<and> p_owner_id (f q) = p_owner_id q) \<Longrightarrow>
    pair_ok (p_category p) (p_subcategory p) \<and> product_checks p \<longrightarrow>
      pair_ok (p_category (f p)) (p_subcategory (f p)) \<and> product_checks (f p) \<Longrightarrow>
    db_write (Member u) d (d\<lparr>products := update_where (\<lambda>q. p_id q = i) f (products d)\<rparr>)"
| images: "p \<in> set (products d) \<Longrightarrow> p_id p = i \<Longrightarrow> p_owner_id p = u \<Longrightarrow>
    filter (\<lambda>r. i_product_id r \<noteq> i) x = filter (\<lambda>r. i_product_id r \<noteq> i) (product_images d) \<Longrightarrow>
    db_write (Member u) d (d\<lparr>product_images := x\<rparr>)"
| upload: "f_id f = seqs d T_files + 1 \<Longrightarrow> f_uploader_user_id f = Some u \<Longrightarrow> user_exists d u \<Longrightarrow> file_checks f \<Longrightarrow>
    db_write (Member u) d (d\<lparr>seqs := (seqs d)(T_files := seqs d T_files + 1), files := files d @ [f]\<rparr>)"
| file_change: "(\<And>i. i \<in> set is \<Longrightarrow> \<exists>f. file_by_id i d = Some f \<and> f_uploader_user_id f = Some u) \<Longrightarrow>
    (\<And>f. f_id (g f) = f_id f \<and> f_uploader_user_id (g f) = f_uploader_user_id f) \<Longrightarrow>
    (\<And>f. catalog_ok d \<Longrightarrow> file_checks f \<Longrightarrow> file_checks (g f)) \<Longrightarrow>
    db_write (Member u) d (d\<lparr>files := update_where (\<lambda>f. f_id f \<in> set is) g (files d)\<rparr>)"
| favorite: "filter (\<lambda>r. fv_user_id r \<noteq> u) x = filter (\<lambda>r. fv_user_id r \<noteq> u) (user_favorites d) \<Longrightarrow>
    db_write (Member u) d (d\<lparr>user_favorites := x\<rparr>)"
| block: "u \<noteq> v \<Longrightarrow> \<forall>b \<in> set (user_blocks d). b_blocker_id b = u \<longrightarrow> b_blocked_id b \<noteq> v \<Longrightarrow>
    b_blocker_id r = u \<Longrightarrow> b_blocked_id r = v \<Longrightarrow> db_write (Member u) d (d\<lparr>user_blocks := user_blocks d @ [r]\<rparr>)"
| unblock: "db_write (Member u) d
    (d\<lparr>user_blocks := delete_where (\<lambda>b. b_blocker_id b = u \<and> b_blocked_id b = v) (user_blocks d)\<rparr>)"
| rating: "rating_ok r \<Longrightarrow> rt_rater_id r = u \<Longrightarrow> rating_pair r \<notin> rating_pair ` set (user_ratings d) \<Longrightarrow>
    db_write (Member u) d (d\<lparr>user_ratings := user_ratings d @ [r]\<rparr>)"
| rating_change: "(\<And>r. rating_pair (f r) = rating_pair r \<and> (rating_ok r \<longrightarrow> rating_ok (f r))) \<Longrightarrow>
    db_write (Member u) d (d\<lparr>user_ratings :=
      update_where (\<lambda>r. rt_rater_id r = u \<and> rt_rated_user_id r = v) f (user_ratings d)\<rparr>)"
| report: "rp_reporter_id r = u \<Longrightarrow> db_write (Member u) d (d\<lparr>user_reports := user_reports d @ [r]\<rparr>)"
| conversation: "cv_id c = seqs d T_conversations + 1 \<Longrightarrow> in_conversation u c \<Longrightarrow>
    cv_user_a_id c < cv_user_b_id c \<Longrightarrow> cv_pair c \<notin> cv_pair ` set (conversations d) \<Longrightarrow>
    user_exists d (cv_user_a_id c) \<Longrightarrow> user_exists d (cv_user_b_id c) \<Longrightarrow> cv_last_message_id c = None \<Longrightarrow>
    db_write (Member u) d (d\<lparr>seqs := (seqs d)(T_conversations := seqs d T_conversations + 1),
      conversations := conversations d @ [c]\<rparr>)"
| conversation_about: "c \<in> set (conversations d) \<Longrightarrow> in_conversation u c \<Longrightarrow>
    db_write (Member u) d (d\<lparr>conversations :=
      update_where (\<lambda>r. cv_id r = cv_id c) (\<lambda>r. r\<lparr>cv_product_id := q\<rparr>) (conversations d)\<rparr>)"
| admin_account: "(\<And>r. u_id (f r) = u_id r \<and> u_phone (f r) = u_phone r) \<Longrightarrow>
    db_write (Administrator u) d (d\<lparr>users := update_where (\<lambda>r. u_id r = i \<and> u_deleted_at r = None) f (users d)\<rparr>)"
| warning: "w_admin_id w = Some u \<Longrightarrow>
    db_write (Administrator u) d (d\<lparr>admin_warnings := admin_warnings d @ [w]\<rparr>)"
| review: "db_write (Administrator u) d (d\<lparr>user_reports :=
    update_where (\<lambda>r. rp_id r = i) (reviewed_report status u t) (user_reports d)\<rparr>)"
| category: "c_id c = seqs d T_categories + 1 \<Longrightarrow> sibling_key c \<notin> sibling_key ` set (categories d) \<Longrightarrow>
    (\<And>i. c_parent_id c = Some i \<Longrightarrow> category_exists i d) \<Longrightarrow>
    db_write (Administrator u) d (d\<lparr>seqs := (seqs d)(T_categories := seqs d T_categories + 1),
      categories := categories d @ [c]\<rparr>)"
| category_gone: "\<forall>c \<in> set (categories d). c_parent_id c \<noteq> Some i \<Longrightarrow>
    db_write (Administrator u) d (d\<lparr>categories := delete_where (\<lambda>c. c_id c = i) (categories d)\<rparr>)"
| audit: "al_actor_id l = u \<Longrightarrow>
    db_write (Administrator u) d (d\<lparr>admin_audit_logs := admin_audit_logs d @ [l]\<rparr>)"

inductive_cases db_writeE: "db_write a d d'"

text \<open>Any number of writes of one actor.\<close>

abbreviation writes :: "actor \<Rightarrow> db \<Rightarrow> db \<Rightarrow> bool" where
  "writes a \<equiv> (db_write a)\<^sup>*\<^sup>*"

section \<open>Composition\<close>

lemma writes_step: "writes a d0 d \<Longrightarrow> db_write a d d' \<Longrightarrow> writes a d0 d'"
  by (rule rtranclp.rtrancl_into_rtrancl)

lemma keeps_writes:
  assumes "\<And>d r d'. m d = (r, d') \<Longrightarrow> writes a d d'"
  shows "keeps (writes a d0) m"
proof (rule keepsI)
  fix d assume "writes a d0 d"
  moreover have "writes a d (snd (m d))" by (rule assms [OF surjective_pairing])
  ultimately show "writes a d0 (snd (m d))" by (rule rtranclp_trans)
qed

lemma writes_andThen:
  assumes "andThen m k d = (r, d')" and "\<And>r d1. m d = (r, d1) \<Longrightarrow> writes a d d1"
    and "\<And>x d1 r d'. m d = (Inr x, d1) \<Longrightarrow> k x d1 = (r, d') \<Longrightarrow> writes a d1 d'"
  shows "writes a d d'"
proof -
  obtain y d1 where m: "m d = (y, d1)" by fastforce
  show ?thesis
  proof (cases y)
    case (Inl e)
    with m assms(1) have "d' = d1" by (simp add: andThen_run)
    with assms(2) [OF m] show ?thesis by simp
  next
    case (Inr x)
    with m assms(1) have "k x d1 = (r, d')" by (simp add: andThen_run)
    with assms(2) [OF m] assms(3) m Inr show ?thesis by (metis rtranclp_trans)
  qed
qed

lemma writes_modify: "(\<And>d. db_write a d (f d)) \<Longrightarrow> keeps (writes a d0) (modify f)"
  by (rule keeps_modify) (rule writes_step)

lemma outside_seq: "seqs d t \<le> i \<Longrightarrow> db_write a d (d\<lparr>seqs := (seqs d)(t := i)\<rparr>)"
  using outside [where d = d and s = "(seqs d)(t := i)" and n = "draws d" and c = "redis_cmds d"] by (simp add: le_fun_def)

lemma outside_draws: "db_write a d (d\<lparr>draws := n\<rparr>)"
  using outside [where d = d and s = "seqs d" and c = "redis_cmds d"] by simp

lemma outside_redis: "db_write a d (d\<lparr>redis_cmds := c\<rparr>)"
  using outside [where d = d and s = "seqs d" and n = "draws d"] by simp

lemma outside_rollback:
  assumes "writes a d0 d" and "seqs d \<le> seqs d'"
  shows "writes a d0 (rollback d d')"
  unfolding rollback_def using assms(1) outside [OF assms(2)] by (rule writes_step)

lemma writes_nextval: "keeps (writes a d0) (nextval t)"
  by (rule keeps_writes) (auto intro!: outside_seq)

lemma writes_draw: "keeps (writes a d0) (draw f)"
  by (rule keeps_writes) (auto intro!: outside_draws)

lemma writes_redis_del: "keeps (writes a d0) (redis_del e k)"
proof (rule keeps_writes)
  fix d r d' assume "redis_del e k d = (r, d')"
  then obtain cs where "d' = d\<lparr>redis_cmds := cs\<rparr>"
    using redis_command_state [of e "RDel k" d] by (auto simp: redis_del_def)
  then show "writes a d d'" by (auto intro: outside_redis)
qed

lemma writes_transaction:
  "keeps (writes a d0) m \<Longrightarrow> (\<And>n. keeps (\<lambda>d. n \<le> seqs d) m) \<Longrightarrow> keeps (writes a d0) (withTransaction m)"
  by (rule keeps_withTransaction) (auto simp: advances_def intro: outside_rollback)

end
