(* ===== verification/ServiceWrites.thy ===== *)
theory ServiceWrites
  imports Writes ListingProps
begin

text \<open>
  Every operation of every service, as the writes of an actor: what only reads, the operations of
  \<open>AuthService\<close> for a request without an account, those of a member on his own rows, those of an
  administrator.
\<close>

section \<open>Operations that only read\<close>

lemma reading_users:
  "keeps I (getMe e u)" "keeps I (getPublicProfile e i l off v)"
  unfolding getMe_def getPublicProfile_def Let_def by (intro keeps_rules)+

lemma reading_products:
  "keeps I (getProductById e i v)" "keeps I (listMyProducts e u dto)" "keeps I (searchProducts e dto v)"
  unfolding getProductById_def listMyProducts_def searchProducts_def run_listing_def Let_def
  by (intro keeps_rules product_reads assertSearch_reads [THEN reads_keeps] resolveSort_reads [THEN reads_keeps])+

lemma reading_social:
  "keeps I (listBlockedUsers e u n k)" "keeps I (listFavorites e u s d0 l off)" "keeps I (getUserRatingSummary e i)"
  "keeps I (getMyReports e u n k)" "keeps I (listCategories e n k)" "keeps I (getFile e au i)"
  unfolding listBlockedUsers_def listFavorites_def getUserRatingSummary_def getMyReports_def listCategories_def
    getFile_def
  by (intro keeps_rules)+

lemma reading_chat:
  "keeps I (listConversations e u s n k)" "keeps I (getConversationById e u i)" "keeps I (listMessages e u i n b)"
  unfolding listConversations_def listMessages_def
  by (intro keeps_rules reads_getConversationById [THEN reads_keeps] reads_assert [THEN reads_keeps])+

lemma reading_admin:
  "keeps I (listUsers e st q l off)" "keeps I (getUserDetails e i)" "keeps I (listUserListings e i ps l off)"
  "keeps I (listAdmins e l off)" "keeps I (listReports e l off)" "keeps I (listUserReports e i l off)"
  unfolding listUsers_def getUserDetails_def listUserListings_def listAdmins_def listReports_def
    listUserReports_def Let_def
  by (intro keeps_rules)+

lemmas reading = reading_users reading_products reading_social reading_chat reading_admin

section \<open>Authentication\<close>

lemma codes_stable: "otp_stable (writes Anyone d0)"
  unfolding otp_stable_def by (blast intro: writes_step codes)

lemma sessions_redis: "writes a d (d\<lparr>redis_cmds := cs, auth_refresh_tokens := x\<rparr>)"
proof -
  have "writes a d (d\<lparr>redis_cmds := cs\<rparr>)" by (rule r_into_rtranclp) (rule outside_redis)
  then have "writes a d (d\<lparr>redis_cmds := cs\<rparr>\<lparr>auth_refresh_tokens := x\<rparr>)" by (rule writes_step) (rule sessions)
  then show ?thesis by simp
qed

lemma writes_revoke: "keeps (writes a d0) (revokeRefreshTokenJti e j)"
proof (rule keeps_writes)
  fix d r d' assume "revokeRefreshTokenJti e j d = (r, d')"
  with revokeRefreshTokenJti_run [of e j d] show "writes a d d'" by (auto intro: sessions_redis)
qed

lemma writes_consume: "keeps (writes a d0) (consumeRefreshTokenJti e j)"
proof (rule keeps_writes)
  fix d r d' assume "consumeRefreshTokenJti e j d = (r, d')"
  with consumeRefreshTokenJti_run [of e j d] show "writes a d d'" by (auto intro: sessions_redis)
qed

lemma writes_upsert_refresh: "keeps (writes a d0) (upsert_refresh_token j u t)"
proof (rule keeps_writes)
  fix d r d' assume "upsert_refresh_token j u t d = (r, d')"
  then have "d' = d \<or> (\<exists>x. d' = d\<lparr>auth_refresh_tokens := x\<rparr>)"
    by (auto simp: upsert_refresh_token_def Let_def split: if_splits)
  then show "writes a d d'" by (auto intro: sessions)
qed

lemma writes_generateTokens: "keeps (writes a d0) (generateTokens e v ph adm t)"
proof -
  have "keeps (writes a d0) (tryRedisSet e op)" if "redis_only (tryRedisSet e op)" for op
    using that by (intro keeps_writes) (metis outside_redis prod.inject r_into_rtranclp redis_only_run)
  then show ?thesis
    unfolding generateTokens_def saveRefreshTokenJti_def Let_def
    by (intro keeps_rules writes_draw writes_upsert_refresh) simp_all
qed

lemma writes_auth: "auth_stable e (writes Anyone d0)"
  unfolding auth_stable_def
proof (intro conjI allI impI)
  fix ph n h ttl show "keeps (writes Anyone d0) (upsert_pending ph n h ttl)"
    unfolding upsert_pending_def
  proof (intro keeps_andThen writes_nextval keeps_writes)
    fix i r and d d' :: db
    assume "(let ex = clock d + minutes_ms ttl in
        case row_where (\<lambda>r. pr_phone r = ph) (pending_registrations d) of
          None \<Rightarrow> (Inr i, d\<lparr>pending_registrations := pending_registrations d @
               [\<lparr>pr_id = i, pr_phone = ph, pr_name = n, pr_password_hash = h, pr_expires_at = ex, pr_created_at = clock d\<rparr>]\<rparr>)
        | Some r \<Rightarrow> (Inr (pr_id r), d\<lparr>pending_registrations := update_where (\<lambda>r. pr_phone r = ph)
               (\<lambda>r. r\<lparr>pr_name := n, pr_password_hash := h, pr_expires_at := ex, pr_created_at := clock d\<rparr>)
               (pending_registrations d)\<rparr>)) = (r, d')"
    then have "\<exists>x. d' = d\<lparr>pending_registrations := x\<rparr>" by (auto simp: Let_def split: option.splits)
    then show "writes Anyone d d'" by (auto intro: pending)
  qed
next
  fix n ph h show "keeps (writes Anyone d0) (insert_user n ph h)"
  proof (rule keeps_writes)
    fix d r d' assume "insert_user n ph h d = (r, d')"
    then show "writes Anyone d d'"
      by (auto simp: insert_user_def Let_def list_ex_iff split: if_splits
          intro!: r_into_rtranclp outside_seq account)
  qed
qed (use codes_stable outside_rollback in
  \<open>auto intro: writes_step pending reset writes_generateTokens writes_consume writes_revoke\<close>)

lemma writes_logout: "keeps (writes a d0) (logout e tok)"
  unfolding logout_def by (intro keeps_rules writes_revoke)

lemma writes_auth_controller: "keeps (writes Anyone d0) (auth_controller e r)"
  using auth_operations_keep [OF writes_auth]
  by (cases r) (auto simp: object_def intro!: keeps_rules)

lemma writes_akedly_controller: "keeps (writes Anyone d0) (akedly_controller e q)"
  using auth_operations_keep [OF writes_auth]
  by (cases q) (auto simp: object_def intro!: keeps_rules)

section \<open>Ownership\<close>

lemma string_number_int_str: "string_number (int_str n) = JNum (of_int n)"
proof (cases "n < 0")
  case True
  let ?k = "nat_str (nat (- n))"
  have k: "?k \<noteq> []" "list_all is_digit ?k" by (simp_all add: nat_str_digits)
  have "\<not> is_ws (CHR ''-'')" "\<not> is_digit (CHR ''-'')" by (simp_all add: is_ws_def is_digit_def)
  then have "js_trim (CHR ''-'' # ?k) = CHR ''-'' # ?k"
    using k js_trim_digits [OF k(2)] by (cases "rev ?k") (auto simp: js_trim_def dropWhile_append dest: digit_not_ws)
  moreover have "radix_of (CHR ''-'' # ?k) = None" by (auto simp: radix_of_def split: list.splits)
  ultimately show ?thesis
    using True k
    by (simp add: int_str_def string_number_def Let_def signed_decimal_def unsigned_decimal_digits number_or_nan_def)
qed (simp add: int_str_def)

lemma is_owner_eq:
  assumes "int8_ok e" and "is_owner e v u"
  shows "v = Some u"
proof (cases v)
  case None
  with assms(2) show ?thesis by (simp add: is_owner_def toPositiveInt_def)
next
  case (Some n)
  have "toPositiveInt (int8_parse e n) = (if 0 < n then Some n else None)"
    using assms(1) toPositiveInt_int8 [OF assms(1), of n]
    by (auto simp: int8_ok_def int8_as_string_def int8_as_number_def toPositiveInt_def string_number_int_str)
  with Some assms(2) show ?thesis by (auto simp: is_owner_def split: if_splits)
qed

section \<open>Accounts, blocks, favourites, ratings, reports\<close>

lemma writes_profile:
  assumes "\<And>t r. u_id (f t r) = u_id r \<and> u_phone (f t r) = u_phone r \<and> u_is_admin (f t r) = u_is_admin r"
  shows "keeps (writes (Member u) d0) (modify (\<lambda>d. d\<lparr>users :=
    update_where (\<lambda>r. u_id r = u \<and> u_deleted_at r = None) (f (clock d)) (users d)\<rparr>))"
  by (rule writes_modify) (rule profile, rule assms)

lemma writes_users:
  "keeps (writes (Member u) d0) (updateMe e u dto)" "keeps (writes (Member u) d0) (changePassword e u old new)"
  "keeps (writes (Member u) d0) (deleteMe u)"
proof -
  have "keeps I (checkAvatarFile e u i)" for I i
    unfolding checkAvatarFile_def by (intro keeps_rules)
  then show "keeps (writes (Member u) d0) (updateMe e u dto)"
    unfolding updateMe_def by (intro keeps_rules writes_profile reading) (simp_all add: profile_patched_def)
  show "keeps (writes (Member u) d0) (changePassword e u old new)"
    unfolding changePassword_def by (intro keeps_rules writes_draw writes_profile) simp
  show "keeps (writes (Member u) d0) (deleteMe u)"
    unfolding deleteMe_def by (intro keeps_rules writes_profile) (simp add: soft_delete_def)
qed

lemma writes_blocks:
  "keeps (writes (Member u) d0) (blockUser u v)" "keeps (writes (Member u) d0) (unblockUser u v)"
proof -
  have "keeps (writes (Member u) d0) (insert_block u v)"
  proof (rule keeps_writes)
    fix d r d' assume "insert_block u v d = (r, d')"
    then show "writes (Member u) d d'"
      by (auto simp: insert_block_def list_ex_iff split: if_splits intro!: block r_into_rtranclp)
  qed
  then show "keeps (writes (Member u) d0) (blockUser u v)"
    unfolding blockUser_def by (intro keeps_rules)
  show "keeps (writes (Member u) d0) (unblockUser u v)"
    unfolding unblockUser_def by (intro keeps_rules writes_modify unblock)
qed

lemma writes_favorites:
  "keeps (writes (Member u) d0) (addFavorite e u i)" "keeps (writes (Member u) d0) (removeFavorite u i)"
proof -
  have "keeps (writes (Member u) d0) (insert_favorite u i)"
  proof (rule keeps_writes)
    fix d r d' assume "insert_favorite u i d = (r, d')"
    then show "writes (Member u) d d'"
      by (auto simp: insert_favorite_def split: if_splits intro!: favorite r_into_rtranclp)
  qed
  then show "keeps (writes (Member u) d0) (addFavorite e u i)"
    unfolding addFavorite_def by (intro keeps_rules)
  show "keeps (writes (Member u) d0) (removeFavorite u i)"
    unfolding removeFavorite_def
    by (intro keeps_rules writes_modify favorite) (auto simp: delete_where_def intro: filter_cong)
qed

lemma writes_upsert_rating: "keeps (writes (Member u) d0) (upsert_rating u v n c)"
proof (rule keeps_writes)
  fix d r d' assume run: "upsert_rating u v n c d = (r, d')"
  let ?seq = "d\<lparr>seqs := (seqs d)(T_ratings := seqs d T_ratings + 1)\<rparr>"
  let ?f = "\<lambda>r. r\<lparr>rt_rating_value := n, rt_comment := c, rt_updated_at := clock d\<rparr>"
  let ?new = "\<lparr>rt_id = seqs d T_ratings + 1, rt_rater_id = u, rt_rated_user_id = v, rt_rating_value = n,
    rt_comment = c, rt_created_at = clock d, rt_updated_at = clock d\<rparr>"
  have seq: "writes (Member u) d ?seq" by (rule r_into_rtranclp, rule outside_seq) simp
  let ?old = "row_where (\<lambda>r. rt_rater_id r = u \<and> rt_rated_user_id r = v) (user_ratings d)"
  show "writes (Member u) d d'"
  proof (cases "(1 \<le> n \<and> n \<le> 5) \<and> u \<noteq> v")
    case False
    then have "d' = ?seq" using run by (auto simp: upsert_rating_def)
    with seq show ?thesis by simp
  next
    case ok: True
    show ?thesis
    proof (cases ?old)
      case (Some old)
      with ok run have d': "d' = ?seq\<lparr>user_ratings :=
          update_where (\<lambda>r. rt_rater_id r = u \<and> rt_rated_user_id r = v) ?f (user_ratings ?seq)\<rparr>"
        by (simp add: upsert_rating_def Let_def)
      show ?thesis
        unfolding d' using seq
        by (rule writes_step) (rule rating_change, use ok in \<open>simp add: rating_pair_def rating_ok_def\<close>)
    next
      case None
      show ?thesis
      proof (cases "user_exists d u \<and> user_exists d v")
        case False
        then have "d' = ?seq" using None ok run by (auto simp: upsert_rating_def user_exists_def)
        with seq show ?thesis by simp
      next
        case True
        then have d': "d' = ?seq\<lparr>user_ratings := user_ratings ?seq @ [?new]\<rparr>"
          using None ok run by (simp add: upsert_rating_def Let_def user_exists_def)
        show ?thesis
          unfolding d' using seq
          by (rule writes_step)
            (rule rating, use ok None in \<open>auto simp: rating_pair_def rating_ok_def row_where_None\<close>)
      qed
    qed
  qed
qed

lemma writes_social:
  "keeps (writes (Member u) d0) (rateUser e u v n c)" "keeps (writes (Member u) d0) (createReport e u v why)"
proof -
  show "keeps (writes (Member u) d0) (rateUser e u v n c)"
    unfolding rateUser_def by (intro keeps_rules writes_upsert_rating)
  have "keeps (writes (Member u) d0) (insert_report u v why)"
    unfolding insert_report_def
  proof (intro keeps_andThen writes_nextval keeps_writes)
    fix i r and d d' :: db
    assume "(if u = v then (Inl (PgErr CHECK_VIOLATION), d)
      else if \<not> user_exists d u \<or> \<not> user_exists d v then (Inl (PgErr FK_VIOLATION), d)
      else let r = \<lparr>rp_id = i, rp_reporter_id = u, rp_reported_user_id = v, rp_reason = why, rp_status = Open,
             rp_reviewed_by = None, rp_reviewed_at = None, rp_created_at = clock d, rp_updated_at = clock d\<rparr>
           in (Inr r, d\<lparr>user_reports := user_reports d @ [r]\<rparr>)) = (r, d')"
    then show "writes (Member u) d d'"
      by (auto simp: Let_def split: if_splits intro!: report r_into_rtranclp)
  qed
  then show "keeps (writes (Member u) d0) (createReport e u v why)"
    unfolding createReport_def by (intro keeps_rules)
qed

section \<open>Files\<close>

lemma writes_insert_file:
  assumes "f_uploader_user_id f = Some u"
  shows "keeps (writes (Member u) d0) (insert_file f)"
proof (rule keeps_writes)
  fix d r d' assume run: "insert_file f d = (r, d')"
  let ?seq = "d\<lparr>seqs := (seqs d)(T_files := seqs d T_files + 1)\<rparr>"
  show "writes (Member u) d d'"
  proof (cases "file_checks f \<and> \<not> list_ex (\<lambda>g. file_key g = file_key f) (files d) \<and> user_exists d u")
    case True
    then have d': "d' = ?seq\<lparr>files := files d @ [f\<lparr>f_id := seqs d T_files + 1\<rparr>]\<rparr>"
      using run assms by (simp add: insert_file_def user_exists_def)
    have "db_write (Member u) d (?seq\<lparr>files := files d @ [f\<lparr>f_id := seqs d T_files + 1\<rparr>]\<rparr>)"
      by (rule upload) (use True assms in \<open>simp_all add: file_checks_def\<close>)
    with d' show ?thesis by blast
  next
    case False
    then have "d' = ?seq"
      using run assms by (auto simp: insert_file_def user_exists_def split: if_splits)
    moreover have "writes (Member u) d ?seq" by (rule r_into_rtranclp, rule outside_seq) simp
    ultimately show ?thesis by simp
  qed
qed

lemma writes_files:
  assumes "int8_ok e"
  shows "keeps (writes (Member u) d0) (createUploadIntent e (cloudinary_createUploadIntent e) u dto)"
    and "keeps (writes (Member u) d0) (markUploaded e u i cks)"
proof -
  have "keeps I (bind_number v)" for I v
    unfolding bind_number_def by (intro keeps_rules)
  then show "keeps (writes (Member u) d0) (createUploadIntent e (cloudinary_createUploadIntent e) u dto)"
    unfolding createUploadIntent_def buildObjectKey_def cloudinary_createUploadIntent_def
    by (intro keeps_rules writes_draw writes_insert_file) (simp_all add: pending_file_def)
  show "keeps (writes (Member u) d0) (markUploaded e u i cks)"
  proof (rule keeps_writes)
    fix d r d' assume run: "markUploaded e u i cks d = (r, d')"
    show "writes (Member u) d d'"
    proof (cases "\<exists>f. file_by_id i d = Some f \<and> is_owner e (f_uploader_user_id f) u")
      case False
      then have "d' = d" using run by (auto simp: markUploaded_def andThen_run unless_run split: option.splits)
      then show ?thesis by simp
    next
      case True
      then obtain f where f: "file_by_id i d = Some f" "f_uploader_user_id f = Some u" "is_owner e (f_uploader_user_id f) u"
        using is_owner_eq [OF assms] by blast
      let ?g = "\<lambda>f. f\<lparr>f_status := Uploaded, f_uploaded_at := Some (clock d),
          f_checksum_sha256 := (case cks of None \<Rightarrow> f_checksum_sha256 f | Some c \<Rightarrow> Some c), f_updated_at := clock d\<rparr>"
      have d': "d' = d\<lparr>files := update_where (\<lambda>f. f_id f \<in> set [i]) ?g (files d)\<rparr>"
        using run f by (simp add: markUploaded_def andThen_run unless_run)
      have "db_write (Member u) d (d\<lparr>files := update_where (\<lambda>f. f_id f \<in> set [i]) ?g (files d)\<rparr>)"
        by (rule file_change) (use f in \<open>simp_all add: file_checks_def\<close>)
      with d' show ?thesis by blast
    qed
  qed
qed

section \<open>Products\<close>

definition unlinked :: "int \<Rightarrow> db \<Rightarrow> db" where
  "unlinked pid d = d\<lparr>product_images := delete_where (\<lambda>i. i_product_id i = pid) (product_images d)\<rparr>"

definition linked :: "int \<Rightarrow> image_row list \<Rightarrow> int list \<Rightarrow> db \<Rightarrow> db" where
  "linked pid rows is d =
     d\<lparr>product_images := product_images d @ rows,
       seqs := (seqs d)(T_images := seqs d T_images + int (length is)),
       files := update_where (\<lambda>f. f_id f \<in> set is)
         (\<lambda>f. f\<lparr>f_owner_type := ''product'', f_owner_id := Some pid, f_updated_at := clock d\<rparr>) (files d)\<rparr>"

lemma sync_cases:
  assumes "syncProductImages e u pid ids d = (r, d')"
  shows "d' = unlinked pid d \<or>
    (\<exists>rows is. d' = linked pid rows is (unlinked pid d) \<and> (\<forall>x \<in> set rows. i_product_id x = pid) \<and>
       (\<forall>i \<in> set is. usable_image e u d i))"
proof (cases "ids = [] \<or> \<not> list_all is_integer ids")
  case True
  then have "d' = unlinked pid d"
    using assms by (auto simp: syncProductImages_def unlinked_def file_ids_def split: if_splits)
  then show ?thesis ..
next
  case False
  let ?d = "unlinked pid d" and ?is = "map floor ids :: int list"
  let ?m = "\<lambda>i. if i \<in> set ?is then file_by_id i ?d else None"
  let ?rows = "image_rows (seqs ?d T_images) (clock ?d) pid 0 ?m ?is"
  obtain x d2 where fe: "forEach ?is (checkImageFile e u ?m) ?d = (x, d2)" by fastforce
  with reads_forEach [OF reads_checkImageFile] have d2: "d2 = ?d" by (rule readsD)
  show ?thesis
  proof (cases x)
    case (Inl y)
    with assms False fe d2 have "d' = ?d"
      by (simp add: syncProductImages_def file_ids_def andThen_run flip: unlinked_def)
    then show ?thesis ..
  next
    case (Inr y)
    with forEach_Inr [OF fe [unfolded Inr] reads_checkImageFile]
    have "\<forall>i \<in> set ?is. \<exists>v. checkImageFile e u ?m i ?d = (Inr v, ?d)" by blast
    then have "\<forall>i \<in> set ?is. usable_image e u d i"
      unfolding checkImageFile_Inr by (auto simp: usable_image_def unlinked_def file_by_id_def split: if_splits)
    moreover have "d' = linked pid ?rows ?is ?d"
      using assms False fe d2 Inr
      by (simp add: syncProductImages_def file_ids_def linked_def andThen_run flip: unlinked_def)
    ultimately show ?thesis using image_rows_products by blast
  qed
qed

lemma writes_sync:
  assumes e: "int8_ok e" and run: "syncProductImages e u pid ids d = (r, d')"
    and p: "p \<in> set (products d)" "p_id p = pid" "p_owner_id p = u"
  shows "writes (Member u) d d'"
proof -
  have un: "writes (Member u) d (unlinked pid d)"
    unfolding unlinked_def
    by (rule r_into_rtranclp) (rule images [OF p], auto simp: delete_where_def intro: filter_cong)
  from sync_cases [OF run] show ?thesis
  proof (elim disjE exE conjE)
    fix rows "is" assume d': "d' = linked pid rows is (unlinked pid d)"
      and rows: "\<forall>x \<in> set rows. i_product_id x = pid" and "is": "\<forall>i \<in> set is. usable_image e u d i"
    let ?d1 = "unlinked pid d"
    let ?d2 = "?d1\<lparr>product_images := product_images ?d1 @ rows\<rparr>"
    let ?d3 = "?d2\<lparr>seqs := (seqs ?d2)(T_images := seqs ?d2 T_images + int (length is))\<rparr>"
    let ?g = "\<lambda>f. f\<lparr>f_owner_type := ''product'', f_owner_id := Some pid, f_updated_at := clock ?d3\<rparr>"
    have live: "p \<in> set (products ?d3)" "p \<in> set (products ?d1)"
      using p(1) by (simp_all add: unlinked_def)
    have "db_write (Member u) ?d1 ?d2"
      by (rule images [OF live(2) p(2,3)]) (use rows in \<open>auto simp: filter_empty_conv\<close>)
    moreover have "db_write (Member u) ?d2 ?d3" by (rule outside_seq) simp
    moreover have "db_write (Member u) ?d3 (?d3\<lparr>files := update_where (\<lambda>f. f_id f \<in> set is) ?g (files ?d3)\<rparr>)"
    proof (rule file_change)
      fix i assume "i \<in> set is"
      with "is" is_owner_eq [OF e] show "\<exists>f. file_by_id i ?d3 = Some f \<and> f_uploader_user_id f = Some u"
        by (auto simp: usable_image_def file_by_id_def unlinked_def)
    next
      fix f assume "catalog_ok ?d3" and "file_checks f"
      moreover from this(1) live(1) p(2) have "0 < pid"
        by (auto simp: catalog_ok_def ids_ok_def)
      ultimately show "file_checks (?g f)" by (simp add: file_checks_def OWNER_TYPES_def)
    qed simp
    moreover have "?d3\<lparr>files := update_where (\<lambda>f. f_id f \<in> set is) ?g (files ?d3)\<rparr> = d'"
      unfolding d' linked_def by simp
    ultimately show ?thesis using un by (metis writes_step)
  qed (use un in simp)
qed

lemma writes_sync_option:
  assumes "int8_ok e" and "p \<in> set (products d)" "p_id p = pid" "p_owner_id p = u"
    and "(case ids of None \<Rightarrow> ret () | Some is \<Rightarrow> if b is then syncProductImages e u pid is else ret ()) d = (r, d')"
  shows "writes (Member u) d d'"
  using assms(5) writes_sync [OF assms(1) _ assms(2-4)] by (auto split: option.splits if_splits)

text \<open>The answer of a product operation only reads.\<close>

lemma writes_answer:
  assumes "andThen (fetchProductWithImages e i v) (\<lambda>p. ret (product_response p)) d = (r, d')"
  shows "writes a d d'"
proof -
  have "reads (andThen (fetchProductWithImages e i v) (\<lambda>p. ret (product_response p)))"
    by (intro reads_andThen reads_fetchProduct reads_ret)
  from readsD [OF this assms] show ?thesis by simp
qed

lemma writes_insert_product:
  assumes run: "insert_product u dto d = (r, d')"
    and pair: "pair_ok (js_trim (cd_category dto)) (map_option js_trim (cd_subcategory dto))"
  shows "writes (Member u) d d' \<and> (\<forall>i. r = Inr i \<longrightarrow> (\<exists>p \<in> set (products d'). p_id p = i \<and> p_owner_id p = u))"
proof -
  let ?i = "seqs d T_products + 1" and ?seq = "d\<lparr>seqs := (seqs d)(T_products := seqs d T_products + 1)\<rparr>"
  define p where "p = \<lparr>p_id = ?i, p_owner_id = u, p_category = js_trim (cd_category dto),
    p_subcategory = map_option js_trim (cd_subcategory dto), p_name = cd_name dto,
    p_description = cd_description dto, p_price = round2 (cd_price dto), p_city = cd_city dto,
    p_address_text = cd_addressText dto, p_details = cd_details dto, p_status = Available,
    p_is_negotiable = (case cd_isNegotiable dto of None \<Rightarrow> False | Some b \<Rightarrow> b),
    p_preferred_contact_method = (case cd_preferredContactMethod dto of None \<Rightarrow> ''both'' | Some m \<Rightarrow> m),
    p_created_at = clock d, p_updated_at = clock d, p_deleted_at = None\<rparr>"
  have seq: "writes (Member u) d ?seq" by (rule r_into_rtranclp, rule outside_seq) simp
  show ?thesis
  proof (cases "numeric_12_2 (cd_price dto) \<and> product_checks p \<and> user_exists d u")
    case False
    then have "d' = ?seq" "\<nexists>i. r = Inr i"
      using run by (auto simp: insert_product_def andThen_run unless_run Let_def p_def user_exists_def split: if_splits)
    with seq show ?thesis by blast
  next
    case True
    then have r: "r = Inr ?i" and d': "d' = ?seq\<lparr>products := products d @ [p]\<rparr>"
      using run by (simp_all add: insert_product_def andThen_run unless_run Let_def p_def user_exists_def)
    have "db_write (Member u) d (?seq\<lparr>products := products d @ [p]\<rparr>)"
      by (rule product) (use True pair in \<open>simp_all add: p_def\<close>)
    moreover have "p \<in> set (products d')" "p_id p = ?i" "p_owner_id p = u" unfolding d' by (simp_all add: p_def)
    ultimately show ?thesis using r d' by blast
  qed
qed

lemma writes_createProduct:
  assumes "int8_ok e"
  shows "keeps (writes (Member u) d0) (createProduct e u dto)"
  unfolding createProduct_def
proof (rule writes_transaction [OF keeps_writes seqs_createProduct])
  fix d r d'
  assume "andThen (assertCategoryPair (js_trim (cd_category dto)) (map_option js_trim (cd_subcategory dto)) False) (\<lambda>_.
     andThen (insert_product u dto) (\<lambda>productId.
     andThen (case cd_imageFileIds dto of None \<Rightarrow> ret ()
              | Some ids \<Rightarrow> if length ids > 0 then syncProductImages e u productId ids else ret ()) (\<lambda>_.
     andThen (fetchProductWithImages e productId (Some u)) (\<lambda>product.
     ret (product_response product))))) d = (r, d')"
  then show "writes (Member u) d d'"
  proof (rule writes_andThen)
    fix r d1 assume "assertCategoryPair (js_trim (cd_category dto)) (map_option js_trim (cd_subcategory dto)) False d = (r, d1)"
    then show "writes (Member u) d d1" using readsD [OF reads_assertCategoryPair] by blast
  next
    fix x d1 r d'
    assume "assertCategoryPair (js_trim (cd_category dto)) (map_option js_trim (cd_subcategory dto)) False d = (Inr x, d1)"
    then have pair: "pair_ok (js_trim (cd_category dto)) (map_option js_trim (cd_subcategory dto))"
      by (simp add: assertCategoryPair_Inr)
    assume "andThen (insert_product u dto) (\<lambda>productId.
     andThen (case cd_imageFileIds dto of None \<Rightarrow> ret ()
              | Some ids \<Rightarrow> if length ids > 0 then syncProductImages e u productId ids else ret ()) (\<lambda>_.
     andThen (fetchProductWithImages e productId (Some u)) (\<lambda>product.
     ret (product_response product)))) d1 = (r, d')"
    then show "writes (Member u) d1 d'"
    proof (rule writes_andThen)
      fix i d2 r d'
      assume "insert_product u dto d1 = (Inr i, d2)"
      with writes_insert_product [OF _ pair] obtain p
        where p: "p \<in> set (products d2)" "p_id p = i" "p_owner_id p = u" by blast
      assume "andThen (case cd_imageFileIds dto of None \<Rightarrow> ret ()
              | Some ids \<Rightarrow> if length ids > 0 then syncProductImages e u i ids else ret ()) (\<lambda>_.
         andThen (fetchProductWithImages e i (Some u)) (\<lambda>product. ret (product_response product))) d2 = (r, d')"
      then show "writes (Member u) d2 d'"
        by (rule writes_andThen) (erule writes_sync_option [OF assms p], erule writes_answer)
    qed (use writes_insert_product [OF _ pair] in blast)
  qed
qed

lemma writes_change:
  assumes "p \<in> set (products d)" "p_id p = pid" "p_owner_id p = u"
    and "\<And>q. p_id (f q) = p_id q \<and> p_owner_id (f q) = p_owner_id q"
    and "pair_ok (p_category p) (p_subcategory p) \<and> product_checks p \<longrightarrow>
      pair_ok (p_category (f p)) (p_subcategory (f p)) \<and> product_checks (f p)"
  shows "writes (Member u) d (d\<lparr>products := update_where (\<lambda>q. p_id q = pid) f (products d)\<rparr>)"
  by (rule r_into_rtranclp) (rule product_change [OF assms])

text \<open>After \<open>ownedProduct\<close> the product is there and the caller's.\<close>

lemma writes_owned:
  assumes "int8_ok e" and "andThen (ownedProduct e u pid) k d = (r, d')"
    and "\<And>p r d'. p \<in> set (products d) \<Longrightarrow> p_id p = pid \<Longrightarrow> p_owner_id p = u \<Longrightarrow> k p d = (r, d') \<Longrightarrow>
      writes (Member u) d d'"
  shows "writes (Member u) d d'"
  using assms(2)
proof (rule writes_andThen)
  fix r d1 assume "ownedProduct e u pid d = (r, d1)"
  with readsD [OF reads_ownedProduct] show "writes (Member u) d d1" by blast
next
  fix p d1 r d' assume ow: "ownedProduct e u pid d = (Inr p, d1)" and k: "k p d1 = (r, d')"
  from ownedProduct_Inr [OF ow] is_owner_eq [OF assms(1)] live_product_Some [of pid d p]
  have "d1 = d" "p \<in> set (products d)" "p_id p = pid" "p_owner_id p = u" by blast+
  with assms(3) k show "writes (Member u) d1 d'" by blast
qed

lemma writes_deleteProduct:
  assumes "int8_ok e"
  shows "keeps (writes (Member u) d0) (deleteProduct e u pid)"
  unfolding deleteProduct_def
proof (rule writes_transaction [OF keeps_writes])
  fix d r d' assume "andThen (ownedProduct e u pid) (\<lambda>_.
     andThen (modify (\<lambda>d. d\<lparr>products := update_where (\<lambda>p. p_id p = pid)
       (\<lambda>p. p\<lparr>p_deleted_at := Some (clock d)\<rparr>) (products d)\<rparr>)) (\<lambda>_.
     ret [(''message'', JStr ''Product deleted'')])) d = (r, d')"
  with assms show "writes (Member u) d d'"
  proof (rule writes_owned)
    fix p r d' assume p: "p \<in> set (products d)" "p_id p = pid" "p_owner_id p = u"
      and "andThen (modify (\<lambda>d. d\<lparr>products := update_where (\<lambda>p. p_id p = pid)
       (\<lambda>p. p\<lparr>p_deleted_at := Some (clock d)\<rparr>) (products d)\<rparr>)) (\<lambda>_.
        ret [(''message'', JStr ''Product deleted'')]) d = (r, d')"
    then have d': "d' = d\<lparr>products := update_where (\<lambda>p. p_id p = pid)
       (\<lambda>p. p\<lparr>p_deleted_at := Some (clock d)\<rparr>) (products d)\<rparr>" by simp
    show "writes (Member u) d d'"
      unfolding d' by (rule writes_change [OF p]) (simp_all add: product_checks_def)
  qed
qed (intro keeps_rules product_reads keeps_modify, simp)

lemma writes_updateProductStatus:
  assumes "int8_ok e"
  shows "keeps (writes (Member u) d0) (updateProductStatus e u pid st)"
  unfolding updateProductStatus_def
proof (rule writes_transaction [OF keeps_writes])
  let ?m = "modify (\<lambda>d. d\<lparr>products := update_where (\<lambda>p. p_id p = pid)
       (\<lambda>p. p\<lparr>p_status := st, p_updated_at := clock d\<rparr>) (products d)\<rparr>) :: unit svc"
  let ?k = "\<lambda>_. andThen (gets (\<lambda>d. row_where (\<lambda>p. p_id p = pid) (products d))) (\<lambda>rows.
     ret [(''product'',
       (case rows of
          None \<Rightarrow> JUndef
        | Some p \<Rightarrow> JObj [(''id'', int8_parse e (p_id p)), (''status'', JStr (product_status_text (p_status p))),
                          (''updated_at'', JStr (ts_text e (p_updated_at p)))]))])"
  fix d r d' assume "andThen (ownedProduct e u pid) (\<lambda>_. andThen ?m ?k) d = (r, d')"
  with assms show "writes (Member u) d d'"
  proof (rule writes_owned)
    fix p r d' assume p: "p \<in> set (products d)" "p_id p = pid" "p_owner_id p = u" and "andThen ?m ?k d = (r, d')"
    then have d': "d' = d\<lparr>products := update_where (\<lambda>p. p_id p = pid)
       (\<lambda>p. p\<lparr>p_status := st, p_updated_at := clock d\<rparr>) (products d)\<rparr>" by simp
    show "writes (Member u) d d'"
      unfolding d' by (rule writes_change [OF p]) (simp_all add: product_checks_def)
  qed
qed (intro keeps_rules product_reads keeps_modify, simp)

lemma writes_update_row:
  assumes run: "update_product_row dto pid q d = (r, d')"
    and p: "p \<in> set (products d)" "p_id p = pid" "p_owner_id p = u" and q: "q = p"
    and pair: "pair_ok (p_category (patched dto (clock d) p)) (p_subcategory (patched dto (clock d) p))"
  shows "writes (Member u) d d' \<and> (\<forall>v. r = Inr v \<longrightarrow> (\<exists>p \<in> set (products d'). p_id p = pid \<and> p_owner_id p = u))"
proof (cases "(case ud_price dto of None \<Rightarrow> True | Some r \<Rightarrow> numeric_12_2 r) \<and> product_checks (patched dto (clock d) p)")
  case False
  then have "d' = d" "\<nexists>v. r = Inr v"
    using run q by (auto simp: update_product_row_def andThen_run unless_run split: if_splits)
  then show ?thesis by blast
next
  case True
  then have d': "d' = d\<lparr>products := update_where (\<lambda>p. p_id p = pid) (patched dto (clock d)) (products d)\<rparr>"
    using run q by (simp add: update_product_row_def andThen_run unless_run)
  have "writes (Member u) d d'"
    unfolding d' by (rule writes_change [OF p]) (use True pair in \<open>simp_all add: patched_def\<close>)
  moreover have "patched dto (clock d) p \<in> set (products d')"
    unfolding d' using p(1,2) by (auto simp: set_update_where image_iff)
  then have "\<exists>p \<in> set (products d'). p_id p = pid \<and> p_owner_id p = u"
    by (rule bexI [rotated]) (use p in \<open>simp add: patched_def\<close>)
  ultimately show ?thesis by blast
qed

lemma writes_updateProduct:
  assumes "int8_ok e"
  shows "keeps (writes (Member u) d0) (updateProduct e u pid dto)"
  unfolding updateProduct_def Let_def
proof (rule writes_transaction [OF keeps_writes])
  let ?a = "\<lambda>p. assertCategoryPair (or_old (map_option js_trim (ud_category dto)) (p_category p))
      (if ud_owns_subcategory dto then map_option js_trim (ud_subcategory dto) else p_subcategory p) False"
  let ?img = "case ud_imageFileIds dto of None \<Rightarrow> ret () | Some ids \<Rightarrow> syncProductImages e u pid ids"
  let ?ans = "andThen (fetchProductWithImages e pid (Some u)) (\<lambda>product. ret (product_response product))"
  fix d r d'
  assume "andThen (ownedProduct e u pid) (\<lambda>p. andThen (?a p) (\<lambda>_. andThen (update_product_row dto pid p) (\<lambda>_.
     andThen ?img (\<lambda>_. ?ans)))) d = (r, d')"
  with assms show "writes (Member u) d d'"
  proof (rule writes_owned)
    fix p r d' assume p: "p \<in> set (products d)" "p_id p = pid" "p_owner_id p = u"
      and "andThen (?a p) (\<lambda>_. andThen (update_product_row dto pid p) (\<lambda>_. andThen ?img (\<lambda>_. ?ans))) d = (r, d')"
    from this(4) show "writes (Member u) d d'"
    proof (rule writes_andThen)
      fix r d1 assume "?a p d = (r, d1)"
      then show "writes (Member u) d d1" using readsD [OF reads_assertCategoryPair] by blast
    next
      fix x d1 r d' assume "?a p d = (Inr x, d1)"
      then have d1: "d1 = d" and pair: "pair_ok (p_category (patched dto (clock d1) p)) (p_subcategory (patched dto (clock d1) p))"
        by (simp_all add: assertCategoryPair_Inr patched_def)
      note row = writes_update_row [OF _ p [folded d1] refl pair]
      assume "andThen (update_product_row dto pid p) (\<lambda>_. andThen ?img (\<lambda>_. ?ans)) d1 = (r, d')"
      then show "writes (Member u) d1 d'"
      proof (rule writes_andThen)
        fix x d2 r d' assume "update_product_row dto pid p d1 = (Inr x, d2)"
        with row obtain q where q: "q \<in> set (products d2)" "p_id q = pid" "p_owner_id q = u" by blast
        assume "andThen ?img (\<lambda>_. ?ans) d2 = (r, d')"
        then show "writes (Member u) d2 d'"
        proof (rule writes_andThen)
          fix r d3 assume "?img d2 = (r, d3)"
          then show "writes (Member u) d2 d3" using writes_sync [OF assms _ q] by (auto split: option.splits)
        qed (erule writes_answer)
      qed (use row in blast)
    qed
  qed
qed (intro keeps_rules product_reads seqs_update_row seqs_sync)

section \<open>Conversations\<close>

lemma writes_insert_conversation:
  assumes "u = a \<or> u = b"
  shows "keeps (writes (Member u) d0) (insert_conversation a b p)"
proof (rule keeps_writes)
  fix d r d' assume run: "insert_conversation a b p d = (r, d')"
  let ?seq = "d\<lparr>seqs := (seqs d)(T_conversations := seqs d T_conversations + 1)\<rparr>"
  let ?c = "\<lparr>cv_id = seqs d T_conversations + 1, cv_user_a_id = a, cv_user_b_id = b, cv_product_id = p,
    cv_last_message_id = None, cv_created_at = clock d\<rparr>"
  show "writes (Member u) d d'"
  proof (cases "a < b \<and> (a, b) \<notin> cv_pair ` set (conversations d) \<and> user_exists d a \<and> user_exists d b \<and>
      d' = ?seq\<lparr>conversations := conversations d @ [?c]\<rparr>")
    case True
    have "db_write (Member u) d (?seq\<lparr>conversations := conversations d @ [?c]\<rparr>)"
      by (rule conversation) (use True assms in \<open>auto simp: in_conversation_def cv_pair_def\<close>)
    with True show ?thesis by blast
  next
    case False
    then have "d' = ?seq" using run by (auto simp: insert_conversation_run Let_def split: if_splits)
    moreover have "writes (Member u) d ?seq" by (rule r_into_rtranclp, rule outside_seq) simp
    ultimately show ?thesis by simp
  qed
qed

lemma writes_about:
  assumes "row_where (\<lambda>c. cv_user_a_id c = a \<and> cv_user_b_id c = b) (conversations d) = Some c" and "u = a \<or> u = b"
  shows "writes (Member u) d (d\<lparr>conversations :=
    update_where (\<lambda>r. cv_id r = cv_id c) (\<lambda>r. r\<lparr>cv_product_id := q\<rparr>) (conversations d)\<rparr>)"
  by (rule r_into_rtranclp) (rule conversation_about,
    use row_where_Some [OF assms(1)] assms(2) in \<open>auto simp: in_conversation_def\<close>)

lemma writes_existing_or_new:
  assumes "u = a \<or> u = b"
  shows "keeps (writes (Member u) d0) (existing_or_new e u a b q)"
proof (rule keeps_writes)
  fix d r d' assume run: "existing_or_new e u a b q d = (r, d')"
  let ?row = "row_where (\<lambda>c. cv_user_a_id c = a \<and> cv_user_b_id c = b) (conversations d)"
  show "writes (Member u) d d'"
  proof (cases ?row)
    case None
    let ?m = "andThen (tryCatch (insert_conversation a b q)
                    (\<lambda>error. if isForeignKeyViolation error
                             then throw (NotFound ''Participant or product not found'')
                             else throw error)) (getConversationById e u)"
    have k: "keeps (writes (Member u) d) ?m"
      by (intro keeps_rules writes_insert_conversation [OF assms] reading)
    have "?m d = (r, d')" using run None by (simp add: existing_or_new_def)
    from keepsD [OF k rtranclp.rtrancl_refl this] show ?thesis .
  next
    case (Some c)
    let ?d = "if q \<noteq> None \<and> \<not> truthy (jopt (int8_parse e) (cv_product_id c)) then d\<lparr>conversations :=
      update_where (\<lambda>r. cv_id r = cv_id c) (\<lambda>r. r\<lparr>cv_product_id := q\<rparr>) (conversations d)\<rparr> else d"
    have "getConversationById e u (cv_id c) ?d = (r, d')"
      using run Some by (auto simp: existing_or_new_def split: if_splits)
    with readsD [OF reads_getConversationById] have "d' = ?d" by blast
    with writes_about [OF Some assms] show ?thesis by simp
  qed
qed

lemma writes_conversation: "keeps (writes (Member u) d0) (getOrCreateConversation e u v p)"
  unfolding getOrCreateConversation_def
  by (intro keeps_rules writes_existing_or_new reads_validated_product [THEN reads_keeps])
    (simp add: min_def max_def)

section \<open>Administration\<close>

lemma writes_log: "keeps (writes (Administrator u) d0) (logAdminAction u act ty v kvs)"
proof -
  have "keeps (writes (Administrator u) d0) (insert_audit u act ty i kvs)" for i
    unfolding insert_audit_def
  proof (intro keeps_andThen writes_nextval keeps_writes)
    fix k r and d d' :: db
    assume "(if \<not> user_exists d u then (Inl (PgErr FK_VIOLATION), d)
      else (Inr (), d\<lparr>admin_audit_logs := admin_audit_logs d @
        [\<lparr>al_id = k, al_actor_id = u, al_action = act, al_target_type = ty, al_target_id = Some i,
          al_payload = kvs, al_created_at = clock d\<rparr>]\<rparr>)) = (r, d')"
    then show "writes (Administrator u) d d'"
      by (auto split: if_splits intro!: audit r_into_rtranclp)
  qed
  then show ?thesis unfolding logAdminAction_def by (intro keeps_rules)
qed

lemma writes_update_live:
  assumes "\<And>t r. u_id (f t r) = u_id r \<and> u_phone (f t r) = u_phone r"
  shows "keeps (writes (Administrator u) d0) (update_live_user i f)"
  by (rule keeps_writes) (auto simp: update_live_user_def intro!: r_into_rtranclp admin_account assms)

lemma writes_promote: "keeps (writes (Administrator u) d0) (promoteAdmin e u i)"
  unfolding promoteAdmin_def returned_admin_def
  by (intro keeps_rules writes_log writes_update_live) (simp add: set_admin_def)

lemma writes_demote: "keeps (writes (Administrator u) d0) (demoteAdmin e u i)"
  unfolding demoteAdmin_def returned_admin_def
  by (intro keeps_rules writes_log writes_update_live) (simp add: set_admin_def)

lemma writes_status: "keeps (writes (Administrator u) d0) (updateUserStatus e u i st)"
  unfolding updateUserStatus_def
  by (intro keeps_rules writes_log writes_redis_del writes_update_live) simp

lemma writes_deleteUser: "keeps (writes (Administrator u) d0) (deleteUser e u i)"
  unfolding deleteUser_def
  by (intro keeps_rules writes_log writes_redis_del writes_update_live) (simp add: soft_delete_def)

lemma writes_createWarning: "keeps (writes (Administrator u) d0) (createWarning e u i msg)"
proof -
  have "keeps (writes (Administrator u) d0) (insert_warning u i msg)"
    unfolding insert_warning_def
  proof (intro keeps_andThen writes_nextval keeps_writes)
    fix k r and d d' :: db
    assume "(if \<not> user_exists d u \<or> \<not> user_exists d i then (Inl (PgErr FK_VIOLATION), d)
      else let w = \<lparr>w_id = k, w_admin_id = Some u, w_target_user_id = Some i, w_message = msg, w_created_at = clock d\<rparr>
           in (Inr w, d\<lparr>admin_warnings := admin_warnings d @ [w]\<rparr>)) = (r, d')"
    then show "writes (Administrator u) d d'"
      by (auto simp: Let_def split: if_splits intro!: warning r_into_rtranclp)
  qed
  then show ?thesis unfolding createWarning_def by (intro keeps_rules writes_log)
qed

lemma writes_updateReportStatus: "keeps (writes (Administrator u) d0) (updateReportStatus e u i st)"
  unfolding updateReportStatus_def
  by (intro keeps_rules writes_log writes_modify review)

lemma writes_insert_category: "keeps (writes (Administrator u) d0) (insert_category name parent)"
proof (rule keeps_writes)
  fix d r d' assume run: "insert_category name parent d = (r, d')"
  let ?i = "seqs d T_categories + 1" and ?seq = "d\<lparr>seqs := (seqs d)(T_categories := seqs d T_categories + 1)\<rparr>"
  let ?c = "\<lparr>c_id = ?i, c_parent_id = parent, c_name = name, c_created_at = clock d\<rparr>"
  show "writes (Administrator u) d d'"
  proof (cases "sibling_key ?c \<notin> sibling_key ` set (categories d) \<and>
      (case parent of None \<Rightarrow> True | Some p \<Rightarrow> category_exists p d) \<and> d' = ?seq\<lparr>categories := categories d @ [?c]\<rparr>")
    case True
    have "db_write (Administrator u) d (?seq\<lparr>categories := categories d @ [?c]\<rparr>)"
      by (rule category) (use True in auto)
    with True show ?thesis by blast
  next
    case False
    then have "d' = ?seq"
      using run by (auto simp: insert_category_run Let_def image_iff split: if_splits option.splits)
    moreover have "writes (Administrator u) d ?seq" by (rule r_into_rtranclp, rule outside_seq) simp
    ultimately show ?thesis by simp
  qed
qed

lemma writes_delete_category: "keeps (writes (Administrator u) d0) (delete_category_row i)"
proof (rule keeps_writes)
  fix d r d' assume "delete_category_row i d = (r, d')"
  then show "writes (Administrator u) d d'"
    by (auto simp: delete_category_row_def list_ex_iff split: option.splits if_splits
        intro!: category_gone r_into_rtranclp)
qed

lemma writes_categories:
  "keeps (writes (Administrator u) d0) (admin_createCategory e u name parent)"
  "keeps (writes (Administrator u) d0) (admin_deleteCategory e u i)"
  unfolding admin_createCategory_def admin_deleteCategory_def createCategory_def deleteCategory_def
  by (intro keeps_rules writes_log writes_insert_category writes_delete_category)+

lemmas administrator_writes = writes_promote writes_demote writes_status writes_deleteUser writes_createWarning writes_updateReportStatus writes_categories

end
