(* ===== verification/CallWrites.thy ===== *)
theory CallWrites
  imports ServiceWrites GatewayProps
begin

text \<open>
  Any HTTP call as the writes of one actor: what the guards let through, and every controller. A call
  that is refused by the throttler, a guard or the validation pipe writes nothing.
\<close>

section \<open>Guards\<close>

lemma reads_bearer: "reads (bearer e tok)"
  unfolding bearer_def authenticate_def reads_def
  by (simp add: jwt_validate_run andThen_run split: option.splits)

lemma reads_adminGuard: "reads (adminGuard v)"
  unfolding adminGuard_def reads_def by (simp add: andThen_run unless_run split: option.splits)

lemma reads_authorize: "reads (authorize e guard tok)"
proof (cases guard)
  case OptionalJwt
  then show ?thesis
    using reads_bearer [of e tok] by (auto simp: reads_def authorize_def split: prod.splits) (metis snd_conv)
qed (simp_all add: authorize_def reads_andThen reads_bearer reads_adminGuard)

text \<open>What a call runs: nothing but its answer, or its controller for the user the guard let through.\<close>

lemma handle_call_run:
  "handle_call e c g =
     (if \<not> shouldSkip (cfg e) \<and> hc_over_limit c then (Inl (HttpExn 429 ''ThrottlerException: Too Many Requests'' []), g)
      else case fst (authorize e (guard_of (hc_request c)) (hc_token c) (gw_db g)) of
             Inl x \<Rightarrow> (Inl x, g)
           | Inr user \<Rightarrow>
               if hc_converts c \<and> dto_ok (hc_request c) then controller e user (hc_request c) g
               else (Inl (BadRequest ''Bad Request Exception''), g))"
  using reads_authorize [of e "guard_of (hc_request c)" "hc_token c"]
  by (auto simp: handle_call_def andThen_run unless_run on_db_reads split: sum.splits)

text \<open>On whose behalf a call writes.\<close>

definition call_actor :: "env \<Rightarrow> http_call \<Rightarrow> db \<Rightarrow> actor" where
  "call_actor e c d =
     (case fst (authorize e (guard_of (hc_request c)) (hc_token c) d) of
        Inr (Some u) \<Rightarrow>
          (if guard_of (hc_request c) = JwtAdmin then Administrator (au_sub u) else Member (au_sub u))
      | _ \<Rightarrow> Anyone)"

text \<open>A request whose route does not tell the user can only read, or belongs to no one.\<close>

definition user_for :: "api_request \<Rightarrow> auth_user option \<Rightarrow> bool" where
  "user_for req user \<longleftrightarrow>
     (case guard_of req of Public \<Rightarrow> user = None | OptionalJwt \<Rightarrow> True | _ \<Rightarrow> user \<noteq> None)"

definition actor_for :: "api_request \<Rightarrow> auth_user option \<Rightarrow> actor" where
  "actor_for req user =
     (case user of None \<Rightarrow> Anyone
      | Some u \<Rightarrow> if guard_of req = JwtAdmin then Administrator (au_sub u) else Member (au_sub u))"

lemma authorize_user_for:
  "fst (authorize e (guard_of req) tok d) = Inr user \<Longrightarrow> user_for req user"
  by (cases "guard_of req") (auto simp: authorize_def user_for_def andThen_run split: prod.splits sum.splits)

lemma keeps_object: "keeps I m \<Longrightarrow> keeps I (object m)"
  unfolding object_def by (intro keeps_rules)

lemma keeps_with_user: "(\<And>u. user = Some u \<Longrightarrow> keeps I (f u)) \<Longrightarrow> keeps I (with_user user f)"
  unfolding with_user_def by (intro keeps_rules)

section \<open>Every controller\<close>

lemma writes_users_controller:
  "user_for (UsersApi r) user \<Longrightarrow> keeps (writes (actor_for (UsersApi r) user) d0) (users_controller e user r)"
  by (cases r) (auto simp: actor_for_def user_for_def intro!: keeps_with_user keeps_object writes_users reading)

lemma writes_products_controller:
  assumes "int8_ok e"
  shows "user_for (ProductsApi r) user \<Longrightarrow>
    keeps (writes (actor_for (ProductsApi r) user) d0) (products_controller e user r)"
  by (cases r) (auto simp: actor_for_def user_for_def intro!: keeps_with_user keeps_object reading
      writes_createProduct [OF assms] writes_updateProduct [OF assms] writes_deleteProduct [OF assms]
      writes_updateProductStatus [OF assms])

lemma reading_controllers:
  "keeps I (public_users_controller e user r)" "keeps I (categories_controller e c)"
  by (cases r; cases c; simp add: keeps_object reading)+

lemma writes_social_controllers:
  "user_for (BlocksApi b) user \<Longrightarrow> keeps (writes (actor_for (BlocksApi b) user) d0) (blocks_controller e user b)"
  "user_for (FavoritesApi f) user \<Longrightarrow> keeps (writes (actor_for (FavoritesApi f) user) d0) (favorites_controller e user f)"
  "user_for (RatingsApi r) user \<Longrightarrow> keeps (writes (actor_for (RatingsApi r) user) d0) (ratings_controller e user r)"
  "user_for (ReportsApi q) user \<Longrightarrow> keeps (writes (actor_for (ReportsApi q) user) d0) (reports_controller e user q)"
  by (cases b; cases f; cases r; cases q; auto simp: actor_for_def user_for_def
      intro!: keeps_with_user keeps_object reading writes_blocks writes_favorites writes_social)+

lemma writes_files_controller:
  assumes "int8_ok e"
  shows "user_for (FilesApi r) user \<Longrightarrow> keeps (writes (actor_for (FilesApi r) user) d0) (files_controller e user r)"
  by (cases r) (auto simp: actor_for_def user_for_def intro!: keeps_with_user keeps_object reading writes_files [OF assms])

lemma writes_admin_controller:
  "user_for (AdminApi r) user \<Longrightarrow> keeps (writes (actor_for (AdminApi r) user) d0) (admin_controller e user r)"
  by (cases r) (auto simp: actor_for_def user_for_def intro!: keeps_with_user keeps_object reading administrator_writes)

lemma writes_auth_request:
  "user_for (AuthApi r) user \<Longrightarrow> keeps (writes (actor_for (AuthApi r) user) d0) (auth_controller e r)"
  "user_for (AkedlyApi q) user \<Longrightarrow> keeps (writes (actor_for (AkedlyApi q) user) d0) (akedly_controller e q)"
  using writes_auth_controller [where r = r] writes_akedly_controller [where q = q]
  by (cases r; cases q; auto simp: actor_for_def user_for_def intro!: keeps_object writes_logout)+

text \<open>What an action of the server does to the database alone.\<close>

lemma keeps_db_on_db: "keeps I m \<Longrightarrow> keeps (\<lambda>g. I (gw_db g)) (on_db m)"
  by (simp add: keeps_def on_db_run)

lemma keeps_db_emitJoined: "keeps (\<lambda>g. I (gw_db g)) (emitConversationJoinedToParticipants i us v)"
  unfolding emitConversationJoinedToParticipants_def Let_def join_def emit_to_room_def
  by (intro keeps_rules keeps_modify) auto

lemma writes_createConversation: "keeps (\<lambda>g. writes (Member u) d0 (gw_db g)) (createConversation e u v p)"
proof -
  have "keeps (\<lambda>g. writes (Member u) d0 (gw_db g))
      (case js_Number x of JNum r \<Rightarrow> (if is_integer r \<and> r > 0 then
           andThen (on_db (getConversationParticipants e \<lfloor>r\<rfloor>)) (\<lambda>participants.
           andThen (on_db (buildConversationJoinedPayload e response)) (\<lambda>payload.
           emitConversationJoinedToParticipants \<lfloor>r\<rfloor> [jint (fst participants), jint (snd participants)] payload))
         else ret ()) | _ \<Rightarrow> ret ())" for x response
    by (auto split: json.split intro!: keeps_rules keeps_db_on_db keeps_db_emitJoined
        reads_payload [THEN reads_keeps] reads_getConversationParticipants [THEN reads_keeps])
  then show ?thesis
    unfolding createConversation_def by (intro keeps_rules keeps_db_on_db writes_conversation)
qed

lemma writes_chat_controller:
  "user_for (ChatApi r) user \<Longrightarrow>
   keeps (\<lambda>g. writes (actor_for (ChatApi r) user) d0 (gw_db g)) (chat_controller e user r)"
  by (cases r) (auto simp: actor_for_def user_for_def
      intro!: keeps_with_user keeps_db_on_db keeps_object reading keeps_andThen writes_createConversation keeps_ret)

lemma keeps_health: "keeps I (health_controller r)"
  by (simp add: health_controller_def keeps_ret)

lemma writes_controller:
  assumes "int8_ok e" and "user_for req user"
  shows "keeps (\<lambda>g. writes (actor_for req user) d0 (gw_db g)) (controller e user req)"
  using assms(2)
  by (cases req)
    (auto intro!: keeps_db_on_db writes_auth_request writes_users_controller reading_controllers writes_products_controller [OF assms(1)]
      writes_social_controllers writes_files_controller [OF assms(1)] writes_chat_controller writes_admin_controller keeps_health)

lemma call_writes:
  assumes "int8_ok e" and "handle_call e c g = (r, g')"
  shows "writes (call_actor e c (gw_db g)) (gw_db g) (gw_db g')"
proof (cases "fst (authorize e (guard_of (hc_request c)) (hc_token c) (gw_db g))")
  case (Inl x)
  with assms(2) show ?thesis by (auto simp: handle_call_run split: if_splits)
next
  case (Inr user)
  have actor: "call_actor e c (gw_db g) = actor_for (hc_request c) user"
    by (simp add: call_actor_def actor_for_def Inr)
  show ?thesis
  proof (cases "g' = g")
    case False
    then have "controller e user (hc_request c) g = (r, g')"
      using assms(2) Inr by (auto simp: handle_call_run split: if_splits)
    then show ?thesis
      unfolding actor using keepsD [OF writes_controller [OF assms(1) authorize_user_for [OF Inr]]] by blast
  qed simp
qed

end
