(* ===== verification/StoreInvariant.thy ===== *)
theory StoreInvariant
  imports CallWrites
begin

text \<open>
  \<open>store_ok\<close>: accounts, catalogue, chat, categories, ratings, blocks and files are well formed. Each part
  survives every write of every actor, and so every HTTP call; so do the conversations and their members.
\<close>

definition store_ok :: "db \<Rightarrow> bool" where
  "store_ok d \<longleftrightarrow> accounts_ok d \<and> catalog_ok d \<and> chat_ok d \<and> categories_ok d \<and> ratings_ok d \<and>
     blocks_ok d \<and> files_ok d"

section \<open>What the one-time passwords leave\<close>

lemma otp_frame_rest:
  assumes "otp_frame d d'"
  shows "products d' = products d" "product_images d' = product_images d" "files d' = files d"
    "categories d' = categories d" "conversations d' = conversations d" "messages d' = messages d"
    "user_ratings d' = user_ratings d" "user_favorites d' = user_favorites d" "user_blocks d' = user_blocks d"
    "user_reports d' = user_reports d" "admin_warnings d' = admin_warnings d"
    "admin_audit_logs d' = admin_audit_logs d"
proof -
  have q: "otp_erased d' = otp_erased d" using assms by (simp add: otp_frame_def)
  show "products d' = products d" using arg_cong [OF q, of products] by (simp add: otp_erased_def)
  show "product_images d' = product_images d" using arg_cong [OF q, of product_images] by (simp add: otp_erased_def)
  show "files d' = files d" using arg_cong [OF q, of files] by (simp add: otp_erased_def)
  show "categories d' = categories d" using arg_cong [OF q, of categories] by (simp add: otp_erased_def)
  show "conversations d' = conversations d" using arg_cong [OF q, of conversations] by (simp add: otp_erased_def)
  show "messages d' = messages d" using arg_cong [OF q, of messages] by (simp add: otp_erased_def)
  show "user_ratings d' = user_ratings d" using arg_cong [OF q, of user_ratings] by (simp add: otp_erased_def)
  show "user_favorites d' = user_favorites d" using arg_cong [OF q, of user_favorites] by (simp add: otp_erased_def)
  show "user_blocks d' = user_blocks d" using arg_cong [OF q, of user_blocks] by (simp add: otp_erased_def)
  show "user_reports d' = user_reports d" using arg_cong [OF q, of user_reports] by (simp add: otp_erased_def)
  show "admin_warnings d' = admin_warnings d" using arg_cong [OF q, of admin_warnings] by (simp add: otp_erased_def)
  show "admin_audit_logs d' = admin_audit_logs d"
    using arg_cong [OF q, of admin_audit_logs] by (simp add: otp_erased_def)
qed

lemma otp_frame_seqs: "otp_frame d d' \<Longrightarrow> seqs d t \<le> seqs d' t"
  using otp_frame_tables(7) by (auto simp: le_fun_def)

section \<open>Parts that depend on few tables\<close>

text \<open>A part survives when its tables stay and its sequences do not go back.\<close>

lemma accounts_same:
  "accounts_ok d \<Longrightarrow> users d' = users d \<Longrightarrow> seqs d T_users \<le> seqs d' T_users \<Longrightarrow> accounts_ok d'"
  by (auto simp: accounts_ok_def intro: ids_ok_mono)

lemma catalog_same:
  "catalog_ok d \<Longrightarrow> products d' = products d \<Longrightarrow> seqs d T_products \<le> seqs d' T_products \<Longrightarrow> catalog_ok d'"
  by (auto simp: catalog_ok_def intro: ids_ok_mono)

lemma files_same:
  "files_ok d \<Longrightarrow> files d' = files d \<Longrightarrow> seqs d T_files \<le> seqs d' T_files \<Longrightarrow> files_ok d'"
  by (auto simp: files_ok_def intro: ids_ok_mono)

lemma categories_same:
  assumes "categories_ok d" and "categories d' = categories d" and "seqs d T_categories \<le> seqs d' T_categories"
  shows "categories_ok d'"
proof -
  have "category_exists i d' = category_exists i d" for i using assms(2) by (simp add: category_exists_def)
  with assms show ?thesis by (simp add: categories_ok_def cong: option.case_cong) (blast intro: ids_ok_mono)
qed

lemma chat_same:
  assumes "chat_ok d" and "conversations d' = conversations d" and "messages d' = messages d"
    and "seqs d T_conversations \<le> seqs d' T_conversations" and "seqs d T_messages \<le> seqs d' T_messages"
    and "\<And>i. user_exists d i \<Longrightarrow> user_exists d' i" and "\<forall>u \<in> set (users d'). 0 < u_id u"
  shows "chat_ok d'"
proof -
  have "message_ok d' m = message_ok d m" "last_ok d' c = last_ok d c" for m c
    using assms(2,3) by (simp_all add: message_ok_def last_ok_def)
  with assms show ?thesis by (auto simp: chat_ok_def intro: ids_ok_mono)
qed

section \<open>Every write keeps every part\<close>

lemma accounts_write:
  assumes "db_write a d d'" and ok: "accounts_ok d"
  shows "accounts_ok d'"
  using assms(1)
proof cases
  case (codes)
  with ok otp_frame_tables(1) otp_frame_seqs show ?thesis by (blast intro: accounts_same)
next
  case (account r)
  with ok show ?thesis by (auto simp: accounts_ok_def ids_ok_append)
qed (use ok in \<open>auto simp: le_fun_def intro: accounts_same accounts_ok_update\<close>)

lemma catalog_write:
  assumes "db_write a d d'" and ok: "catalog_ok d"
  shows "catalog_ok d'"
  using assms(1)
proof cases
  case (codes)
  with ok otp_frame_rest(1) otp_frame_seqs show ?thesis by (blast intro: catalog_same)
next
  case (product p u)
  with ok show ?thesis by (auto simp: catalog_ok_def ids_ok_append)
next
  case (product_change p i u f)
  have "q = p" if "q \<in> set (products d)" "p_id q = i" for q
    using ok that product_change(3,4) unfolding catalog_ok_def ids_ok_def distinct_map inj_on_def by blast
  moreover have "pair_ok (p_category (f p)) (p_subcategory (f p)) \<and> product_checks (f p)"
    using ok product_change(3,7) by (simp add: catalog_ok_def)
  ultimately have "\<forall>q \<in> set (products d). p_id q = i \<longrightarrow>
      pair_ok (p_category (f q)) (p_subcategory (f q)) \<and> product_checks (f q)" by blast
  moreover have "ids_ok p_id (update_where (\<lambda>q. p_id q = i) f (products d)) (seqs d T_products)"
    using ok product_change(6) by (intro ids_ok_update) (simp_all add: catalog_ok_def)
  ultimately show ?thesis using ok unfolding product_change(2) by (simp add: catalog_ok_def)
qed (use ok in \<open>auto simp: le_fun_def intro: catalog_same\<close>)

lemma files_write:
  assumes "db_write a d d'" and ok: "files_ok d" and "catalog_ok d" and acc: "accounts_ok d"
  shows "files_ok d'"
  using assms(1)
proof cases
  case (codes)
  with ok otp_frame_rest(3) otp_frame_seqs show ?thesis by (blast intro: files_same)
next
  case (upload f u)
  then have "0 < u" using accounts_ok_pos [OF acc] by (auto simp: user_exists_def list_ex_iff)
  with ok upload show ?thesis by (auto simp: files_ok_def ids_ok_append)
next
  case (file_change "is" u g)
  with ok assms(3) show ?thesis by (auto simp: files_ok_def ids_ok_update)
qed (use ok in \<open>auto simp: le_fun_def intro: files_same\<close>)

lemma ratings_write:
  assumes "db_write a d d'" and ok: "ratings_ok d"
  shows "ratings_ok d'"
  using assms(1)
proof cases
  case (codes)
  with ok otp_frame_rest(7) show ?thesis by (simp add: ratings_ok_def)
next
  case (rating_change f u v)
  with ok show ?thesis by (simp add: ratings_ok_def map_update_where)
qed (use ok in \<open>auto simp: ratings_ok_def\<close>)

lemma blocks_write:
  assumes "db_write a d d'" and ok: "blocks_ok d"
  shows "blocks_ok d'"
  using assms(1)
proof cases
  case (codes)
  with ok otp_frame_rest(9) show ?thesis by (simp add: blocks_ok_def)
next
  case (unblock u v)
  with ok show ?thesis by (simp add: blocks_ok_def distinct_delete_where)
qed (use ok in \<open>auto simp: blocks_ok_def\<close>)

lemma categories_write:
  assumes "db_write a d d'" and ok: "categories_ok d"
  shows "categories_ok d'"
  using assms(1)
proof cases
  case (codes)
  with ok otp_frame_rest(4) otp_frame_seqs show ?thesis by (blast intro: categories_same)
next
  case (category c u)
  have ids: "ids_ok c_id (categories d) (seqs d T_categories)" using ok by (simp add: categories_ok_def)
  have below: "i < c_id c" if "category_exists i d" for i
    using that ids category(3) by (fastforce simp: category_exists_def list_ex_iff ids_ok_def)
  have mono: "category_exists i d \<Longrightarrow> category_exists i d'" for i
    unfolding category(2) by (auto simp: category_exists_def)
  have "case c_parent_id x of None \<Rightarrow> True | Some p \<Rightarrow> category_exists p d' \<and> p < c_id x"
    if "x \<in> set (categories d')" for x
    using that ok mono below category(5) unfolding category(2)
    by (auto simp: categories_ok_def split: option.splits)
  moreover have "ids_ok c_id (categories d') (seqs d' T_categories)"
    unfolding category(2) using ids category(3) by (simp add: ids_ok_append)
  moreover have "distinct (map sibling_key (categories d'))"
    unfolding category(2) using ok category(4) by (simp add: categories_ok_def)
  ultimately show ?thesis by (simp add: categories_ok_def)
next
  case (category_gone i u)
  have keep: "category_exists p d'" if "category_exists p d" "p \<noteq> i" for p
    unfolding category_gone(2) using that by (auto simp: category_exists_def list_ex_iff)
  have "case c_parent_id x of None \<Rightarrow> True | Some p \<Rightarrow> category_exists p d' \<and> p < c_id x"
    if "x \<in> set (categories d')" for x
    using that ok category_gone(3) keep unfolding category_gone(2)
    by (fastforce simp: categories_ok_def split: option.splits)
  with ok show ?thesis
    unfolding category_gone(2) by (simp add: categories_ok_def ids_ok_delete distinct_delete_where)
qed (use ok in \<open>auto simp: le_fun_def intro: categories_same\<close>)

text \<open>Accounts are never removed.\<close>

lemma user_exists_write:
  assumes "db_write a d d'" and "user_exists d i"
  shows "user_exists d' i"
  using assms(1)
proof cases
  case (codes)
  with assms(2) otp_frame_tables(1) show ?thesis by (simp add: user_exists_def)
qed (use assms(2) in \<open>auto simp: user_exists_def list_ex_update_where\<close>)

lemma chat_write:
  assumes w: "db_write a d d'" and ok: "chat_ok d" and "accounts_ok d" and acc: "accounts_ok d'"
  shows "chat_ok d'"
proof -
  have pos: "\<forall>u \<in> set (users d'). 0 < u_id u" using accounts_ok_pos [OF acc] by blast
  note same = chat_same [OF ok _ _ _ _ user_exists_write [OF w] pos]
  show ?thesis
    using w
  proof cases
    case (codes)
    with same otp_frame_rest(5,6) otp_frame_seqs show ?thesis by blast
  next
    case (conversation c u)
    let ?seq = "d\<lparr>seqs := (seqs d)(T_conversations := seqs d T_conversations + 1)\<rparr>"
    have "0 < cv_user_a_id c" using user_exists_pos [OF ok conversation(7)] .
    moreover have "last_ok d' c" using conversation(9) by (simp add: last_ok_def)
    moreover have "last_ok d' x" if "last_ok d x" for x using that unfolding conversation(2) by (simp add: last_ok_def)
    moreover have "message_ok d' m" if "message_ok d m" for m
      using that unfolding conversation(2) by (auto simp: message_ok_def)
    moreover have "user_exists d' i = user_exists d i" for i unfolding conversation(2) by (simp add: user_exists_def)
    moreover have "ids_ok cv_id (conversations d @ [c]) (seqs d T_conversations + 1)"
      using ok conversation(3) by (intro ids_ok_append) (simp_all add: chat_ok_def)
    moreover have "distinct (map cv_pair (conversations d @ [c]))"
      using ok conversation(6) by (simp add: chat_ok_def)
    moreover have "conversations d' = conversations d @ [c]" "messages d' = messages d" "users d' = users d"
      "seqs d' T_conversations = seqs d T_conversations + 1" "seqs d' T_messages = seqs d T_messages"
      unfolding conversation(2) by simp_all
    ultimately show ?thesis using ok conversation(5,7,8) by (simp add: chat_ok_def)
  next
    case (conversation_about c u q)
    show ?thesis
      unfolding conversation_about(2)
      by (rule chat_ok_update_conversations [OF ok])
        (use ok in \<open>auto simp: chat_ok_def cv_pair_def last_ok_def\<close>)
  qed ((rule same; simp add: le_fun_def)+)
qed

lemma store_write:
  assumes "db_write a d d'" and "store_ok d"
  shows "store_ok d'"
  using assms(2) accounts_write [OF assms(1)] catalog_write [OF assms(1)] chat_write [OF assms(1)]
    categories_write [OF assms(1)] ratings_write [OF assms(1)] blocks_write [OF assms(1)] files_write [OF assms(1)]
  by (simp add: store_ok_def)

lemma store_writes: "writes a d d' \<Longrightarrow> store_ok d \<Longrightarrow> store_ok d'"
  by (induction rule: rtranclp_induct) (auto intro: store_write)

section \<open>Conversations and their members stay\<close>

lemma conv_keys_write:
  assumes "db_write a d d'"
  shows "set (conv_keys d) \<subseteq> set (conv_keys d')"
  using assms
proof cases
  case (codes)
  with otp_frame_rest(5) show ?thesis by (simp add: conv_keys_def)
next
  case (conversation_about c u q)
  then show ?thesis by simp
qed (auto simp: conv_keys_def)

lemma conv_keys_writes: "writes a d d' \<Longrightarrow> set (conv_keys d) \<subseteq> set (conv_keys d')"
  by (induction rule: rtranclp_induct) (use conv_keys_write in blast)+

end
