(* ===== verification/SystemProps.thy ===== *)
theory SystemProps
  imports StoreInvariant
begin

text \<open>
  The server as a whole: HTTP calls, events of sockets, the hourly cleanup and the passing of time, in any
  order. What holds in every state it reaches, who may have what effect, and what only reads.
\<close>

section \<open>The machine\<close>

inductive sys_step :: "env \<Rightarrow> gateway \<Rightarrow> gateway \<Rightarrow> bool" for e where
  call: "sys_step e g (snd (serve e request c g))"
| socket: "ws_step e g g' \<Longrightarrow> sys_step e g g'"
| cleanup: "sys_step e g (snd (on_db purgeExpiredOtps g))"

inductive_cases sys_stepE: "sys_step e g g'"

definition system_ok :: "gateway \<Rightarrow> bool" where
  "system_ok g \<longleftrightarrow> gateway_ok g \<and> store_ok (gw_db g)"

lemma serve_state: "snd (serve e rq c g) = snd (handle_call e c g)"
proof -
  have r: "reads (respond e s v)" for s v
    unfolding respond_def by (intro reads_andThen reads_expand reads_ret)
  show ?thesis
    using on_db_reads [OF r] by (auto simp: serve_def andThen_run split: prod.splits sum.splits)
qed

text \<open>The writes of an action from the state it starts in.\<close>

lemma writes_run: "(\<And>d0. keeps (writes a d0) m) \<Longrightarrow> writes a d (snd (m d))"
  by (simp add: keeps_def)

lemma writes_run_db: "(\<And>d0. keeps (\<lambda>g. writes a d0 (gw_db g)) m) \<Longrightarrow> writes a (gw_db g) (gw_db (snd (m g)))"
  by (simp add: keeps_def)

lemma writes_run_on_db: "(\<And>d0. keeps (writes a d0) m) \<Longrightarrow> writes a (gw_db g) (gw_db (snd (on_db m g)))"
  by (rule writes_run_db) (rule keeps_db_on_db)

section \<open>Calls\<close>

text \<open>A controller keeps the sockets' side of the invariant when it keeps the database's.\<close>

lemma controller_gateway:
  assumes "int8_ok e" and "gateway_ok g" and "user_for req user" and "store_ok (gw_db g)"
  shows "gateway_ok (snd (controller e user req g))"
proof -
  let ?g = "snd (controller e user req g)"
  have w: "writes (actor_for req user) (gw_db g) (gw_db ?g)"
    by (rule writes_run_db) (rule writes_controller [OF assms(1,3)])
  have db: "gateway_ok ?g" if "?g = g\<lparr>gw_db := gw_db ?g\<rparr>"
  proof -
    have "chat_ok (gw_db ?g)" using store_writes [OF w assms(4)] by (simp add: store_ok_def)
    from gateway_ok_db [OF assms(2) this conv_keys_writes [OF w]] that show ?thesis by simp
  qed
  show ?thesis
  proof (cases req)
    case (ChatApi r)
    show ?thesis
    proof (cases r)
      case (CreateConversation v p)
      have "keeps gateway_ok (chat_controller e user r)"
        using keeps_createConversation [OF assms(1)] unfolding CreateConversation
        by (auto intro!: keeps_with_user keeps_andThen keeps_ret)
      with ChatApi assms(2) show ?thesis by (simp add: keeps_def)
    qed (use ChatApi db in \<open>auto simp: with_user_def on_db_run split: option.splits\<close>)
  qed (use db in \<open>simp_all add: on_db_run\<close>)
qed

lemma call_ok:
  assumes "int8_ok e" and "system_ok g"
  shows "system_ok (snd (handle_call e c g))"
proof -
  obtain r g' where run: "handle_call e c g = (r, g')" by fastforce
  have "store_ok (gw_db g')"
    using store_writes [OF call_writes [OF assms(1) run]] assms(2) by (simp add: system_ok_def)
  moreover have "gateway_ok g'"
  proof (cases "g' = g")
    case False
    then obtain user where "fst (authorize e (guard_of (hc_request c)) (hc_token c) (gw_db g)) = Inr user"
      and "controller e user (hc_request c) g = (r, g')"
      using run by (auto simp: handle_call_run split: if_splits sum.splits)
    with controller_gateway [OF assms(1) _ authorize_user_for] assms(2) show ?thesis
      by (metis snd_conv system_ok_def)
  qed (use assms(2) in \<open>simp add: system_ok_def\<close>)
  ultimately show ?thesis by (simp add: run system_ok_def)
qed

section \<open>Sockets\<close>

text \<open>What the events of sockets leave of the store.\<close>

lemma store_chat:
  assumes "store_ok d" and "chat_ok d'" and "users d' = users d" and "products d' = products d"
    and "files d' = files d" and "categories d' = categories d" and "user_ratings d' = user_ratings d"
    and "user_blocks d' = user_blocks d" and "seqs d \<le> seqs d'"
  shows "store_ok d'"
proof -
  have s: "seqs d t \<le> seqs d' t" for t using assms(9) by (simp add: le_fun_def)
  have "accounts_ok d'" by (rule accounts_same) (use assms s in \<open>simp_all add: store_ok_def\<close>)
  moreover have "catalog_ok d'" by (rule catalog_same) (use assms s in \<open>simp_all add: store_ok_def\<close>)
  moreover have "files_ok d'" by (rule files_same) (use assms s in \<open>simp_all add: store_ok_def\<close>)
  moreover have "categories_ok d'" by (rule categories_same) (use assms s in \<open>simp_all add: store_ok_def\<close>)
  ultimately show ?thesis using assms(1,2,7,8) by (simp add: store_ok_def ratings_ok_def blocks_ok_def)
qed

definition chat_frame :: "db \<Rightarrow> db \<Rightarrow> bool" where
  "chat_frame d d' \<longleftrightarrow> users d' = users d \<and> products d' = products d \<and> files d' = files d \<and>
     categories d' = categories d \<and> user_ratings d' = user_ratings d \<and> user_blocks d' = user_blocks d \<and>
     seqs d \<le> seqs d'"

lemma chat_frame_updates [simp]:
  "chat_frame d d" "chat_frame d (d'\<lparr>messages := ms\<rparr>) = chat_frame d d'"
  "chat_frame d (d'\<lparr>conversations := cs\<rparr>) = chat_frame d d'" "chat_frame d (d'\<lparr>draws := n\<rparr>) = chat_frame d d'"
  by (simp_all add: chat_frame_def)

lemma chat_frame_seq: "chat_frame d d' \<Longrightarrow> chat_frame d (d'\<lparr>seqs := (seqs d')(t := seqs d' t + 1)\<rparr>)"
  by (auto simp: chat_frame_def le_fun_def intro: order_trans)

lemma frame_sendMessage: "keeps (chat_frame d0) (sendMessage e u cid t)"
proof -
  have "keeps (chat_frame d0) (insert_message cid u t)"
    by (rule keepsI) (auto simp: insert_message_run Let_def chat_frame_seq)
  then show ?thesis
    unfolding sendMessage_def by (intro keeps_rules reads_assert [THEN reads_keeps] keeps_modify) auto
qed

lemma frame_handler: "keeps (\<lambda>g. chat_frame d0 (gw_db g)) (handler e sid ev)"
proof -
  have out: "keeps (\<lambda>g. chat_frame d0 (gw_db g)) (join sid room)"
    "keeps (\<lambda>g. chat_frame d0 (gw_db g)) (emit_to_room room n v)" for room n v
    unfolding join_def emit_to_room_def by (rule keeps_modify, simp)+
  have user: "keeps (\<lambda>g. chat_frame d0 (gw_db g)) (getUser sid)"
    unfolding getUser_def by (intro keeps_rules)
  show ?thesis
  proof (cases ev)
    case (JoinEvent i)
    show ?thesis
      unfolding JoinEvent handler.simps joinConversation_def Let_def
      by (intro keeps_rules out user keeps_db_on_db reads_assert [THEN reads_keeps] reading reads_payload [THEN reads_keeps])
  next
    case (SendEvent i t)
    show ?thesis
      unfolding SendEvent handler.simps ws_sendMessage_def Let_def
      by (intro keeps_rules out user keeps_db_on_db frame_sendMessage reads_expand [THEN reads_keeps])
  next
    case (ReadEvent i)
    show ?thesis
      unfolding ReadEvent handler.simps ws_markRead_def Let_def
      by (intro keeps_rules out user keeps_db_on_db keeps_markRead_any reads_expand [THEN reads_keeps]) simp
  qed (simp add: keeps_throw)
qed

lemma frame_on_event: "chat_frame (gw_db g) (gw_db (snd (on_event e sid pattern v ev g)))"
proof -
  have "keeps (\<lambda>g. chat_frame d0 (gw_db g)) (on_db (filter_correlationId e c))" for c d0
    by (rule keeps_db_on_db) (auto simp: filter_correlationId_def keeps_def split: option.split)
  moreover have "keeps (\<lambda>g. chat_frame d0 (gw_db g)) (emit_to_socket sid n w)" for n w d0
    unfolding emit_to_socket_def by (rule keeps_modify) simp
  ultimately have "keeps (\<lambda>g'. chat_frame (gw_db g) (gw_db g')) (on_event e sid pattern v ev)"
    unfolding on_event_def catch_def by (intro keeps_rules frame_handler)
  then show ?thesis by (simp add: keeps_def)
qed

lemma frame_disconnect: "gw_db (snd (disconnect sid g)) = gw_db g"
  using disconnect_frame [of sid g] by blast

lemma frame_handleConnection: "gw_db (snd (handleConnection e sid g)) = gw_db g"
  by (simp add: handleConnection_def frame_disconnect registerUserSocket_def Let_def split: option.split)

lemma store_clock: "store_ok d \<Longrightarrow> store_ok (d\<lparr>clock := t\<rparr>)"
  by (rule store_chat [of d]) (simp_all add: store_ok_def)

lemma socket_store:
  assumes "int8_ok e" and "ws_step e g g'" and "store_ok (gw_db g)" and "gateway_ok g'"
  shows "store_ok (gw_db g')"
  using assms(2)
proof cases
  case (event sid pattern v ev)
  have g: "g' = snd (on_event e sid pattern v ev g)" using event by simp
  have f: "chat_frame (gw_db g) (gw_db g')" unfolding g by (rule frame_on_event)
  have "chat_ok (gw_db g')" by (rule gateway_ok_chat [OF assms(4)])
  with store_chat [OF assms(3)] f show ?thesis by (simp add: chat_frame_def)
next
  case (opens u v p)
  have "writes (Member u) (gw_db g) (gw_db g')"
    unfolding opens by (rule writes_run_db) (rule writes_createConversation)
  then show ?thesis using assms(3) by (rule store_writes)
next
  case (blocks u v)
  have "writes (Member u) (gw_db g) (gw_db g')"
    unfolding blocks by (rule writes_run_on_db) (rule writes_blocks(1))
  then show ?thesis using assms(3) by (rule store_writes)
next
  case (unblocks u v)
  have "writes (Member u) (gw_db g) (gw_db g')"
    unfolding unblocks by (rule writes_run_on_db) (rule writes_blocks(2))
  then show ?thesis using assms(3) by (rule store_writes)
next
  case (deletes u)
  have "writes (Member u) (gw_db g) (gw_db g')"
    unfolding deletes by (rule writes_run_on_db) (rule writes_users(3))
  then show ?thesis using assms(3) by (rule store_writes)
qed (use assms(3) in \<open>simp_all add: setServer_def frame_disconnect frame_handleConnection verification_ended_def
    store_clock\<close>)

lemma purge_writes: "keeps (writes Anyone d0) purgeExpiredOtps"
  by (rule purge_keeps [OF writes_auth])

lemma sys_step_ok:
  assumes "int8_ok e" and "sys_step e g g'" and "system_ok g"
  shows "system_ok g'"
  using assms(2)
proof cases
  case (call rq c)
  with call_ok [OF assms(1,3)] show ?thesis by (simp add: serve_state)
next
  case socket
  with ws_step_ok [OF assms(1)] socket_store [OF assms(1)] assms(3) show ?thesis by (metis system_ok_def)
next
  case cleanup
  have w: "writes Anyone (gw_db g) (snd (purgeExpiredOtps (gw_db g)))"
    by (rule writes_run) (rule purge_writes)
  have ok: "store_ok (snd (purgeExpiredOtps (gw_db g)))"
    using store_writes [OF w] assms(3) by (simp add: system_ok_def)
  then have "gateway_ok (g\<lparr>gw_db := snd (purgeExpiredOtps (gw_db g))\<rparr>)"
    using assms(3) conv_keys_writes [OF w] by (intro gateway_ok_db) (simp_all add: system_ok_def store_ok_def)
  with ok show ?thesis unfolding cleanup by (simp add: system_ok_def on_db_run)
qed

lemma system_reachable:
  assumes "int8_ok e" and "store_ok d" and "(sys_step e)\<^sup>*\<^sup>* (empty_gateway d) g"
  shows "system_ok g"
  using assms(3)
proof (induction rule: rtranclp_induct)
  case base
  from assms(2) show ?case
    by (simp add: system_ok_def empty_gateway_ok store_ok_def) (simp add: empty_gateway_def)
next
  case (step g1 g2)
  then show ?case by (blast intro: sys_step_ok [OF assms(1)])
qed

end
