(* ===== verification/AccessProps.thy ===== *)
theory AccessProps
  imports SystemProps
begin

text \<open>
  Who may have what effect through the HTTP surface: a member changes only rows of his own, only an
  administrator makes administrators, a protected route runs for a live account alone, a \<open>GET\<close> leaves
  the tables as they are, and a valid request of a member is carried out.
\<close>

section \<open>The rows of everyone else\<close>

definition product_of_others :: "int \<Rightarrow> db \<Rightarrow> int \<Rightarrow> bool" where
  "product_of_others u d i = list_ex (\<lambda>p. p_id p = i \<and> p_owner_id p \<noteq> u) (products d)"

text \<open>
  The database without what belongs to \<open>u\<close>: his account, products with their images, files, conversations,
  ratings, favourites, blocks and reports; and without sessions, sequences and the outside. What stays of
  the other tables, messages, categories and codes among them, is all of them.
\<close>

definition others :: "int \<Rightarrow> db \<Rightarrow> db" where
  "others u d =
     d\<lparr>users := filter (\<lambda>r. u_id r \<noteq> u) (users d), auth_refresh_tokens := [],
       files := filter (\<lambda>f. f_uploader_user_id f \<noteq> Some u) (files d),
       products := filter (\<lambda>p. p_owner_id p \<noteq> u) (products d),
       product_images := filter (\<lambda>r. product_of_others u d (i_product_id r)) (product_images d),
       conversations := filter (\<lambda>c. \<not> in_conversation u c) (conversations d),
       user_ratings := filter (\<lambda>r. rt_rater_id r \<noteq> u) (user_ratings d),
       user_favorites := filter (\<lambda>r. fv_user_id r \<noteq> u) (user_favorites d),
       user_blocks := filter (\<lambda>b. b_blocker_id b \<noteq> u) (user_blocks d),
       user_reports := filter (\<lambda>r. rp_reporter_id r \<noteq> u) (user_reports d),
       seqs := (\<lambda>_. 0), draws := 0, redis_cmds := []\<rparr>"

lemma filter_update_own:
  assumes "\<And>x. x \<in> set xs \<Longrightarrow> P x \<Longrightarrow> \<not> Q x \<and> \<not> Q (f x)"
  shows "filter Q (update_where P f xs) = filter Q xs"
  using assms by (induction xs) (auto simp: update_where_def)

lemma filter_delete_own:
  assumes "\<And>x. x \<in> set xs \<Longrightarrow> P x \<Longrightarrow> \<not> Q x"
  shows "filter Q (delete_where P xs) = filter Q xs"
  using assms by (induction xs) (auto simp: delete_where_def)

text \<open>Tables that a statement leaves alone outside some rows agree on every view that leaves the rows out.\<close>

lemma filter_within:
  assumes "filter P x = filter P y" and "\<And>r. Q r \<Longrightarrow> P r"
  shows "filter Q x = filter Q y"
proof -
  have "filter Q z = filter Q (filter P z)" for z
    using assms(2) by (auto intro: filter_cong)
  with assms(1) show ?thesis by metis
qed

lemma ids_ok_unique: "ids_ok key xs n \<Longrightarrow> x \<in> set xs \<Longrightarrow> y \<in> set xs \<Longrightarrow> key x = key y \<Longrightarrow> x = y"
  by (auto simp: ids_ok_def distinct_map inj_on_def)

lemma product_owner_unique:
  assumes "store_ok d" and "p \<in> set (products d)" and "q \<in> set (products d)" and "p_id q = p_id p"
  shows "p_owner_id q = p_owner_id p"
proof -
  have "ids_ok p_id (products d) (seqs d T_products)" using assms(1) by (simp add: store_ok_def catalog_ok_def)
  from ids_ok_unique [OF this assms(3,2,4)] show ?thesis by simp
qed

lemma others_write:
  assumes "db_write (Member u) d d'" and "store_ok d"
  shows "others u d' = others u d"
  using assms(1)
proof cases
  case (profile f)
  then have "filter (\<lambda>r. u_id r \<noteq> u) (users d') = filter (\<lambda>r. u_id r \<noteq> u) (users d)"
    by (auto intro: filter_update_own)
  then show ?thesis unfolding profile(1) by (simp add: others_def product_of_others_def)
next
  case (product_change p i f)
  have own: "p_owner_id q = u" if "q \<in> set (products d)" "p_id q = i" for q
    using product_owner_unique [OF assms(2) product_change(2) that(1)] that(2) product_change(3,4) by simp
  have "product_of_others u d' j = product_of_others u d j" for j
    unfolding product_change(1) product_of_others_def using product_change(5) own
    by (simp add: list_ex_update_where)
  with own product_change(5) show ?thesis
    unfolding product_change(1) by (simp add: others_def filter_update_own)
next
  case (product p)
  have "product_of_others u d' j = product_of_others u d j" for j
    unfolding product(1) product_of_others_def using product(3) by simp
  with product(3) show ?thesis unfolding product(1) by (simp add: others_def)
next
  case (images p i x)
  have "p_owner_id q = u" if "q \<in> set (products d)" "p_id q = i" for q
    using product_owner_unique [OF assms(2) images(2) that(1)] that(2) images(3,4) by simp
  then have none: "\<not> product_of_others u d i" by (auto simp: product_of_others_def list_ex_iff)
  have "filter (\<lambda>r. product_of_others u d (i_product_id r)) x =
      filter (\<lambda>r. product_of_others u d (i_product_id r)) (product_images d)"
    by (rule filter_within [OF images(5)]) (use none in auto)
  then show ?thesis unfolding images(1) by (simp add: others_def product_of_others_def)
next
  case (file_change "is" g)
  have "f_uploader_user_id f = Some u" if "f \<in> set (files d)" "f_id f \<in> set is" for f
  proof -
    from file_change(2) [OF that(2)] obtain f' where "f' \<in> set (files d)" "f_id f' = f_id f" "f_uploader_user_id f' = Some u"
      by (auto simp: file_by_id_def dest: row_where_Some)
    moreover have "ids_ok f_id (files d) (seqs d T_files)" using assms(2) by (simp add: store_ok_def files_ok_def)
    ultimately show ?thesis using ids_ok_unique that(1) by metis
  qed
  with file_change(3) show ?thesis
    unfolding file_change(1) by (simp add: others_def product_of_others_def filter_update_own)
next
  case (rating_change f v)
  then have "filter (\<lambda>r. rt_rater_id r \<noteq> u) (user_ratings d') = filter (\<lambda>r. rt_rater_id r \<noteq> u) (user_ratings d)"
    by (auto simp: rating_pair_def intro: filter_update_own)
  then show ?thesis unfolding rating_change(1) by (simp add: others_def product_of_others_def)
next
  case (conversation_about c q)
  have "ids_ok cv_id (conversations d) (seqs d T_conversations)" using assms(2) by (simp add: store_ok_def chat_ok_def)
  then have "in_conversation u r" if "r \<in> set (conversations d)" "cv_id r = cv_id c" for r
    using ids_ok_unique that conversation_about(2,3) by metis
  then show ?thesis
    unfolding conversation_about(1)
    by (simp add: others_def product_of_others_def filter_update_own in_conversation_def)
next
  case (unblock v)
  have "filter (\<lambda>b. b_blocker_id b \<noteq> u) (user_blocks d') = filter (\<lambda>b. b_blocker_id b \<noteq> u) (user_blocks d)"
    unfolding unblock(1) by (auto intro: filter_delete_own)
  then show ?thesis unfolding unblock(1) by (simp add: others_def product_of_others_def)
qed (auto simp: others_def product_of_others_def)

lemma others_writes: "writes (Member u) d d' \<Longrightarrow> store_ok d \<Longrightarrow> others u d' = others u d"
  by (induction rule: rtranclp_induct) (auto simp: others_write dest: store_writes)

section \<open>Administrators\<close>

definition administrators :: "db \<Rightarrow> int list" where
  "administrators d = map u_id (filter u_is_admin (users d))"

lemma administrators_update:
  assumes "\<And>r. u_id (f r) = u_id r \<and> u_is_admin (f r) = u_is_admin r"
  shows "map u_id (filter u_is_admin (update_where P f xs)) = map u_id (filter u_is_admin xs)"
  using assms by (induction xs) (auto simp: update_where_def)

lemma administrators_write:
  assumes "db_write a d d'" and "\<And>u. a \<noteq> Administrator u"
  shows "administrators d' = administrators d"
  using assms(1)
proof cases
  case codes
  with otp_frame_tables(1) show ?thesis by (simp add: administrators_def)
qed (use assms(2) in \<open>auto simp: administrators_def intro!: administrators_update\<close>)

lemma administrators_writes:
  assumes "writes a d d'" and "\<And>u. a \<noteq> Administrator u"
  shows "administrators d' = administrators d"
  using assms(1) by (induction rule: rtranclp_induct) (simp_all add: administrators_write [OF _ assms(2)])

section \<open>What a guard lets through\<close>

lemma bearer_Inr:
  assumes "bearer e tok d = (Inr u, d')"
  obtains t payload row where "tok = Some t" and "jwt_verify e t (jwtAccessSecret (cfg e)) (clock d) = Some payload"
    and "account_by_id (au_sub u) d = Some row" and "toPositiveInt (obj_get payload ''sub'') = Some (au_sub u)"
    and "jint (u_token_version row) = obj_get payload ''tokenVersion''"
  using assms
  by (auto simp: bearer_def authenticate_def andThen_run split: option.splits elim!: jwt_validate_InrE)

lemma authorize_Jwt:
  assumes "fst (authorize e guard tok d) = Inr user" and "guard = Jwt \<or> guard = JwtAdmin"
  obtains u where "user = Some u" and "bearer e tok d = (Inr u, d) \<or> (\<exists>u'. bearer e tok d = (Inr u', d) \<and> au_sub u' = au_sub u)"
    and "guard = JwtAdmin \<Longrightarrow> \<exists>r \<in> set (users d). u_id r = au_sub u \<and> u_is_admin r"
proof -
  obtain b where b: "bearer e tok d = (b, d)" using reads_bearer [of e tok] by (metis reads_def prod.collapse)
  from assms(2) show thesis
  proof
    assume "guard = Jwt"
    with assms(1) b that show thesis by (auto simp: authorize_def andThen_run split: sum.splits)
  next
    assume g: "guard = JwtAdmin"
    with assms(1) b obtain u0 where u0: "b = Inr u0" by (cases b) (auto simp: authorize_def andThen_run)
    with g assms(1) b obtain u where u: "adminGuard (Some u0) d = (Inr u, snd (adminGuard (Some u0) d))" "user = Some u"
      by (cases "adminGuard (Some u0) d") (auto simp: authorize_def andThen_run split: sum.splits)
    from u(1) show thesis
      by (rule adminGuard_Inr) (use b u0 u(2) that in auto)
  qed
qed

lemma handled_by_controller:
  assumes "handle_call e c g = (r, g')" and "\<not> isl r \<or> g' \<noteq> g"
  obtains user where "fst (authorize e (guard_of (hc_request c)) (hc_token c) (gw_db g)) = Inr user"
    and "dto_ok (hc_request c)" and "controller e user (hc_request c) g = (r, g')"
  using assms by (auto simp: handle_call_run split: if_splits sum.splits)

section \<open>Requests that read\<close>

definition drawn :: "gateway \<Rightarrow> gateway \<Rightarrow> bool" where
  "drawn g g' \<longleftrightarrow> (\<exists>n. g' = g\<lparr>gw_db := (gw_db g)\<lparr>draws := n\<rparr>\<rparr>)"

lemma drawn_refl: "drawn g g"
  unfolding drawn_def by (rule exI [of _ "draws (gw_db g)"]) simp

lemma drawn_on_db:
  assumes "\<And>d0. keeps (\<lambda>d. \<exists>n. d = d0\<lparr>draws := n\<rparr>) m"
  shows "keeps (drawn g) (on_db m)"
proof (rule keepsI)
  fix g1 assume "drawn g g1"
  then obtain n where g1: "g1 = g\<lparr>gw_db := (gw_db g)\<lparr>draws := n\<rparr>\<rparr>" by (auto simp: drawn_def)
  obtain n' where "snd (m (gw_db g1)) = (gw_db g)\<lparr>draws := n'\<rparr>"
    using assms [of "gw_db g"] g1 by (auto simp: keeps_def)
  then show "drawn g (snd (on_db m g1))" by (auto simp: g1 drawn_def on_db_run)
qed

lemma drawn_challenge: "keeps (\<lambda>d. \<exists>n. d = d0\<lparr>draws := n\<rparr>) (getAkedlyChallenge e)"
proof -
  have "keeps (\<lambda>d. \<exists>n. d = d0\<lparr>draws := n\<rparr>) (fetch e rq)" for rq
    by (rule keepsI) (auto simp: fetch_def draw_def)
  then show ?thesis unfolding getAkedlyChallenge_def Let_def by (intro keeps_rules)
qed

lemma get_controller: "verb_of req = Get \<Longrightarrow> keeps (drawn g) (controller e user req)"
  by (cases req)
    (auto simp: health_controller_def split: akedly_request.splits users_request.splits
      products_request.splits blocks_request.splits favorites_request.splits ratings_request.splits reports_request.splits
      files_request.splits chat_request.splits admin_request.splits
      intro!: drawn_on_db keeps_object keeps_with_user keeps_ret reading reading_controllers drawn_challenge)

section \<open>Sample calls\<close>

text \<open>Calls with the token of the first account, without and with the rights of an administrator.\<close>

definition token_call :: "api_request \<Rightarrow> http_call" where
  "token_call r = \<lparr>hc_token = Some ''t'', hc_over_limit = False, hc_converts = True, hc_request = r\<rparr>"

definition admin_db :: db where
  "admin_db = sample_db\<lparr>users := [sample_user\<lparr>u_is_admin := True\<rparr>, sample_user2]\<rparr>"

lemma sample_store_ok: "store_ok sample_db" "store_ok admin_db"
proof -
  have p: "pair_ok (p_category sample_product) (p_subcategory sample_product)" "product_checks sample_product"
    by (unfold pair_ok_def, simp add: sample_product_def, code_simp) code_simp
  show "store_ok sample_db" "store_ok admin_db"
    using p by (simp_all add: store_ok_def admin_db_def accounts_ok_def catalog_ok_def chat_ok_def categories_ok_def
        ratings_ok_def blocks_ok_def files_ok_def ids_ok_def sample_db_def empty_db_def sample_user_def
        sample_user2_def) (simp_all add: sample_product_def)
qed

lemma token_bearer:
  assumes "account_by_id 1 d = Some row" and "u_token_version row = 0" and "u_phone row = ''+201''"
  shows "bearer token_env (Some ''t'') d = (Inr token_user, d)"
  using assms by (simp add: bearer_def authenticate_def token_env_def jwt_validate_run is_number_def jint_def
      toPositiveInt_def string_number_digits js_trim_digits is_digit_def digits_nat_def digit_val_def token_user_def
      is_integer_def samples)

lemma sample_accounts: "account_by_id 1 sample_db = Some sample_user"
  "account_by_id 1 admin_db = Some (sample_user\<lparr>u_is_admin := True\<rparr>)"
  by (simp_all add: account_by_id_def admin_db_def samples)

lemma sample_bearer: "bearer token_env (Some ''t'') sample_db = (Inr token_user, sample_db)"
  "bearer token_env (Some ''t'') admin_db = (Inr token_user, admin_db)"
  using sample_accounts by (auto intro!: token_bearer simp: sample_user_def)

lemma sample_authorize:
  "authorize token_env Jwt (Some ''t'') sample_db = (Inr (Some token_user), sample_db)"
  "authorize token_env JwtAdmin (Some ''t'') admin_db = (Inr (Some (token_user\<lparr>au_isAdmin := JBool True\<rparr>)), admin_db)"
  using sample_bearer
  by (simp_all add: authorize_def andThen_run adminGuard_def unless_run token_user_def admin_db_def samples)

lemma token_call_simps [simp]: "hc_token (token_call r) = Some ''t''" "hc_request (token_call r) = r"
  "hc_over_limit (token_call r) = False" "hc_converts (token_call r)"
  by (simp_all add: token_call_def)

lemma gw_db_empty_gateway [simp]: "gw_db (empty_gateway d) = d"
  by (simp add: empty_gateway_def)

lemma token_call_run:
  "guard_of r = Jwt \<Longrightarrow> dto_ok r \<Longrightarrow> handle_call token_env (token_call r) (empty_gateway sample_db) =
     controller token_env (Some token_user) r (empty_gateway sample_db)"
  "guard_of r = JwtAdmin \<Longrightarrow> dto_ok r \<Longrightarrow> handle_call token_env (token_call r) (empty_gateway admin_db) =
     controller token_env (Some (token_user\<lparr>au_isAdmin := JBool True\<rparr>)) r (empty_gateway admin_db)"
  using sample_authorize by (simp_all add: handle_call_run)

lemma block_call:
  "\<exists>g'. handle_call token_env (token_call (BlocksApi (BlockUser 2))) (empty_gateway sample_db) =
     (Inr (JObj [(''message'', JStr ''User blocked'')]), g') \<and> user_blocks (gw_db g') \<noteq> []"
proof -
  have "live_user sample_db 2" "user_exists sample_db 1" "user_exists sample_db 2" "user_blocks sample_db = []"
    by (simp_all add: live_user_def user_exists_def samples)
  moreover have "au_sub token_user = 1" by (simp add: token_user_def)
  ultimately show ?thesis
    by (simp add: token_call_run on_db_run with_user_def object_def andThen_run blockUser_def unless_run
        insert_block_def)
qed

lemma promote_call:
  "\<exists>r g'. handle_call token_env (token_call (AdminApi (PromoteAdmin 2))) (empty_gateway admin_db) = (r, g') \<and>
     administrators (gw_db g') = [1, 2]"
proof -
  have d: "account_row 2 admin_db = Some sample_user2" "administrators admin_db = [1]"
    by (simp_all add: account_row_def admin_db_def administrators_def samples)
  obtain r d' where p: "promoteAdmin token_env 1 2 admin_db = (r, d')" by fastforce
  have "users d' = [sample_user\<lparr>u_is_admin := True\<rparr>, set_admin True 0 sample_user2]"
    using p d by (auto simp: promoteAdmin_def andThen_run unless_run update_live_user_run logAdminAction_run
        update_where_def admin_db_def samples split: option.splits dest!: returned_admin_frame)
  then have "administrators d' = [1, 2]" by (simp add: administrators_def samples set_admin_def)
  moreover have "au_sub token_user = 1" by (simp add: token_user_def)
  ultimately show ?thesis
    using p by (auto simp: token_call_run on_db_run with_user_def object_def andThen_run split: sum.splits prod.splits)
qed

section \<open>Properties of the calls\<close>

text \<open>
  C2. A protected route runs for a live account alone. If a call of a route behind \<open>JwtAuthGuard\<close> has any
  effect or any answer but an exception, then its bearer token verifies, names an account that exists, is
  not deleted and still has the token's version, the handler ran on behalf of exactly this account, and
  behind \<open>AdminGuard\<close> the account's row says administrator, whatever the token says.
\<close>

theorem protected_routes:
  assumes "accounts_ok (gw_db g)" and "guard_of (hc_request c) = Jwt \<or> guard_of (hc_request c) = JwtAdmin"
    and "handle_call e c g = (r, g')" and "\<not> isl r \<or> g' \<noteq> g"
  shows "\<exists>t payload row user. hc_token c = Some t \<and>
    jwt_verify e t (jwtAccessSecret (cfg e)) (clock (gw_db g)) = Some payload \<and>
    row \<in> set (users (gw_db g)) \<and> u_deleted_at row = None \<and>
    toPositiveInt (obj_get payload ''sub'') = Some (u_id row) \<and>
    obj_get payload ''tokenVersion'' = jint (u_token_version row) \<and>
    (guard_of (hc_request c) = JwtAdmin \<longrightarrow> u_is_admin row) \<and>
    au_sub user = u_id row \<and> controller e (Some user) (hc_request c) g = (r, g')"
proof -
  obtain user where run: "fst (authorize e (guard_of (hc_request c)) (hc_token c) (gw_db g)) = Inr user"
    and ctl: "controller e user (hc_request c) g = (r, g')" by (rule handled_by_controller [OF assms(3,4)])
  obtain u u' where u: "user = Some u" "bearer e (hc_token c) (gw_db g) = (Inr u', gw_db g)" "au_sub u' = au_sub u"
    and adm: "guard_of (hc_request c) = JwtAdmin \<Longrightarrow> \<exists>r \<in> set (users (gw_db g)). u_id r = au_sub u \<and> u_is_admin r"
    by (rule authorize_Jwt [OF run assms(2)]) auto
  obtain t payload row where t: "hc_token c = Some t"
    "jwt_verify e t (jwtAccessSecret (cfg e)) (clock (gw_db g)) = Some payload"
    and row: "account_by_id (au_sub u') (gw_db g) = Some row"
    and p: "toPositiveInt (obj_get payload ''sub'') = Some (au_sub u')"
    "jint (u_token_version row) = obj_get payload ''tokenVersion''"
    by (rule bearer_Inr [OF u(2)])
  have r: "row \<in> set (users (gw_db g))" "u_id row = au_sub u" "u_deleted_at row = None"
    using account_by_id_Some [OF row] u(3) by simp_all
  have ids: "ids_ok u_id (users (gw_db g)) (seqs (gw_db g) T_users)" using assms(1) by (simp add: accounts_ok_def)
  have "u_is_admin row" if "guard_of (hc_request c) = JwtAdmin"
    using adm [OF that] ids_ok_unique [OF ids r(1)] r(2) by metis
  with t r p u ctl show ?thesis by metis
qed

theorem protected_routes_witness:
  "\<exists>t payload row user g'. hc_token (token_call (BlocksApi (BlockUser 2))) = Some t \<and>
    jwt_verify token_env t (jwtAccessSecret (cfg token_env)) 0 = Some payload \<and> row \<in> set (users sample_db) \<and>
    au_sub user = u_id row \<and>
    controller token_env (Some user) (BlocksApi (BlockUser 2)) (empty_gateway sample_db) =
      (Inr (JObj [(''message'', JStr ''User blocked'')]), g')"
proof -
  obtain g' where run: "handle_call token_env (token_call (BlocksApi (BlockUser 2))) (empty_gateway sample_db) =
     (Inr (JObj [(''message'', JStr ''User blocked'')]), g')" using block_call by blast
  have ok: "accounts_ok (gw_db (empty_gateway sample_db))" using sample_store_ok by (simp add: store_ok_def)
  have c: "clock (gw_db (empty_gateway sample_db)) = 0" by (simp add: samples)
  from protected_routes [OF ok _ run, unfolded c] show ?thesis by auto
qed



text \<open>
  C4. Only administrators make administrators. A call after which the accounts with the administrator's
  flag are others than before is a call of the administration, on behalf of an account that had the flag
  already; registration, profile changes and everything else leave them as they are.
\<close>

theorem only_administrators_promote:
  assumes "int8_ok e" and "handle_call e c g = (r, g')" and "administrators (gw_db g') \<noteq> administrators (gw_db g)"
  shows "\<exists>req user. hc_request c = AdminApi req \<and> au_sub user \<in> set (administrators (gw_db g)) \<and>
    fst (authorize e JwtAdmin (hc_token c) (gw_db g)) = Inr (Some user)"
proof -
  have "\<exists>u. call_actor e c (gw_db g) = Administrator u"
    using administrators_writes [OF call_writes [OF assms(1,2)]] assms(3) by metis
  then obtain user where g: "guard_of (hc_request c) = JwtAdmin"
    and a: "fst (authorize e JwtAdmin (hc_token c) (gw_db g)) = Inr (Some user)"
    by (auto simp: call_actor_def split: sum.splits option.splits if_splits)
  obtain u where "Some user = Some u" "\<exists>r \<in> set (users (gw_db g)). u_id r = au_sub u \<and> u_is_admin r"
    by (rule authorize_Jwt [OF a]) auto
  then have "au_sub user \<in> set (administrators (gw_db g))" by (force simp: administrators_def)
  moreover obtain req where "hc_request c = AdminApi req"
    using g by (cases "hc_request c") (auto split: auth_request.splits users_request.splits products_request.splits
        ratings_request.splits)
  ultimately show ?thesis using a by blast
qed

theorem only_administrators_promote_witness:
  "\<exists>r g' user. handle_call token_env (token_call (AdminApi (PromoteAdmin 2))) (empty_gateway admin_db) = (r, g') \<and>
     administrators (gw_db g') = [1, 2] \<and> au_sub user \<in> set (administrators admin_db) \<and>
     fst (authorize token_env JwtAdmin (Some ''t'') admin_db) = Inr (Some user)"
proof -
  obtain r g' where run: "handle_call token_env (token_call (AdminApi (PromoteAdmin 2))) (empty_gateway admin_db) = (r, g')"
    and adm: "administrators (gw_db g') = [1, 2]" using promote_call by blast
  have "administrators admin_db = [1]" by (simp add: admin_db_def administrators_def samples)
  with adm have "administrators (gw_db g') \<noteq> administrators (gw_db (empty_gateway admin_db))" by simp
  from only_administrators_promote [OF token_int8_ok run this] run adm show ?thesis by auto
qed

text \<open>
  C9. A \<open>GET\<close> reads. No call of a route with this method, whoever makes it and whatever it is answered,
  changes a row of any table, a sequence, a session or a room; all it can consume is an answer of the
  outside (the challenge of the OTP provider).
\<close>

theorem gets_only_read:
  assumes "verb_of (hc_request c) = Get" and "handle_call e c g = (r, g')"
  shows "\<exists>n. g' = g\<lparr>gw_db := (gw_db g)\<lparr>draws := n\<rparr>\<rparr>"
proof (cases "g' = g")
  case True
  with drawn_refl show ?thesis unfolding drawn_def by blast
next
  case False
  then obtain user where "controller e user (hc_request c) g = (r, g')"
    using handled_by_controller [OF assms(2)] by metis
  from keepsD [OF get_controller [OF assms(1)] drawn_refl this] show ?thesis unfolding drawn_def .
qed

theorem gets_only_read_witness:
  "\<exists>r n. handle_call token_env (token_call (RatingsApi (RatingSummary 1))) (empty_gateway sample_db) =
     (r, (empty_gateway sample_db)\<lparr>gw_db := sample_db\<lparr>draws := n\<rparr>\<rparr>)"
proof -
  obtain r g' where run: "handle_call token_env (token_call (RatingsApi (RatingSummary 1))) (empty_gateway sample_db) = (r, g')"
    by fastforce
  from gets_only_read [OF _ run] run show ?thesis by auto
qed

section \<open>Properties of the server\<close>

text \<open>
  C5. Whatever the server does on behalf of a request, it does by the statements of its abstract account:
  a call answered in any way changes the database by writes of one actor only, the member or the
  administrator its token names, or no one in particular.
\<close>

theorem calls_refine_writes:
  assumes "int8_ok e" and "serve e rq c g = (r, g')"
  shows "writes (call_actor e c (gw_db g)) (gw_db g) (gw_db g')"
proof -
  have "g' = snd (handle_call e c g)" using serve_state [of e rq c g] assms(2) by simp
  with call_writes [OF assms(1) surjective_pairing] show ?thesis by simp
qed

definition block_request :: http_request where
  "block_request = \<lparr>hr_method = ''POST'', hr_originalUrl = ''/blocks/2'', hr_url = ''/blocks/2'', hr_ip = ''::1'',
      hr_body = JUndef, hr_query = JObj [], hr_user_sub = jint 1\<rparr>"

lemma block_served:
  "\<exists>r g'. serve token_env block_request (token_call (BlocksApi (BlockUser 2))) (empty_gateway sample_db) = (r, g') \<and>
     user_blocks (gw_db g') \<noteq> user_blocks sample_db"
proof -
  have "user_blocks sample_db = []" by (simp add: samples)
  moreover obtain r g' where run: "serve token_env block_request (token_call (BlocksApi (BlockUser 2))) (empty_gateway sample_db) = (r, g')"
    by fastforce
  moreover have "user_blocks (gw_db g') \<noteq> []"
    using block_call serve_state [of token_env block_request "token_call (BlocksApi (BlockUser 2))" "empty_gateway sample_db"] run
    by auto
  ultimately show ?thesis by auto
qed

theorem calls_refine_writes_witness:
  "\<exists>r g'. serve token_env block_request (token_call (BlocksApi (BlockUser 2))) (empty_gateway sample_db) = (r, g') \<and>
     writes (Member 1) sample_db (gw_db g') \<and> user_blocks (gw_db g') \<noteq> user_blocks sample_db"
proof -
  obtain r g' where run: "serve token_env block_request (token_call (BlocksApi (BlockUser 2))) (empty_gateway sample_db) = (r, g')"
    and b: "user_blocks (gw_db g') \<noteq> user_blocks sample_db" using block_served by blast
  have "call_actor token_env (token_call (BlocksApi (BlockUser 2))) sample_db = Member 1"
    using sample_authorize by (simp add: call_actor_def token_user_def)
  with calls_refine_writes [OF token_int8_ok run] run b show ?thesis by auto
qed

text \<open>
  C1. The store stays well formed. From a well-formed store and no connection, through any interleaving of
  HTTP calls (served, refused or failed), socket events, connections and disconnections, cleanups and the
  passing of time: identifiers and phone numbers stay unique; products, files and ratings keep their
  constraints; categories stay a forest; conversations are between two existing accounts and unique per
  pair; messages belong to their conversation; nobody blocks himself; and rooms hold participants only.
\<close>

theorem system_invariant:
  assumes "int8_ok e" and "store_ok d" and "(sys_step e)\<^sup>*\<^sup>* (empty_gateway d) g"
  shows "store_ok (gw_db g) \<and> (\<forall>m \<in> set (gw_rooms g). takes_part g (snd m) (fst m))"
  using system_reachable [OF assms] by (auto simp: system_ok_def gateway_ok_def)

theorem system_invariant_witness:
  "\<exists>g. (sys_step token_env)\<^sup>*\<^sup>* (empty_gateway sample_db) g \<and> store_ok (gw_db g) \<and>
     user_blocks (gw_db g) \<noteq> user_blocks sample_db"
proof -
  obtain r g' where run: "serve token_env block_request (token_call (BlocksApi (BlockUser 2))) (empty_gateway sample_db) = (r, g')"
    and b: "user_blocks (gw_db g') \<noteq> user_blocks sample_db" using block_served by blast
  have "sys_step token_env (empty_gateway sample_db) g'"
    using sys_step.call [of token_env "empty_gateway sample_db" block_request "token_call (BlocksApi (BlockUser 2))"] run
    by simp
  then have reach: "(sys_step token_env)\<^sup>*\<^sup>* (empty_gateway sample_db) g'" by (rule r_into_rtranclp)
  from system_invariant [OF token_int8_ok sample_store_ok(1) reach] reach b show ?thesis by blast
qed

end
