(* ===== verification/ServedProps.thy ===== *)
theory ServedProps
  imports AccessProps
begin

text \<open>
  What the validation of a request is worth: a body that passes the decorators of its DTO meets no
  constraint of the tables, so that the call succeeds unless one of the documented refusals applies.
\<close>

section \<open>Valid fields fit their columns\<close>

lemma trimmed_texts: "list_all (\<lambda>s. js_trim s = s) PRODUCT_CATEGORIES" "list_all (\<lambda>s. js_trim s = s) PRODUCT_SUBCATEGORIES"
  by code_simp+

lemma js_trim_category: "isValidCategory c \<Longrightarrow> js_trim c = c"
  using trimmed_texts(1) by (auto simp: isValidCategory_def list_all_iff)

lemma js_trim_subcategory: "isAllowedProductSubcategory c s \<Longrightarrow> js_trim s = s"
  using trimmed_texts(2) isValidSubcategory_listed by (auto simp: isAllowedProductSubcategory_def list_all_iff)

lemma price_fits:
  assumes "between 0 MAX_PRICE r"
  shows "0 \<le> round2 r" and "numeric_12_2 r"
proof -
  have "round2 0 \<le> round2 r" "round2 r \<le> round2 MAX_PRICE"
    using assms by (auto simp: between_def intro: round2_mono)
  moreover have "round2 0 = 0" using round2_hundredths [of 0] by simp
  moreover have "round2 MAX_PRICE = 999999999999"
    unfolding MAX_PRICE_def using round2_hundredths [of 999999999999] by simp
  ultimately show "0 \<le> round2 r" "numeric_12_2 r" by (simp_all add: numeric_12_2_def)
qed

lemma create_pair_ok:
  assumes "CreateProductDto_ok dto"
  shows "pair_ok (js_trim (cd_category dto)) (map_option js_trim (cd_subcategory dto))"
proof -
  have c: "isValidCategory (cd_category dto)" using assms by (simp add: CreateProductDto_ok_def)
  have "isAllowedProductSubcategory (cd_category dto) s" if "cd_subcategory dto = Some s" for s
    using assms that by (simp add: CreateProductDto_ok_def validator_allowed)
  with c show ?thesis by (auto simp: pair_ok_def js_trim_category js_trim_subcategory)
qed

lemma pair_checks: "pair_ok c s \<Longrightarrow> category_check c \<and> subcategory_check s"
  using isAllowed_check [of c] by (cases s) (auto simp: pair_ok_def isValidCategory_check, simp add: subcategory_check_def)

section \<open>Images\<close>

lemma forEach_ok: "\<forall>x \<in> set xs. \<exists>v. f x s = (Inr v, s) \<Longrightarrow> forEach xs f s = (Inr (), s)"
  by (induction xs) (auto simp: andThen_run)

lemma syncProductImages_iff:
  "(\<exists>x d'. syncProductImages e a pid ids d = (Inr x, d')) \<longleftrightarrow>
     list_all is_integer ids \<and> (\<forall>i \<in> set (map floor ids). usable_image e a d i)"
proof
  assume "\<exists>x d'. syncProductImages e a pid ids d = (Inr x, d')"
  then show "list_all is_integer ids \<and> (\<forall>i \<in> set (map floor ids). usable_image e a d i)"
    by (auto dest: syncProductImages_Inr)
next
  assume ok: "list_all is_integer ids \<and> (\<forall>i \<in> set (map floor ids). usable_image e a d i)"
  let ?d = "d\<lparr>product_images := delete_where (\<lambda>i. i_product_id i = pid) (product_images d)\<rparr>"
  let ?m = "\<lambda>i. if i \<in> set (map floor ids) then file_by_id i ?d else None"
  have "\<exists>v. checkImageFile e a ?m i ?d = (Inr v, ?d)" if "i \<in> set (map floor ids)" for i
    unfolding checkImageFile_Inr using ok that by (auto simp: usable_image_def file_by_id_def)
  then have "forEach (map floor ids) (checkImageFile e a ?m) ?d = (Inr (), ?d)" by (blast intro: forEach_ok)
  with ok show "\<exists>x d'. syncProductImages e a pid ids d = (Inr x, d')"
    by (simp add: syncProductImages_def andThen_run file_ids_def)
qed

definition images_usable :: "env \<Rightarrow> int \<Rightarrow> db \<Rightarrow> rat list option \<Rightarrow> bool" where
  "images_usable e u d v =
     (case v of None \<Rightarrow> True
      | Some ids \<Rightarrow> list_all is_integer ids \<and> list_all (\<lambda>i. usable_image e u d \<lfloor>i\<rfloor>) ids)"

lemma insert_product_served:
  assumes "CreateProductDto_ok dto" and "user_exists d u"
  shows "\<exists>i d'. insert_product u dto d = (Inr i, d') \<and> files d' = files d"
proof -
  note p = price_fits [of "cd_price dto"] and c = pair_checks [OF create_pair_ok [OF assms(1)]]
  have b: "between 0 MAX_PRICE (cd_price dto)" "optional (one_of CONTACT_METHODS) (cd_preferredContactMethod dto)"
    using assms(1) by (simp_all add: CreateProductDto_ok_def)
  have m: "(case cd_preferredContactMethod dto of None \<Rightarrow> ''both'' | Some m \<Rightarrow> m) \<in> set CONTACT_METHODS"
    using b(2) by (auto simp: optional_def one_of_def CONTACT_METHODS_def split: option.splits)
  show ?thesis
    using p [OF b(1)] c m assms(2)
    by (simp add: insert_product_def andThen_run unless_run product_checks_def Let_def user_exists_def)
qed

lemma createProduct_served:
  assumes "CreateProductDto_ok dto" and "user_exists d u"
  shows "(\<exists>res d'. createProduct e u dto d = (Inr res, d')) \<longleftrightarrow> images_usable e u d (cd_imageFileIds dto)"
proof -
  obtain i d1 where i: "insert_product u dto d = (Inr i, d1)" and f: "files d1 = files d"
    using insert_product_served [OF assms] by blast
  have pair: "assertCategoryPair (js_trim (cd_category dto)) (map_option js_trim (cd_subcategory dto)) False d = (Inr (), d)"
    using create_pair_ok [OF assms(1)] by (simp add: assertCategoryPair_Inr)
  have same: "usable_image e u d1 j = usable_image e u d j" for j
    using f by (simp add: usable_image_def file_by_id_def)
  let ?img = "case cd_imageFileIds dto of None \<Rightarrow> ret ()
      | Some ids \<Rightarrow> if length ids > 0 then syncProductImages e u i ids else ret ()"
  have "(\<exists>res d'. createProduct e u dto d = (Inr res, d')) \<longleftrightarrow> (\<exists>x d'. ?img d1 = (Inr x, d'))"
  proof
    assume "\<exists>res d'. createProduct e u dto d = (Inr res, d')"
    then show "\<exists>x d'. ?img d1 = (Inr x, d')"
      using i pair by (auto simp: createProduct_def withTransaction_Inr andThen_run split: prod.splits sum.splits)
  next
    assume "\<exists>x d'. ?img d1 = (Inr x, d')"
    then show "\<exists>res d'. createProduct e u dto d = (Inr res, d')"
      using i pair by (auto simp: createProduct_def withTransaction_Inr andThen_run fetchProductWithImages_def)
  qed
  also have "\<dots> \<longleftrightarrow> images_usable e u d (cd_imageFileIds dto)"
    using syncProductImages_iff [of e u i _ d1] same
    by (auto simp: images_usable_def list_all_iff split: option.splits)
  finally show ?thesis .
qed

section \<open>Calls\<close>

text \<open>A call that passes the throttler and the pipe and whose bearer token is accepted for a live account.\<close>

definition admitted :: "env \<Rightarrow> http_call \<Rightarrow> db \<Rightarrow> auth_user \<Rightarrow> bool" where
  "admitted e c d u \<longleftrightarrow>
     \<not> hc_over_limit c \<and> hc_converts c \<and> bearer e (hc_token c) d = (Inr u, d) \<and> guard_of (hc_request c) = Jwt"

lemma admitted_run:
  assumes "admitted e c (gw_db g) u" and "dto_ok (hc_request c)"
  shows "handle_call e c g = controller e (Some u) (hc_request c) g" and "user_exists (gw_db g) (au_sub u)"
proof -
  from assms show "handle_call e c g = controller e (Some u) (hc_request c) g"
    by (simp add: admitted_def handle_call_run authorize_def andThen_run)
  have "bearer e (hc_token c) (gw_db g) = (Inr u, gw_db g)" using assms(1) by (simp add: admitted_def)
  then show "user_exists (gw_db g) (au_sub u)"
    by (rule bearer_Inr) (auto simp: user_exists_def list_ex_iff dest!: account_by_id_Some)
qed

lemma object_served:
  "(\<exists>v g'. on_db (with_user (Some u) (\<lambda>u. object (m u))) g = (Inr v, g')) \<longleftrightarrow> (\<exists>r d'. m u (gw_db g) = (Inr r, d'))"
  by (auto simp: on_db_run with_user_def object_def andThen_run split: prod.splits sum.splits)


definition sample_dto :: create_product_dto where
  "sample_dto =
     \<lparr>cd_category = ''vehicles'', cd_subcategory = Some ''bicycles'', cd_name = ''Bike'', cd_description = ''Red bike'',
      cd_price = MAX_PRICE, cd_city = ''Cairo'', cd_addressText = ''1 Nile St'', cd_details = None,
      cd_imageFileIds = None, cd_isNegotiable = None, cd_preferredContactMethod = Some ''chat''\<rparr>"

lemma sample_dto_ok: "CreateProductDto_ok sample_dto"
  by code_simp

lemma sample_admitted: "guard_of r = Jwt \<Longrightarrow> admitted token_env (token_call r) (gw_db (empty_gateway sample_db)) token_user"
  by (simp add: admitted_def sample_bearer)




end
