(* ===== verification/AnswerProps.thy ===== *)
theory AnswerProps
  imports ServedProps
begin

text \<open>
  No valid request meets an internal error. Every operation behind the authentication, run on a
  well-formed store for an account that exists, either succeeds or is refused with a status between
  400 and 499; no statement violates a constraint, no value fails to convert, nothing is read of an
  undefined row. What a request must bring for that beyond its DTO is stated as \<open>converts\<close>: identifiers
  that are whole numbers and dates the database can read.
\<close>

section \<open>Actions that succeed or refuse\<close>

definition refusal :: "exn \<Rightarrow> bool" where
  "refusal x = (case x of HttpExn status _ _ \<Rightarrow> 400 \<le> status \<and> status < 500 | _ \<Rightarrow> False)"

definition answered :: "('s, 'a) act \<Rightarrow> 's \<Rightarrow> bool" where
  "answered m s = (case fst (m s) of Inl x \<Rightarrow> refusal x | Inr _ \<Rightarrow> True)"

named_theorems answering \<open>when an action is answered\<close>

lemma refusal_simps [simp]:
  "refusal (HttpExn n m fs) \<longleftrightarrow> 400 \<le> n \<and> n < 500" "\<not> refusal (PgErr c)" "\<not> refusal (JsErr m)" "\<not> refusal (WsErr w)"
  by (simp_all add: refusal_def)

lemma answered_simple [simp]:
  "answered (ret a) s" "answered (gets f) s" "answered (modify h) s" "answered (draw k) d" "answered (nextval t) d"
  "answered (throw x) s \<longleftrightarrow> refusal x" "answered (unless ok x) s \<longleftrightarrow> ok \<or> refusal x"
  by (simp_all add: answered_def unless_run)

lemma answered_andThen:
  assumes "answered m s" and "\<And>a t. m s = (Inr a, t) \<Longrightarrow> answered (k a) t"
  shows "answered (andThen m k) s"
  using assms by (auto simp: answered_def andThen_run split: sum.splits prod.splits)

lemma answered_unless:
  "ok \<or> refusal x \<Longrightarrow> (ok \<Longrightarrow> answered (k ()) s) \<Longrightarrow> answered (andThen (unless ok x) k) s"
  by (auto simp: answered_def andThen_run unless_run)

lemma answered_gets: "answered (k (f s)) s \<Longrightarrow> answered (andThen (gets f) k) s"
  by (simp add: answered_def)

lemma answered_modify: "answered (k ()) (f s) \<Longrightarrow> answered (andThen (modify f) k) s"
  by (simp add: answered_def)

lemma answered_option:
  "(v = None \<Longrightarrow> answered m s) \<Longrightarrow> (\<And>x. v = Some x \<Longrightarrow> answered (f x) s) \<Longrightarrow>
   answered (case v of None \<Rightarrow> m | Some x \<Rightarrow> f x) s"
  by (cases v) simp_all

lemma answered_if: "(b \<Longrightarrow> answered m s) \<Longrightarrow> (\<not> b \<Longrightarrow> answered n s) \<Longrightarrow> answered (if b then m else n) s"
  by simp

lemma answered_tryCatch:
  assumes "\<And>x t. m s = (Inl x, t) \<Longrightarrow> answered (h x) t"
  shows "answered (tryCatch m h) s"
  using assms by (auto simp: answered_def tryCatch_run split: sum.splits prod.splits)

lemma answered_withTransaction: "answered m d \<Longrightarrow> answered (withTransaction m) d"
  by (auto simp: answered_def withTransaction_def split: sum.splits prod.splits)

lemma answered_ignored: "answered (tryCatch m (\<lambda>_. ret a)) s"
  by (rule answered_tryCatch) simp

lemma answered_assertUserExists: "answered (assertUserExists i l) d"
  by (simp add: answered_def assertUserExists_run)

lemmas answers = answered_unless answered_gets answered_modify answered_andThen answered_option answered_if
  answered_withTransaction answered_assertUserExists answered_ignored

section \<open>Users and files\<close>

definition fits_bigint :: "int \<Rightarrow> bool" where
  "fits_bigint i \<longleftrightarrow> - (2 ^ 63) \<le> i \<and> i < 2 ^ 63"

definition whole_number :: "rat \<Rightarrow> bool" where
  "whole_number r \<longleftrightarrow> is_integer r \<and> fits_bigint \<lfloor>r\<rfloor>"

definition whole :: "rat option \<Rightarrow> bool" where
  "whole v = (case v of None \<Rightarrow> True | Some r \<Rightarrow> whole_number r)"

definition whole_list :: "rat list option \<Rightarrow> bool" where
  "whole_list v = (case v of None \<Rightarrow> True | Some ids \<Rightarrow> list_all whole_number ids)"

lemma answered_checkAvatarFile: "is_integer i \<Longrightarrow> answered (checkAvatarFile e u i) d"
  unfolding checkAvatarFile_def by (intro answers) auto

lemma answered_users:
  "answered (getMe e u) d" "answered (changePassword e u old new) d" "answered (deleteMe u) d"
  "whole (pd_avatarFileId dto) \<Longrightarrow> answered (updateMe e u dto) d"
  "answered (getPublicProfile e i n k v) d"
proof -
  show me: "answered (getMe e u) d" for u d
    unfolding getMe_def by (intro answers) (auto split: option.split)
  show "answered (changePassword e u old new) d"
    unfolding changePassword_def by (intro answers) auto
  show "answered (deleteMe u) d"
    unfolding deleteMe_def by (intro answers) auto
  show "answered (updateMe e u dto) d" if "whole (pd_avatarFileId dto)"
    unfolding updateMe_def using that
    by (intro answers me) (auto simp: whole_def whole_number_def split: option.splits intro!: answered_checkAvatarFile)
  show "answered (getPublicProfile e i n k v) d"
    unfolding getPublicProfile_def Let_def by (auto intro!: answers split: prod.splits option.splits)
qed

lemma answered_files: "answered (markUploaded e u i s) d" "answered (getFile e au i) d"
  unfolding markUploaded_def getFile_def by (intro answers; auto)+

section \<open>Products\<close>

lemma pg_bigint_any:
  assumes "int8_ok e"
  shows "pg_bigint (int8_parse e n) = Some n" and "js_Number (int8_parse e n) = jint n"
proof -
  have "pg_bigint (JStr (int_str n)) = Some n"
  proof (cases "n < 0")
    case True
    then have "int_str n = CHR ''-'' # nat_str (nat (- n))" by (simp add: int_str_def)
    with True nat_str_digits [of "nat (- n)"] nat_str_nonempty [of "nat (- n)"] show ?thesis
      by (simp add: pg_bigint_def Let_def)
  next
    case False
    then have "int_str n = nat_str (nat n)" by (simp add: int_str_def)
    with False show ?thesis by (simp add: pg_bigint_nat_str)
  qed
  then show "pg_bigint (int8_parse e n) = Some n" "js_Number (int8_parse e n) = jint n"
    using assms by (auto simp: int8_ok_def int8_as_string_def int8_as_number_def string_number_int_str jint_def)
qed

lemma answered_bind_bigint: "pg_bigint v \<noteq> None \<Longrightarrow> answered (bind_bigint v) d"
  by (auto simp: answered_def bind_bigint_run)

lemma answered_getProduct:
  assumes "int8_ok e"
  shows "answered (getProductById e i v) d"
  unfolding getProductById_def fetchProductWithImages_def
  by (auto intro!: answers answered_bind_bigint simp: pg_bigint_any [OF assms] jint_def product_object_def
      split: option.splits)

lemma answered_assertCategoryPair: "answered (assertCategoryPair c s a) d"
  by (auto simp: answered_def assertCategoryPair_run split: option.splits)

lemma answered_ownedProduct: "answered (ownedProduct e u i) d"
  unfolding ownedProduct_def by (intro answers) auto

lemma answered_checkImageFile: "answered (checkImageFile e u m i) d"
  unfolding checkImageFile_def by (intro answers) auto

lemma answered_forEach: "(\<And>x d. answered (f x) d) \<Longrightarrow> answered (forEach xs f) d"
  by (induction xs arbitrary: d) (auto intro: answered_andThen)

lemma answered_syncProductImages: "\<forall>i \<in> set ids. is_integer i \<Longrightarrow> answered (syncProductImages e u pid ids) d"
  unfolding syncProductImages_def file_ids_def
  by (intro answers answered_forEach answered_checkImageFile) (simp_all add: list_all_iff)

lemma patched_checks:
  assumes "product_checks p" and "UpdateProductDto_ok dto"
    and "pair_ok (or_old (map_option js_trim (ud_category dto)) (p_category p))
      (if ud_owns_subcategory dto then map_option js_trim (ud_subcategory dto) else p_subcategory p)"
  shows "product_checks (patched dto now p)"
proof -
  have "0 \<le> or_old (map_option round2 (ud_price dto)) (p_price p)"
    using assms(1,2) price_fits
    by (auto simp: UpdateProductDto_ok_def product_checks_def or_old_def optional_def split: option.splits)
  moreover have "or_old (ud_preferredContactMethod dto) (p_preferred_contact_method p) \<in> set CONTACT_METHODS"
    using assms(1,2) by (auto simp: UpdateProductDto_ok_def product_checks_def or_old_def optional_def one_of_def
        split: option.splits)
  ultimately show ?thesis using pair_checks [OF assms(3)] by (simp add: product_checks_def patched_def)
qed

lemma answered_updateProduct:
  assumes "catalog_ok d" and "UpdateProductDto_ok dto" and "whole_list (ud_imageFileIds dto)"
  shows "answered (updateProduct e u i dto) d"
proof -
  have row: "answered (update_product_row dto i p) d1"
    if "p \<in> set (products d)" and "pair_ok (or_old (map_option js_trim (ud_category dto)) (p_category p))
      (if ud_owns_subcategory dto then map_option js_trim (ud_subcategory dto) else p_subcategory p)" for p d1
  proof -
    have "product_checks p" using assms(1) that(1) by (simp add: catalog_ok_def)
    from patched_checks [OF this assms(2) that(2)] have "product_checks (patched dto now p)" for now .
    moreover have "case ud_price dto of None \<Rightarrow> True | Some r \<Rightarrow> numeric_12_2 r"
      using assms(2) price_fits by (auto simp: UpdateProductDto_ok_def optional_def split: option.splits)
    ultimately show ?thesis unfolding update_product_row_def by (intro answers) simp_all
  qed
  show ?thesis
    unfolding updateProduct_def Let_def
  proof (intro answered_withTransaction answered_andThen answered_ownedProduct answered_assertCategoryPair)
    fix p d1 x d2
    assume p: "ownedProduct e u i d = (Inr p, d1)"
      and a: "assertCategoryPair (or_old (map_option js_trim (ud_category dto)) (p_category p))
        (if ud_owns_subcategory dto then map_option js_trim (ud_subcategory dto) else p_subcategory p) False d1 = (Inr x, d2)"
    from ownedProduct_Inr [OF p] have "p \<in> set (products d)" by (auto dest: live_product_Some)
    moreover have "pair_ok (or_old (map_option js_trim (ud_category dto)) (p_category p))
      (if ud_owns_subcategory dto then map_option js_trim (ud_subcategory dto) else p_subcategory p)"
      using a by (simp add: assertCategoryPair_Inr)
    ultimately show "answered (update_product_row dto i p) d2" by (rule row)
  next
    show "answered (case ud_imageFileIds dto of None \<Rightarrow> ret () | Some ids \<Rightarrow> syncProductImages e u i ids) d3" for d3
      using assms(3) by (auto simp: whole_list_def whole_number_def list_all_iff split: option.splits intro: answered_syncProductImages)
  qed (simp_all add: fetchProductWithImages_def)
qed

lemma answered_createProduct:
  assumes "CreateProductDto_ok dto" and "user_exists d u" and "whole_list (cd_imageFileIds dto)"
  shows "answered (createProduct e u dto) d"
  unfolding createProduct_def
proof (intro answered_withTransaction answered_andThen answered_assertCategoryPair)
  fix x d1
  assume "assertCategoryPair (js_trim (cd_category dto)) (map_option js_trim (cd_subcategory dto)) False d = (Inr x, d1)"
  then have "d1 = d" by (simp add: assertCategoryPair_Inr)
  with insert_product_served [OF assms(1,2)] show "answered (insert_product u dto) d1"
    by (auto simp: answered_def)
next
  show "answered (case cd_imageFileIds dto of None \<Rightarrow> ret ()
      | Some ids \<Rightarrow> if length ids > 0 then syncProductImages e u i ids else ret ()) d3" for i d3
    using assms(3) by (auto simp: whole_list_def whole_number_def list_all_iff split: option.splits intro: answered_syncProductImages)
qed (simp_all add: fetchProductWithImages_def)

lemma answered_product_changes: "answered (deleteProduct e u i) d" "answered (updateProductStatus e u i st) d"
  unfolding deleteProduct_def updateProductStatus_def
  by (intro answers answered_ownedProduct; simp)+

section \<open>Lists of products\<close>

definition readable_date :: "env \<Rightarrow> string option \<Rightarrow> bool" where
  "readable_date e v = (case v of None \<Rightarrow> True | Some s \<Rightarrow> ts_parse e s \<noteq> None)"

text \<open>Every collected parameter of a column of timestamps can be read.\<close>

definition value_binds :: "env \<Rightarrow> column \<Rightarrow> json \<Rightarrow> bool" where
  "value_binds e col v = clause_binds e [v] \<lparr>cl_op = OpEq, cl_column = col, cl_index = 1\<rparr>"

definition bindable :: "env \<Rightarrow> clause list \<times> json list \<Rightarrow> bool" where
  "bindable e acc \<longleftrightarrow> (\<forall>i < length (fst acc). value_binds e (cl_column (fst acc ! i)) (snd acc ! i))"

lemma bindable_push:
  assumes "aligned base acc" and "bindable e acc" and "\<And>x. v = Some x \<Longrightarrow> value_binds e col x"
  shows "bindable e (push base op col v acc)"
proof -
  obtain cs ps where acc: "acc = (cs, ps)" by (cases acc)
  with assms(1) have len: "length cs = length ps" by (simp add: aligned_def)
  show ?thesis
  proof (cases v)
    case None
    with assms(2) show ?thesis by (simp add: push_def)
  next
    case (Some x)
    with acc len assms(2,3) show ?thesis by (auto simp: push_def bindable_def nth_append less_Suc_eq)
  qed
qed

lemma value_binds_simps [simp]:
  "value_binds e ColCreatedAt (JStr s) \<longleftrightarrow> ts_parse e s \<noteq> None"
  "col \<noteq> ColCreatedAt \<Longrightarrow> value_binds e col v"
  by (cases col; simp add: value_binds_def clause_binds_def placeholder_def json_text_def)+

lemma bindable_filters:
  assumes "readable_date e (sd_fromDate dto)" and "readable_date e (sd_toDate dto)"
  shows "bindable e (buildSearchFilters dto base prefix)"
proof -
  have dates: "value_binds e ColCreatedAt x" if "text_value v = Some x" "readable_date e v" for v x
    using that by (auto simp: text_value_def readable_date_def split: option.splits if_splits)
  have nil: "bindable e ([], [])" by (simp add: bindable_def)
  show ?thesis
    by (cases "prefix = []") (simp_all add: buildSearchFilters_def bindable_push aligned_push aligned_Nil nil dates assms)
qed

lemma list_binds:
  assumes "aligned (length leading) (cs, ps)" and "bindable e (cs, ps)"
  shows "list_all (clause_binds e (leading @ ps @ rest)) cs"
proof -
  have "clause_binds e (leading @ ps @ rest) (cs ! i)" if "i < length cs" for i
    using assms that placeholder_middle [of i ps leading rest]
    by (auto simp: aligned_def bindable_def value_binds_def clause_binds_def placeholder_def split: column.split)
  then show ?thesis by (simp add: list_all_length)
qed

lemma answered_run_listing:
  assumes "buildSearchFilters dto (length leading) prefix = (cs, ps)"
    and "readable_date e (sd_fromDate dto)" and "readable_date e (sd_toDate dto)"
  shows "answered (run_listing e fixed cs (leading @ ps @ rest) s n k) d"
proof -
  have "list_all (clause_binds e (leading @ ps @ rest)) cs"
    using list_binds aligned_filters [of "length leading" dto prefix] bindable_filters [OF assms(2,3)] assms(1) by metis
  then show ?thesis unfolding run_listing_def by (intro answers) simp_all
qed

lemma answered_lists:
  assumes "readable_date e (sd_fromDate dto)" and "readable_date e (sd_toDate dto)"
  shows "answered (listMyProducts e u dto) d" and "answered (searchProducts e dto v) d"
proof -
  have pair: "answered (assertSearchCategoryPair c t) d" for c t d
    unfolding assertSearchCategoryPair_def
    by (auto split: option.splits intro!: answers answered_assertCategoryPair)
  have sort: "answered (resolveSort dto) d" for d
    unfolding resolveSort_def by (auto intro!: answers)
  show "answered (listMyProducts e u dto) d"
    unfolding listMyProducts_def Let_def
    by (auto intro!: answered_andThen pair sort answered_run_listing [where prefix = "''plv.''"] assms split: prod.splits
        simp del: append.simps simp: append_Cons [symmetric])
  show "answered (searchProducts e dto v) d"
    unfolding searchProducts_def Let_def
    using answered_run_listing [where leading = "[]" and prefix = "[]", OF _ assms]
    by (auto intro!: answered_andThen pair sort split: prod.splits)
qed

section \<open>Blocks, favourites, ratings, reports, categories\<close>

lemma answered_blocks:
  "user_exists d u \<Longrightarrow> answered (blockUser u v) d" "answered (unblockUser u v) d" "answered (listBlockedUsers e u n k) d"
  by (auto simp: answered_def blockUser_def unblockUser_def listBlockedUsers_def insert_block_def andThen_run unless_run
      dest: live_user_exists)

lemma answered_favorites:
  assumes "int8_ok e" and "user_exists d u"
  shows "answered (addFavorite e u i) d" "answered (removeFavorite u i) d" "answered (listFavorites e u sb sd n k) d"
  using assms(2)
  by (auto simp: answered_def addFavorite_def removeFavorite_def listFavorites_def insert_favorite_def andThen_run unless_run
      bind_bigint_run pg_bigint_any [OF assms(1)] list_ex_iff split: option.splits dest: live_product_Some)

lemma answered_social:
  "user_exists d u \<Longrightarrow> 1 \<le> n \<Longrightarrow> n \<le> 5 \<Longrightarrow> answered (rateUser e u v n comment) d"
  "user_exists d u \<Longrightarrow> answered (createReport e u v reason) d"
  "answered (getUserRatingSummary e i) d" "answered (getMyReports e u l k) d" "answered (listCategories e l k) d"
  by (auto simp: answered_def rateUser_def createReport_def getUserRatingSummary_def getMyReports_def listCategories_def
      assertUserExists_run upsert_rating_def insert_report_def andThen_run unless_run tryCatch_run Let_def
      split: option.splits dest: live_user_exists)

lemma answered_createCategory:
  assumes "categories_ok d"
  shows "answered (createCategory e name parent) d"
proof -
  have "p \<noteq> seqs d T_categories + 1" if "category_exists p d" for p
    using that assms by (auto simp: category_exists_def list_ex_iff categories_ok_def ids_ok_def)
  then show ?thesis
    by (auto simp: answered_def createCategory_def insert_category_def andThen_run unless_run tryCatch_run Let_def
        pg_codes split: option.splits)
qed

lemma answered_deleteCategory: "answered (deleteCategory e i) d"
  by (auto simp: answered_def deleteCategory_def delete_category_row_def andThen_run tryCatch_run pg_codes
      split: option.splits)

section \<open>Chat\<close>

lemma refusal_forbiddenChat [simp]: "refusal (forbiddenChatException r m ctx)"
  by (simp add: forbiddenChatException_def)

lemma answered_participant: "answered (assertConversationParticipant e i u) d"
  unfolding assertConversationParticipant_def Let_def
  by (auto intro!: answers split: option.splits prod.splits)

lemma answered_participants: "answered (getConversationParticipants e i) d"
  unfolding getConversationParticipants_def by (auto intro!: answers split: option.splits prod.splits)

lemma answered_chat_reads:
  "answered (getConversationById e u i) d" "answered (listConversations e u s n k) d"
  "readable_date e b \<Longrightarrow> answered (listMessages e u i n b) d"
proof -
  show "answered (getConversationById e u i) d"
    unfolding getConversationById_def
    by (intro answered_andThen answered_participant) (auto split: list.split)
  show "answered (listConversations e u s n k) d" by (simp add: listConversations_def)
  show "answered (listMessages e u i n b) d" if "readable_date e b"
    unfolding listMessages_def using that
    by (intro answered_andThen answered_participant) (auto simp: readable_date_def split: option.splits)
qed

lemma answered_getOrCreate: "answered (getOrCreateConversation e u v p) d"
proof -
  have new: "answered (tryCatch (insert_conversation a b q)
      (\<lambda>error. if isForeignKeyViolation error then throw (NotFound m) else throw error)) d1"
    if "a < b" "row_where (\<lambda>c. cv_user_a_id c = a \<and> cv_user_b_id c = b) (conversations d1) = None" for a b q d1 m
    using that by (auto simp: answered_def insert_conversation_def tryCatch_run list_ex_iff row_where_None split: option.splits)
  have product: "answered (validated_product e u v p) d1" for d1
    unfolding validated_product_def Let_def by (auto intro!: answers split: option.splits)
  show ?thesis
    unfolding getOrCreateConversation_def existing_or_new_def
    by (intro answered_unless answered_gets answered_option answered_if answered_assertUserExists product new
        answered_chat_reads answered_andThen) auto
qed

lemma answered_on_db: "answered m (gw_db g) \<Longrightarrow> answered (on_db m) g"
  by (simp add: answered_def on_db_run)

lemma answered_createConversation: "answered (createConversation e u v p) g"
proof -
  have payload: "answered (buildConversationJoinedPayload e r) d" for r d
    unfolding buildConversationJoinedPayload_def expand_def by (intro answers) simp
  have join: "answered (join sid room) g" for sid room g by (simp add: join_def)
  have emit: "answered (emitConversationJoinedToParticipants i us w) g" for i us w g
    unfolding emitConversationJoinedToParticipants_def Let_def emit_to_room_def
    by (auto intro!: answers answered_forEach join split: option.splits)
  show ?thesis
    unfolding createConversation_def
    by (auto intro!: answered_andThen answered_on_db answered_getOrCreate answered_participants payload emit split: json.split)
qed

section \<open>Administration\<close>

definition redis_deletes :: "env \<Rightarrow> bool" where
  "redis_deletes e \<longleftrightarrow> (redis_on e \<longrightarrow> (\<forall>i k. redis_write e i (RDel k) = Inr ()))"

lemma answered_redis_del: "redis_deletes e \<Longrightarrow> answered (redis_del e k) d"
  by (simp add: answered_def redis_del_def redis_command_def redis_deletes_def)

lemma answered_log: "answered (logAdminAction a act ty i pl) d"
  unfolding logAdminAction_def by (rule answered_ignored)

lemma answered_admin_changes:
  "answered (promoteAdmin e a i) d" "answered (demoteAdmin e a i) d"
  by (auto simp: answered_def promoteAdmin_def demoteAdmin_def andThen_run unless_run update_live_user_run
      logAdminAction_run returned_admin_def account_row_eq split: option.splits)

lemma answered_admin_accounts:
  assumes "redis_deletes e"
  shows "answered (updateUserStatus e a i st) d" "answered (deleteUser e a i) d"
  unfolding updateUserStatus_def deleteUser_def
  by (intro answered_andThen answered_option answered_log answered_redis_del [OF assms];
      simp add: answered_def update_live_user_run unless_run)+

lemma answered_admin_content:
  assumes "user_exists d a"
  shows "answered (createWarning e a i m) d" "answered (updateReportStatus e a i st) d"
  using assms
  by (auto simp: answered_def createWarning_def updateReportStatus_def insert_warning_def assertUserExists_run andThen_run
      unless_run tryCatch_run logAdminAction_run Let_def split: option.splits dest: live_user_exists)

lemma answered_admin_categories:
  "categories_ok d \<Longrightarrow> answered (admin_createCategory e a name parent) d" "answered (admin_deleteCategory e a i) d"
  unfolding admin_createCategory_def admin_deleteCategory_def
  by (intro answered_andThen answered_createCategory answered_deleteCategory answered_log; simp)+

lemma answered_admin_reads:
  "answered (listUsers e st q n k) d" "answered (getUserDetails e i) d" "answered (listUserListings e i ps n k) d"
  "answered (listUserReports e i n k) d" "answered (listAdmins e n k) d" "answered (listReports e n k) d"
  unfolding listUsers_def getUserDetails_def listUserListings_def listUserReports_def listAdmins_def listReports_def Let_def
  by (auto intro!: answers split: option.split)

section \<open>Uploads\<close>

text \<open>The object key an upload asks for now, and that no file of the storage has it.\<close>

definition fresh_key :: "env \<Rightarrow> create_upload_intent_dto \<Rightarrow> db \<Rightarrow> bool" where
  "fresh_key e dto d \<longleftrightarrow>
     (case fst (buildObjectKey e (ci_ownerType dto) (ci_ownerId dto) (ci_filename dto) (ci_mimeType dto) d) of
        Inl x \<Rightarrow> False | Inr k \<Rightarrow> list_all (\<lambda>f. f_object_key f \<noteq> k) (files d))"

lemma answered_createUploadIntent:
  assumes "CreateUploadIntentDto_ok dto" and "whole (ci_ownerId dto)" and "whole (ci_fileSizeBytes dto)"
    and "user_exists d u" and "fresh_key e dto d"
  shows "answered (createUploadIntent e (cloudinary_createUploadIntent e) u dto) d"
proof -
  obtain k where k: "buildObjectKey e (ci_ownerType dto) (ci_ownerId dto) (ci_filename dto) (ci_mimeType dto) d =
      (Inr k, d\<lparr>draws := draws d + 1\<rparr>)" and pre: "\<exists>t. k = ci_ownerType dto @ t"
    by (simp add: buildObjectKey_def)
  have dto: "ci_ownerType dto \<in> set OWNER_TYPES" "optional (\<lambda>r. 1 \<le> r) (ci_ownerId dto)"
    "optional (between 0 (50 * 1024 * 1024)) (ci_fileSizeBytes dto)"
    using assms(1) by (simp_all add: CreateUploadIntentDto_ok_def one_of_def)
  have key: "list_ex (\<lambda>c. c \<noteq> CHR '' '') k"
    using dto(1) pre by (auto simp: OWNER_TYPES_def)
  have num: "bind_number v = ret (map_option floor v)" if "whole v" for v
    using that by (cases v) (simp_all add: bind_number_def whole_def whole_number_def)
  have checks: "file_checks (pending_file e u dto k (map_option floor (ci_ownerId dto)) (map_option floor (ci_fileSizeBytes dto)) now)" for now
    using dto key by (auto simp: file_checks_def pending_file_def optional_def between_def split: option.splits)
  have unique: "\<not> list_ex (\<lambda>g. file_key g = file_key (pending_file e u dto k oid sz now)) (files d)" for oid sz now
    using assms(5) k by (auto simp: fresh_key_def list_all_iff list_ex_iff file_key_def pending_file_def)
  have up: "f_uploader_user_id (pending_file e u dto k oid sz now) = Some u" for oid sz now
    by (simp add: pending_file_def)
  show ?thesis
    using assms(4) checks unique
    by (simp add: createUploadIntent_def answered_def andThen_run k num [OF assms(2)] num [OF assms(3)] insert_file_def
        up cloudinary_createUploadIntent_def user_exists_def Let_def)
qed

section \<open>Calls\<close>

text \<open>The identifiers a request carries, which the driver binds to \<open>BIGINT\<close> parameters.\<close>

fun request_ids :: "api_request \<Rightarrow> int list" where
  "request_ids (PublicUsersApi r) = (case r of PublicProfile i _ _ \<Rightarrow> [i])"
| "request_ids (ProductsApi r) =
     (case r of GetProduct i \<Rightarrow> [i] | UpdateProduct i _ \<Rightarrow> [i] | DeleteProduct i \<Rightarrow> [i]
      | UpdateProductStatus i _ \<Rightarrow> [i] | _ \<Rightarrow> [])"
| "request_ids (BlocksApi r) = (case r of BlockUser i \<Rightarrow> [i] | UnblockUser i \<Rightarrow> [i] | _ \<Rightarrow> [])"
| "request_ids (FavoritesApi r) = (case r of AddFavorite i \<Rightarrow> [i] | RemoveFavorite i \<Rightarrow> [i] | _ \<Rightarrow> [])"
| "request_ids (RatingsApi r) = (case r of RateUser i _ _ \<Rightarrow> [i] | RatingSummary i \<Rightarrow> [i])"
| "request_ids (ReportsApi r) = (case r of CreateReport i _ \<Rightarrow> [i] | _ \<Rightarrow> [])"
| "request_ids (FilesApi r) = (case r of MarkUploaded i _ \<Rightarrow> [i] | GetFile i \<Rightarrow> [i] | _ \<Rightarrow> [])"
| "request_ids (ChatApi r) =
     (case r of CreateConversation i p \<Rightarrow> i # (case p of None \<Rightarrow> [] | Some j \<Rightarrow> [j]) | GetConversation i \<Rightarrow> [i]
      | ListMessages i _ _ \<Rightarrow> [i] | _ \<Rightarrow> [])"
| "request_ids (AdminApi r) =
     (case r of UserDetails i \<Rightarrow> [i] | UserListings i _ _ _ \<Rightarrow> [i] | UserReports i _ _ \<Rightarrow> [i] | PromoteAdmin i \<Rightarrow> [i]
      | DemoteAdmin i \<Rightarrow> [i] | UpdateUserStatus i _ \<Rightarrow> [i] | DeleteUser i \<Rightarrow> [i] | CreateWarning i _ \<Rightarrow> [i]
      | UpdateReportStatus i _ \<Rightarrow> [i] | CreateCategory _ p \<Rightarrow> (case p of None \<Rightarrow> [] | Some j \<Rightarrow> [j])
      | DeleteCategory i \<Rightarrow> [i] | _ \<Rightarrow> [])"
| "request_ids _ = []"

text \<open>
  What a request must bring beyond its DTO, whose numbers may be fractions and whose dates are ISO texts
  the database reads: whole identifiers, readable dates, and for an upload a key that is not taken.
  Registration, login and the rest of \<open>/auth\<close> depend on the providers and are not among these requests.
\<close>

fun convertible :: "env \<Rightarrow> db \<Rightarrow> api_request \<Rightarrow> bool" where
  "convertible e d (AuthApi r) = False"
| "convertible e d (AkedlyApi r) = False"
| "convertible e d (UsersApi r) = (case r of UpdateMe body \<Rightarrow> whole (body_number body ''avatarFileId'') | _ \<Rightarrow> True)"
| "convertible e d (ProductsApi r) =
     (case r of
        CreateProduct dto \<Rightarrow> whole_list (cd_imageFileIds dto)
      | UpdateProduct i body \<Rightarrow> whole_list (body_numbers body ''imageFileIds'')
      | ListMyProducts dto \<Rightarrow> readable_date e (sd_fromDate dto) \<and> readable_date e (sd_toDate dto)
      | SearchProducts dto \<Rightarrow> readable_date e (sd_fromDate dto) \<and> readable_date e (sd_toDate dto)
      | _ \<Rightarrow> True)"
| "convertible e d (FilesApi r) =
     (case r of
        UploadIntent dto \<Rightarrow> whole (ci_ownerId dto) \<and> whole (ci_fileSizeBytes dto) \<and> fresh_key e dto d
      | _ \<Rightarrow> True)"
| "convertible e d (ChatApi r) = (case r of ListMessages i n before \<Rightarrow> readable_date e before | _ \<Rightarrow> True)"
| "convertible e d _ = True"

lemma answered_object: "answered m d \<Longrightarrow> answered (object m) d"
  unfolding object_def by (rule answered_andThen) simp_all

lemma answered_with_user: "user \<noteq> None \<Longrightarrow> (\<And>u. user = Some u \<Longrightarrow> answered (f u) s) \<Longrightarrow> answered (with_user user f) s"
  by (auto simp: with_user_def)

lemma authorized_user_exists:
  assumes "fst (authorize e (guard_of req) tok d) = Inr (Some u)"
  shows "user_exists d (au_sub u)"
proof -
  have bearer: "user_exists d (au_sub v)" if "bearer e tok d = (Inr v, d')" for v d'
    using that by (rule bearer_Inr) (auto simp: user_exists_def list_ex_iff dest!: account_by_id_Some)
  show ?thesis
  proof (cases "guard_of req = Jwt \<or> guard_of req = JwtAdmin")
    case True
    obtain v where "Some u = Some v"
      "bearer e tok d = (Inr v, d) \<or> (\<exists>u'. bearer e tok d = (Inr u', d) \<and> au_sub u' = au_sub v)"
      by (rule authorize_Jwt [OF assms True])
    then show ?thesis using bearer by auto
  next
    case False
    then have "guard_of req = OptionalJwt"
      using assms by (cases "guard_of req") (auto simp: authorize_def)
    then show ?thesis
      using assms bearer by (auto simp: authorize_def optionalUser_def split: prod.splits sum.splits)
  qed
qed

lemma answered_controller:
  assumes "int8_ok e" and "redis_deletes e" and "store_ok (gw_db g)" and "user_for req user"
    and "\<And>u. user = Some u \<Longrightarrow> user_exists (gw_db g) (au_sub u)" and "dto_ok req" and "convertible e (gw_db g) req"
  shows "answered (controller e user req) g"
proof -
  have ok: "catalog_ok (gw_db g)" "categories_ok (gw_db g)" using assms(3) by (simp_all add: store_ok_def)
  note rules = answered_on_db answered_object answered_with_user answered_users answered_files
    answered_createProduct answered_getProduct [OF assms(1)] answered_updateProduct answered_product_changes answered_lists
    answered_blocks answered_favorites [OF assms(1)] answered_social answered_chat_reads answered_createUploadIntent
    answered_admin_changes answered_admin_accounts [OF assms(2)] answered_admin_content answered_admin_categories
    answered_admin_reads
  show ?thesis
  proof (cases req)
    case (UsersApi r)
    with assms(4-7) show ?thesis
      by (cases r) (auto simp: user_for_def UpdateProfileDto_def intro!: rules)
  next
    case (PublicUsersApi r)
    then show ?thesis by (cases r) (auto intro!: rules)
  next
    case (ProductsApi r)
    with assms(4-7) ok show ?thesis
      by (cases r) (auto simp: user_for_def UpdateProductDto_def intro!: rules)
  next
    case (BlocksApi r)
    with assms(4-7) show ?thesis by (cases r) (auto simp: user_for_def intro!: rules)
  next
    case (FavoritesApi r)
    with assms(4-7) show ?thesis by (cases r) (auto simp: user_for_def intro!: rules)
  next
    case (RatingsApi r)
    with assms(4-7) show ?thesis
      by (cases r) (auto simp: user_for_def CreateRatingDto_ok_def between_def intro!: rules)
  next
    case (ReportsApi r)
    with assms(4-7) show ?thesis by (cases r) (auto simp: user_for_def intro!: rules)
  next
    case (CategoriesApi r)
    then show ?thesis by (cases r) (auto intro!: rules)
  next
    case (FilesApi r)
    with assms(4-7) show ?thesis by (cases r) (auto simp: user_for_def intro!: rules)
  next
    case (ChatApi r)
    with assms(4-7) show ?thesis
      by (cases r) (auto simp: user_for_def intro!: rules answered_andThen answered_createConversation)
  next
    case (AdminApi r)
    with assms(4-7) ok show ?thesis by (cases r) (auto simp: user_for_def intro!: rules)
  next
    case (HealthApi r)
    then show ?thesis by (auto simp: health_controller_def intro!: rules)
  qed (use assms(7) in auto)
qed

lemma answered_authorize: "answered (authorize e guard tok) d"
proof -
  have jwt: "answered (jwt_validate p) d" for p d
    by (auto simp: answered_def jwt_validate_run split: option.splits)
  have b: "answered (bearer e tok) d" for d
    unfolding bearer_def authenticate_def by (intro answers jwt) auto
  have adm: "answered (adminGuard (Some u)) d" for u d
    unfolding adminGuard_def by (auto intro!: answers split: option.splits)
  show ?thesis
  proof (cases guard)
    case OptionalJwt
    then show ?thesis by (simp add: answered_def authorize_def split: prod.split)
  qed (auto simp: authorize_def intro!: answered_andThen b adm)
qed

lemma answered_call:
  assumes "int8_ok e" and "redis_deletes e" and "store_ok (gw_db g)" and "convertible e (gw_db g) (hc_request c)"
  shows "answered (handle_call e c) g"
proof (cases "fst (authorize e (guard_of (hc_request c)) (hc_token c) (gw_db g))")
  case (Inl x)
  with answered_authorize [of e "guard_of (hc_request c)" "hc_token c" "gw_db g"] show ?thesis
    by (simp add: answered_def handle_call_run)
next
  case (Inr user)
  have "answered (controller e user (hc_request c)) g" if "dto_ok (hc_request c)"
    by (rule answered_controller [OF assms(1-3) authorize_user_for [OF Inr] _ that assms(4)])
      (use Inr authorized_user_exists in blast)
  with Inr show ?thesis by (simp add: answered_def handle_call_run)
qed



end
