(* ===== verification/Routes.thy ===== *)
theory Routes
  imports Api
begin

text \<open>
  The routing table the decorators of the controllers make, and the way from a method and a URL to a
  handler with its parameters. \<open>url_of\<close> is the URL of a request; \<open>every_request_is_routed\<close> is their round
  trip: no route shadows another, in whatever order the modules of \<open>app.module.ts\<close> register them.

  A path of a decorator is split at its slashes; a segment with a colon takes one segment of the URL, the
  others are compared without regard to case, as the router of Express does by default.
\<close>

section \<open>The table\<close>

text \<open>Class, \<open>@Controller\<close> path, and the methods with their \<open>@Get\<close>, \<open>@Post\<close>, \<open>@Patch\<close>, \<open>@Delete\<close> paths.\<close>

type_synonym controller_decl = "string \<times> string \<times> (verb \<times> string \<times> string) list"

definition auth_routes :: controller_decl where
  "auth_routes = (''AuthController'', ''auth'',
     [(Post, ''register'', ''requestRegistrationOtp''), (Post, ''register/resend-otp'', ''resendRegistrationOtp''),
      (Post, ''register/verify'', ''verifyRegistrationOtp''), (Post, ''login'', ''login''),
      (Post, ''password/request-otp'', ''requestPasswordResetOtp''), (Post, ''password/reset'', ''resetPassword''),
      (Post, ''refresh'', ''refresh''), (Post, ''logout'', ''logout'')])"

definition akedly_routes :: controller_decl where
  "akedly_routes = (''AuthAkedlyController'', ''auth/akedly'',
     [(Get, ''challenge'', ''getChallenge''), (Post, ''send'', ''sendOtp'')])"

definition users_routes :: controller_decl where
  "users_routes = (''UsersController'', ''me'',
     [(Get, [], ''getMe''), (Patch, [], ''updateMe''), (Patch, ''password'', ''changePassword''),
      (Delete, [], ''deleteMe'')])"

definition public_users_routes :: controller_decl where
  "public_users_routes = (''PublicUsersController'', ''users'', [(Get, '':id'', ''getPublicProfile'')])"

definition products_routes :: controller_decl where
  "products_routes = (''ProductsController'', [],
     [(Post, ''products'', ''createProduct''), (Get, ''products/:id'', ''getProduct''),
      (Patch, ''products/:id'', ''updateProduct''), (Delete, ''products/:id'', ''deleteProduct''),
      (Patch, ''products/:id/status'', ''updateProductStatus''), (Get, ''my/products'', ''listMyProducts''),
      (Get, ''search/products'', ''searchProducts'')])"

definition blocks_routes :: controller_decl where
  "blocks_routes = (''BlocksController'', ''blocks'',
     [(Post, '':userId'', ''blockUser''), (Delete, '':userId'', ''unblockUser''), (Get, [], ''listBlockedUsers'')])"

definition favorites_routes :: controller_decl where
  "favorites_routes = (''FavoritesController'', ''favorites'',
     [(Post, '':productId'', ''addFavorite''), (Delete, '':productId'', ''removeFavorite''),
      (Get, [], ''listFavorites'')])"

definition ratings_routes :: controller_decl where
  "ratings_routes = (''RatingsController'', ''ratings'',
     [(Post, [], ''rateUser''), (Get, '':userId'', ''getUserRatingSummary'')])"

definition reports_routes :: controller_decl where
  "reports_routes = (''ReportsController'', ''reports'', [(Post, [], ''createReport''), (Get, ''me'', ''getMyReports'')])"

definition categories_routes :: controller_decl where
  "categories_routes = (''CategoriesController'', ''categories'', [(Get, [], ''listCategories'')])"

definition files_routes :: controller_decl where
  "files_routes = (''FilesController'', ''files'',
     [(Post, ''upload-intent'', ''createUploadIntent''), (Patch, '':id/mark-uploaded'', ''markUploaded''),
      (Get, '':id'', ''getFile'')])"

definition chat_routes :: controller_decl where
  "chat_routes = (''ChatController'', ''chat'',
     [(Post, ''conversations'', ''createConversation''), (Get, ''conversations'', ''listConversations''),
      (Get, ''conversations/:id'', ''getConversation''), (Get, ''conversations/:id/messages'', ''listMessages'')])"

definition admin_routes :: controller_decl where
  "admin_routes = (''AdminController'', ''admin'',
     [(Get, ''users'', ''listUsers''), (Get, ''users/:id'', ''getUserDetails''),
      (Get, ''users/:id/listings'', ''listUserListings''), (Get, ''users/:id/reports'', ''listUserReports''),
      (Get, ''admins'', ''listAdmins''), (Post, ''admins/:id'', ''promoteAdmin''),
      (Delete, ''admins/:id'', ''demoteAdmin''), (Patch, ''users/:id/status'', ''updateUserStatus''),
      (Delete, ''users/:id'', ''deleteUser''), (Post, ''warnings'', ''createWarning''),
      (Get, ''reports'', ''listReports''), (Patch, ''reports/:id'', ''updateReportStatus''),
      (Post, ''categories'', ''createCategory''), (Delete, ''categories/:id'', ''deleteCategory'')])"

definition health_routes :: controller_decl where
  "health_routes = (''HealthController'', ''health'', [(Get, ''live'', ''live''), (Get, ''ready'', ''ready'')])"

text \<open>The controllers in the order in which \<open>app.module.ts\<close> imports their modules.\<close>

definition controllers :: "controller_decl list" where
  "controllers =
     [auth_routes, akedly_routes, blocks_routes, users_routes, public_users_routes, categories_routes, products_routes,
      favorites_routes, files_routes, chat_routes, ratings_routes, reports_routes, admin_routes, health_routes]"

datatype segment = Lit string | Param

record route =
  ro_verb :: verb
  ro_path :: "segment list"
  ro_handler :: "string \<times> string"

definition segments :: "string \<Rightarrow> string list" where
  "segments path = filter (\<lambda>s. s \<noteq> []) (split_str (CHR ''/'') path)"

definition pattern :: "string \<Rightarrow> segment" where
  "pattern s = (if hd s = CHR '':'' then Param else Lit s)"

definition controller_table :: "controller_decl \<Rightarrow> route list" where
  "controller_table c =
     (case c of (cls, base, methods) \<Rightarrow>
        map (\<lambda>(v, path, m). \<lparr>ro_verb = v, ro_path = map pattern (segments (base @ ''/'' @ path)), ro_handler = (cls, m)\<rparr>)
          methods)"

definition routes :: "route list" where
  "routes = concat (map controller_table controllers)"

section \<open>Dispatch\<close>

fun match_path :: "segment list \<Rightarrow> string list \<Rightarrow> string list option" where
  "match_path [] [] = Some []"
| "match_path (Lit l # ps) (s # ss) = (if js_lower l = js_lower s then match_path ps ss else None)"
| "match_path (Param # ps) (s # ss) = map_option ((#) s) (match_path ps ss)"
| "match_path _ _ = None"

definition matching :: "verb \<Rightarrow> string list \<Rightarrow> route list" where
  "matching v ss = filter (\<lambda>r. ro_verb r = v \<and> match_path (ro_path r) ss \<noteq> None) routes"

text \<open>\<open>ParseIntPipe\<close>: a string of digits with an optional sign, or 400.\<close>

definition parse_int :: "string \<Rightarrow> int option" where
  "parse_int s =
     (case s of
        [] \<Rightarrow> None
      | c # r \<Rightarrow>
          (if c = CHR ''-'' then (if r \<noteq> [] \<and> list_all is_digit r then Some (- int (digits_nat r)) else None)
           else if list_all is_digit s then Some (int (digits_nat s)) else None))"

fun parse_all :: "string list \<Rightarrow> int list option" where
  "parse_all [] = Some []"
| "parse_all (s # ss) = (case parse_int s of None \<Rightarrow> None | Some i \<Rightarrow> map_option ((#) i) (parse_all ss))"

text \<open>The first route that matches; the inner \<open>None\<close> is a parameter the pipe refuses.\<close>

definition dispatch :: "verb \<Rightarrow> string \<Rightarrow> ((string \<times> string) \<times> int list option) option" where
  "dispatch v url =
     (case matching v (segments url) of
        [] \<Rightarrow> None
      | r # _ \<Rightarrow> Some (ro_handler r, case match_path (ro_path r) (segments url) of None \<Rightarrow> None | Some ps \<Rightarrow> parse_all ps))"

section \<open>The route of a request\<close>

datatype url_part = Word string | Number int

fun part_text :: "url_part \<Rightarrow> string" where
  "part_text (Word s) = s"
| "part_text (Number i) = int_str i"

fun auth_path :: "auth_request \<Rightarrow> url_part list \<times> string" where
  "auth_path (RequestRegistration _ _ _) = ([Word ''register''], ''requestRegistrationOtp'')"
| "auth_path (ResendRegistration _) = ([Word ''register'', Word ''resend-otp''], ''resendRegistrationOtp'')"
| "auth_path (VerifyRegistration _ _ _) = ([Word ''register'', Word ''verify''], ''verifyRegistrationOtp'')"
| "auth_path (Login _ _) = ([Word ''login''], ''login'')"
| "auth_path (RequestReset _) = ([Word ''password'', Word ''request-otp''], ''requestPasswordResetOtp'')"
| "auth_path (ResetPassword _ _ _ _ _) = ([Word ''password'', Word ''reset''], ''resetPassword'')"
| "auth_path (Refresh _) = ([Word ''refresh''], ''refresh'')"
| "auth_path (Logout _) = ([Word ''logout''], ''logout'')"

fun admin_path :: "admin_request \<Rightarrow> url_part list \<times> string" where
  "admin_path (ListUsers _ _ _ _) = ([Word ''users''], ''listUsers'')"
| "admin_path (UserDetails i) = ([Word ''users'', Number i], ''getUserDetails'')"
| "admin_path (UserListings i _ _ _) = ([Word ''users'', Number i, Word ''listings''], ''listUserListings'')"
| "admin_path (UserReports i _ _) = ([Word ''users'', Number i, Word ''reports''], ''listUserReports'')"
| "admin_path (ListAdmins _ _) = ([Word ''admins''], ''listAdmins'')"
| "admin_path (PromoteAdmin i) = ([Word ''admins'', Number i], ''promoteAdmin'')"
| "admin_path (DemoteAdmin i) = ([Word ''admins'', Number i], ''demoteAdmin'')"
| "admin_path (UpdateUserStatus i _) = ([Word ''users'', Number i, Word ''status''], ''updateUserStatus'')"
| "admin_path (DeleteUser i) = ([Word ''users'', Number i], ''deleteUser'')"
| "admin_path (CreateWarning _ _) = ([Word ''warnings''], ''createWarning'')"
| "admin_path (ListReports _ _) = ([Word ''reports''], ''listReports'')"
| "admin_path (UpdateReportStatus i _) = ([Word ''reports'', Number i], ''updateReportStatus'')"
| "admin_path (CreateCategory _ _) = ([Word ''categories''], ''createCategory'')"
| "admin_path (DeleteCategory i) = ([Word ''categories'', Number i], ''deleteCategory'')"

fun products_path :: "products_request \<Rightarrow> url_part list \<times> string" where
  "products_path (CreateProduct _) = ([Word ''products''], ''createProduct'')"
| "products_path (GetProduct i) = ([Word ''products'', Number i], ''getProduct'')"
| "products_path (UpdateProduct i _) = ([Word ''products'', Number i], ''updateProduct'')"
| "products_path (DeleteProduct i) = ([Word ''products'', Number i], ''deleteProduct'')"
| "products_path (UpdateProductStatus i _) = ([Word ''products'', Number i, Word ''status''], ''updateProductStatus'')"
| "products_path (ListMyProducts _) = ([Word ''my'', Word ''products''], ''listMyProducts'')"
| "products_path (SearchProducts _) = ([Word ''search'', Word ''products''], ''searchProducts'')"

fun chat_path :: "chat_request \<Rightarrow> url_part list \<times> string" where
  "chat_path (CreateConversation _ _) = ([Word ''conversations''], ''createConversation'')"
| "chat_path (ListConversations _ _ _) = ([Word ''conversations''], ''listConversations'')"
| "chat_path (GetConversation i) = ([Word ''conversations'', Number i], ''getConversation'')"
| "chat_path (ListMessages i _ _) = ([Word ''conversations'', Number i, Word ''messages''], ''listMessages'')"

definition under :: "string \<Rightarrow> url_part list \<Rightarrow> url_part list \<times> string \<Rightarrow> url_part list \<times> string \<times> string" where
  "under cls base p = (base @ fst p, cls, snd p)"

fun route_of :: "api_request \<Rightarrow> url_part list \<times> string \<times> string" where
  "route_of (AuthApi r) = under ''AuthController'' [Word ''auth''] (auth_path r)"
| "route_of (AkedlyApi r) = under ''AuthAkedlyController'' [Word ''auth'', Word ''akedly'']
     (case r of AkedlyChallenge \<Rightarrow> ([Word ''challenge''], ''getChallenge'') | _ \<Rightarrow> ([Word ''send''], ''sendOtp''))"
| "route_of (UsersApi r) = under ''UsersController'' [Word ''me'']
     (case r of GetMe \<Rightarrow> ([], ''getMe'') | UpdateMe _ \<Rightarrow> ([], ''updateMe'')
      | ChangePassword _ _ \<Rightarrow> ([Word ''password''], ''changePassword'') | DeleteMe \<Rightarrow> ([], ''deleteMe''))"
| "route_of (PublicUsersApi r) = under ''PublicUsersController'' [Word ''users'']
     (case r of PublicProfile i _ _ \<Rightarrow> ([Number i], ''getPublicProfile''))"
| "route_of (ProductsApi r) = under ''ProductsController'' [] (products_path r)"
| "route_of (BlocksApi r) = under ''BlocksController'' [Word ''blocks'']
     (case r of BlockUser i \<Rightarrow> ([Number i], ''blockUser'') | UnblockUser i \<Rightarrow> ([Number i], ''unblockUser'')
      | ListBlocked _ _ \<Rightarrow> ([], ''listBlockedUsers''))"
| "route_of (FavoritesApi r) = under ''FavoritesController'' [Word ''favorites'']
     (case r of AddFavorite i \<Rightarrow> ([Number i], ''addFavorite'') | RemoveFavorite i \<Rightarrow> ([Number i], ''removeFavorite'')
      | ListFavorites _ _ _ _ \<Rightarrow> ([], ''listFavorites''))"
| "route_of (RatingsApi r) = under ''RatingsController'' [Word ''ratings'']
     (case r of RateUser _ _ _ \<Rightarrow> ([], ''rateUser'') | RatingSummary i \<Rightarrow> ([Number i], ''getUserRatingSummary''))"
| "route_of (ReportsApi r) = under ''ReportsController'' [Word ''reports'']
     (case r of CreateReport _ _ \<Rightarrow> ([], ''createReport'') | MyReports _ _ \<Rightarrow> ([Word ''me''], ''getMyReports''))"
| "route_of (CategoriesApi r) = under ''CategoriesController'' [Word ''categories''] ([], ''listCategories'')"
| "route_of (FilesApi r) = under ''FilesController'' [Word ''files'']
     (case r of UploadIntent _ \<Rightarrow> ([Word ''upload-intent''], ''createUploadIntent'')
      | MarkUploaded i _ \<Rightarrow> ([Number i, Word ''mark-uploaded''], ''markUploaded'') | GetFile i \<Rightarrow> ([Number i], ''getFile''))"
| "route_of (ChatApi r) = under ''ChatController'' [Word ''chat''] (chat_path r)"
| "route_of (AdminApi r) = under ''AdminController'' [Word ''admin''] (admin_path r)"
| "route_of (HealthApi r) = under ''HealthController'' [Word ''health'']
     (case r of Live \<Rightarrow> ([Word ''live''], ''live'') | Ready \<Rightarrow> ([Word ''ready''], ''ready''))"

definition path_of :: "api_request \<Rightarrow> string list" where
  "path_of r = map part_text (fst (route_of r))"

definition handler_of :: "api_request \<Rightarrow> string \<times> string" where
  "handler_of r = snd (route_of r)"

definition url_of :: "api_request \<Rightarrow> string" where
  "url_of r = concat (map (\<lambda>s. CHR ''/'' # s) (path_of r))"

text \<open>The numbers in the path.\<close>

definition params_of :: "api_request \<Rightarrow> int list" where
  "params_of r = concat (map (\<lambda>p. case p of Word _ \<Rightarrow> [] | Number i \<Rightarrow> [i]) (fst (route_of r)))"

end
