(* ===== verification/RoutesProps.thy ===== *)
theory RoutesProps
  imports Routes
begin

text \<open>
  Every request finds its own handler, and no other route of the table matches its URL.
\<close>

section \<open>The segments of a URL\<close>

lemma split_segments:
  "list_all (\<lambda>s. s \<noteq> [] \<and> CHR ''/'' \<notin> set s) ss \<Longrightarrow> segments (concat (map (\<lambda>s. CHR ''/'' # s) ss)) = ss"
proof (induction ss)
  case Nil
  then show ?case by (simp add: segments_def)
next
  case (Cons s ss)
  let ?rest = "concat (map (\<lambda>s. CHR ''/'' # s) ss)"
  have rest: "?rest = [] \<or> (\<exists>t. ?rest = CHR ''/'' # t)" by (cases ss) simp_all
  have "split_str (CHR ''/'') (s @ ?rest) = s # tl (split_str (CHR ''/'') ?rest)" if "CHR ''/'' \<notin> set s" for s
    using that rest by (induction s) auto
  moreover have "filter (\<lambda>s. s \<noteq> []) (tl (split_str (CHR ''/'') ?rest)) = ss"
    using Cons rest by (auto simp: segments_def)
  ultimately show ?case using Cons.prems by (simp add: segments_def)
qed

lemma int_str_plain [simp]: "int_str i \<noteq> []" "CHR ''/'' \<notin> set (int_str i)"
proof -
  have "c \<noteq> CHR ''/''" if "is_digit c" for c using that by (auto simp: is_digit_def)
  then have "CHR ''/'' \<notin> set (nat_str n)" for n using nat_str_digits [of n] by (auto simp: list_all_iff)
  then show "int_str i \<noteq> []" "CHR ''/'' \<notin> set (int_str i)" by (auto simp: int_str_def)
qed

lemma parse_int_str [simp]: "parse_int (int_str i) = Some i"
proof (cases "i < 0")
  case True
  then show ?thesis by (simp add: parse_int_def int_str_def nat_str_digits)
next
  case False
  have d: "list_all is_digit (nat_str (nat i))" by (rule nat_str_digits)
  then have "hd (nat_str (nat i)) \<noteq> CHR ''-''"
    using nat_str_nonempty [of "nat i"] by (cases "nat_str (nat i)") (auto simp: is_digit_def)
  then have "parse_int (nat_str (nat i)) = Some (int (digits_nat (nat_str (nat i))))"
    using d nat_str_nonempty [of "nat i"] unfolding parse_int_def by (cases "nat_str (nat i)") simp_all
  with False show ?thesis by (simp add: int_str_def)
qed

section \<open>The table, written out\<close>

lemmas route_tables = auth_routes_def akedly_routes_def users_routes_def public_users_routes_def products_routes_def
  blocks_routes_def favorites_routes_def ratings_routes_def reports_routes_def categories_routes_def
  files_routes_def chat_routes_def admin_routes_def health_routes_def

lemmas routes_written = routes_def [unfolded controllers_def route_tables controller_table_def segments_def pattern_def,
  simplified]

section \<open>Routes that overlap\<close>

text \<open>Two patterns overlap when some URL matches both. The literals of the table are in lower case.\<close>

fun overlap :: "segment list \<Rightarrow> segment list \<Rightarrow> bool" where
  "overlap [] [] = True"
| "overlap (Lit a # ps) (Lit b # qs) = (a = b \<and> overlap ps qs)"
| "overlap (Lit a # ps) (Param # qs) = overlap ps qs"
| "overlap (Param # ps) (q # qs) = overlap ps qs"
| "overlap _ _ = False"

fun lower_case :: "segment \<Rightarrow> bool" where
  "lower_case (Lit a) = (js_lower a = a)"
| "lower_case Param = True"

fun separate :: "route list \<Rightarrow> bool" where
  "separate [] = True"
| "separate (r # rs) = (list_all (\<lambda>q. ro_verb r = ro_verb q \<longrightarrow> \<not> overlap (ro_path r) (ro_path q)) rs \<and> separate rs)"

lemma routes_lower: "r \<in> set routes \<Longrightarrow> list_all lower_case (ro_path r)"
proof -
  have "list_all (\<lambda>r. list_all lower_case (ro_path r)) routes"
    unfolding routes_written by (simp add: js_lower_def lower_char_def)
  then show "r \<in> set routes \<Longrightarrow> list_all lower_case (ro_path r)" by (simp add: list_all_iff)
qed

lemma routes_separate: "separate routes"
  unfolding routes_written by simp

lemma matches_overlap:
  "match_path p ss \<noteq> None \<Longrightarrow> match_path q ss \<noteq> None \<Longrightarrow> list_all lower_case p \<Longrightarrow> list_all lower_case q \<Longrightarrow> overlap p q"
proof (induction p ss arbitrary: q rule: match_path.induct)
  case 1
  then show ?case by (cases q) auto
next
  case (2 l ps s ss)
  then show ?case by (cases q rule: list.exhaust; cases "hd q") (auto split: if_splits)
next
  case (3 ps s ss)
  then show ?case by (cases q rule: list.exhaust; cases "hd q") (auto split: if_splits)
qed simp_all

lemma separate_unique:
  assumes "separate rs" and "\<And>r. r \<in> set rs \<Longrightarrow> list_all lower_case (ro_path r)" and "r \<in> set rs"
    and "match_path (ro_path r) ss \<noteq> None"
  shows "filter (\<lambda>q. ro_verb q = ro_verb r \<and> match_path (ro_path q) ss \<noteq> None) rs = [r]"
  using assms
proof (induction rs)
  case (Cons q rs)
  have apart: "\<not> (ro_verb b = ro_verb a \<and> match_path (ro_path b) ss \<noteq> None)"
    if "match_path (ro_path a) ss \<noteq> None" "a \<in> set (q # rs)" "b \<in> set (q # rs)"
      "ro_verb a = ro_verb b \<longrightarrow> \<not> overlap (ro_path a) (ro_path b) \<or> \<not> overlap (ro_path b) (ro_path a)" for a b
    using that Cons.prems(2) matches_overlap by metis
  show ?case
  proof (cases "r = q")
    case True
    have "\<not> (ro_verb b = ro_verb r \<and> match_path (ro_path b) ss \<noteq> None)" if "b \<in> set rs" for b
      using apart [of r b] that Cons.prems True by (auto simp: list_all_iff)
    then have "filter (\<lambda>b. ro_verb b = ro_verb r \<and> match_path (ro_path b) ss \<noteq> None) rs = []"
      by (simp add: filter_empty_conv)
    with Cons.prems True show ?thesis by simp
  next
    case False
    then have r: "r \<in> set rs" using Cons.prems by simp
    have "\<not> (ro_verb q = ro_verb r \<and> match_path (ro_path q) ss \<noteq> None)"
      by (rule apart) (use r Cons.prems in \<open>auto simp: list_all_iff\<close>)
    moreover have "filter (\<lambda>b. ro_verb b = ro_verb r \<and> match_path (ro_path b) ss \<noteq> None) rs = [r]"
      using Cons.prems r by (intro Cons.IH) auto
    ultimately show ?thesis by (simp del: not_None_eq)
  qed
qed simp

section \<open>The own route of a request\<close>

fun part_pattern :: "url_part \<Rightarrow> segment" where
  "part_pattern (Word s) = Lit s"
| "part_pattern (Number _) = Param"

definition own_route :: "api_request \<Rightarrow> route" where
  "own_route r = \<lparr>ro_verb = verb_of r, ro_path = map part_pattern (fst (route_of r)), ro_handler = handler_of r\<rparr>"

lemma own_path_matches:
  "match_path (map part_pattern ps) (map part_text ps) =
     Some (map int_str (concat (map (\<lambda>p. case p of Word _ \<Rightarrow> [] | Number i \<Rightarrow> [i]) ps)))"
proof (induction ps)
  case (Cons p ps)
  then show ?case by (cases p) simp_all
qed simp

lemma own_route_there: "own_route r \<in> set routes"
proof (cases r)
  case (AuthApi x)
  then show ?thesis unfolding routes_written by (cases x) (simp_all add: own_route_def handler_of_def under_def)
next
  case (AkedlyApi x)
  then show ?thesis unfolding routes_written by (cases x) (simp_all add: own_route_def handler_of_def under_def)
next
  case (UsersApi x)
  then show ?thesis unfolding routes_written by (cases x) (simp_all add: own_route_def handler_of_def under_def)
next
  case (PublicUsersApi x)
  then show ?thesis unfolding routes_written by (cases x) (simp_all add: own_route_def handler_of_def under_def)
next
  case (ProductsApi x)
  then show ?thesis unfolding routes_written by (cases x) (simp_all add: own_route_def handler_of_def under_def)
next
  case (BlocksApi x)
  then show ?thesis unfolding routes_written by (cases x) (simp_all add: own_route_def handler_of_def under_def)
next
  case (FavoritesApi x)
  then show ?thesis unfolding routes_written by (cases x) (simp_all add: own_route_def handler_of_def under_def)
next
  case (RatingsApi x)
  then show ?thesis unfolding routes_written by (cases x) (simp_all add: own_route_def handler_of_def under_def)
next
  case (ReportsApi x)
  then show ?thesis unfolding routes_written by (cases x) (simp_all add: own_route_def handler_of_def under_def)
next
  case (CategoriesApi x)
  then show ?thesis unfolding routes_written by (cases x) (simp_all add: own_route_def handler_of_def under_def)
next
  case (FilesApi x)
  then show ?thesis unfolding routes_written by (cases x) (simp_all add: own_route_def handler_of_def under_def)
next
  case (ChatApi x)
  then show ?thesis unfolding routes_written by (cases x) (simp_all add: own_route_def handler_of_def under_def)
next
  case (AdminApi x)
  then show ?thesis unfolding routes_written by (cases x) (simp_all add: own_route_def handler_of_def under_def)
next
  case (HealthApi x)
  then show ?thesis unfolding routes_written by (cases x) (simp_all add: own_route_def handler_of_def under_def)
qed

lemma plain_path: "list_all (\<lambda>s. s \<noteq> [] \<and> CHR ''/'' \<notin> set s) (path_of r)"
proof -
  have p: "list_all (\<lambda>p. case p of Word s \<Rightarrow> s \<noteq> [] \<and> CHR ''/'' \<notin> set s | Number _ \<Rightarrow> True) (fst (auth_path a))"
    "list_all (\<lambda>p. case p of Word s \<Rightarrow> s \<noteq> [] \<and> CHR ''/'' \<notin> set s | Number _ \<Rightarrow> True) (fst (products_path b))"
    "list_all (\<lambda>p. case p of Word s \<Rightarrow> s \<noteq> [] \<and> CHR ''/'' \<notin> set s | Number _ \<Rightarrow> True) (fst (chat_path c))"
    "list_all (\<lambda>p. case p of Word s \<Rightarrow> s \<noteq> [] \<and> CHR ''/'' \<notin> set s | Number _ \<Rightarrow> True) (fst (admin_path d))" for a b c d
    by ((cases a; simp), (cases b; simp), (cases c; simp), (cases d; simp))
  have "list_all (\<lambda>p. case p of Word s \<Rightarrow> s \<noteq> [] \<and> CHR ''/'' \<notin> set s | Number _ \<Rightarrow> True) (fst (route_of r))"
    by (cases r) (auto simp: under_def p split: akedly_request.split users_request.split public_users_request.split
        blocks_request.split favorites_request.split ratings_request.split reports_request.split files_request.split
        health_request.split)
  then show ?thesis unfolding path_of_def list.pred_map by (rule list.pred_mono_strong) (auto split: url_part.splits)
qed

lemma parse_all_int_str [simp]: "parse_all (map int_str is) = Some is"
  by (induction "is") simp_all

text \<open>
  C12. Routing: for every request, its method and URL lead to its own handler, with the numbers of its path as
  parameters, and exactly one route of the whole table matches; so no route shadows another, whatever the
  order of registration.
\<close>

theorem every_request_is_routed:
  "dispatch (verb_of r) (url_of r) = Some (handler_of r, Some (params_of r)) \<and>
   map ro_handler (matching (verb_of r) (segments (url_of r))) = [handler_of r]"
proof -
  have seg: "segments (url_of r) = path_of r" unfolding url_of_def by (rule split_segments) (rule plain_path)
  have m: "match_path (ro_path (own_route r)) (path_of r) = Some (map int_str (params_of r))"
    by (simp add: own_route_def path_of_def params_of_def own_path_matches)
  have "matching (ro_verb (own_route r)) (path_of r) = [own_route r]"
    unfolding matching_def by (rule separate_unique) (simp_all add: routes_separate routes_lower own_route_there m)
  then have "matching (verb_of r) (path_of r) = [own_route r]" by (simp add: own_route_def)
  then show ?thesis by (simp add: dispatch_def seg m) (simp add: own_route_def)
qed

end
