(* ===== verification/SeedClient.thy ===== *)
theory SeedClient
  imports Routes Gateway Seeders
begin

text \<open>
  The client of \<open>src/src/dev/dev-seeder.ts\<close>: its input, the retrying \<open>SeedApiClient\<close>, the reading of answers and
  the chat sockets, over a world that answers requests.

  A call names the method of the controller it is meant for, with typed arguments; \<open>Routes\<close> gives its
  method and URL. Query parameters that the DTO of the route does not declare are kept apart, because the
  validation pipe refuses them. What the server and the network do is the record \<open>world\<close>, a parameter; in
  \<open>SeedServer\<close> it is the model of the server.
\<close>

section \<open>Input\<close>

record dev_seed_input =
  di_baseUrl :: string
  di_adminPhone :: string
  di_adminPassword :: string
  di_profile :: string
  di_timeoutMs :: rat

definition DEV_PROFILE :: string where "DEV_PROFILE = ''medium''"
definition DEFAULT_BASE_URL :: string where "DEFAULT_BASE_URL = ''http://localhost''"
definition DEFAULT_TIMEOUT_MS :: int where "DEFAULT_TIMEOUT_MS = 12000"

definition env_or :: "process_env \<Rightarrow> string \<Rightarrow> string \<Rightarrow> string" where
  "env_or env name fallback = (case env name of None \<Rightarrow> fallback | Some v \<Rightarrow> v)"

definition parseDevSeedInput :: "process_env \<Rightarrow> exn + dev_seed_input" where
  "parseDevSeedInput env =
     (let trimmed = js_trim (env_or env ''BASE_URL'' DEFAULT_BASE_URL);
          baseUrl = (if ends_with trimmed ''/'' then butlast trimmed else trimmed);
          adminPhone = js_trim (env_or env ''ADMIN_PHONE'' []);
          adminPassword = env_or env ''ADMIN_PASSWORD'' [];
          profile = js_trim (env_or env ''SEED_PROFILE'' DEV_PROFILE);
          timeoutRaw = js_trim (env_or env ''SEED_TIMEOUT_MS'' (int_str DEFAULT_TIMEOUT_MS))
      in if \<not> starts_with baseUrl ''http://'' \<and> \<not> starts_with baseUrl ''https://'' then
           Inl (JsErr ''BASE_URL must start with http:// or https://'')
         else if adminPhone = [] then Inl (JsErr ''ADMIN_PHONE is required'')
         else if \<not> ADMIN_PHONE_REGEX adminPhone then
           Inl (JsErr ''ADMIN_PHONE must be a valid E.164-like phone number'')
         else if env ''ADMIN_PASSWORD'' = None then Inl (JsErr ''ADMIN_PASSWORD is required'')
         else if profile \<noteq> DEV_PROFILE then Inl (JsErr ''SEED_PROFILE must be \"medium\" for this version'')
         else (case string_number timeoutRaw of
                 JNum timeoutMs \<Rightarrow>
                   (if timeoutMs < 1000 \<or> timeoutMs > 120000 then
                      Inl (JsErr ''SEED_TIMEOUT_MS must be a number between 1000 and 120000'')
                    else Inr \<lparr>di_baseUrl = baseUrl, di_adminPhone = adminPhone, di_adminPassword = adminPassword,
                              di_profile = DEV_PROFILE, di_timeoutMs = timeoutMs\<rparr>)
               | _ \<Rightarrow> Inl (JsErr ''SEED_TIMEOUT_MS must be a number between 1000 and 120000'')))"

section \<open>The state of a run\<close>

record seed_call =
  sc_request :: api_request
  sc_unknown :: "(string \<times> string) list"
  sc_token :: "string option"

datatype fetch_result = Answered nat json | NetworkFailure string

text \<open>\<open>ApiCallLog\<close>; the call stands for its method, path and body.\<close>

record api_call_log =
  ac_call :: seed_call
  ac_statusCode :: nat
  ac_durationMs :: int
  ac_attempts :: nat
  ac_retried :: bool
  ac_responseBody :: json

datatype entity_state = Created | Reused | Updated

record entity_record =
  er_id :: int
  er_state :: entity_state

record seed_entity_map =
  em_users :: "string \<Rightarrow> entity_record option"
  em_categories :: "string \<Rightarrow> entity_record option"
  em_products :: "string \<Rightarrow> entity_record option"
  em_conversations :: "string \<Rightarrow> entity_record option"
  em_reports :: "string \<Rightarrow> entity_record option"
  em_warnings :: "string \<Rightarrow> entity_record option"
  em_blocks :: "string \<Rightarrow> entity_record option"
  em_favorites :: "string \<Rightarrow> entity_record option"

definition createEmptyEntityMap :: seed_entity_map where
  "createEmptyEntityMap =
     \<lparr>em_users = (\<lambda>_. None), em_categories = (\<lambda>_. None), em_products = (\<lambda>_. None),
      em_conversations = (\<lambda>_. None), em_reports = (\<lambda>_. None), em_warnings = (\<lambda>_. None),
      em_blocks = (\<lambda>_. None), em_favorites = (\<lambda>_. None)\<rparr>"

text \<open>
  The state of a run: the outside, the logs of the client, the waiting times it chose and the map of
  entities. The outside answers a call, tells the time, lets time pass, and runs the client's side of the
  chat sockets; a time-out of \<open>fetch\<close> is one of its network failures.
\<close>

record 'n client =
  cl_net :: 'n
  cl_logs :: "api_call_log list"
  cl_sleeps :: "nat list"
  cl_entities :: seed_entity_map

record 'n world =
  wd_fetch :: "seed_call \<Rightarrow> 'n \<Rightarrow> fetch_result \<times> 'n"
  wd_now :: "'n \<Rightarrow> int"
  wd_wait :: "nat \<Rightarrow> 'n \<Rightarrow> 'n"
  wd_connect :: "string \<Rightarrow> ('n, string) act"
  wd_emit :: "string \<Rightarrow> ws_event \<Rightarrow> ('n, json) act"
  wd_leave :: "string \<Rightarrow> 'n \<Rightarrow> 'n"

type_synonym ('n, 'a) seeding = "('n client, 'a) act"

section \<open>SeedApiClient\<close>

definition RETRY_ATTEMPTS :: nat where "RETRY_ATTEMPTS = 4"

definition RETRYABLE_STATUSES :: "nat list" where "RETRYABLE_STATUSES = [429, 500, 502, 503, 504]"

definition isRetryableStatus :: "nat \<Rightarrow> bool" where
  "isRetryableStatus statusCode = (statusCode \<in> set RETRYABLE_STATUSES)"

definition delayMs :: "nat \<Rightarrow> nat" where
  "delayMs attempt = 250 * 2 ^ (attempt - 1)"

text \<open>\<open>ApiError\<close>: the only exceptions of the client with a status.\<close>

definition verb_text :: "verb \<Rightarrow> string" where
  "verb_text v = (case v of Get \<Rightarrow> ''GET'' | Post \<Rightarrow> ''POST'' | Patch \<Rightarrow> ''PATCH'' | Delete \<Rightarrow> ''DELETE'')"

definition endpoint :: "seed_call \<Rightarrow> string" where
  "endpoint c = verb_text (verb_of (sc_request c)) @ '' '' @ url_of (sc_request c)"

definition ApiError :: "seed_call \<Rightarrow> nat \<Rightarrow> json \<Rightarrow> exn" where
  "ApiError c statusCode body =
     HttpExn statusCode (''HTTP '' @ nat_str statusCode @ '' on '' @ endpoint c)
       [(''body'', body), (''path'', JStr (url_of (sc_request c)))]"

definition api_error :: "exn \<Rightarrow> nat option" where
  "api_error err = (case err of HttpExn statusCode _ _ \<Rightarrow> Some statusCode | _ \<Rightarrow> None)"

definition network_error :: "seed_call \<Rightarrow> string \<Rightarrow> exn" where
  "network_error c err = JsErr (''Network failure on '' @ endpoint c @ '': '' @ err)"

definition sleepFn :: "'n world \<Rightarrow> nat \<Rightarrow> ('n, unit) seeding" where
  "sleepFn w ms = modify (\<lambda>cl. cl\<lparr>cl_net := wd_wait w ms (cl_net cl), cl_sleeps := cl_sleeps cl @ [ms]\<rparr>)"

text \<open>One attempt and its entry in the log.\<close>

definition exchange :: "'n world \<Rightarrow> seed_call \<Rightarrow> nat \<Rightarrow> ('n, fetch_result) seeding" where
  "exchange w c attempts =
     (\<lambda>cl. let start = wd_now w (cl_net cl); (r, net) = wd_fetch w c (cl_net cl) in
       (Inr r, cl\<lparr>cl_net := net, cl_logs := cl_logs cl @
         [\<lparr>ac_call = c, ac_statusCode = (case r of Answered statusCode _ \<Rightarrow> statusCode | NetworkFailure _ \<Rightarrow> 0),
           ac_durationMs = wd_now w net - start, ac_attempts = attempts, ac_retried = attempts > 1,
           ac_responseBody = (case r of Answered _ body \<Rightarrow> body
                              | NetworkFailure err \<Rightarrow> JObj [(''error'', JStr err)])\<rparr>]\<rparr>))"

text \<open>The \<open>while\<close> loop of \<open>request\<close>.\<close>

function request_loop ::
  "'n world \<Rightarrow> seed_call \<Rightarrow> nat list \<Rightarrow> bool \<Rightarrow> nat \<Rightarrow> string \<Rightarrow> ('n, nat \<times> json) seeding" where
  "request_loop w c expectedStatuses retryable attempts lastNetworkError =
     (if attempts < RETRY_ATTEMPTS then
        (let attempt = attempts + 1 in
         andThen (exchange w c attempt) (\<lambda>r.
         case r of
           Answered statusCode body \<Rightarrow>
             if statusCode \<in> set expectedStatuses then ret (statusCode, body)
             else if retryable \<and> attempt < RETRY_ATTEMPTS \<and> isRetryableStatus statusCode then
               andThen (sleepFn w (delayMs attempt)) (\<lambda>_.
               request_loop w c expectedStatuses retryable attempt lastNetworkError)
             else throw (ApiError c statusCode body)
         | NetworkFailure err \<Rightarrow>
             if \<not> retryable \<or> attempt \<ge> RETRY_ATTEMPTS then throw (network_error c err)
             else
               andThen (sleepFn w (delayMs attempt)) (\<lambda>_.
               request_loop w c expectedStatuses retryable attempt err)))
      else throw (network_error c lastNetworkError))"
  by pat_completeness auto
termination
  by (relation "measure (\<lambda>(w, c, ex, re, attempts, err). RETRY_ATTEMPTS - attempts)") auto

declare request_loop.simps [simp del]

definition request :: "'n world \<Rightarrow> seed_call \<Rightarrow> nat list \<Rightarrow> bool \<Rightarrow> ('n, json) seeding" where
  "request w c expectedStatuses retryable =
     andThen (request_loop w c expectedStatuses retryable 0 []) (\<lambda>(statusCode, body). ret body)"

definition call_as :: "string \<Rightarrow> api_request \<Rightarrow> seed_call" where
  "call_as tok r = \<lparr>sc_request = r, sc_unknown = [], sc_token = (if tok = [] then None else Some tok)\<rparr>"

abbreviation anonymously :: "api_request \<Rightarrow> seed_call" where
  "anonymously \<equiv> call_as []"

section \<open>Reading answers\<close>

definition ensureString :: "json \<Rightarrow> string" where
  "ensureString v = (case v of JStr s \<Rightarrow> s | _ \<Rightarrow> [])"

definition getObject :: "json \<Rightarrow> json" where
  "getObject v = (if is_object v then v else JObj [])"

definition has_keys :: "json \<Rightarrow> bool" where
  "has_keys v = (case v of JObj kvs \<Rightarrow> kvs \<noteq> [] | JArr vs \<Rightarrow> vs \<noteq> [] | _ \<Rightarrow> False)"

definition getResponseData :: "json \<Rightarrow> json" where
  "getResponseData v =
     (let root = getObject v; nested = getObject (get_prop root ''data'') in if has_keys nested then nested else root)"

definition toArray :: "json \<Rightarrow> json list" where
  "toArray v = (case v of JArr vs \<Rightarrow> filter is_object vs | _ \<Rightarrow> [])"

text \<open>\<open>Number(v)\<close> when it is a positive integer; what the code checks of every identifier.\<close>

definition positive_id :: "json \<Rightarrow> int option" where
  "positive_id v =
     (case js_Number v of JNum r \<Rightarrow> if is_integer r \<and> r > 0 then Some \<lfloor>r\<rfloor> else None | _ \<Rightarrow> None)"

definition require_id :: "string \<Rightarrow> json \<Rightarrow> ('n, int) seeding" where
  "require_id err v = (case positive_id v of None \<Rightarrow> throw (JsErr err) | Some i \<Rightarrow> ret i)"

definition rows_of :: "string \<Rightarrow> json \<Rightarrow> json list" where
  "rows_of key body = toArray (get_prop (getResponseData body) key)"

definition named :: "json \<Rightarrow> string" where
  "named row = ensureString (get_prop row ''name'')"

section \<open>Chat sockets\<close>

definition on_net :: "('n, 'a) act \<Rightarrow> ('n, 'a) seeding" where
  "on_net m = (\<lambda>cl. case m (cl_net cl) of (r, net) \<Rightarrow> (r, cl\<lparr>cl_net := net\<rparr>))"

definition connectChatSocket :: "'n world \<Rightarrow> string \<Rightarrow> ('n, string) seeding" where
  "connectChatSocket w tok = on_net (wd_connect w tok)"

definition wsEmitWithAck :: "'n world \<Rightarrow> string \<Rightarrow> ws_event \<Rightarrow> ('n, json) seeding" where
  "wsEmitWithAck w sid ev = on_net (wd_emit w sid ev)"

definition disconnectSocket :: "'n world \<Rightarrow> string \<Rightarrow> ('n, unit) seeding" where
  "disconnectSocket w sid = modify (\<lambda>cl. cl\<lparr>cl_net := wd_leave w sid (cl_net cl)\<rparr>)"

text \<open>\<open>try { m } finally { k }\<close>.\<close>

definition finally_do :: "('s, 'a) act \<Rightarrow> ('s, unit) act \<Rightarrow> ('s, 'a) act" where
  "finally_do m k =
     (\<lambda>s. case m s of (r, s') \<Rightarrow> (case k s' of (Inl e, s'') \<Rightarrow> (Inl e, s'') | (Inr _, s'') \<Rightarrow> (r, s'')))"

end
