(* ===== verification/SeedData.thy ===== *)
theory SeedData
  imports SeedClient
begin

text \<open>
  The data \<open>src/src/dev/dev-seeder.ts\<close> seeds: accounts, categories, products with their status, ratings,
  conversations, reports, account states, blocks and favourites, with the keys that tie them together.
\<close>

section \<open>Types\<close>

record seed_user_def =
  su_key :: string
  su_name :: string
  su_phone :: string
  su_password :: string
  su_city :: string
  su_address :: string

record category_def =
  ct_key :: string
  ct_name :: string
  ct_parentKey :: "string option"

record product_def =
  pf_key :: string
  pf_ownerKey :: string
  pf_categoryKey :: string
  pf_name :: string
  pf_description :: string
  pf_price :: nat
  pf_city :: string
  pf_addressText :: string
  pf_status :: product_status

record rating_def =
  rd_key :: string
  rd_raterKey :: string
  rd_ratedKey :: string
  rd_value :: int
  rd_comment :: string

record conversation_def =
  cf_key :: string
  cf_a :: string
  cf_b :: string

record report_def =
  rf_key :: string
  rf_reporterKey :: string
  rf_reportedKey :: string
  rf_reason :: string
  rf_targetStatus :: report_status

record user_state_target =
  us_key :: string
  us_status :: user_status
  us_warningMessage :: string

record block_def =
  bf_key :: string
  bf_blockerKey :: string
  bf_blockedKey :: string

record favorite_def =
  ff_key :: string
  ff_userKey :: string
  ff_productKey :: string

section \<open>Accounts and categories\<close>

definition seed_user :: "string \<Rightarrow> string \<Rightarrow> string \<Rightarrow> string \<Rightarrow> string \<Rightarrow> string \<Rightarrow> seed_user_def" where
  "seed_user key name phone password city address =
     \<lparr>su_key = key, su_name = name, su_phone = phone, su_password = password, su_city = city,
      su_address = address\<rparr>"

definition DEV_USERS :: "seed_user_def list" where
  "DEV_USERS =
     [seed_user ''user01'' ''DEV User 01'' ''+201550000101'' ''DevUser01123'' ''Cairo'' ''Nasr City Block A'',
      seed_user ''user02'' ''DEV User 02'' ''+201550000102'' ''DevUser02123'' ''Giza'' ''Dokki District 2'',
      seed_user ''user03'' ''DEV User 03'' ''+201550000103'' ''DevUser03123'' ''Alexandria'' ''Sidi Gaber Area'',
      seed_user ''user04'' ''DEV User 04'' ''+201550000104'' ''DevUser04123'' ''Mansoura'' ''University Street 4'',
      seed_user ''user05'' ''DEV User 05'' ''+201550000105'' ''DevUser05123'' ''Tanta'' ''Central Market Road'',
      seed_user ''user06'' ''DEV User 06'' ''+201550000106'' ''DevUser06123'' ''Ismailia'' ''Canal View 6'',
      seed_user ''user07'' ''DEV User 07'' ''+201550000107'' ''DevUser07123'' ''Asyut'' ''El Gomhoureya Street 7'',
      seed_user ''user08'' ''DEV User 08'' ''+201550000108'' ''DevUser08123'' ''Luxor'' ''Karnak Road 8'']"

definition DEV_CATEGORIES :: "category_def list" where
  "DEV_CATEGORIES =
     [\<lparr>ct_key = ''root-electronics'', ct_name = ''[DEV] Electronics'', ct_parentKey = None\<rparr>,
      \<lparr>ct_key = ''root-fashion'', ct_name = ''[DEV] Fashion'', ct_parentKey = None\<rparr>,
      \<lparr>ct_key = ''root-home'', ct_name = ''[DEV] Home'', ct_parentKey = None\<rparr>,
      \<lparr>ct_key = ''leaf-phones'', ct_name = ''[DEV] Mobile Phones'', ct_parentKey = Some ''root-electronics''\<rparr>,
      \<lparr>ct_key = ''leaf-laptops'', ct_name = ''[DEV] Laptops'', ct_parentKey = Some ''root-electronics''\<rparr>,
      \<lparr>ct_key = ''leaf-men'', ct_name = ''[DEV] Men Clothing'', ct_parentKey = Some ''root-fashion''\<rparr>,
      \<lparr>ct_key = ''leaf-women'', ct_name = ''[DEV] Women Clothing'', ct_parentKey = Some ''root-fashion''\<rparr>,
      \<lparr>ct_key = ''leaf-furniture'', ct_name = ''[DEV] Furniture'', ct_parentKey = Some ''root-home''\<rparr>,
      \<lparr>ct_key = ''leaf-appliances'', ct_name = ''[DEV] Appliances'', ct_parentKey = Some ''root-home''\<rparr>]"

section \<open>Products\<close>

definition PRODUCT_STATUS_MATRIX :: "(string \<times> product_status list) list" where
  "PRODUCT_STATUS_MATRIX =
     [(''user01'', [Available, Sold, Archived]),
      (''user02'', [Available, Available, Sold]),
      (''user03'', [Available, Available, Archived]),
      (''user04'', [Available, Sold, Available]),
      (''user05'', [Available, Available, Archived]),
      (''user06'', [Sold, Available, Available]),
      (''user07'', [Archived, Available, Sold]),
      (''user08'', [Available, Available, Sold])]"

definition leafCycle :: "string list" where
  "leafCycle = [''leaf-phones'', ''leaf-laptops'', ''leaf-men'', ''leaf-women'', ''leaf-furniture'', ''leaf-appliances'']"

text \<open>The product number \<open>i\<close> of a user, before which \<open>n\<close> products were made (\<open>categoryIndex\<close>).\<close>

definition tagged :: "string \<Rightarrow> string \<Rightarrow> string" where
  "tagged key text = ''[DEV-SEED:'' @ key @ ''] '' @ text"

definition product_of :: "seed_user_def \<Rightarrow> nat \<Rightarrow> nat \<Rightarrow> product_def" where
  "product_of user n i =
     (let globalIndex = n + 1; key = su_key user @ ''-product-'' @ nat_str (i + 1) in
      \<lparr>pf_key = key, pf_ownerKey = su_key user, pf_categoryKey = leafCycle ! (n mod length leafCycle),
       pf_name = tagged key (''Marketplace Item '' @ nat_str globalIndex),
       pf_description = tagged key (''Deterministic seeded listing for '' @ su_key user),
       pf_price = 100 + globalIndex * 13, pf_city = su_city user,
       pf_addressText = tagged key (su_address user),
       pf_status = (case map_of PRODUCT_STATUS_MATRIX (su_key user) of None \<Rightarrow> Available | Some ss \<Rightarrow> ss ! i)\<rparr>)"

fun buildProductDefs :: "seed_user_def list \<Rightarrow> nat \<Rightarrow> product_def list" where
  "buildProductDefs [] n = []"
| "buildProductDefs (user # us) n = map (\<lambda>i. product_of user (n + i) i) [0, 1, 2] @ buildProductDefs us (n + 3)"

definition PRODUCT_DEFS :: "product_def list" where
  "PRODUCT_DEFS = buildProductDefs DEV_USERS 0"

definition PRODUCT_CATEGORY_LABELS_BY_LEAF_KEY :: "(string \<times> string \<times> string option) list" where
  "PRODUCT_CATEGORY_LABELS_BY_LEAF_KEY =
     [(''leaf-phones'', (''electronics'', Some ''smartphones'')),
      (''leaf-laptops'', (''electronics'', Some ''laptopsAndComputers'')),
      (''leaf-men'', (''clothingAndFashion'', Some ''menClothing'')),
      (''leaf-women'', (''clothingAndFashion'', Some ''womenClothing'')),
      (''leaf-furniture'', (''homeAndDecor'', Some ''furniture'')),
      (''leaf-appliances'', (''homeAndDecor'', Some ''homeTools''))]"

section \<open>What the accounts do\<close>

definition RATING_DEFS :: "rating_def list" where
  "RATING_DEFS =
     [\<lparr>rd_key = ''rate-01'', rd_raterKey = ''user01'', rd_ratedKey = ''user02'', rd_value = 5,
       rd_comment = ''[DEV-SEED:rate-01] Great buyer''\<rparr>,
      \<lparr>rd_key = ''rate-02'', rd_raterKey = ''user02'', rd_ratedKey = ''user01'', rd_value = 4,
       rd_comment = ''[DEV-SEED:rate-02] Smooth trade''\<rparr>,
      \<lparr>rd_key = ''rate-03'', rd_raterKey = ''user03'', rd_ratedKey = ''user04'', rd_value = 5,
       rd_comment = ''[DEV-SEED:rate-03] Excellent seller''\<rparr>,
      \<lparr>rd_key = ''rate-04'', rd_raterKey = ''user04'', rd_ratedKey = ''user03'', rd_value = 3,
       rd_comment = ''[DEV-SEED:rate-04] Item acceptable''\<rparr>,
      \<lparr>rd_key = ''rate-05'', rd_raterKey = ''user05'', rd_ratedKey = ''user06'', rd_value = 4,
       rd_comment = ''[DEV-SEED:rate-05] Good communication''\<rparr>,
      \<lparr>rd_key = ''rate-06'', rd_raterKey = ''user06'', rd_ratedKey = ''user05'', rd_value = 5,
       rd_comment = ''[DEV-SEED:rate-06] Fast payment''\<rparr>,
      \<lparr>rd_key = ''rate-07'', rd_raterKey = ''user07'', rd_ratedKey = ''user08'', rd_value = 2,
       rd_comment = ''[DEV-SEED:rate-07] Late responses''\<rparr>,
      \<lparr>rd_key = ''rate-08'', rd_raterKey = ''user08'', rd_ratedKey = ''user07'', rd_value = 4,
       rd_comment = ''[DEV-SEED:rate-08] Resolved quickly''\<rparr>,
      \<lparr>rd_key = ''rate-09'', rd_raterKey = ''user01'', rd_ratedKey = ''user03'', rd_value = 5,
       rd_comment = ''[DEV-SEED:rate-09] Trusted seller''\<rparr>,
      \<lparr>rd_key = ''rate-10'', rd_raterKey = ''user02'', rd_ratedKey = ''user04'', rd_value = 4,
       rd_comment = ''[DEV-SEED:rate-10] Good quality''\<rparr>,
      \<lparr>rd_key = ''rate-11'', rd_raterKey = ''user03'', rd_ratedKey = ''user05'', rd_value = 3,
       rd_comment = ''[DEV-SEED:rate-11] Average experience''\<rparr>,
      \<lparr>rd_key = ''rate-12'', rd_raterKey = ''user04'', rd_ratedKey = ''user06'', rd_value = 5,
       rd_comment = ''[DEV-SEED:rate-12] Highly recommended''\<rparr>]"

definition CONVERSATION_DEFS :: "conversation_def list" where
  "CONVERSATION_DEFS =
     [\<lparr>cf_key = ''chat-01'', cf_a = ''user01'', cf_b = ''user02''\<rparr>,
      \<lparr>cf_key = ''chat-02'', cf_a = ''user03'', cf_b = ''user04''\<rparr>,
      \<lparr>cf_key = ''chat-03'', cf_a = ''user05'', cf_b = ''user06''\<rparr>,
      \<lparr>cf_key = ''chat-04'', cf_a = ''user07'', cf_b = ''user08''\<rparr>,
      \<lparr>cf_key = ''chat-05'', cf_a = ''user01'', cf_b = ''user05''\<rparr>,
      \<lparr>cf_key = ''chat-06'', cf_a = ''user02'', cf_b = ''user06''\<rparr>]"

definition REPORT_DEFS :: "report_def list" where
  "REPORT_DEFS =
     [\<lparr>rf_key = ''report-01'', rf_reporterKey = ''user01'', rf_reportedKey = ''user07'',
       rf_reason = ''[DEV-SEED:report-01] Repeated abusive language in chat'', rf_targetStatus = Open\<rparr>,
      \<lparr>rf_key = ''report-02'', rf_reporterKey = ''user02'', rf_reportedKey = ''user08'',
       rf_reason = ''[DEV-SEED:report-02] Suspicious listing details mismatch'', rf_targetStatus = Reviewing\<rparr>,
      \<lparr>rf_key = ''report-03'', rf_reporterKey = ''user03'', rf_reportedKey = ''user07'',
       rf_reason = ''[DEV-SEED:report-03] Spam behavior observed in marketplace'', rf_targetStatus = Resolved\<rparr>,
      \<lparr>rf_key = ''report-04'', rf_reporterKey = ''user04'', rf_reportedKey = ''user08'',
       rf_reason = ''[DEV-SEED:report-04] Item authenticity concern raised'', rf_targetStatus = Rejected\<rparr>,
      \<lparr>rf_key = ''report-05'', rf_reporterKey = ''user05'', rf_reportedKey = ''user07'',
       rf_reason = ''[DEV-SEED:report-05] Harassing follow-up messages'', rf_targetStatus = Resolved\<rparr>,
      \<lparr>rf_key = ''report-06'', rf_reporterKey = ''user06'', rf_reportedKey = ''user08'',
       rf_reason = ''[DEV-SEED:report-06] Payment proof appears manipulated'', rf_targetStatus = Reviewing\<rparr>]"

definition USER_STATUS_TARGETS :: "user_state_target list" where
  "USER_STATUS_TARGETS =
     [\<lparr>us_key = ''user07'', us_status = Paused,
       us_warningMessage = ''[DEV-SEED:warning-user07] Account paused due to repeated conduct violations''\<rparr>,
      \<lparr>us_key = ''user08'', us_status = Banned,
       us_warningMessage = ''[DEV-SEED:warning-user08] Account banned due to severe policy breach''\<rparr>]"

definition BLOCK_DEFS :: "block_def list" where
  "BLOCK_DEFS =
     [\<lparr>bf_key = ''block-01'', bf_blockerKey = ''user07'', bf_blockedKey = ''user08''\<rparr>,
      \<lparr>bf_key = ''block-02'', bf_blockerKey = ''user08'', bf_blockedKey = ''user07''\<rparr>]"

definition FAVORITE_DEFS :: "favorite_def list" where
  "FAVORITE_DEFS =
     [\<lparr>ff_key = ''fav-01'', ff_userKey = ''user01'', ff_productKey = ''user03-product-1''\<rparr>,
      \<lparr>ff_key = ''fav-02'', ff_userKey = ''user02'', ff_productKey = ''user04-product-2''\<rparr>,
      \<lparr>ff_key = ''fav-03'', ff_userKey = ''user03'', ff_productKey = ''user05-product-3''\<rparr>,
      \<lparr>ff_key = ''fav-04'', ff_userKey = ''user04'', ff_productKey = ''user01-product-2''\<rparr>,
      \<lparr>ff_key = ''fav-05'', ff_userKey = ''user05'', ff_productKey = ''user02-product-1''\<rparr>,
      \<lparr>ff_key = ''fav-06'', ff_userKey = ''user06'', ff_productKey = ''user03-product-2''\<rparr>]"

definition EMPTY_SHA256 :: string where
  "EMPTY_SHA256 = ''e3b0c44298fc1c149afbf4c8996fb92427ae41e4649b934ca495991b7852b855''"

end
