(* ===== verification/DevSeed.thy ===== *)
theory DevSeed
  imports SeedData
begin

text \<open>
  The steps of \<open>runDevSeed\<close> in \<open>src/src/dev/dev-seeder.ts\<close>: sign in or register the accounts, bring
  categories, products, blocks, favourites, ratings, conversations with their messages, and reports to the
  state the data describes, and collect a summary. The three files \<open>writeArtifacts\<close> leaves are not modelled, only
  the name of their directory.
\<close>

section \<open>Sessions and notes\<close>

record seed_user_session =
  ss_def :: seed_user_def
  ss_id :: int
  ss_accessToken :: string
  ss_refreshToken :: string
  ss_created :: bool

type_synonym sessions = "(string \<times> seed_user_session) list"

definition session_of :: "sessions \<Rightarrow> string \<Rightarrow> ('n, seed_user_session) seeding" where
  "session_of sessions key =
     (case map_of sessions key of
        None \<Rightarrow> throw (JsErr ''Cannot read properties of undefined'')
      | Some session \<Rightarrow> ret session)"

text \<open>\<open>entityMap.<part>[key] = { id, state }\<close>.\<close>

definition note_entity ::
  "(((string \<Rightarrow> entity_record option) \<Rightarrow> (string \<Rightarrow> entity_record option)) \<Rightarrow> seed_entity_map \<Rightarrow> seed_entity_map) \<Rightarrow>
   string \<Rightarrow> int \<Rightarrow> entity_state \<Rightarrow> ('n, unit) seeding" where
  "note_entity part key i st = modify (\<lambda>cl. cl\<lparr>cl_entities :=
     part (\<lambda>m. m(key \<mapsto> \<lparr>er_id = i, er_state = st\<rparr>)) (cl_entities cl)\<rparr>)"

section \<open>Signing in\<close>

definition performPreflightChecks :: "'n world \<Rightarrow> dev_seed_input \<Rightarrow> ('n, string \<times> int) seeding" where
  "performPreflightChecks w input =
     andThen (request w (anonymously (HealthApi Live)) [200] False) (\<lambda>_.
     andThen (request w (anonymously (HealthApi Ready)) [200] False) (\<lambda>_.
     andThen (tryCatch
         (request w (anonymously (AuthApi (Login (di_adminPhone input) (di_adminPassword input)))) [201] False)
         (\<lambda>error. if api_error error = Some 401
                  then throw (JsErr ''Admin login failed. Seed admin first with `npm run seed:admin`.'')
                  else throw error)) (\<lambda>adminLogin.
     let loginBody = getResponseData adminLogin;
         adminToken = ensureString (get_prop loginBody ''accessToken'');
         user = getObject (get_prop loginBody ''user'')
     in case positive_id (get_prop user ''id'') of
          Some adminUserId \<Rightarrow>
            (if adminToken = [] then throw (JsErr ''Admin login response missing access token or user id'')
             else ret (adminToken, adminUserId))
        | None \<Rightarrow> throw (JsErr ''Admin login response missing access token or user id''))))"

definition read_session :: "string \<Rightarrow> seed_user_def \<Rightarrow> bool \<Rightarrow> json \<Rightarrow> ('n, seed_user_session) seeding" where
  "read_session err user created response =
     (let body = getResponseData response;
          authUser = getObject (get_prop body ''user'');
          accessToken = ensureString (get_prop body ''accessToken'');
          refreshToken = ensureString (get_prop body ''refreshToken'')
      in case positive_id (get_prop authUser ''id'') of
           Some userId \<Rightarrow>
             (if accessToken = [] \<or> refreshToken = [] then throw (JsErr (err @ su_key user))
              else ret \<lparr>ss_def = user, ss_id = userId, ss_accessToken = accessToken, ss_refreshToken = refreshToken,
                        ss_created = created\<rparr>)
         | None \<Rightarrow> throw (JsErr (err @ su_key user)))"

definition ensureUser :: "'n world \<Rightarrow> seed_user_def \<Rightarrow> bool \<Rightarrow> ('n, seed_user_session) seeding" where
  "ensureUser w user requireOtpVisibility =
     andThen (tryCatch
         (andThen (request w (anonymously (AuthApi (Login (su_phone user) (su_password user)))) [201] False) (\<lambda>login.
          andThen (read_session ''Invalid login response for '' user False login) (\<lambda>session. ret (Some session))))
         (\<lambda>error. case api_error error of
                    Some statusCode \<Rightarrow> if statusCode \<noteq> 401 then throw error else ret None
                  | None \<Rightarrow> ret None)) (\<lambda>session.
     case session of
       Some s \<Rightarrow> ret s
     | None \<Rightarrow>
         andThen (request w (anonymously (AuthApi
             (RequestRegistration (su_name user) (su_phone user) (su_password user)))) [201] True) (\<lambda>register.
         let otp = ensureString (get_prop (getResponseData register) ''otp'') in
         andThen (unless (\<not> (requireOtpVisibility \<and> otp = [])) (JsErr
           ''OTP_DEV_MODE check failed: /auth/register did not return otp. Set OTP_DEV_MODE=true on server.'')) (\<lambda>_.
         andThen (unless (otp \<noteq> []) (JsErr (''Registration OTP missing for '' @ su_key user))) (\<lambda>_.
         andThen (request w (anonymously (AuthApi (VerifyRegistration (su_phone user) otp None))) [201] True) (\<lambda>verify.
         read_session ''Invalid register verify response for '' user True verify)))))"

definition upsertProfile :: "'n world \<Rightarrow> seed_user_session \<Rightarrow> ('n, unit) seeding" where
  "upsertProfile w session =
     andThen (request w (call_as (ss_accessToken session) (UsersApi (UpdateMe
         [(''name'', JStr (su_name (ss_def session))),
          (''contactInfo'', JStr (''dev.seed+'' @ su_key (ss_def session) @ ''@example.test''))]))) [200] True) (\<lambda>_.
     ret ())"

text \<open>The loop over \<open>DEV_USERS\<close>; only the first account must show its code.\<close>

fun sign_in :: "'n world \<Rightarrow> seed_user_def list \<Rightarrow> sessions \<Rightarrow> ('n, sessions) seeding" where
  "sign_in w [] sessions = ret sessions"
| "sign_in w (user # us) sessions =
     andThen (ensureUser w user (sessions = [])) (\<lambda>session.
     andThen (note_entity em_users_update (su_key user) (ss_id session) (if ss_created session then Created else Reused)) (\<lambda>_.
     andThen (upsertProfile w session) (\<lambda>_.
     sign_in w us (sessions @ [(su_key user, session)]))))"

section \<open>Categories\<close>

definition parent_value :: "(string \<Rightarrow> int option) \<Rightarrow> category_def \<Rightarrow> json" where
  "parent_value idsByKey category =
     (case ct_parentKey category of
        None \<Rightarrow> JNull
      | Some k \<Rightarrow> if k = [] then JNull else (case idsByKey k of None \<Rightarrow> JUndef | Some i \<Rightarrow> jint i))"

definition same_category :: "category_def \<Rightarrow> json \<Rightarrow> json \<Rightarrow> bool" where
  "same_category category parentId row =
     (js_lower (named row) = js_lower (ct_name category) \<and>
      (if nullish (get_prop row ''parent_id'') then JNull else js_Number (get_prop row ''parent_id'')) = parentId)"

definition upsert_category ::
  "'n world \<Rightarrow> string \<Rightarrow> (string \<Rightarrow> int option) \<Rightarrow> category_def \<Rightarrow> ('n, int) seeding" where
  "upsert_category w adminToken idsByKey category =
     (let parentId = parent_value idsByKey category in
      andThen (tryCatch
          (andThen (request w (call_as adminToken (AdminApi (CreateCategory (ct_name category)
              (if truthy parentId then positive_id parentId else None)))) [201] True) (\<lambda>create.
           andThen (require_id (''Invalid category response for '' @ ct_key category)
              (get_prop (getObject (get_prop (getResponseData create) ''category'')) ''id'')) (\<lambda>categoryId.
           andThen (note_entity em_categories_update (ct_key category) categoryId Created) (\<lambda>_.
           ret (Some categoryId)))))
          (\<lambda>error. if api_error error \<noteq> Some 409 then throw error else ret None)) (\<lambda>created.
      case created of
        Some categoryId \<Rightarrow> ret categoryId
      | None \<Rightarrow>
          andThen (request w (anonymously (CategoriesApi (ListCategories None None))) [200] True) (\<lambda>list.
          case List.find (same_category category parentId) (rows_of ''categories'' list) of
            None \<Rightarrow> throw (JsErr (''Failed to resolve existing category for '' @ ct_key category))
          | Some match \<Rightarrow>
              andThen (require_id (''Invalid existing category id for '' @ ct_key category) (get_prop match ''id''))
                (\<lambda>categoryId.
              andThen (note_entity em_categories_update (ct_key category) categoryId Reused) (\<lambda>_.
              ret categoryId)))))"

fun upsertCategories ::
  "'n world \<Rightarrow> string \<Rightarrow> category_def list \<Rightarrow> (string \<Rightarrow> int option) \<Rightarrow> ('n, string \<Rightarrow> int option) seeding" where
  "upsertCategories w adminToken [] idsByKey = ret idsByKey"
| "upsertCategories w adminToken (category # cs) idsByKey =
     andThen (upsert_category w adminToken idsByKey category) (\<lambda>categoryId.
     upsertCategories w adminToken cs (idsByKey(ct_key category \<mapsto> categoryId)))"

definition categoryLabels :: "(string \<Rightarrow> int option) \<Rightarrow> string \<Rightarrow> (string \<times> string option) option" where
  "categoryLabels categoryIds key =
     (if categoryIds key = None then None
      else (case map_of PRODUCT_CATEGORY_LABELS_BY_LEAF_KEY key of
              None \<Rightarrow> Some (''services'', Some ''personalServices'')
            | Some mapped \<Rightarrow> Some mapped))"

section \<open>Products\<close>

definition createUploadedProductImage :: "'n world \<Rightarrow> string \<Rightarrow> string \<Rightarrow> ('n, int) seeding" where
  "createUploadedProductImage w tok key =
     andThen (request w (call_as tok (FilesApi (UploadIntent
         \<lparr>ci_ownerType = ''product'', ci_ownerId = None, ci_purpose = ProductImage, ci_filename = key @ ''.jpg'',
          ci_mimeType = ''image/jpeg'', ci_fileSizeBytes = Some 1024\<rparr>))) [201] True) (\<lambda>intent.
     andThen (require_id (''Upload intent response missing file id for '' @ key)
         (get_prop (getObject (get_prop (getResponseData intent) ''file'')) ''id'')) (\<lambda>fileId.
     andThen (request w (call_as tok (FilesApi (MarkUploaded fileId (Some EMPTY_SHA256)))) [200] True) (\<lambda>_.
     ret fileId)))"

definition my_products :: api_request where
  "my_products = ProductsApi (ListMyProducts
     \<lparr>sd_category = None, sd_subcategory = None, sd_minPrice = None, sd_maxPrice = None, sd_fromDate = None,
      sd_toDate = None, sd_minRate = None, sd_city = None, sd_addressText = None, sd_q = None, sd_sortBy = None,
      sd_sortDir = None, sd_limit = Some 100, sd_offset = Some 0, sd_status = None\<rparr>)"

definition create_body :: "product_def \<Rightarrow> string \<times> string option \<Rightarrow> int \<Rightarrow> create_product_dto" where
  "create_body def path imageFileId =
     \<lparr>cd_category = fst path, cd_subcategory = snd path, cd_name = pf_name def, cd_description = pf_description def,
      cd_price = of_nat (pf_price def), cd_city = pf_city def, cd_addressText = pf_addressText def, cd_details = None,
      cd_imageFileIds = Some [of_int imageFileId], cd_isNegotiable = None, cd_preferredContactMethod = None\<rparr>"

definition update_body :: "product_def \<Rightarrow> string \<times> string option \<Rightarrow> int \<Rightarrow> jobject" where
  "update_body def path imageFileId =
     [(''category'', JStr (fst path)), (''subcategory'', jopt JStr (snd path)), (''name'', JStr (pf_name def)),
      (''description'', JStr (pf_description def)), (''price'', JNum (of_nat (pf_price def))),
      (''city'', JStr (pf_city def)), (''addressText'', JStr (pf_addressText def)),
      (''imageFileIds'', JArr [jint imageFileId])]"

definition set_status :: "'n world \<Rightarrow> string \<Rightarrow> int \<Rightarrow> product_status \<Rightarrow> ('n, unit) seeding" where
  "set_status w tok productId st =
     andThen (request w (call_as tok (ProductsApi (UpdateProductStatus productId st))) [200] True) (\<lambda>_. ret ())"

definition upsert_product ::
  "'n world \<Rightarrow> seed_user_session \<Rightarrow> (string \<Rightarrow> (string \<times> string option) option) \<Rightarrow> json list \<Rightarrow> product_def \<Rightarrow>
   ('n, unit) seeding" where
  "upsert_product w session labels existingItems def =
     (let tok = ss_accessToken session;
          existing = List.find (\<lambda>row. named row = pf_name def) existingItems
      in case labels (pf_categoryKey def) of
           None \<Rightarrow> throw (JsErr (''Missing category labels for '' @ pf_key def))
         | Some path \<Rightarrow>
             andThen (unless (fst path \<noteq> []) (JsErr (''Missing category labels for '' @ pf_key def))) (\<lambda>_.
             andThen (createUploadedProductImage w tok (pf_key def)) (\<lambda>imageFileId.
             case existing of
               None \<Rightarrow>
                 andThen (request w (call_as tok (ProductsApi (CreateProduct (create_body def path imageFileId)))) [201] True)
                   (\<lambda>created.
                 andThen (require_id (''Created product missing id for '' @ pf_key def)
                     (get_prop (getObject (get_prop (getResponseData created) ''product'')) ''id'')) (\<lambda>productId.
                 andThen (if pf_status def \<noteq> Available then set_status w tok productId (pf_status def) else ret ()) (\<lambda>_.
                 note_entity em_products_update (pf_key def) productId Created)))
             | Some row \<Rightarrow>
                 andThen (require_id (''Existing product missing id for '' @ pf_key def) (get_prop row ''id'')) (\<lambda>productId.
                 andThen (request w (call_as tok (ProductsApi (UpdateProduct productId (update_body def path imageFileId))))
                     [200] True) (\<lambda>_.
                 if ensureString (get_prop row ''status'') \<noteq> product_status_text (pf_status def) then
                   andThen (set_status w tok productId (pf_status def)) (\<lambda>_.
                   note_entity em_products_update (pf_key def) productId Updated)
                 else note_entity em_products_update (pf_key def) productId Reused)))))"

text \<open>\<open>defsByOwner\<close>: the owners in the order of their first product.\<close>

definition defsByOwner :: "product_def list \<Rightarrow> (string \<times> product_def list) list" where
  "defsByOwner defs =
     map (\<lambda>owner. (owner, filter (\<lambda>d. pf_ownerKey d = owner) defs)) (unique (map pf_ownerKey defs))"

definition upsertProducts ::
  "'n world \<Rightarrow> sessions \<Rightarrow> (string \<Rightarrow> (string \<times> string option) option) \<Rightarrow> ('n, unit) seeding" where
  "upsertProducts w sessions labels =
     forEach (defsByOwner PRODUCT_DEFS) (\<lambda>(ownerKey, defs).
       andThen (session_of sessions ownerKey) (\<lambda>session.
       andThen (request w (call_as (ss_accessToken session) my_products) [200] True) (\<lambda>listing.
       forEach defs (upsert_product w session labels (rows_of ''items'' listing)))))"

section \<open>Blocks, favourites and ratings\<close>

definition listed_ids :: "json list \<Rightarrow> int list" where
  "listed_ids rows = List.map_filter (\<lambda>row. positive_id (get_prop row ''id'')) rows"

text \<open>
  The loops over \<open>BLOCK_DEFS\<close> and \<open>FAVORITE_DEFS\<close> carry the sets \<open>existingByBlocker\<close> and \<open>existingByUser\<close>: what
  was listed once for an account, and what was added since.
\<close>

type_synonym id_sets = "string \<Rightarrow> int list option"

definition known_ids :: "'n world \<Rightarrow> seed_call \<Rightarrow> string \<Rightarrow> string \<Rightarrow> id_sets \<Rightarrow> ('n, int list) seeding" where
  "known_ids w listing rows key sets =
     (case sets key of
        Some ids \<Rightarrow> ret ids
      | None \<Rightarrow> andThen (request w listing [200] True) (\<lambda>list. ret (listed_ids (rows_of rows list))))"

fun upsertBlocks :: "'n world \<Rightarrow> sessions \<Rightarrow> block_def list \<Rightarrow> id_sets \<Rightarrow> ('n, unit) seeding" where
  "upsertBlocks w sessions [] existingByBlocker = ret ()"
| "upsertBlocks w sessions (def # defs) existingByBlocker =
     andThen (session_of sessions (bf_blockerKey def)) (\<lambda>blocker.
     andThen (session_of sessions (bf_blockedKey def)) (\<lambda>blocked.
     andThen (known_ids w (call_as (ss_accessToken blocker) (BlocksApi (ListBlocked None None))) ''users''
         (bf_blockerKey def) existingByBlocker) (\<lambda>existingSet.
     if ss_id blocked \<in> set existingSet then
       andThen (note_entity em_blocks_update (bf_key def) (ss_id blocked) Reused) (\<lambda>_.
       upsertBlocks w sessions defs (existingByBlocker(bf_blockerKey def \<mapsto> existingSet)))
     else
       andThen (request w (call_as (ss_accessToken blocker) (BlocksApi (BlockUser (ss_id blocked)))) [201] True) (\<lambda>_.
       andThen (note_entity em_blocks_update (bf_key def) (ss_id blocked) Created) (\<lambda>_.
       upsertBlocks w sessions defs (existingByBlocker(bf_blockerKey def \<mapsto> existingSet @ [ss_id blocked])))))))"

definition resolveProductId :: "string \<Rightarrow> ('n, int) seeding" where
  "resolveProductId productKey =
     andThen (gets (\<lambda>cl. em_products (cl_entities cl) productKey)) (\<lambda>record.
     case record of
       None \<Rightarrow> throw (JsErr (''Missing product id for '' @ productKey))
     | Some r \<Rightarrow>
         andThen (unless (er_id r > 0) (JsErr (''Missing product id for '' @ productKey))) (\<lambda>_. ret (er_id r)))"

definition my_favorites :: api_request where
  "my_favorites = FavoritesApi (ListFavorites None None (Some 100) (Some 0))"

fun upsertFavorites :: "'n world \<Rightarrow> sessions \<Rightarrow> favorite_def list \<Rightarrow> id_sets \<Rightarrow> ('n, unit) seeding" where
  "upsertFavorites w sessions [] existingByUser = ret ()"
| "upsertFavorites w sessions (def # defs) existingByUser =
     andThen (session_of sessions (ff_userKey def)) (\<lambda>session.
     andThen (resolveProductId (ff_productKey def)) (\<lambda>productId.
     andThen (known_ids w (call_as (ss_accessToken session) my_favorites) ''items'' (ff_userKey def) existingByUser)
       (\<lambda>existingSet.
     if productId \<in> set existingSet then
       andThen (note_entity em_favorites_update (ff_key def) productId Reused) (\<lambda>_.
       upsertFavorites w sessions defs (existingByUser(ff_userKey def \<mapsto> existingSet)))
     else
       andThen (request w (call_as (ss_accessToken session) (FavoritesApi (AddFavorite productId))) [201] True) (\<lambda>_.
       andThen (note_entity em_favorites_update (ff_key def) productId Created) (\<lambda>_.
       upsertFavorites w sessions defs (existingByUser(ff_userKey def \<mapsto> existingSet @ [productId])))))))"

definition upsertRatings :: "'n world \<Rightarrow> sessions \<Rightarrow> ('n, unit) seeding" where
  "upsertRatings w sessions =
     forEach RATING_DEFS (\<lambda>def.
       andThen (session_of sessions (rd_raterKey def)) (\<lambda>rater.
       andThen (session_of sessions (rd_ratedKey def)) (\<lambda>rated.
       andThen (request w (call_as (ss_accessToken rater)
           (RatingsApi (RateUser (ss_id rated) (rd_value def) (Some (rd_comment def))))) [201] True) (\<lambda>_. ret ()))))"

end
