(* ===== verification/DevSeedRun.thy ===== *)
theory DevSeedRun
  imports DevSeed
begin

text \<open>
  The later steps of \<open>runDevSeed\<close>: conversations with messages over the chat sockets, reports and
  moderation, the summary, and the whole run.
\<close>

section \<open>Conversations\<close>

definition message_text :: "string \<Rightarrow> nat \<Rightarrow> string" where
  "message_text chatKey i =
     ''[DEV-SEED:'' @ chatKey @ '':m'' @ nat_str i @ ''] Deterministic chat message '' @ nat_str i"

text \<open>The loop over the six messages: how many were sent, and the identifier of the last one.\<close>

fun seed_messages ::
  "'n world \<Rightarrow> int \<Rightarrow> string \<Rightarrow> seed_user_session \<Rightarrow> seed_user_session \<Rightarrow> string \<Rightarrow> string \<Rightarrow> string list \<Rightarrow>
   nat list \<Rightarrow> nat \<Rightarrow> int \<Rightarrow> ('n, nat \<times> int) seeding" where
  "seed_messages w conversationId chatKey first second socketA socketB existingByText [] seeded lastMessageId =
     ret (seeded, lastMessageId)"
| "seed_messages w conversationId chatKey first second socketA socketB existingByText (i # is) seeded lastMessageId =
     (let sender = (if i mod 2 = 1 then first else second);
          text = message_text chatKey i
      in if text \<in> set existingByText then
           seed_messages w conversationId chatKey first second socketA socketB existingByText is seeded lastMessageId
         else
           (let senderSocket = (if su_key (ss_def sender) = su_key (ss_def first) then socketA else socketB) in
            andThen (wsEmitWithAck w senderSocket (SendEvent conversationId text)) (\<lambda>response.
            let message = getObject (get_prop (getObject response) ''message'');
                last' = (case positive_id (get_prop message ''id'') of Some i \<Rightarrow> i | None \<Rightarrow> lastMessageId)
            in seed_messages w conversationId chatKey first second socketA socketB existingByText is (seeded + 1) last')))"

definition seedConversationMessages ::
  "'n world \<Rightarrow> int \<Rightarrow> string \<Rightarrow> seed_user_session \<Rightarrow> seed_user_session \<Rightarrow> ('n, nat) seeding" where
  "seedConversationMessages w conversationId chatKey first second =
     andThen (request w (call_as (ss_accessToken first) (ChatApi (ListMessages conversationId (Some 100) None))) [200] True)
       (\<lambda>historyRes.
     let existingByText = map (\<lambda>m. ensureString (get_prop m ''message_text'')) (rows_of ''messages'' historyRes) in
     andThen (connectChatSocket w (ss_accessToken first)) (\<lambda>socketA.
     andThen (connectChatSocket w (ss_accessToken second)) (\<lambda>socketB.
     finally_do
       (andThen (wsEmitWithAck w socketA (JoinEvent conversationId)) (\<lambda>_.
        andThen (wsEmitWithAck w socketB (JoinEvent conversationId)) (\<lambda>_.
        andThen (seed_messages w conversationId chatKey first second socketA socketB existingByText
            [1, 2, 3, 4, 5, 6] 0 0) (\<lambda>(seeded, lastMessageId).
        andThen (if lastMessageId > 0
                 then andThen (wsEmitWithAck w socketA (ReadEvent lastMessageId)) (\<lambda>_. ret ())
                 else ret ()) (\<lambda>_.
        ret seeded)))))
       (andThen (disconnectSocket w socketA) (\<lambda>_. disconnectSocket w socketB)))))"

fun upsertConversations :: "'n world \<Rightarrow> sessions \<Rightarrow> conversation_def list \<Rightarrow> nat \<Rightarrow> ('n, nat) seeding" where
  "upsertConversations w sessions [] totalSeededMessages = ret totalSeededMessages"
| "upsertConversations w sessions (def # defs) totalSeededMessages =
     andThen (session_of sessions (cf_a def)) (\<lambda>first.
     andThen (session_of sessions (cf_b def)) (\<lambda>second.
     andThen (request w (call_as (ss_accessToken first) (ChatApi (CreateConversation (ss_id second) None))) [201] True)
       (\<lambda>created.
     andThen (require_id (''Conversation id missing for '' @ cf_key def)
         (get_prop (getObject (get_prop (getResponseData created) ''conversation'')) ''id'')) (\<lambda>conversationId.
     andThen (gets (\<lambda>cl. em_conversations (cl_entities cl) (cf_key def))) (\<lambda>known.
     andThen (note_entity em_conversations_update (cf_key def) conversationId
         (if known = None then Created else Reused)) (\<lambda>_.
     andThen (seedConversationMessages w conversationId (cf_key def) first second) (\<lambda>seededMessages.
     upsertConversations w sessions defs (totalSeededMessages + seededMessages))))))))"

section \<open>Reports and moderation\<close>

definition with_reason :: "report_def \<Rightarrow> json \<Rightarrow> bool" where
  "with_reason def row = (ensureString (get_prop row ''reason'') = rf_reason def)"

definition find_report ::
  "'n world \<Rightarrow> seed_user_session \<Rightarrow> seed_user_session \<Rightarrow> json list \<Rightarrow> report_def \<Rightarrow> ('n, json) seeding" where
  "find_report w reporter target allReports def =
     (case List.find (with_reason def) allReports of
        Some report \<Rightarrow> ret report
      | None \<Rightarrow>
          andThen (request w (call_as (ss_accessToken reporter) (ReportsApi (MyReports None None))) [200] True) (\<lambda>myReports.
          case List.find (with_reason def) (rows_of ''reports'' myReports) of
            Some report \<Rightarrow> ret report
          | None \<Rightarrow>
              andThen (request w (call_as (ss_accessToken reporter)
                  (ReportsApi (CreateReport (ss_id target) (rf_reason def)))) [201] True) (\<lambda>created.
              ret (getObject (get_prop (getResponseData created) ''report'')))))"

definition upsert_report :: "'n world \<Rightarrow> string \<Rightarrow> sessions \<Rightarrow> json list \<Rightarrow> report_def \<Rightarrow> ('n, unit) seeding" where
  "upsert_report w adminToken sessions allReports def =
     andThen (session_of sessions (rf_reporterKey def)) (\<lambda>reporter.
     andThen (session_of sessions (rf_reportedKey def)) (\<lambda>target.
     andThen (find_report w reporter target allReports def) (\<lambda>report.
     andThen (require_id (''Invalid report id for '' @ rf_key def) (get_prop report ''id'')) (\<lambda>reportId.
     if ensureString (get_prop report ''status'') \<noteq> report_status_text (rf_targetStatus def) then
       andThen (request w (call_as adminToken (AdminApi (UpdateReportStatus reportId (rf_targetStatus def)))) [200] True) (\<lambda>_.
       note_entity em_reports_update (rf_key def) reportId Updated)
     else note_entity em_reports_update (rf_key def) reportId Reused))))"

definition all_users :: api_request where
  "all_users = AdminApi (ListUsers None None (Some 100) (Some 0))"

definition row_with_id :: "int \<Rightarrow> json list \<Rightarrow> json option" where
  "row_with_id i rows = List.find (\<lambda>row. js_Number (get_prop row ''id'') = jint i) rows"

definition status_in :: "int \<Rightarrow> json list \<Rightarrow> string" where
  "status_in i rows = (case row_with_id i rows of None \<Rightarrow> [] | Some row \<Rightarrow> ensureString (get_prop row ''status''))"

definition moderate_user :: "'n world \<Rightarrow> string \<Rightarrow> sessions \<Rightarrow> json list \<Rightarrow> user_state_target \<Rightarrow> ('n, unit) seeding" where
  "moderate_user w adminToken sessions adminUsers target =
     andThen (session_of sessions (us_key target)) (\<lambda>session.
     if status_in (ss_id session) adminUsers \<noteq> user_status_text (us_status target) then
       andThen (request w (call_as adminToken (AdminApi (UpdateUserStatus (ss_id session) (us_status target)))) [200] True)
         (\<lambda>_.
       andThen (request w (call_as adminToken (AdminApi (CreateWarning (ss_id session) (us_warningMessage target)))) [201]
           True) (\<lambda>warning.
       case positive_id (get_prop (getObject (get_prop (getResponseData warning) ''warning'')) ''id'') of
         Some warningId \<Rightarrow> note_entity em_warnings_update (us_key target) warningId Created
       | None \<Rightarrow> ret ()))
     else note_entity em_warnings_update (us_key target) (ss_id session) Reused)"

definition upsertReportsAndModeration :: "'n world \<Rightarrow> string \<Rightarrow> int \<Rightarrow> sessions \<Rightarrow> ('n, unit) seeding" where
  "upsertReportsAndModeration w adminToken adminUserId sessions =
     andThen (request w (call_as adminToken (AdminApi (ListReports None None))) [200] True) (\<lambda>adminReports.
     andThen (forEach REPORT_DEFS (upsert_report w adminToken sessions (rows_of ''reports'' adminReports))) (\<lambda>_.
     andThen (request w (call_as adminToken all_users) [200] True) (\<lambda>adminUsersRes.
     andThen (forEach USER_STATUS_TARGETS (moderate_user w adminToken sessions (rows_of ''users'' adminUsersRes))) (\<lambda>_.
     andThen (request w (call_as adminToken (AdminApi (ListAdmins None None))) [200] True) (\<lambda>_.
     tryCatch (andThen (request w (call_as adminToken (AdminApi (PromoteAdmin adminUserId))) [409] False) (\<lambda>_. ret ()))
       (\<lambda>_. ret ()))))))"

section \<open>The summary\<close>

record seed_summary =
  sm_runAt :: string
  sm_baseUrl :: string
  sm_profile :: string
  sm_users :: nat
  sm_categories :: nat
  sm_available :: nat
  sm_sold :: nat
  sm_archived :: nat
  sm_conversations :: nat
  sm_seededMessages :: nat
  sm_ratings :: nat
  sm_reports :: "report_status \<Rightarrow> nat"
  sm_blocks :: nat
  sm_favorites :: nat
  sm_userStatuses :: "user_status \<Rightarrow> nat"

definition products_total :: "seed_summary \<Rightarrow> nat" where
  "products_total s = sm_available s + sm_sold s + sm_archived s"

definition reports_total :: "seed_summary \<Rightarrow> nat" where
  "reports_total s = sm_reports s Open + sm_reports s Reviewing + sm_reports s Resolved + sm_reports s Rejected"

text \<open>A loop that adds up what it reads.\<close>

fun total_over :: "'a list \<Rightarrow> ('a \<Rightarrow> ('s, nat) act) \<Rightarrow> ('s, nat) act" where
  "total_over [] f = ret 0"
| "total_over (x # xs) f = andThen (f x) (\<lambda>n. andThen (total_over xs f) (\<lambda>m. ret (n + m)))"

fun read_all :: "'a list \<Rightarrow> ('a \<Rightarrow> ('s, 'b) act) \<Rightarrow> ('s, 'b list) act" where
  "read_all [] f = ret []"
| "read_all (x # xs) f = andThen (f x) (\<lambda>y. andThen (read_all xs f) (\<lambda>ys. ret (y # ys)))"

definition seeded_rows :: "string \<Rightarrow> string \<Rightarrow> json list \<Rightarrow> json list" where
  "seeded_rows key tag rows = filter (\<lambda>row. starts_with (ensureString (get_prop row key)) tag) rows"

definition count_status :: "string \<Rightarrow> json list \<Rightarrow> nat" where
  "count_status st rows = length (filter (\<lambda>row. ensureString (get_prop row ''status'') = st) rows)"

definition reports_with_status :: "'n world \<Rightarrow> string \<Rightarrow> report_status \<Rightarrow> ('n, nat) seeding" where
  "reports_with_status w adminToken st =
     andThen (request w \<lparr>sc_request = AdminApi (ListReports None None),
         sc_unknown = [(''status'', report_status_text st)],
         sc_token = (if adminToken = [] then None else Some adminToken)\<rparr> [200] True) (\<lambda>reports.
     ret (length (seeded_rows ''reason'' ''[DEV-SEED:report-'' (rows_of ''reports'' reports))))"

fun count_blocks :: "'n world \<Rightarrow> sessions \<Rightarrow> block_def list \<Rightarrow> id_sets \<Rightarrow> nat \<Rightarrow> ('n, nat) seeding" where
  "count_blocks w sessions [] blocksByBlocker blocksCount = ret blocksCount"
| "count_blocks w sessions (def # defs) blocksByBlocker blocksCount =
     andThen (session_of sessions (bf_blockerKey def)) (\<lambda>blockerSession.
     andThen (known_ids w (call_as (ss_accessToken blockerSession) (BlocksApi (ListBlocked None None))) ''users''
         (bf_blockerKey def) blocksByBlocker) (\<lambda>blockerSet.
     andThen (session_of sessions (bf_blockedKey def)) (\<lambda>blockedSession.
     count_blocks w sessions defs (blocksByBlocker(bf_blockerKey def \<mapsto> blockerSet))
       (if ss_id blockedSession \<in> set blockerSet then blocksCount + 1 else blocksCount))))"

definition collectSummary :: "'n world \<Rightarrow> string \<Rightarrow> sessions \<Rightarrow> nat \<Rightarrow> dev_seed_input \<Rightarrow> ('n, seed_summary) seeding" where
  "collectSummary w adminToken sessions totalSeededMessages input =
     andThen (request w (anonymously (CategoriesApi (ListCategories None None))) [200] True) (\<lambda>categoriesRes.
     let cats = seeded_rows ''name'' ''[DEV]'' (rows_of ''categories'' categoriesRes) in
     andThen (read_all (map snd sessions) (\<lambda>session.
         andThen (request w (call_as (ss_accessToken session) my_products) [200] True) (\<lambda>mine.
         ret (seeded_rows ''name'' ''[DEV-SEED:'' (rows_of ''items'' mine))))) (\<lambda>items.
     andThen (reports_with_status w adminToken Open) (\<lambda>opened.
     andThen (reports_with_status w adminToken Reviewing) (\<lambda>reviewing.
     andThen (reports_with_status w adminToken Resolved) (\<lambda>resolved.
     andThen (reports_with_status w adminToken Rejected) (\<lambda>rejected.
     andThen (total_over (map snd sessions) (\<lambda>session.
         andThen (request w (anonymously (RatingsApi (RatingSummary (ss_id session)))) [200] True) (\<lambda>ratings.
         ret (length (seeded_rows ''comment'' ''[DEV-SEED:rate-'' (rows_of ''ratings'' ratings)))))) (\<lambda>ratingsCount.
     andThen (count_blocks w sessions BLOCK_DEFS (\<lambda>_. None) 0) (\<lambda>blocksCount.
     andThen (total_over (map snd sessions) (\<lambda>session.
         andThen (request w (call_as (ss_accessToken session) my_favorites) [200] True) (\<lambda>favorites.
         ret (length (seeded_rows ''name'' ''[DEV-SEED:'' (rows_of ''items'' favorites)))))) (\<lambda>favoritesCount.
     andThen (request w (call_as adminToken all_users) [200] True) (\<lambda>usersRes.
     let statuses = map (\<lambda>session. status_in (ss_id session) (rows_of ''users'' usersRes)) (map snd sessions);
         tally = (\<lambda>st. length (filter (\<lambda>s. s = user_status_text st) statuses))
     in andThen (gets (\<lambda>cl. toISOString (wd_now w (cl_net cl)))) (\<lambda>runAt.
     ret \<lparr>sm_runAt = runAt, sm_baseUrl = di_baseUrl input, sm_profile = di_profile input,
          sm_users = length sessions, sm_categories = length cats,
          sm_available = count_status ''available'' (concat items), sm_sold = count_status ''sold'' (concat items),
          sm_archived = count_status ''archived'' (concat items), sm_conversations = length CONVERSATION_DEFS,
          sm_seededMessages = totalSeededMessages, sm_ratings = ratingsCount,
          sm_reports = (\<lambda>st. case st of Open \<Rightarrow> opened | Reviewing \<Rightarrow> reviewing | Resolved \<Rightarrow> resolved
                               | Rejected \<Rightarrow> rejected),
          sm_blocks = blocksCount, sm_favorites = favoritesCount, sm_userStatuses = tally\<rparr>)))))))))))"

text \<open>The directory of the files; \<open>cwd\<close> is the working directory of the process.\<close>

definition log_directory :: "string \<Rightarrow> int \<Rightarrow> string" where
  "log_directory cwd now =
     cwd @ ''/logs/dev-seed-'' @
     map (\<lambda>c. if c = CHR '':'' \<or> c = CHR ''.'' then CHR ''-'' else c) (toISOString now)"

section \<open>The run\<close>

definition runDevSeed :: "'n world \<Rightarrow> string \<Rightarrow> dev_seed_input \<Rightarrow> ('n, string \<times> seed_summary) seeding" where
  "runDevSeed w cwd input =
     andThen (modify (\<lambda>cl. cl\<lparr>cl_logs := [], cl_sleeps := [], cl_entities := createEmptyEntityMap\<rparr>)) (\<lambda>_.
     andThen (performPreflightChecks w input) (\<lambda>(adminToken, adminUserId).
     andThen (sign_in w DEV_USERS []) (\<lambda>sessions.
     andThen (upsertCategories w adminToken DEV_CATEGORIES (\<lambda>_. None)) (\<lambda>categoryIds.
     andThen (upsertProducts w sessions (categoryLabels categoryIds)) (\<lambda>_.
     andThen (upsertBlocks w sessions BLOCK_DEFS (\<lambda>_. None)) (\<lambda>_.
     andThen (upsertFavorites w sessions FAVORITE_DEFS (\<lambda>_. None)) (\<lambda>_.
     andThen (upsertRatings w sessions) (\<lambda>_.
     andThen (upsertConversations w sessions CONVERSATION_DEFS 0) (\<lambda>totalSeededMessages.
     andThen (upsertReportsAndModeration w adminToken adminUserId sessions) (\<lambda>_.
     andThen (collectSummary w adminToken sessions totalSeededMessages input) (\<lambda>summary.
     andThen (gets (\<lambda>cl. log_directory cwd (wd_now w (cl_net cl)))) (\<lambda>logDir.
     ret (logDir, summary)))))))))))))"

text \<open>\<open>main\<close> of \<open>src/scripts/seed-dev.ts\<close>: the exit code of the process and the last lines it prints.\<close>

definition exn_text :: "exn \<Rightarrow> string" where
  "exn_text err = (case err of HttpExn _ m _ \<Rightarrow> m | PgErr c \<Rightarrow> c | JsErr m \<Rightarrow> m | WsErr _ \<Rightarrow> [])"

definition seed_dev :: "'n world \<Rightarrow> string \<Rightarrow> process_env \<Rightarrow> 'n client \<Rightarrow> nat \<times> string list" where
  "seed_dev w cwd env cl =
     (case (case parseDevSeedInput env of Inl err \<Rightarrow> Inl err | Inr input \<Rightarrow> fst (runDevSeed w cwd input cl)) of
        Inl err \<Rightarrow> (1, [''Dev seed failed: '' @ exn_text err])
      | Inr (logDir, summary) \<Rightarrow> (0, [''Dev seed completed successfully'', ''Logs directory: '' @ logDir]))"

end
