(* ===== verification/SeedDataValid.thy ===== *)
theory SeedDataValid
  imports SeedData
begin

text \<open>
  The seeded data satisfies the rules of the DTOs it is sent through.
\<close>

section \<open>Fields\<close>

lemma users_valid:
  "list_all (\<lambda>u. RequestRegistrationOtpDto_ok (su_name u) (su_phone u) \<and> length_between 1 200 (su_key u)) DEV_USERS"
  by code_simp

lemma categories_valid: "list_all (\<lambda>c. length_between 1 100 (ct_name c)) DEV_CATEGORIES"
  by code_simp

lemma products_valid:
  "list_all (\<lambda>d. length_between 1 255 (pf_name d) \<and> length_between 1 5000 (pf_description d) \<and>
     length_between 1 255 (pf_city d) \<and> length_between 1 1000 (pf_addressText d) \<and> pf_price d \<le> 1000 \<and>
     length_between 1 200 (pf_key d) \<and>
     map_of PRODUCT_CATEGORY_LABELS_BY_LEAF_KEY (pf_categoryKey d) \<noteq> None) PRODUCT_DEFS"
  by code_simp

lemma labels_valid:
  "list_all (\<lambda>(k, c, s). isValidCategory c \<and> validate_subcategory_for_category False (JStr c) (jopt JStr s))
     PRODUCT_CATEGORY_LABELS_BY_LEAF_KEY"
  by code_simp

lemma ratings_valid: "list_all (\<lambda>r. between 1 5 (rd_value r) \<and> length_between 1 2000 (rd_comment r)) RATING_DEFS"
  by code_simp

lemma reports_valid: "list_all (\<lambda>r. length_between 5 3000 (rf_reason r)) REPORT_DEFS"
  by code_simp

lemma targets_valid: "list_all (\<lambda>t. length_between 2 2000 (us_warningMessage t)) USER_STATUS_TARGETS"
  by code_simp

lemma checksum_valid: "MarkUploadedDto_ok (Some EMPTY_SHA256)"
  by code_simp

end
