(* ===== verification/SeedClientProps.thy ===== *)
theory SeedClientProps
  imports SeedClient
begin

text \<open>
  The retrying client: how often it asks, how long it waits, what it returns; and the input it is started
  with.
\<close>

section \<open>Attempts\<close>

text \<open>The loop with \<open>a\<close> attempts made makes \<open>k\<close> more; \<open>outcome\<close> is how the last of them decides the result.\<close>

definition outcome :: "nat list \<Rightarrow> exn + (nat \<times> json) \<Rightarrow> api_call_log \<Rightarrow> bool" where
  "outcome es res entry \<longleftrightarrow>
     (case res of
        Inr (statusCode, body) \<Rightarrow>
          statusCode \<in> set es \<and> ac_statusCode entry = statusCode \<and> ac_responseBody entry = body
      | Inl err \<Rightarrow>
          (case api_error err of
             Some statusCode \<Rightarrow> statusCode \<notin> set es \<and> ac_statusCode entry = statusCode
           | None \<Rightarrow> ac_statusCode entry = 0))"

definition attempts_made :: "seed_call \<Rightarrow> nat list \<Rightarrow> nat \<Rightarrow> nat \<Rightarrow> exn + (nat \<times> json) \<Rightarrow> 'n client \<Rightarrow> 'n client \<Rightarrow> bool" where
  "attempts_made c es a k res cl cl' \<longleftrightarrow>
     (\<exists>new. cl_logs cl' = cl_logs cl @ new \<and> map ac_attempts new = [a + 1..<a + 1 + k] \<and>
        list_all (\<lambda>l. ac_call l = c) new \<and> cl_sleeps cl' = cl_sleeps cl @ map delayMs [a + 1..<a + k] \<and>
        0 < k \<and> outcome es res (last new))"

lemma exchange_run:
  "exchange w c a cl = (Inr (fst (wd_fetch w c (cl_net cl))), snd (exchange w c a cl))"
  "cl_net (snd (exchange w c a cl)) = snd (wd_fetch w c (cl_net cl))"
  "cl_sleeps (snd (exchange w c a cl)) = cl_sleeps cl"
  "cl_entities (snd (exchange w c a cl)) = cl_entities cl"
  by (simp_all add: exchange_def Let_def split: prod.split)

lemma exchange_logs:
  "\<exists>l. cl_logs (snd (exchange w c a cl)) = cl_logs cl @ [l] \<and> ac_attempts l = a \<and> ac_call l = c \<and>
     (case fst (wd_fetch w c (cl_net cl)) of
        Answered statusCode body \<Rightarrow> ac_statusCode l = statusCode \<and> ac_responseBody l = body
      | NetworkFailure err \<Rightarrow> ac_statusCode l = 0)"
  by (simp add: exchange_def Let_def split: prod.split fetch_result.split)

lemma attempts_first:
  assumes "cl_logs cl' = cl_logs cl @ [l]" and "ac_attempts l = a + 1" and "ac_call l = c"
    and "cl_sleeps cl' = cl_sleeps cl" and "outcome es res l"
  shows "attempts_made c es a 1 res cl cl'"
  using assms by (auto simp: attempts_made_def)

lemma attempts_more:
  assumes "cl_logs cl1 = cl_logs cl @ [l]" and "ac_attempts l = a + 1" and "ac_call l = c"
    and "cl_sleeps cl1 = cl_sleeps cl @ [delayMs (a + 1)]" and "attempts_made c es (a + 1) k res cl1 cl'"
  shows "attempts_made c es a (k + 1) res cl cl'"
proof -
  from assms(5) obtain new where new: "cl_logs cl' = cl_logs cl1 @ new" "map ac_attempts new = [a + 2..<a + 2 + k]"
    "list_all (\<lambda>l. ac_call l = c) new" "cl_sleeps cl' = cl_sleeps cl1 @ map delayMs [a + 2..<a + 1 + k]"
    "0 < k" "outcome es res (last new)"
    by (auto simp: attempts_made_def)
  then have "new \<noteq> []" by auto
  moreover have "[a + 1..<a + 1 + (k + 1)] = (a + 1) # [a + 2..<a + 2 + k]" by (subst upt_conv_Cons) auto
  moreover have "[a + 1..<a + (k + 1)] = (a + 1) # [a + 2..<a + 1 + k]" using new(5) by (subst upt_conv_Cons) auto
  ultimately show ?thesis
    using new assms(1-4) unfolding attempts_made_def
    by (intro exI [of _ "l # new"]) (simp del: upt_Suc)
qed

lemma loop_run:
  "request_loop w c es re a err cl =
     (if \<not> a < RETRY_ATTEMPTS then (Inl (network_error c err), cl)
      else
        (let cl1 = snd (exchange w c (a + 1) cl); cl2 = snd (sleepFn w (delayMs (a + 1)) cl1) in
         case fst (wd_fetch w c (cl_net cl)) of
           Answered st body \<Rightarrow>
             if st \<in> set es then (Inr (st, body), cl1)
             else if re \<and> a + 1 < RETRY_ATTEMPTS \<and> isRetryableStatus st then request_loop w c es re (a + 1) err cl2
             else (Inl (ApiError c st body), cl1)
         | NetworkFailure err' \<Rightarrow>
             if \<not> re \<or> a + 1 \<ge> RETRY_ATTEMPTS then (Inl (network_error c err'), cl1)
             else request_loop w c es re (a + 1) err' cl2))"
proof (cases "a < RETRY_ATTEMPTS")
  case True
  let ?next = "\<lambda>r. case r of
           Answered statusCode body \<Rightarrow>
             if statusCode \<in> set es then ret (statusCode, body)
             else if re \<and> a + 1 < RETRY_ATTEMPTS \<and> isRetryableStatus statusCode then
               andThen (sleepFn w (delayMs (a + 1))) (\<lambda>_. request_loop w c es re (a + 1) err)
             else throw (ApiError c statusCode body)
         | NetworkFailure err' \<Rightarrow>
             if \<not> re \<or> a + 1 \<ge> RETRY_ATTEMPTS then throw (network_error c err')
             else andThen (sleepFn w (delayMs (a + 1))) (\<lambda>_. request_loop w c es re (a + 1) err')"
  have "request_loop w c es re a err cl = andThen (exchange w c (a + 1)) ?next cl"
    using True by (simp only: request_loop.simps [of w c es re a err] if_True Let_def)
  also have "\<dots> = ?next (fst (wd_fetch w c (cl_net cl))) (snd (exchange w c (a + 1) cl))"
    unfolding andThen_run by (subst exchange_run(1)) (simp only: prod.case sum.case)
  finally show ?thesis
    using True by (auto simp: Let_def sleepFn_def split: fetch_result.split)
qed (simp add: request_loop.simps [of w c es re a err])

lemma loop_attempts:
  assumes "a < RETRY_ATTEMPTS"
  shows "\<exists>k. attempts_made c es a k (fst (request_loop w c es re a err cl)) cl (snd (request_loop w c es re a err cl)) \<and>
    a + k \<le> (if re then RETRY_ATTEMPTS else a + 1)"
  using assms
proof (induction w c es re a err arbitrary: cl rule: request_loop.induct)
  case (1 w c es re a err)
  let ?cl1 = "snd (exchange w c (a + 1) cl)"
  let ?cl2 = "snd (sleepFn w (delayMs (a + 1)) ?cl1)"
  let ?r = "request_loop w c es re a err cl"
  note run = loop_run [of w c es re a err cl, unfolded Let_def]
  obtain l where l: "cl_logs ?cl1 = cl_logs cl @ [l]" "ac_attempts l = a + 1" "ac_call l = c"
    "case fst (wd_fetch w c (cl_net cl)) of
        Answered statusCode body \<Rightarrow> ac_statusCode l = statusCode \<and> ac_responseBody l = body
      | NetworkFailure err \<Rightarrow> ac_statusCode l = 0"
    using exchange_logs [of w c "a + 1" cl] by blast
  have stop: ?case if "snd ?r = ?cl1" "outcome es (fst ?r) l"
    using attempts_first [OF l(1-3), of es "fst ?r"] that "1.prems"
    by (intro exI [of _ 1]) (auto simp: exchange_run(3))
  have again: ?case if r: "?r = request_loop w c es re (a + 1) err' ?cl2" and re: "re" "a + 1 < RETRY_ATTEMPTS"
    and ih: "\<exists>k. attempts_made c es (a + 1) k (fst (request_loop w c es re (a + 1) err' ?cl2)) ?cl2
           (snd (request_loop w c es re (a + 1) err' ?cl2)) \<and> a + 1 + k \<le> (if re then RETRY_ATTEMPTS else a + 1 + 1)" for err'
  proof -
    from ih re(1) obtain k where k: "attempts_made c es (a + 1) k (fst ?r) ?cl2 (snd ?r)" "a + 1 + k \<le> RETRY_ATTEMPTS"
      unfolding r by auto
    have "attempts_made c es a (k + 1) (fst ?r) cl (snd ?r)"
      by (rule attempts_more [OF _ l(2,3) _ k(1)]) (use l(1) in \<open>simp_all add: sleepFn_def exchange_run(3)\<close>)
    with k(2) re(1) show ?case by (intro exI [of _ "k + 1"]) simp
  qed
  show ?case
  proof (cases "fst (wd_fetch w c (cl_net cl))")
    case (Answered statusCode body)
    show ?thesis
    proof (cases "statusCode \<in> set es")
      case True
      with run "1.prems" Answered l(4) show ?thesis by (intro stop) (simp_all add: outcome_def)
    next
      case False
      show ?thesis
      proof (cases "re \<and> a + 1 < RETRY_ATTEMPTS \<and> isRetryableStatus statusCode")
        case True
        with run "1.prems" Answered False have "?r = request_loop w c es re (a + 1) err ?cl2" by simp
        with True "1.IH"(1) [OF "1.prems" refl False True] show ?thesis by (intro again) auto
      next
        case no: False
        with run "1.prems" Answered False l(4) show ?thesis
          by (intro stop) (auto simp: outcome_def api_error_def ApiError_def)
      qed
    qed
  next
    case (NetworkFailure err')
    show ?thesis
    proof (cases "\<not> re \<or> a + 1 \<ge> RETRY_ATTEMPTS")
      case True
      with run "1.prems" NetworkFailure l(4) show ?thesis
        by (intro stop) (auto simp: outcome_def api_error_def network_error_def)
    next
      case False
      with run "1.prems" NetworkFailure have "?r = request_loop w c es re (a + 1) err' ?cl2" by simp
      with False "1.IH"(2) [OF "1.prems" refl False] show ?thesis by (intro again) auto
    qed
  qed
qed

text \<open>What an exchange and a pause keep of the outside, a request keeps; and how its answer came about.\<close>

definition tracks :: "('n \<Rightarrow> bool) \<Rightarrow> 'n world \<Rightarrow> seed_call \<Rightarrow> bool" where
  "tracks P w c \<longleftrightarrow> (\<forall>n r n'. P n \<longrightarrow> wd_fetch w c n = (r, n') \<longrightarrow> P n') \<and> (\<forall>ms n. P n \<longrightarrow> P (wd_wait w ms n))"

lemma loop_tracks:
  assumes "tracks P w c" and "P (cl_net cl)" and "request_loop w c es re a err cl = (res, cl')"
  shows "P (cl_net cl') \<and> (\<forall>st body. res = Inr (st, body) \<longrightarrow>
    (\<exists>n. P n \<and> st \<in> set es \<and> wd_fetch w c n = (Answered st body, cl_net cl')))"
  using assms
proof (induction w c es re a err arbitrary: cl rule: request_loop.induct)
  case (1 w c es re a err)
  let ?cl1 = "snd (exchange w c (a + 1) cl)"
  let ?cl2 = "snd (sleepFn w (delayMs (a + 1)) ?cl1)"
  obtain r n' where f: "wd_fetch w c (cl_net cl) = (r, n')" by fastforce
  then have net: "cl_net (snd (exchange w c k cl)) = n'" for k by (simp add: exchange_run(2))
  have P1: "P n'" using "1.prems"(1,2) f by (auto simp: tracks_def)
  then have P2: "P (cl_net ?cl2)" using "1.prems"(1) by (simp add: sleepFn_def net tracks_def)
  note run = loop_run [of w c es re a err cl, unfolded Let_def]
  show ?case
  proof (cases "a < RETRY_ATTEMPTS")
    case False
    with run "1.prems"(2,3) show ?thesis by auto
  next
    case True
    show ?thesis
    proof (cases r)
      case (Answered st body)
      show ?thesis
      proof (cases "st \<notin> set es \<and> re \<and> a + 1 < RETRY_ATTEMPTS \<and> isRetryableStatus st")
        case again: True
        with run True f Answered "1.prems"(3) have "request_loop w c es re (a + 1) err ?cl2 = (res, cl')" by simp
        then show ?thesis using "1.IH"(1) [OF True refl _ _ "1.prems"(1) P2] again by blast
      next
        case stop: False
        with run True f Answered "1.prems"(3) have "cl' = ?cl1" "res = Inr (st, body) \<and> st \<in> set es \<or> isl res"
          by (auto split: if_splits)
        with f Answered net P1 "1.prems"(2) show ?thesis by auto
      qed
    next
      case (NetworkFailure err')
      show ?thesis
      proof (cases "\<not> re \<or> a + 1 \<ge> RETRY_ATTEMPTS")
        case stop: True
        with run True f NetworkFailure "1.prems"(3) have "cl' = ?cl1" "isl res" by auto
        with net P1 show ?thesis by auto
      next
        case again: False
        with run True f NetworkFailure "1.prems"(3) have "request_loop w c es re (a + 1) err' ?cl2 = (res, cl')" by simp
        then show ?thesis using "1.IH"(2) [OF True refl again "1.prems"(1) P2] by blast
      qed
    qed
  qed
qed

lemma request_tracks:
  assumes "tracks P w c" and "P (cl_net cl)" and "request w c es re cl = (res, cl')"
  shows "P (cl_net cl')" and "res = Inr body \<Longrightarrow>
    \<exists>n st. P n \<and> st \<in> set es \<and> wd_fetch w c n = (Answered st body, cl_net cl')"
proof -
  obtain r cl1 where l: "request_loop w c es re 0 [] cl = (r, cl1)" by fastforce
  have t: "P (cl_net cl1) \<and> (\<forall>st body. r = Inr (st, body) \<longrightarrow>
      (\<exists>n. P n \<and> st \<in> set es \<and> wd_fetch w c n = (Answered st body, cl_net cl1)))"
    using assms(1,2) l by (rule loop_tracks)
  have cl': "cl' = cl1" "res = Inr body \<Longrightarrow> \<exists>st. r = Inr (st, body)"
    using assms(3) l by (auto simp: request_def andThen_run split: sum.splits prod.splits)
  with t show "P (cl_net cl')" by simp
  show "\<exists>n st. P n \<and> st \<in> set es \<and> wd_fetch w c n = (Answered st body, cl_net cl')" if "res = Inr body"
    using cl' that t by blast
qed

text \<open>The waiting times of four attempts.\<close>

lemma delays: "k \<le> RETRY_ATTEMPTS \<Longrightarrow> sum_list (map delayMs [1..<k]) \<le> 1750"
proof -
  assume "k \<le> RETRY_ATTEMPTS"
  then have "k \<in> {0, 1, 2, 3, 4}" by (auto simp: RETRY_ATTEMPTS_def)
  then show ?thesis by (auto simp: delayMs_def upt_conv_Cons)
qed

text \<open>
  C18. A request of the seeding client comes to its end: it makes between one and four attempts (one when it
  is not retryable), numbers them from one and logs each, waits between them 250, 500 and 1000 ms and never
  longer than 1750 ms in all, and returns the body of its last attempt exactly when that had an expected
  status; otherwise the error carries the status of the last attempt, or none for a network failure.
\<close>

theorem request_ends:
  "case request_loop w c es re 0 [] cl of (res, cl') \<Rightarrow>
     \<exists>k \<in> {1..if re then 4 else 1}. attempts_made c es 0 k res cl cl' \<and>
       cl_sleeps cl' = cl_sleeps cl @ map delayMs [1..<k] \<and> sum_list (map delayMs [1..<k]) \<le> 1750"
proof -
  let ?r = "request_loop w c es re 0 [] cl"
  have "0 < RETRY_ATTEMPTS" by (simp add: RETRY_ATTEMPTS_def)
  from loop_attempts [OF this, of c es w re "[]" cl] obtain k where
    k: "attempts_made c es 0 k (fst ?r) cl (snd ?r)" "0 + k \<le> (if re then RETRY_ATTEMPTS else 0 + 1)" by blast
  then have "0 < k" "cl_sleeps (snd ?r) = cl_sleeps cl @ map delayMs [1..<k]"
    by (auto simp: attempts_made_def)
  moreover have "sum_list (map delayMs [1..<k]) \<le> 1750"
    by (rule delays) (use k(2) in \<open>auto simp: RETRY_ATTEMPTS_def split: if_splits\<close>)
  moreover have "k \<in> {1..if re then 4 else 1}" using \<open>0 < k\<close> k(2) by (simp add: RETRY_ATTEMPTS_def split: if_splits)
  ultimately have "\<exists>k \<in> {1..if re then 4 else 1}. attempts_made c es 0 k (fst ?r) cl (snd ?r) \<and>
      cl_sleeps (snd ?r) = cl_sleeps cl @ map delayMs [1..<k] \<and> sum_list (map delayMs [1..<k]) \<le> 1750"
    using k(1) by blast
  then show ?thesis by (simp add: split_beta)
qed

end
