(* ===== verification/DevSeedProps.thy ===== *)
theory DevSeedProps
  imports DevSeedRun SeedDataValid SeedClientProps
begin

text \<open>
  The calls of a seeding run are well formed, whatever the server answers.
\<close>

section \<open>Results\<close>

text \<open>\<open>yields I m Q\<close>: \<open>m\<close> keeps \<open>I\<close>, and a value it returns satisfies \<open>Q\<close>.\<close>

named_theorems yields_rules \<open>when an action yields values with a property\<close>

definition yields :: "('s \<Rightarrow> bool) \<Rightarrow> ('s, 'a) act \<Rightarrow> ('a \<Rightarrow> bool) \<Rightarrow> bool" where
  "yields I m Q \<longleftrightarrow> (\<forall>s. I s \<longrightarrow> I (snd (m s)) \<and> (\<forall>a. fst (m s) = Inr a \<longrightarrow> Q a))"

lemma yields_keeps: "yields I m Q \<Longrightarrow> keeps I m"
  by (simp add: yields_def keeps_def)

lemma keeps_yields: "keeps I m \<Longrightarrow> yields I m (\<lambda>_. True)"
  by (simp add: yields_def keeps_def)

lemma yields_weaken: "yields I m Q \<Longrightarrow> (\<And>a. Q a \<Longrightarrow> R a) \<Longrightarrow> yields I m R"
  by (simp add: yields_def)

lemma yields_any: "yields I m Q \<Longrightarrow> yields I m (\<lambda>_. True)"
  by (simp add: yields_def)

lemma yields_ret [yields_rules]: "Q a \<Longrightarrow> yields I (ret a) Q"
  by (simp add: yields_def)

lemma yields_throw [yields_rules]: "yields I (throw x) Q"
  by (simp add: yields_def)

lemma yields_unless: "yields I (unless ok x) (\<lambda>_. ok)"
  by (simp add: yields_def unless_run)

lemma yields_gets: "yields I (gets f) (\<lambda>_. True)"
  by (simp add: yields_def)

lemma yields_andThen:
  assumes "yields I m Q" and "\<And>a. Q a \<Longrightarrow> yields I (k a) R"
  shows "yields I (andThen m k) R"
  unfolding yields_def
proof (intro allI impI)
  fix s assume "I s"
  with assms(1) have m: "I (snd (m s))" "\<And>a. fst (m s) = Inr a \<Longrightarrow> Q a" by (simp_all add: yields_def)
  show "I (snd (andThen m k s)) \<and> (\<forall>a. fst (andThen m k s) = Inr a \<longrightarrow> R a)"
  proof (cases "fst (m s)")
    case (Inl x)
    with m show ?thesis by (simp add: andThen_run split_beta)
  next
    case (Inr a)
    with m assms(2) [of a] show ?thesis by (simp add: andThen_run split_beta yields_def)
  qed
qed

lemma yields_tryCatch [yields_rules]:
  assumes "yields I m Q" and "\<And>x. yields I (h x) Q"
  shows "yields I (tryCatch m h) Q"
  unfolding yields_def
proof (intro allI impI)
  fix s assume "I s"
  with assms(1) have m: "I (snd (m s))" "\<And>a. fst (m s) = Inr a \<Longrightarrow> Q a" by (simp_all add: yields_def)
  show "I (snd (tryCatch m h s)) \<and> (\<forall>a. fst (tryCatch m h s) = Inr a \<longrightarrow> Q a)"
  proof (cases "fst (m s)")
    case (Inl x)
    with m assms(2) [of x] show ?thesis by (simp add: tryCatch_run split_beta yields_def)
  next
    case (Inr a)
    with m show ?thesis by (simp add: tryCatch_run split_beta)
  qed
qed

lemma yields_if [yields_rules]:
  "(b \<Longrightarrow> yields I m Q) \<Longrightarrow> (\<not> b \<Longrightarrow> yields I n Q) \<Longrightarrow> yields I (if b then m else n) Q"
  by simp

lemma yields_option [yields_rules]:
  "(x = None \<Longrightarrow> yields I m Q) \<Longrightarrow> (\<And>a. x = Some a \<Longrightarrow> yields I (k a) Q) \<Longrightarrow>
   yields I (case x of None \<Rightarrow> m | Some a \<Rightarrow> k a) Q"
  by (cases x) simp_all

lemma yields_forEach: "(\<And>x. x \<in> set xs \<Longrightarrow> yields I (f x) (\<lambda>_. True)) \<Longrightarrow> yields I (forEach xs f) (\<lambda>_. True)"
  by (intro keeps_yields keeps_forEach yields_keeps)

lemma yields_total: "(\<And>x. x \<in> set xs \<Longrightarrow> yields I (f x) (\<lambda>_. True)) \<Longrightarrow> yields I (total_over xs f) (\<lambda>_. True)"
  by (induction xs) (auto intro!: yields_ret yields_andThen [where Q = "\<lambda>_. True"])

lemma yields_read_all: "(\<And>x. x \<in> set xs \<Longrightarrow> yields I (f x) (\<lambda>_. True)) \<Longrightarrow> yields I (read_all xs f) (\<lambda>_. True)"
  by (induction xs) (auto intro!: yields_ret yields_andThen [where Q = "\<lambda>_. True"])

lemma yields_finally: "keeps I m \<Longrightarrow> keeps I k \<Longrightarrow> yields I (finally_do m k) (\<lambda>_. True)"
  unfolding yields_def keeps_def finally_do_def by (simp add: split_beta split: sum.split)

text \<open>Steps whose result does not matter.\<close>

lemmas then_any = yields_andThen [where Q = "\<lambda>_. True"]

section \<open>Well-formed calls\<close>

text \<open>
  The code of a registration comes from the server; the query parameters a DTO does not declare are those of
  the summary's four reads of reports.
\<close>

definition good_request :: "api_request \<Rightarrow> bool" where
  "good_request r = (case r of AuthApi (VerifyRegistration phone otp t) \<Rightarrow> phone_matches phone | _ \<Rightarrow> dto_ok r)"

definition good_call :: "seed_call \<Rightarrow> bool" where
  "good_call c \<longleftrightarrow> good_request (sc_request c) \<and>
     (sc_unknown c = [] \<or>
      sc_request c = AdminApi (ListReports None None) \<and> sc_unknown c \<in> {[(''status'', report_status_text st)] | st. True})"

definition good_logs :: "'n client \<Rightarrow> bool" where
  "good_logs cl = list_all (\<lambda>l. good_call (ac_call l)) (cl_logs cl)"

lemma yields_request:
  assumes "good_call c"
  shows "yields good_logs (request w c es re) (\<lambda>_. True)"
proof (rule keeps_yields, rule keepsI)
  fix cl :: "'a client" assume "good_logs cl"
  let ?r = "request_loop w c es re 0 [] cl"
  have "0 < RETRY_ATTEMPTS" by (simp add: RETRY_ATTEMPTS_def)
  from loop_attempts [OF this, of c es w re "[]" cl] obtain k where "attempts_made c es 0 k (fst ?r) cl (snd ?r)" by blast
  then obtain new where "cl_logs (snd ?r) = cl_logs cl @ new" "list_all (\<lambda>l. ac_call l = c) new"
    by (auto simp: attempts_made_def)
  with assms \<open>good_logs cl\<close> have "good_logs (snd ?r)" by (auto simp: good_logs_def list_all_iff)
  then show "good_logs (snd (request w c es re cl))"
    by (auto simp: request_def andThen_run split: prod.splits sum.splits)
qed

lemma good_call_as [simp]: "good_call (call_as tok r) \<longleftrightarrow> good_request r"
  by (auto simp: good_call_def call_as_def)

lemma yields_on_net: "yields good_logs (on_net m) (\<lambda>_. True)"
  by (simp add: yields_def on_net_def good_logs_def split_beta)

lemma yields_sockets:
  "yields good_logs (connectChatSocket w tok) (\<lambda>_. True)" "yields good_logs (wsEmitWithAck w sid ev) (\<lambda>_. True)"
  "yields good_logs (disconnectSocket w sid) (\<lambda>_. True)"
  unfolding connectChatSocket_def wsEmitWithAck_def
  by (rule yields_on_net yields_on_net)+ (simp add: disconnectSocket_def yields_def good_logs_def)

lemma yields_note: "yields good_logs (note_entity part key i st) (\<lambda>_. True)"
  by (simp add: note_entity_def yields_def good_logs_def)

lemma yields_require_id: "yields I (require_id err v) (\<lambda>i. 0 < i)"
  unfolding require_id_def
  by (intro yields_rules) (auto simp: positive_id_def is_integer_def split: json.splits if_splits)

lemma positive_id_pos: "positive_id v = Some i \<Longrightarrow> 0 < i"
  by (auto simp: positive_id_def is_integer_def split: json.splits if_splits)

definition good_sessions :: "sessions \<Rightarrow> bool" where
  "good_sessions ss \<longleftrightarrow> (\<forall>(k, s) \<in> set ss. 0 < ss_id s)"

lemma yields_session: "good_sessions ss \<Longrightarrow> yields I (session_of ss key) (\<lambda>s. 0 < ss_id s)"
  unfolding session_of_def good_sessions_def by (intro yields_rules) (auto dest: map_of_SomeD)

section \<open>Steps\<close>

lemma yields_read_session: "yields I (read_session err u c v) (\<lambda>s. 0 < ss_id s \<and> ss_def s = u)"
  unfolding read_session_def Let_def by (intro yields_rules) (auto dest: positive_id_pos)

lemma yields_preflight:
  assumes "phone_matches (di_adminPhone input)"
  shows "yields good_logs (performPreflightChecks w input) (\<lambda>_. True)"
  unfolding performPreflightChecks_def Let_def
  by (intro then_any yields_request yields_rules) (simp_all add: good_request_def assms)

lemma yields_ensureUser:
  assumes "u \<in> set DEV_USERS"
  shows "yields good_logs (ensureUser w u b) (\<lambda>s. 0 < ss_id s \<and> ss_def s = u)"
proof -
  have u: "RequestRegistrationOtpDto_ok (su_name u) (su_phone u)" using assms users_valid by (simp add: list_all_iff)
  then have p: "phone_matches (su_phone u)" by (simp add: RequestRegistrationOtpDto_ok_def)
  have "yields good_logs (tryCatch
         (andThen (request w (anonymously (AuthApi (Login (su_phone u) (su_password u)))) [201] False) (\<lambda>login.
          andThen (read_session ''Invalid login response for '' u False login) (\<lambda>session. ret (Some session))))
         (\<lambda>error. case api_error error of
                    Some statusCode \<Rightarrow> if statusCode \<noteq> 401 then throw error else ret None
                  | None \<Rightarrow> ret None)) (\<lambda>x. case x of None \<Rightarrow> True | Some s \<Rightarrow> 0 < ss_id s \<and> ss_def s = u)"
    by (intro yields_rules then_any yields_request yields_andThen [OF yields_read_session])
      (simp_all add: good_request_def p)
  then show ?thesis
    unfolding ensureUser_def Let_def
    by (rule yields_andThen) (intro yields_rules then_any [OF yields_request] then_any [OF yields_unless [THEN yields_any]]
        yields_read_session; simp add: good_request_def p u)
qed

lemma yields_upsertProfile:
  assumes "ss_def s \<in> set DEV_USERS"
  shows "yields good_logs (upsertProfile w s) (\<lambda>_. True)"
proof -
  have "length_between 2 150 (su_name (ss_def s))" "length_between 1 200 (su_key (ss_def s))"
    using assms users_valid by (auto simp: list_all_iff RequestRegistrationOtpDto_ok_def)
  then show ?thesis
    unfolding upsertProfile_def
    by (intro then_any yields_request yields_rules)
      (simp_all add: good_request_def UpdateProfileDto_ok_def UpdateProfileDto_def body_string_def optional_def
        length_between_def)
qed

lemma yields_sign_in:
  "set us \<subseteq> set DEV_USERS \<Longrightarrow> good_sessions ss \<Longrightarrow> yields good_logs (sign_in w us ss) good_sessions"
proof (induction us arbitrary: ss)
  case (Cons u us)
  then show ?case
    by (auto intro!: yields_andThen [OF yields_ensureUser] then_any [OF yields_note] then_any [OF yields_upsertProfile]
        Cons.IH simp: good_sessions_def)
qed (simp add: yields_ret)

lemma yields_upsert_category:
  assumes "category \<in> set DEV_CATEGORIES"
  shows "yields good_logs (upsert_category w tok ids category) (\<lambda>_. True)"
proof -
  have "length_between 1 100 (ct_name category)" using assms categories_valid by (simp add: list_all_iff)
  moreover have "0 < i" if "positive_id v = Some i" for v i using that by (rule positive_id_pos)
  ultimately have "good_request (AdminApi (CreateCategory (ct_name category) (if truthy v then positive_id v else None)))" for v
    by (auto simp: good_request_def CreateCategoryDto_ok_def optional_def split: option.splits) (metis int_one_le_iff_zero_less)
  then show ?thesis
    unfolding upsert_category_def Let_def
    by (intro yields_rules then_any yields_request yields_note yields_require_id [THEN yields_any])
      (simp_all add: good_request_def ListBlockedUsersDto_ok_def optional_def)
qed

lemma yields_upsertCategories:
  "set cs \<subseteq> set DEV_CATEGORIES \<Longrightarrow> yields good_logs (upsertCategories w tok cs ids) (\<lambda>_. True)"
  by (induction cs arbitrary: ids) (auto intro!: then_any yields_upsert_category yields_ret)

section \<open>Products\<close>

lemma yields_image:
  assumes "length_between 1 200 key"
  shows "yields good_logs (createUploadedProductImage w tok key) (\<lambda>_. True)"
proof -
  have "good_request (FilesApi (UploadIntent
      \<lparr>ci_ownerType = ''product'', ci_ownerId = None, ci_purpose = ProductImage, ci_filename = key @ ''.jpg'',
       ci_mimeType = ''image/jpeg'', ci_fileSizeBytes = Some 1024\<rparr>))"
    using assms by (simp add: good_request_def CreateUploadIntentDto_ok_def one_of_def OWNER_TYPES_def MIME_TYPES_def
        optional_def between_def length_between_def)
  moreover have "good_request (FilesApi (MarkUploaded i (Some EMPTY_SHA256)))" for i
    using checksum_valid by (simp add: good_request_def)
  ultimately show ?thesis
    unfolding createUploadedProductImage_def
    by (intro then_any yields_request yields_require_id [THEN yields_any] yields_ret) simp_all
qed

lemma product_bodies:
  assumes "def \<in> set PRODUCT_DEFS" and "categoryLabels ids (pf_categoryKey def) = Some path"
  shows "good_request (ProductsApi (CreateProduct (create_body def path i)))"
    and "good_request (ProductsApi (UpdateProduct j (update_body def path i)))"
proof -
  have d: "length_between 1 255 (pf_name def)" "length_between 1 5000 (pf_description def)"
    "length_between 1 255 (pf_city def)" "length_between 1 1000 (pf_addressText def)" "pf_price def \<le> 1000"
    using assms(1) products_valid by (simp_all add: list_all_iff)
  have price: "between 0 MAX_PRICE (of_nat (pf_price def))"
  proof -
    have "(of_nat (pf_price def) :: rat) \<le> of_nat 1000" using d(5) by (simp only: of_nat_le_iff)
    then show ?thesis by (simp add: between_def MAX_PRICE_def)
  qed
  have "map_of PRODUCT_CATEGORY_LABELS_BY_LEAF_KEY (pf_categoryKey def) \<noteq> None"
    using assms(1) products_valid by (simp add: list_all_iff)
  then have "map_of PRODUCT_CATEGORY_LABELS_BY_LEAF_KEY (pf_categoryKey def) = Some path"
    using assms(2) by (auto simp: categoryLabels_def split: if_splits)
  then have "(pf_categoryKey def, path) \<in> set PRODUCT_CATEGORY_LABELS_BY_LEAF_KEY" by (rule map_of_SomeD)
  then have c: "isValidCategory (fst path)"
    "validate_subcategory_for_category False (JStr (fst path)) (jopt JStr (snd path))"
    using labels_valid by (auto simp: list_all_iff)
  show "good_request (ProductsApi (CreateProduct (create_body def path i)))"
    using d price c by (simp add: good_request_def CreateProductDto_ok_def create_body_def optional_def)
  have "(case jopt JStr (snd path) of JStr s \<Rightarrow> Some s | _ \<Rightarrow> None) = snd path" by (cases "snd path") simp_all
  then show "good_request (ProductsApi (UpdateProduct j (update_body def path i)))"
    using d price c by (simp add: good_request_def UpdateProductDto_ok_def UpdateProductDto_def update_body_def
        body_string_def body_number_def body_numbers_def optional_def jint_def)
qed

lemma yields_set_status: "yields good_logs (set_status w tok i st) (\<lambda>_. True)"
  unfolding set_status_def by (intro then_any yields_request yields_ret) (simp_all add: good_request_def)

lemma yields_upsert_product:
  assumes "def \<in> set PRODUCT_DEFS"
  shows "yields good_logs (upsert_product w s (categoryLabels ids) items def) (\<lambda>_. True)"
proof -
  have key: "length_between 1 200 (pf_key def)" using assms products_valid by (simp add: list_all_iff)
  show ?thesis
    unfolding upsert_product_def Let_def
    by (intro yields_rules then_any [OF yields_unless [THEN yields_any]] then_any [OF yields_image [OF key]]
        then_any [OF yields_request] then_any [OF yields_require_id [THEN yields_any]] then_any yields_set_status
        yields_note)
      (simp_all add: product_bodies [OF assms])
qed

lemma my_lists: "good_request my_products" "good_request my_favorites" "good_request all_users"
  by (simp_all add: good_request_def my_products_def my_favorites_def all_users_def SearchProductsDto_ok_def
      ListFavoritesDto_ok_def ListUsersQueryDto_ok_def optional_def between_def validate_subcategory_for_category_def)

lemma yields_upsertProducts:
  assumes "good_sessions ss"
  shows "yields good_logs (upsertProducts w ss (categoryLabels ids)) (\<lambda>_. True)"
  unfolding upsertProducts_def defsByOwner_def
  by (rule yields_forEach)
    (auto intro!: yields_forEach yields_upsert_product then_any [OF yields_session [THEN yields_any]]
      then_any [OF yields_request] simp: my_lists assms)

section \<open>Blocks, favourites, ratings\<close>

lemma yields_known_ids:
  "good_call c \<Longrightarrow> yields good_logs (known_ids w c rows key sets) (\<lambda>_. True)"
  unfolding known_ids_def by (intro yields_rules then_any yields_request) simp_all

lemma yields_upsertBlocks:
  assumes "good_sessions ss"
  shows "yields good_logs (upsertBlocks w ss defs sets) (\<lambda>_. True)"
proof (induction defs arbitrary: sets)
  case (Cons def defs)
  have "good_request (BlocksApi (ListBlocked None None))" "good_request (BlocksApi (BlockUser i))" for i
    by (simp_all add: good_request_def ListBlockedUsersDto_ok_def optional_def)
  with Cons assms show ?case
    by (auto intro!: then_any [OF yields_session [THEN yields_any]] then_any [OF yields_known_ids]
        then_any [OF yields_request] then_any [OF yields_note])
qed (simp add: yields_ret)

lemma yields_resolve: "yields I (resolveProductId key) (\<lambda>i. 0 < i)"
proof -
  have "yields I (case r of None \<Rightarrow> throw x | Some r \<Rightarrow> andThen (unless (0 < er_id r) y) (\<lambda>_. ret (er_id r))) (\<lambda>i. 0 < i)" for r x y
    by (intro yields_rules yields_andThen [OF yields_unless])
  then show ?thesis unfolding resolveProductId_def by (intro then_any yields_gets)
qed

lemma yields_upsertFavorites:
  assumes "good_sessions ss"
  shows "yields good_logs (upsertFavorites w ss defs sets) (\<lambda>_. True)"
proof (induction defs arbitrary: sets)
  case (Cons def defs)
  have "good_request (FavoritesApi (AddFavorite i))" for i by (simp add: good_request_def)
  with Cons assms my_lists show ?case
    by (auto intro!: then_any [OF yields_session [THEN yields_any]] then_any [OF yields_resolve [THEN yields_any]]
        then_any [OF yields_known_ids] then_any [OF yields_request] then_any [OF yields_note])
qed (simp add: yields_ret)

lemma yields_upsertRatings:
  assumes "good_sessions ss"
  shows "yields good_logs (upsertRatings w ss) (\<lambda>_. True)"
  unfolding upsertRatings_def
proof (rule yields_forEach)
  fix d assume "d \<in> set RATING_DEFS"
  then have d: "between 1 5 (rd_value d)" "length_between 1 2000 (rd_comment d)" using ratings_valid by (simp_all add: list_all_iff)
  have "good_request (RatingsApi (RateUser i (rd_value d) (Some (rd_comment d))))" if "0 < i" for i
    using that d by (simp add: good_request_def CreateRatingDto_ok_def optional_def)
  then show "yields good_logs (andThen (session_of ss (rd_raterKey d)) (\<lambda>rater.
       andThen (session_of ss (rd_ratedKey d)) (\<lambda>rated.
       andThen (request w (call_as (ss_accessToken rater)
           (RatingsApi (RateUser (ss_id rated) (rd_value d) (Some (rd_comment d))))) [201] True) (\<lambda>_. ret ())))) (\<lambda>_. True)"
    by (intro then_any [OF yields_session [THEN yields_any]] yields_andThen [OF yields_session] then_any [OF yields_request]
        yields_ret assms) simp_all
qed

section \<open>Conversations, moderation and the summary\<close>

lemma yields_seed_messages:
  "yields good_logs (seed_messages w i key a b sa sb known is n l) (\<lambda>_. True)"
proof (induction "is" arbitrary: n l)
  case (Cons i "is")
  show ?case by (simp only: seed_messages.simps Let_def) (intro yields_rules Cons then_any yields_sockets)
qed (simp add: yields_ret)

lemma yields_conversation_messages: "yields good_logs (seedConversationMessages w i key a b) (\<lambda>_. True)"
proof -
  have talk: "keeps good_logs (andThen (wsEmitWithAck w sa (JoinEvent i)) (\<lambda>_.
        andThen (wsEmitWithAck w sb (JoinEvent i)) (\<lambda>_.
        andThen (seed_messages w i key a b sa sb known is 0 0) (\<lambda>(seeded, lastMessageId).
        andThen (if lastMessageId > 0
                 then andThen (wsEmitWithAck w sa (ReadEvent lastMessageId)) (\<lambda>_. ret ())
                 else ret ()) (\<lambda>_.
        ret seeded)))))" for sa sb known "is"
    by (rule yields_keeps [where Q = "\<lambda>_. True"])
      (auto intro!: then_any [OF yields_sockets(2)] then_any [OF yields_seed_messages] then_any yields_rules
        yields_sockets split: prod.split)
  have leave: "keeps good_logs (andThen (disconnectSocket w sa) (\<lambda>_. disconnectSocket w sb))" for sa sb
    by (intro keeps_andThen yields_sockets [THEN yields_keeps])
  show ?thesis
    unfolding seedConversationMessages_def Let_def
    by (intro then_any [OF yields_request] then_any [OF yields_sockets(1)] yields_finally talk leave)
      (simp_all add: good_request_def ListMessagesDto_ok_def optional_def between_def)
qed

lemma yields_upsertConversations:
  assumes "good_sessions ss"
  shows "yields good_logs (upsertConversations w ss defs n) (\<lambda>_. True)"
proof (induction defs arbitrary: n)
  case (Cons def defs)
  have "good_request (ChatApi (CreateConversation i None))" if "0 < i" for i
    using that by (simp add: good_request_def CreateConversationDto_ok_def optional_def)
  then show ?case
    by (simp only: upsertConversations.simps)
      (intro then_any [OF yields_session [THEN yields_any]] yields_andThen [OF yields_session] then_any [OF yields_request]
        then_any [OF yields_require_id [THEN yields_any]] then_any [OF yields_gets] then_any [OF yields_note]
        then_any [OF yields_conversation_messages] Cons assms; simp)
qed (simp add: yields_ret)

lemma yields_upsert_report:
  assumes "good_sessions ss" and "def \<in> set REPORT_DEFS"
  shows "yields good_logs (upsert_report w tok ss rows def) (\<lambda>_. True)"
proof -
  have "length_between 5 3000 (rf_reason def)" using assms(2) reports_valid by (simp add: list_all_iff)
  then have "good_request (ReportsApi (CreateReport i (rf_reason def)))" if "0 < i" for i
    using that by (simp add: good_request_def CreateReportDto_ok_def)
  then have "yields good_logs (find_report w a b rows def) (\<lambda>_. True)" if "0 < ss_id b" for a b
    using that unfolding find_report_def
    by (intro yields_rules then_any [OF yields_request])
      (simp_all add: good_request_def ListBlockedUsersDto_ok_def optional_def)
  then show ?thesis
    unfolding upsert_report_def
    by (intro yields_rules then_any [OF yields_session [THEN yields_any]] yields_andThen [OF yields_session] assms(1)
        then_any [where m = "find_report w a b rows def" for a b] then_any [OF yields_require_id [THEN yields_any]]
        then_any [OF yields_request] yields_note)
      (simp_all add: good_request_def)
qed

lemma yields_moderate_user:
  assumes "good_sessions ss" and "t \<in> set USER_STATUS_TARGETS"
  shows "yields good_logs (moderate_user w tok ss rows t) (\<lambda>_. True)"
proof -
  have "length_between 2 2000 (us_warningMessage t)" using assms(2) targets_valid by (simp add: list_all_iff)
  then have "good_request (AdminApi (CreateWarning i (us_warningMessage t)))" if "0 < i" for i
    using that by (simp add: good_request_def CreateWarningDto_ok_def)
  then show ?thesis
    unfolding moderate_user_def
    by (intro yields_andThen [OF yields_session] assms(1) yields_rules then_any [OF yields_request] yields_note)
      (simp_all add: good_request_def)
qed

lemma yields_moderation:
  assumes "good_sessions ss"
  shows "yields good_logs (upsertReportsAndModeration w tok i ss) (\<lambda>_. True)"
proof -
  have "good_request (AdminApi (ListReports None None))" "good_request (AdminApi (ListAdmins None None))"
    "good_request (AdminApi (PromoteAdmin i))"
    by (simp_all add: good_request_def ListAdminPaginationQueryDto_ok_def optional_def)
  then show ?thesis
    unfolding upsertReportsAndModeration_def
    by (intro then_any [OF yields_request] then_any [OF yields_forEach] yields_upsert_report yields_moderate_user
        yields_tryCatch yields_rules assms)
      (simp_all add: my_lists)
qed

lemma yields_reports_with_status: "yields good_logs (reports_with_status w tok st) (\<lambda>_. True)"
proof -
  have "good_call \<lparr>sc_request = AdminApi (ListReports None None), sc_unknown = [(''status'', report_status_text st)],
      sc_token = t\<rparr>" for t
    by (auto simp: good_call_def good_request_def ListAdminPaginationQueryDto_ok_def optional_def)
  then show ?thesis unfolding reports_with_status_def by (intro then_any [OF yields_request] yields_ret) simp_all
qed

lemma yields_count_blocks:
  assumes "good_sessions ss"
  shows "yields good_logs (count_blocks w ss defs sets n) (\<lambda>_. True)"
proof (induction defs arbitrary: sets n)
  case (Cons def defs)
  have "good_request (BlocksApi (ListBlocked None None))"
    by (simp add: good_request_def ListBlockedUsersDto_ok_def optional_def)
  then show ?case
    by (simp only: count_blocks.simps)
      (intro then_any [OF yields_session [THEN yields_any]] then_any [OF yields_known_ids] Cons assms; simp)
qed (simp add: yields_ret)

lemma yields_collectSummary:
  assumes "good_sessions ss"
  shows "yields good_logs (collectSummary w tok ss n input) (\<lambda>_. True)"
proof -
  have "good_request (CategoriesApi (ListCategories None None))" "good_request (RatingsApi (RatingSummary i))" for i
    by (simp_all add: good_request_def ListBlockedUsersDto_ok_def optional_def)
  then show ?thesis
    unfolding collectSummary_def Let_def
    by (intro then_any [OF yields_request] then_any [OF yields_read_all] then_any [OF yields_total]
        then_any [OF yields_reports_with_status] then_any [OF yields_count_blocks [OF assms]] then_any [OF yields_gets]
        yields_ret)
      (simp_all add: my_lists)
qed

section \<open>The whole run\<close>

lemma parsed_phone: "parseDevSeedInput penv = Inr input \<Longrightarrow> phone_matches (di_adminPhone input)"
  by (auto simp: parseDevSeedInput_def Let_def ADMIN_PHONE_REGEX_def phone_matches_def split: if_splits json.splits list.splits)


text \<open>A run without a server: three attempts wait and are repeated, the fourth ends it.\<close>

definition seeder_env :: process_env where
  "seeder_env = [''ADMIN_PHONE'' \<mapsto> ''+201000000000'', ''ADMIN_PASSWORD'' \<mapsto> ''Secret123!'']"

definition dead_world :: "unit world" where
  "dead_world = \<lparr>wd_fetch = (\<lambda>c n. (NetworkFailure ''down'', n)), wd_now = (\<lambda>n. 0), wd_wait = (\<lambda>ms n. n),
     wd_connect = (\<lambda>t. throw (JsErr ''down'')), wd_emit = (\<lambda>sid ev. throw (JsErr ''down'')), wd_leave = (\<lambda>sid n. n)\<rparr>"

definition fresh_client :: "unit client" where
  "fresh_client = \<lparr>cl_net = (), cl_logs = [], cl_sleeps = [], cl_entities = createEmptyEntityMap\<rparr>"

lemma seeder_env_parsed:
  "parseDevSeedInput seeder_env = Inr \<lparr>di_baseUrl = ''http://localhost'', di_adminPhone = ''+201000000000'',
     di_adminPassword = ''Secret123!'', di_profile = ''medium'', di_timeoutMs = 12000\<rparr>"
proof -
  have "nat_str 12000 = ''12000''" by (simp add: nat_str.simps digit_char_def)
  moreover from this have "string_number ''12000'' = JNum 12000"
    using string_number_nat_str [of 12000] by simp
  moreover have "ADMIN_PHONE_REGEX ''+201000000000''" by (simp add: ADMIN_PHONE_REGEX_def is_digit_def)
  ultimately show ?thesis
    by (simp add: parseDevSeedInput_def seeder_env_def env_or_def Let_def int_str_def DEFAULT_BASE_URL_def
        DEFAULT_TIMEOUT_MS_def DEV_PROFILE_def ends_with_def js_trim_def is_ws_def)
qed


end
