(* ===== verification/SeedBlocks.thy ===== *)
theory SeedBlocks
  imports DevSeedRun SeedClientProps
begin

text \<open>
  What a seeding run relies on and runs into: the locale \<open>blocking_server\<close> is the contract of a server on which a
  block closes the chat. The run blocks two accounts in both directions and then opens a conversation
  between them, so on such a server it never completes.
\<close>

section \<open>Actions that fail\<close>

text \<open>\<open>never I m\<close>: from a state with \<open>I\<close>, \<open>m\<close> returns no value.\<close>

definition never :: "('s \<Rightarrow> bool) \<Rightarrow> ('s, 'a) act \<Rightarrow> bool" where
  "never I m \<longleftrightarrow> (\<forall>s. I s \<longrightarrow> isl (fst (m s)))"

lemma never_first: "never I m \<Longrightarrow> never I (andThen m k)"
  unfolding never_def by (auto simp: andThen_run split: prod.splits sum.splits)

lemma never_later: "keeps I m \<Longrightarrow> (\<And>a. never I (k a)) \<Longrightarrow> never I (andThen m k)"
  unfolding never_def keeps_def by (fastforce simp: andThen_run split: prod.splits sum.splits)

lemma session_known: "map_of ss key = Some s \<Longrightarrow> andThen (session_of ss key) k = k s"
  by (simp add: session_of_def)

lemma session_then:
  assumes "andThen (session_of ss key) k cl = (Inr r, cl')"
  obtains s where "map_of ss key = Some s" and "k s cl = (Inr r, cl')"
  using assms by (cases "map_of ss key") (auto simp: session_of_def andThen_run)

section \<open>The contract\<close>

text \<open>Calls that take no block away.\<close>

definition spares_blocks :: "api_request \<Rightarrow> bool" where
  "spares_blocks r =
     (case r of
        BlocksApi q \<Rightarrow> (case q of UnblockUser _ \<Rightarrow> False | _ \<Rightarrow> True)
      | FavoritesApi _ \<Rightarrow> True
      | RatingsApi _ \<Rightarrow> True
      | ChatApi _ \<Rightarrow> True
      | _ \<Rightarrow> False)"

locale blocking_server =
  fixes w :: "'n world"
    and blocked :: "string \<Rightarrow> int \<Rightarrow> 'n \<Rightarrow> bool"
  assumes block_made:
      "wd_fetch w (call_as tok (BlocksApi (BlockUser i))) n = (Answered 201 body, n') \<Longrightarrow> blocked tok i n'"
    and block_listed:
      "wd_fetch w (call_as tok (BlocksApi (ListBlocked None None))) n = (Answered 200 body, n') \<Longrightarrow>
       i \<in> set (listed_ids (rows_of ''users'' body)) \<Longrightarrow> blocked tok i n'"
    and block_stays:
      "blocked tok i n \<Longrightarrow> spares_blocks (sc_request c) \<Longrightarrow> wd_fetch w c n = (r, n') \<Longrightarrow> blocked tok i n'"
    and time_spares: "blocked tok i n \<Longrightarrow> blocked tok i (wd_wait w ms n)"
    and sockets_spare: "keeps (blocked tok i) (wd_connect w t)" "keeps (blocked tok i) (wd_emit w sid ev)"
      "blocked tok i n \<Longrightarrow> blocked tok i (wd_leave w sid n)"
    and chat_refused:
      "blocked tok i n \<Longrightarrow> wd_fetch w (call_as tok (ChatApi (CreateConversation i p))) n \<noteq> (Answered 201 body, n')"
begin

lemma tracks_blocked: "spares_blocks (sc_request c) \<Longrightarrow> tracks (blocked tok i) w c"
  using block_stays time_spares unfolding tracks_def by blast

lemma keeps_request:
  assumes "spares_blocks (sc_request c)"
  shows "keeps (\<lambda>cl. blocked tok i (cl_net cl)) (request w c es re)"
proof (rule keepsI)
  fix cl :: "'n client" assume "blocked tok i (cl_net cl)"
  then show "blocked tok i (cl_net (snd (request w c es re cl)))"
    by (rule request_tracks(1) [OF tracks_blocked [OF assms]]) (rule surjective_pairing)
qed

lemma keeps_notes:
  "keeps (\<lambda>cl. blocked tok i (cl_net cl)) (note_entity part key j st)"
  "keeps (\<lambda>cl. blocked tok i (cl_net cl)) (session_of ss key)"
  "keeps (\<lambda>cl. blocked tok i (cl_net cl)) (resolveProductId key)"
  "keeps (\<lambda>cl. blocked tok i (cl_net cl)) (require_id err v)"
  unfolding note_entity_def session_of_def resolveProductId_def require_id_def
  by (intro keeps_rules keeps_modify; simp)+

lemma keeps_on_net: "keeps (blocked tok i) m \<Longrightarrow> keeps (\<lambda>cl. blocked tok i (cl_net cl)) (on_net m)"
  by (simp add: keeps_def on_net_def split_beta)

lemma keeps_chat_sockets:
  "keeps (\<lambda>cl. blocked tok i (cl_net cl)) (connectChatSocket w t)"
  "keeps (\<lambda>cl. blocked tok i (cl_net cl)) (wsEmitWithAck w sid ev)"
  "keeps (\<lambda>cl. blocked tok i (cl_net cl)) (disconnectSocket w sid)"
  unfolding connectChatSocket_def wsEmitWithAck_def disconnectSocket_def
  by (intro keeps_on_net keeps_modify sockets_spare; simp)+

lemma keeps_known_ids:
  "spares_blocks (sc_request c) \<Longrightarrow> keeps (\<lambda>cl. blocked tok i (cl_net cl)) (known_ids w c rows key sets)"
  unfolding known_ids_def by (intro keeps_rules keeps_request)

lemma spared [simp]:
  "spares_blocks (sc_request (call_as t (BlocksApi (BlockUser j))))"
  "spares_blocks (sc_request (call_as t (BlocksApi (ListBlocked l off))))"
  "spares_blocks (sc_request (call_as t (FavoritesApi f)))" "spares_blocks (sc_request (call_as t (RatingsApi q)))"
  "spares_blocks (sc_request (call_as t (ChatApi m)))" "spares_blocks (sc_request (call_as t my_favorites))"
  by (simp_all add: spares_blocks_def call_as_def my_favorites_def)

section \<open>The steps\<close>

lemma keeps_upsertBlocks: "keeps (\<lambda>cl. blocked tok i (cl_net cl)) (upsertBlocks w ss defs sets)"
proof (induction defs arbitrary: sets)
  case (Cons def defs)
  then show ?case by (auto intro!: keeps_rules keeps_notes keeps_known_ids keeps_request)
qed (simp add: keeps_ret)

lemma keeps_upsertFavorites: "keeps (\<lambda>cl. blocked tok i (cl_net cl)) (upsertFavorites w ss defs sets)"
proof (induction defs arbitrary: sets)
  case (Cons def defs)
  then show ?case by (auto intro!: keeps_rules keeps_notes keeps_known_ids keeps_request)
qed (simp add: keeps_ret)

lemma keeps_upsertRatings: "keeps (\<lambda>cl. blocked tok i (cl_net cl)) (upsertRatings w ss)"
  unfolding upsertRatings_def by (auto intro!: keeps_rules keeps_notes keeps_request)

lemma keeps_finally: "keeps I m \<Longrightarrow> keeps I k \<Longrightarrow> keeps I (finally_do m k)"
  unfolding keeps_def finally_do_def by (simp add: split_beta split: sum.split)

lemma keeps_seed_messages:
  "keeps (\<lambda>cl. blocked tok i (cl_net cl)) (seed_messages w cid key a b sa sb known is n l)"
proof (induction "is" arbitrary: n l)
  case (Cons m "is")
  show ?case by (simp only: seed_messages.simps Let_def) (intro keeps_rules Cons keeps_chat_sockets)
qed (simp add: keeps_ret)

lemma keeps_conversation_messages:
  "keeps (\<lambda>cl. blocked tok i (cl_net cl)) (seedConversationMessages w cid key a b)"
  unfolding seedConversationMessages_def Let_def
  by (intro keeps_andThen keeps_request keeps_chat_sockets keeps_finally keeps_prod keeps_if keeps_ret keeps_seed_messages) simp_all

text \<open>The first block of an account is on the server after the step that makes it.\<close>

lemma block_there:
  assumes "upsertBlocks w ss (def # defs) sets cl = (Inr u, cl')" and "sets (bf_blockerKey def) = None"
  shows "\<exists>a b. map_of ss (bf_blockerKey def) = Some a \<and> map_of ss (bf_blockedKey def) = Some b \<and>
    blocked (ss_accessToken a) (ss_id b) (cl_net cl')"
proof -
  from assms(1) [unfolded upsertBlocks.simps] obtain a where a: "map_of ss (bf_blockerKey def) = Some a"
    and r1: "andThen (session_of ss (bf_blockedKey def)) (\<lambda>blocked.
     andThen (known_ids w (call_as (ss_accessToken a) (BlocksApi (ListBlocked None None))) ''users''
         (bf_blockerKey def) sets) (\<lambda>existingSet.
     if ss_id blocked \<in> set existingSet then
       andThen (note_entity em_blocks_update (bf_key def) (ss_id blocked) Reused) (\<lambda>_.
       upsertBlocks w ss defs (sets(bf_blockerKey def \<mapsto> existingSet)))
     else
       andThen (request w (call_as (ss_accessToken a) (BlocksApi (BlockUser (ss_id blocked)))) [201] True) (\<lambda>_.
       andThen (note_entity em_blocks_update (bf_key def) (ss_id blocked) Created) (\<lambda>_.
       upsertBlocks w ss defs (sets(bf_blockerKey def \<mapsto> existingSet @ [ss_id blocked])))))) cl = (Inr u, cl')"
    by (rule session_then)
  from r1 obtain b where b: "map_of ss (bf_blockedKey def) = Some b"
    and r2: "andThen (known_ids w (call_as (ss_accessToken a) (BlocksApi (ListBlocked None None))) ''users''
         (bf_blockerKey def) sets) (\<lambda>existingSet.
     if ss_id b \<in> set existingSet then
       andThen (note_entity em_blocks_update (bf_key def) (ss_id b) Reused) (\<lambda>_.
       upsertBlocks w ss defs (sets(bf_blockerKey def \<mapsto> existingSet)))
     else
       andThen (request w (call_as (ss_accessToken a) (BlocksApi (BlockUser (ss_id b)))) [201] True) (\<lambda>_.
       andThen (note_entity em_blocks_update (bf_key def) (ss_id b) Created) (\<lambda>_.
       upsertBlocks w ss defs (sets(bf_blockerKey def \<mapsto> existingSet @ [ss_id b]))))) cl = (Inr u, cl')"
    by (rule session_then)
  let ?B = "\<lambda>cl. blocked (ss_accessToken a) (ss_id b) (cl_net cl)"
  have later: "?B cl'" if "?B c" "andThen (note_entity part key j st) (\<lambda>_. upsertBlocks w ss defs sets') c = (Inr u, cl')"
    for c part key j st sets'
    by (rule keepsD [OF keeps_andThen [OF keeps_notes(1) keeps_upsertBlocks] that])
  from r2 obtain known cl1 where
    k: "known_ids w (call_as (ss_accessToken a) (BlocksApi (ListBlocked None None))) ''users'' (bf_blockerKey def) sets cl =
        (Inr known, cl1)"
    and r3: "(if ss_id b \<in> set known then
       andThen (note_entity em_blocks_update (bf_key def) (ss_id b) Reused) (\<lambda>_.
       upsertBlocks w ss defs (sets(bf_blockerKey def \<mapsto> known)))
     else
       andThen (request w (call_as (ss_accessToken a) (BlocksApi (BlockUser (ss_id b)))) [201] True) (\<lambda>_.
       andThen (note_entity em_blocks_update (bf_key def) (ss_id b) Created) (\<lambda>_.
       upsertBlocks w ss defs (sets(bf_blockerKey def \<mapsto> known @ [ss_id b]))))) cl1 = (Inr u, cl')"
    by (rule andThen_InrE)
  have "?B cl'"
  proof (cases "ss_id b \<in> set known")
    case True
    from k assms(2) have "andThen (request w (call_as (ss_accessToken a) (BlocksApi (ListBlocked None None))) [200] True)
        (\<lambda>list. ret (listed_ids (rows_of ''users'' list))) cl = (Inr known, cl1)" by (simp add: known_ids_def)
    then obtain body cl0 where
      l: "request w (call_as (ss_accessToken a) (BlocksApi (ListBlocked None None))) [200] True cl = (Inr body, cl0)"
      and "ret (listed_ids (rows_of ''users'' body)) cl0 = (Inr known, cl1)" by (rule andThen_InrE)
    then have known: "known = listed_ids (rows_of ''users'' body)" "cl0 = cl1" by simp_all
    from request_tracks(2) [of "\<lambda>_. True", OF _ _ l refl] obtain n where
      "wd_fetch w (call_as (ss_accessToken a) (BlocksApi (ListBlocked None None))) n = (Answered 200 body, cl_net cl1)"
      by (auto simp: tracks_def known)
    from block_listed [OF this True [unfolded known]] True r3 show ?thesis by (auto intro: later)
  next
    case False
    with r3 have "andThen (request w (call_as (ss_accessToken a) (BlocksApi (BlockUser (ss_id b)))) [201] True) (\<lambda>_.
       andThen (note_entity em_blocks_update (bf_key def) (ss_id b) Created) (\<lambda>_.
       upsertBlocks w ss defs (sets(bf_blockerKey def \<mapsto> known @ [ss_id b])))) cl1 = (Inr u, cl')" by simp
    then obtain body cl2 where
      q: "request w (call_as (ss_accessToken a) (BlocksApi (BlockUser (ss_id b)))) [201] True cl1 = (Inr body, cl2)"
      and r4: "andThen (note_entity em_blocks_update (bf_key def) (ss_id b) Created) (\<lambda>_.
       upsertBlocks w ss defs (sets(bf_blockerKey def \<mapsto> known @ [ss_id b]))) cl2 = (Inr u, cl')"
      by (rule andThen_InrE)
    from request_tracks(2) [of "\<lambda>_. True", OF _ _ q refl] obtain n where
      "wd_fetch w (call_as (ss_accessToken a) (BlocksApi (BlockUser (ss_id b)))) n = (Answered 201 body, cl_net cl2)"
      by (auto simp: tracks_def)
    from block_made [OF this] r4 show ?thesis by (rule later)
  qed
  with a b show ?thesis by blast
qed

text \<open>A conversation between the two is not opened.\<close>

lemma no_conversation:
  assumes "def \<in> set defs" and "map_of ss (cf_a def) = Some a" and "map_of ss (cf_b def) = Some b"
  shows "never (\<lambda>cl. blocked (ss_accessToken a) (ss_id b) (cl_net cl)) (upsertConversations w ss defs n)"
  using assms(1)
proof (induction defs arbitrary: n)
  case (Cons d defs)
  let ?I = "\<lambda>cl. blocked (ss_accessToken a) (ss_id b) (cl_net cl)"
  show ?case
  proof (cases "d = def")
    case True
    have "never ?I (request w (call_as (ss_accessToken a) (ChatApi (CreateConversation (ss_id b) None))) [201] True)"
      unfolding never_def
    proof (intro allI impI)
      fix cl :: "'n client" assume I: "?I cl"
      let ?m = "request w (call_as (ss_accessToken a) (ChatApi (CreateConversation (ss_id b) None))) [201] True"
      obtain r cl1 where m: "?m cl = (r, cl1)" by fastforce
      from request_tracks(2) [OF tracks_blocked I m] chat_refused have "r \<noteq> Inr body" for body by fastforce
      with m show "isl (fst (?m cl))" by (cases r) auto
    qed
    then show ?thesis using assms(2,3) by (simp add: True session_known never_first)
  next
    case False
    with Cons show ?thesis
      by (simp only: upsertConversations.simps)
        (intro never_later keeps_notes keeps_request keeps_gets keeps_conversation_messages Cons.IH; simp)
  qed
qed simp

text \<open>Once the step of the blocks ended, the one of the conversations throws, now or later.\<close>

definition closing :: "sessions \<Rightarrow> 'n client \<Rightarrow> bool" where
  "closing ss cl \<longleftrightarrow> (\<exists>a b. map_of ss ''user07'' = Some a \<and> map_of ss ''user08'' = Some b \<and>
     blocked (ss_accessToken a) (ss_id b) (cl_net cl))"

lemma closing_after_blocks:
  assumes "upsertBlocks w ss BLOCK_DEFS (\<lambda>_. None) cl = (Inr u, cl')"
  shows "closing ss cl'"
  using block_there [OF assms [unfolded BLOCK_DEFS_def]] by (simp add: closing_def)

lemma keeps_closing:
  assumes "\<And>tok i. keeps (\<lambda>cl. blocked tok i (cl_net cl)) m"
  shows "keeps (closing ss) m"
  using assms unfolding keeps_def closing_def by blast

lemma closing_refuses: "never (closing ss) (upsertConversations w ss CONVERSATION_DEFS n)"
proof -
  have "\<lparr>cf_key = ''chat-04'', cf_a = ''user07'', cf_b = ''user08''\<rparr> \<in> set CONVERSATION_DEFS"
    by (simp add: CONVERSATION_DEFS_def)
  from no_conversation [OF this] show ?thesis by (auto simp: never_def closing_def)
qed

lemma conversations_after_blocks:
  "upsertBlocks w ss BLOCK_DEFS (\<lambda>_. None) c1 = (Inr u, c2) \<Longrightarrow>
   isl (fst (upsertConversations w ss CONVERSATION_DEFS n c2))"
  using closing_refuses closing_after_blocks by (auto simp: never_def)

lemma never_after:
  assumes "\<And>a s t. m s = (Inr a, t) \<Longrightarrow> J t" and "\<And>a. never J (k a)"
  shows "never (\<lambda>_. True) (andThen m k)"
  using assms unfolding never_def by (fastforce simp: andThen_run split: prod.split sum.split)

lemma run_fails: "isl (fst (runDevSeed w cwd input cl))"
proof -
  have rest: "never (\<lambda>_. True) (andThen (upsertBlocks w ss BLOCK_DEFS (\<lambda>_. None)) (\<lambda>_.
      andThen (upsertFavorites w ss FAVORITE_DEFS (\<lambda>_. None)) (\<lambda>_. andThen (upsertRatings w ss) (\<lambda>_.
      andThen (upsertConversations w ss CONVERSATION_DEFS 0) k))))" for ss :: sessions and k
    by (rule never_after [where J = "closing ss"], erule closing_after_blocks)
      (intro never_later keeps_closing keeps_upsertFavorites keeps_upsertRatings never_first closing_refuses)
  have "never (\<lambda>_. True) (runDevSeed w cwd input)"
    unfolding runDevSeed_def split_beta by (intro never_later rest; simp add: keeps_def)
  then show ?thesis by (simp add: never_def)
qed

end

end
