(* ===== verification/SeedServer.thy ===== *)
theory SeedServer
  imports DevSeedRun
begin

text \<open>
  The world of a seeding run: the model of the server (\<open>serve\<close> and the gateway), reached over a network that may
  lose a request or its answer. What the network and the throttler do at each exchange is \<open>sky\<close>, a
  parameter.
\<close>

record weather =
  we_lost :: "string option"
  we_cut :: "string option"
  we_over_limit :: bool
  we_delay :: nat

record network =
  nw_gateway :: gateway
  nw_turn :: nat

definition pass_time :: "nat \<Rightarrow> network \<Rightarrow> network" where
  "pass_time ms n =
     n\<lparr>nw_gateway := (nw_gateway n)\<lparr>gw_db := (gw_db (nw_gateway n))\<lparr>clock := clock (gw_db (nw_gateway n)) + int ms\<rparr>\<rparr>\<rparr>"

definition next_turn :: "network \<Rightarrow> network" where
  "next_turn n = n\<lparr>nw_turn := nw_turn n + 1\<rparr>"

text \<open>\<open>forbidNonWhitelisted\<close>: a call with undeclared query parameters does not convert.\<close>

definition http_call_of :: "bool \<Rightarrow> seed_call \<Rightarrow> http_call" where
  "http_call_of over_limit c =
     \<lparr>hc_token = sc_token c, hc_over_limit = over_limit, hc_converts = (sc_unknown c = []), hc_request = sc_request c\<rparr>"

definition http_request_of :: "seed_call \<Rightarrow> Logging.http_request" where
  "http_request_of c =
     \<lparr>hr_method = verb_text (verb_of (sc_request c)), hr_originalUrl = url_of (sc_request c),
      hr_url = url_of (sc_request c), hr_ip = ''127.0.0.1'', hr_body = JUndef,
      hr_query = JObj (map (\<lambda>(k, v). (k, JStr v)) (sc_unknown c)), hr_user_sub = JUndef\<rparr>"

definition server_fetch :: "env \<Rightarrow> (nat \<Rightarrow> weather) \<Rightarrow> seed_call \<Rightarrow> network \<Rightarrow> fetch_result \<times> network" where
  "server_fetch e sky c n =
     (let x = sky (nw_turn n); n1 = pass_time (we_delay x) (next_turn n) in
      case we_lost x of
        Some err \<Rightarrow> (NetworkFailure err, n1)
      | None \<Rightarrow>
          (case serve e (http_request_of c) (http_call_of (we_over_limit x) c) (nw_gateway n1) of
             (r, g) \<Rightarrow>
               (case (r, we_cut x) of
                  (Inr (statusCode, body), None) \<Rightarrow> (Answered statusCode body, n1\<lparr>nw_gateway := g\<rparr>)
                | (_, Some err) \<Rightarrow> (NetworkFailure err, n1\<lparr>nw_gateway := g\<rparr>)
                | (Inl _, None) \<Rightarrow> (NetworkFailure ''socket hang up'', n1\<lparr>nw_gateway := g\<rparr>))))"

definition on_gateway :: "'a wsvc \<Rightarrow> (network, 'a) act" where
  "on_gateway m = (\<lambda>n. case m (nw_gateway n) of (r, g) \<Rightarrow> (r, n\<lparr>nw_gateway := g\<rparr>))"

text \<open>
  A socket of the client connects before the gateway has verified its token; a socket that is then
  disconnected learns of it when it waits for an acknowledgement.
\<close>

definition server_connect :: "env \<Rightarrow> string \<Rightarrow> (network, string) act" where
  "server_connect e tok =
     andThen (gets (\<lambda>n. ''socket-'' @ nat_str (nw_turn n))) (\<lambda>sid.
     andThen (modify next_turn) (\<lambda>_.
     andThen (on_gateway (modify (\<lambda>g. g\<lparr>gw_sockets := (gw_sockets g)(sid \<mapsto> new_socket (JStr tok) JUndef JUndef)\<rparr>))) (\<lambda>_.
     andThen (on_gateway (modify (verification_ended sid))) (\<lambda>_.
     andThen (on_gateway (handleConnection e sid)) (\<lambda>_.
     ret sid)))))"

definition server_emit :: "env \<Rightarrow> string \<Rightarrow> ws_event \<Rightarrow> (network, json) act" where
  "server_emit e sid ev =
     andThen (gets (\<lambda>n. is_connected sid (nw_gateway n))) (\<lambda>connected.
     andThen (unless connected (JsErr ''operation has timed out'')) (\<lambda>_.
     tryCatch (on_gateway (handler e sid ev)) (\<lambda>err.
       andThen (on_gateway (catch e sid [] JUndef err)) (\<lambda>_. throw (JsErr ''operation has timed out'')))))"

definition server_world :: "env \<Rightarrow> (nat \<Rightarrow> weather) \<Rightarrow> network world" where
  "server_world e sky =
     \<lparr>wd_fetch = server_fetch e sky, wd_now = (\<lambda>n. clock (gw_db (nw_gateway n))), wd_wait = pass_time,
      wd_connect = server_connect e, wd_emit = server_emit e,
      wd_leave = (\<lambda>sid n. snd (on_gateway (disconnect sid) n))\<rparr>"

definition calm_sky :: "nat \<Rightarrow> weather" where
  "calm_sky k = \<lparr>we_lost = None, we_cut = None, we_over_limit = False, we_delay = 1\<rparr>"

end
