(* ===== verification/SeedOutcome.thy ===== *)
theory SeedOutcome
  imports SeedBlocks SeedServer AnswerProps
begin

text \<open>
  The server keeps the contract \<open>blocking_server\<close>: a block that one of its answers shows stays until it is
  taken back, and closes the conversation between the two. So a seeding run against the server, over any
  network, does not complete.
\<close>

section \<open>A block stays\<close>

abbreviation blocked_by :: "int \<Rightarrow> int \<Rightarrow> db \<Rightarrow> bool" where
  "blocked_by u i d \<equiv> \<exists>r \<in> set (user_blocks d). blocks_pair u i r"

lemma blocked_stays_inserts:
  "keeps (blocked_by u i) (insert_block a b)" "keeps (blocked_by u i) (insert_favorite a p)"
  "keeps (blocked_by u i) (upsert_rating a b v c)" "keeps (blocked_by u i) (insert_conversation a b q)"
  "keeps (blocked_by u i) (insert_message cid a t)"
proof -
  show "keeps (blocked_by u i) (insert_block a b)" by (rule keepsI) (auto simp: insert_block_def)
  show "keeps (blocked_by u i) (insert_favorite a p)" by (rule keepsI) (auto simp: insert_favorite_def)
  show "keeps (blocked_by u i) (upsert_rating a b v c)"
    by (rule keepsI) (auto simp: upsert_rating_def Let_def split: option.split)
  show "keeps (blocked_by u i) (insert_conversation a b q)" by (rule keepsI) (auto simp: insert_conversation_run Let_def)
  show "keeps (blocked_by u i) (insert_message cid a t)" by (rule keepsI) (auto simp: insert_message_run Let_def)
qed

lemma blocked_stays_updates:
  "keeps (blocked_by u i) (modify (\<lambda>d. d\<lparr>user_favorites := f d\<rparr>))"
  "keeps (blocked_by u i) (modify (\<lambda>d. d\<lparr>conversations := g d\<rparr>))"
  by (rule keeps_modify; simp)+

lemma blocked_stays_services:
  "keeps (blocked_by u i) (blockUser a b)" "keeps (blocked_by u i) (addFavorite e a p)"
  "keeps (blocked_by u i) (removeFavorite a p)" "keeps (blocked_by u i) (rateUser e a b v c)"
  "keeps (blocked_by u i) (getOrCreateConversation e a b q)" "keeps (blocked_by u i) (sendMessage e a cid t)"
  "keeps (blocked_by u i) (markRead e a m)"
  unfolding blockUser_def addFavorite_def removeFavorite_def rateUser_def getOrCreateConversation_def existing_or_new_def
    sendMessage_def
  by (intro keeps_rules blocked_stays_inserts blocked_stays_updates reads_validated_product [THEN reads_keeps]
      reads_getConversationById [THEN reads_keeps] reads_assert [THEN reads_keeps] keeps_markRead_any reading; simp)+

text \<open>The actions of the server that touch the database through these services only.\<close>

lemma blocked_stays_create: "keeps (\<lambda>g. blocked_by u i (gw_db g)) (createConversation e a b q)"
  unfolding createConversation_def
  by (auto split: json.split intro!: keeps_rules keeps_db_on_db keeps_db_emitJoined blocked_stays_services
      reads_payload [THEN reads_keeps] reads_getConversationParticipants [THEN reads_keeps])

lemma blocked_stays_controller:
  assumes "spares_blocks req"
  shows "keeps (\<lambda>g. blocked_by u i (gw_db g)) (controller e user req)"
proof (cases req)
  case (BlocksApi q)
  with assms show ?thesis
    by (cases q) (auto simp: spares_blocks_def
        intro!: keeps_db_on_db keeps_with_user keeps_object blocked_stays_services reading)
next
  case (FavoritesApi q)
  then show ?thesis
    by (cases q) (auto intro!: keeps_db_on_db keeps_with_user keeps_object blocked_stays_services reading)
next
  case (RatingsApi q)
  then show ?thesis
    by (cases q) (auto intro!: keeps_db_on_db keeps_with_user keeps_object blocked_stays_services reading)
next
  case (ChatApi q)
  then show ?thesis
    by (cases q) (auto intro!: keeps_db_on_db keeps_with_user keeps_object keeps_andThen keeps_ret blocked_stays_create reading)
qed (use assms in \<open>auto simp: spares_blocks_def\<close>)

lemma blocked_stays_serve:
  assumes "spares_blocks (hc_request c)" and "serve e rq c g = (r, g')" and "blocked_by u i (gw_db g)"
  shows "blocked_by u i (gw_db g')"
proof -
  have "keeps (\<lambda>g. blocked_by u i (gw_db g)) (handle_call e c)"
    unfolding handle_call_def
    by (intro keeps_rules keeps_db_on_db reads_authorize [THEN reads_keeps] blocked_stays_controller assms(1))
  then have "keeps (\<lambda>g. blocked_by u i (gw_db g)) (andThen (handle_call e c) (\<lambda>v. on_db (respond e st v)))" for st
    unfolding respond_def by (intro keeps_rules keeps_db_on_db reads_expand [THEN reads_keeps])
  from keepsD [OF this assms(3)] assms(2) show ?thesis
    unfolding serve_def by (auto split: prod.splits sum.splits)
qed

lemma same_db_actions:
  "keeps (\<lambda>g. I (gw_db g)) (join sid room)" "keeps (\<lambda>g. I (gw_db g)) (emit_to_room room ev v)"
  "keeps (\<lambda>g. I (gw_db g)) (emit_to_socket sid ev v)" "keeps (\<lambda>g. I (gw_db g)) (registerUserSocket k sid)"
  "keeps (\<lambda>g. I (gw_db g)) (unregisterUserSocket k sid)"
  by (auto simp: keeps_def join_def emit_to_room_def emit_to_socket_def registerUserSocket_def
      unregisterUserSocket_def Let_def split: option.split)

lemma blocked_stays_sockets:
  "keeps (\<lambda>g. blocked_by u i (gw_db g)) (handleConnection e sid)"
  "keeps (\<lambda>g. blocked_by u i (gw_db g)) (disconnect sid)"
  "keeps (\<lambda>g. blocked_by u i (gw_db g)) (handler e sid ev)"
  "keeps (\<lambda>g. blocked_by u i (gw_db g)) (catch e sid p v x)"
proof -
  show leave: "keeps (\<lambda>g. blocked_by u i (gw_db g)) (disconnect sid)"
    unfolding disconnect_def handleDisconnect_def
    by (intro keeps_rules keeps_modify same_db_actions; simp)
  show "keeps (\<lambda>g. blocked_by u i (gw_db g)) (handleConnection e sid)"
    unfolding handleConnection_def by (intro keeps_rules keeps_modify same_db_actions leave; simp)
  have draws: "keeps (blocked_by u i) (draw f)" for f :: "nat \<Rightarrow> string" by (simp add: keeps_def)
  show "keeps (\<lambda>g. blocked_by u i (gw_db g)) (catch e sid p v x)"
    unfolding catch_def filter_correlationId_def
    by (intro keeps_rules keeps_db_on_db same_db_actions draws)
  show "keeps (\<lambda>g. blocked_by u i (gw_db g)) (handler e sid ev)"
  proof (cases ev)
    case (JoinEvent cid)
    then show ?thesis
      by (simp add: joinConversation_def getUser_def Let_def)
        (intro keeps_rules keeps_db_on_db same_db_actions reads_payload [THEN reads_keeps]
          reads_getConversationById [THEN reads_keeps] reads_assert [THEN reads_keeps])
  next
    case (SendEvent cid t)
    then show ?thesis
      by (simp add: ws_sendMessage_def getUser_def Let_def)
        (intro keeps_rules keeps_db_on_db same_db_actions reads_expand [THEN reads_keeps] blocked_stays_services)
  next
    case (ReadEvent m)
    then show ?thesis
      by (simp add: ws_markRead_def getUser_def Let_def)
        (intro keeps_rules keeps_db_on_db same_db_actions reads_expand [THEN reads_keeps] blocked_stays_services)
  qed (simp add: keeps_throw)
qed

text \<open>The same over the network: the clock moves, the other tables of the gateway may change.\<close>

definition net_blocked :: "int \<Rightarrow> int \<Rightarrow> network \<Rightarrow> bool" where
  "net_blocked u i n \<longleftrightarrow> blocked_by u i (gw_db (nw_gateway n))"

lemma net_blocked_frame [simp]:
  "net_blocked u i (pass_time ms n) = net_blocked u i n" "net_blocked u i (next_turn n) = net_blocked u i n"
  "net_blocked u i (n\<lparr>nw_gateway := g\<rparr>) = blocked_by u i (gw_db g)"
  by (simp_all add: net_blocked_def pass_time_def next_turn_def)

lemma keeps_on_gateway: "keeps (\<lambda>g. blocked_by u i (gw_db g)) m \<Longrightarrow> keeps (net_blocked u i) (on_gateway m)"
  by (simp add: keeps_def on_gateway_def net_blocked_def split_beta)

lemma net_blocked_world:
  "keeps (net_blocked u i) (server_connect e t)" "keeps (net_blocked u i) (server_emit e sid ev)"
  "keeps (net_blocked u i) (on_gateway (disconnect sid))"
proof -
  show "keeps (net_blocked u i) (server_connect e t)"
    unfolding server_connect_def verification_ended_def
    by (intro keeps_rules keeps_modify keeps_on_gateway blocked_stays_sockets; simp)
  show "keeps (net_blocked u i) (server_emit e sid ev)"
    unfolding server_emit_def by (intro keeps_rules keeps_on_gateway blocked_stays_sockets)
  show "keeps (net_blocked u i) (on_gateway (disconnect sid))"
    by (intro keeps_on_gateway blocked_stays_sockets)
qed

lemma net_blocked_fetch:
  assumes "spares_blocks (sc_request c)" and "server_fetch e sky c n = (r, n')" and "net_blocked u i n"
  shows "net_blocked u i n'"
proof -
  let ?n1 = "pass_time (we_delay (sky (nw_turn n))) (next_turn n)"
  have 1: "net_blocked u i ?n1" using assms(3) by simp
  show ?thesis
  proof (cases "we_lost (sky (nw_turn n))")
    case (Some err)
    with assms(2) 1 show ?thesis by (simp add: server_fetch_def Let_def)
  next
    case None
    let ?serve = "serve e (http_request_of c) (http_call_of (we_over_limit (sky (nw_turn n))) c) (nw_gateway ?n1)"
    have "blocked_by u i (gw_db (snd ?serve))"
      by (rule blocked_stays_serve [OF _ surjective_pairing])
        (use assms(1) 1 in \<open>simp_all add: http_call_of_def net_blocked_def\<close>)
    moreover from None assms(2) have "nw_gateway n' = snd ?serve"
      by (auto simp: server_fetch_def Let_def split: prod.splits sum.splits option.splits)
    ultimately show ?thesis by (simp add: net_blocked_def)
  qed
qed

section \<open>The contract\<close>

text \<open>What a token says does not depend on when it is read.\<close>

definition tokens_stable :: "env \<Rightarrow> bool" where
  "tokens_stable e \<longleftrightarrow>
     (\<forall>t s n m p q. jwt_verify e t s n = Some p \<longrightarrow> jwt_verify e t s m = Some q \<longrightarrow> p = q)"

text \<open>The holder of the token has blocked the account.\<close>

definition token_blocks :: "env \<Rightarrow> string \<Rightarrow> int \<Rightarrow> network \<Rightarrow> bool" where
  "token_blocks e t i n \<longleftrightarrow>
     (\<exists>p u time. jwt_verify e t (jwtAccessSecret (cfg e)) time = Some p \<and>
        toPositiveInt (obj_get p ''sub'') = Some u \<and> net_blocked u i n)"

lemma token_blocksI:
  "authorize e Jwt (Some t) d = (Inr (Some u), d) \<Longrightarrow> net_blocked (au_sub u) i n \<Longrightarrow> token_blocks e t i n"
  unfolding token_blocks_def
  by (auto simp: authorize_def bearer_def authenticate_def andThen_run split: prod.splits sum.splits option.splits
      elim!: jwt_validate_InrE)

lemma token_blocks_keeps:
  "(\<And>u. net_blocked u i n \<Longrightarrow> net_blocked u i n') \<Longrightarrow> token_blocks e t i n \<Longrightarrow> token_blocks e t i n'"
  unfolding token_blocks_def by blast

text \<open>An answer below 400 of a call that needs a user comes from its controller.\<close>

definition arrived :: "(nat \<Rightarrow> weather) \<Rightarrow> network \<Rightarrow> gateway" where
  "arrived sky n = nw_gateway (pass_time (we_delay (sky (nw_turn n))) (next_turn n))"

lemma net_blocked_arrived: "blocked_by u i (gw_db (arrived sky n)) \<longleftrightarrow> net_blocked u i n"
  by (simp add: arrived_def pass_time_def next_turn_def net_blocked_def)

lemma call_success:
  assumes "serve e rq c g = (Inr (st, body), g')" and "guard_of (hc_request c) = Jwt" and "st < 400"
  obtains t u r where "hc_token c = Some t" and "authorize e Jwt (Some t) (gw_db g) = (Inr (Some u), gw_db g)"
    and "controller e (Some u) (hc_request c) g = (r, g')"
    and "\<And>x. r = Inl x \<Longrightarrow> http_status x = st"
    and "\<And>v. r = Inr v \<Longrightarrow> \<exists>maps. body = envelope (Some (success_status (hc_request c))) (transformNode maps v)"
proof (cases "fst (authorize e Jwt (hc_token c) (gw_db g))")
  case (Inl x)
  with answered_authorize [of e Jwt "hc_token c" "gw_db g"] have "refusal x" by (simp add: answered_def)
  then have "400 \<le> http_status x" by (cases x) (auto simp: http_status_def)
  with assms Inl show thesis
    by (auto simp: serve_def andThen_run handle_call_run http_catch_def Let_def http_status_def split: if_splits)
next
  case (Inr user)
  from readsD [OF reads_authorize] have d: "snd (authorize e Jwt (hc_token c) (gw_db g)) = gw_db g"
    by (metis surjective_pairing)
  from Inr obtain t u where tu: "hc_token c = Some t" "user = Some u"
    by (auto simp: authorize_def bearer_def andThen_run split: option.splits prod.splits sum.splits)
  with Inr d have au: "authorize e Jwt (Some t) (gw_db g) = (Inr (Some u), gw_db g)" by (simp add: prod_eq_iff)
  let ?c = "controller e (Some u) (hc_request c) g"
  from assms Inr tu have "\<not> (\<not> shouldSkip (cfg e) \<and> hc_over_limit c)" "hc_converts c \<and> dto_ok (hc_request c)"
    by (auto simp: serve_def andThen_run handle_call_run http_catch_def Let_def http_status_def split: if_splits)
  with assms(2) Inr tu have hc: "handle_call e c g = ?c" by (auto simp: handle_call_run)
  obtain r g2 where r: "?c = (r, g2)" by fastforce
  show thesis
  proof (cases r)
    case (Inl x)
    with assms(1) hc r have "http_status x = st" "g2 = g'"
      by (simp_all add: serve_def andThen_run http_catch_def Let_def)
    with Inl r show thesis by (intro that [OF tu(1) au, of r]) simp_all
  next
    case (Inr v)
    with assms(1) hc r have "g2 = g'" and "body = envelope (Some (success_status (hc_request c)))
        (transformNode (resolveEntities e (collectIds v) (gw_db g')) v)"
      by (auto simp: serve_def andThen_run on_db_run respond_def expand_def)
    with Inr r show thesis by (intro that [OF tu(1) au, of r]) auto
  qed
qed

lemma fetch_success:
  assumes "server_fetch e sky (call_as tok req) n = (Answered st body, n')" and "guard_of req = Jwt \<and> st < 400"
  obtains u r where "authorize e Jwt (Some tok) (gw_db (arrived sky n)) = (Inr (Some u), gw_db (arrived sky n))"
    and "controller e (Some u) req (arrived sky n) = (r, nw_gateway n')"
    and "\<And>x. r = Inl x \<Longrightarrow> http_status x = st"
    and "\<And>v. r = Inr v \<Longrightarrow> \<exists>maps. body = envelope (Some (success_status req)) (transformNode maps v)"
proof -
  let ?c = "http_call_of (we_over_limit (sky (nw_turn n))) (call_as tok req)"
  have c: "hc_request ?c = req" and t: "hc_token ?c = Some t \<Longrightarrow> t = tok" for t
    by (auto simp: http_call_of_def call_as_def split: if_splits)
  from assms(1) have "serve e (http_request_of (call_as tok req)) ?c (arrived sky n) = (Inr (st, body), nw_gateway n')"
    by (auto simp: server_fetch_def arrived_def Let_def split: option.splits prod.splits sum.splits)
  note success = call_success [OF this, unfolded c]
  show thesis
  proof (rule success)
    show "guard_of req = Jwt" "st < 400" using assms(2) by simp_all
  qed (use t that in blast)
qed

lemma blockUser_refused: "blockUser a b d = (Inl x, d') \<Longrightarrow> 400 \<le> http_status x"
  by (auto simp: blockUser_def insert_block_def andThen_run unless_run http_status_def split: if_splits)

lemma block_call_blocks:
  assumes "server_fetch e sky (call_as tok (BlocksApi (BlockUser i))) n = (Answered 201 body, n')"
  shows "token_blocks e tok i n'"
proof -
  have "guard_of (BlocksApi (BlockUser i)) = Jwt \<and> (201 :: nat) < 400" by simp
  from fetch_success [OF assms this] obtain u r where
    au: "authorize e Jwt (Some tok) (gw_db (arrived sky n)) = (Inr (Some u), gw_db (arrived sky n))"
    and run: "controller e (Some u) (BlocksApi (BlockUser i)) (arrived sky n) = (r, nw_gateway n')"
    and r: "\<And>x. r = Inl x \<Longrightarrow> http_status x = 201" by metis
  obtain q d' where q: "blockUser (au_sub u) i (gw_db (arrived sky n)) = (q, d')" by fastforce
  with run have r_eq: "r = map_sum id JObj q" and "nw_gateway n' = (arrived sky n)\<lparr>gw_db := d'\<rparr>"
    by (auto simp: on_db_run with_user_def object_def andThen_run split: sum.splits)
  then have d': "gw_db (nw_gateway n') = d'" by simp
  obtain v where "q = Inr v" using q r r_eq by (cases q) (auto dest: blockUser_refused)
  with q have "blockUser (au_sub u) i (gw_db (arrived sky n)) = (Inr v, d')" by simp
  then have "net_blocked (au_sub u) i n'"
    by (auto simp: net_blocked_def d' blockUser_def insert_block_def andThen_run unless_run blocks_pair_def list_ex_iff
        split: if_splits)
  with au show ?thesis by (rule token_blocksI)
qed

text \<open>The envelope takes the only key of a list away, so the run reads no row under it.\<close>

lemma list_unread: "rows_of ''users'' (envelope st (transformNode maps (JObj [(''users'', JArr vs)]))) = []"
proof -
  have "active_rule [(''users'', JArr vs)] ''users'' = None" by (simp add: active_rule_def FK_RULES_def)
  then show ?thesis
    by (simp add: envelope_def isAlreadyEnveloped_def normalizeData_def rows_of_def getResponseData_def
        getObject_def is_object_def has_keys_def toArray_def Let_def)
qed

lemma blocked_list_unread:
  assumes "server_fetch e sky (call_as tok (BlocksApi (ListBlocked l off))) n = (Answered 200 body, n')"
  shows "rows_of ''users'' body = []"
proof -
  have "guard_of (BlocksApi (ListBlocked l off)) = Jwt \<and> (200 :: nat) < 400" by simp
  from fetch_success [OF assms this] obtain u r where
    "controller e (Some u) (BlocksApi (ListBlocked l off)) (arrived sky n) = (r, nw_gateway n')"
    and "\<And>v. r = Inr v \<Longrightarrow>
       \<exists>maps. body = envelope (Some (success_status (BlocksApi (ListBlocked l off)))) (transformNode maps v)"
    by metis
  then show ?thesis
    by (auto simp: on_db_run with_user_def object_def andThen_run listBlockedUsers_def list_unread simp del: transformNode.simps)
qed

lemma conversation_refused:
  assumes "tokens_stable e" and "token_blocks e tok i n"
  shows "server_fetch e sky (call_as tok (ChatApi (CreateConversation i p))) n \<noteq> (Answered 201 body, n')"
proof
  assume "server_fetch e sky (call_as tok (ChatApi (CreateConversation i p))) n = (Answered 201 body, n')"
  moreover have "guard_of (ChatApi (CreateConversation i p)) = Jwt \<and> (201 :: nat) < 400" by simp
  ultimately obtain u r where
    au: "authorize e Jwt (Some tok) (gw_db (arrived sky n)) = (Inr (Some u), gw_db (arrived sky n))"
    and run: "controller e (Some u) (ChatApi (CreateConversation i p)) (arrived sky n) = (r, nw_gateway n')"
    and r: "\<And>x. r = Inl x \<Longrightarrow> http_status x = 201" by (metis fetch_success)
  from au obtain q time where "jwt_verify e tok (jwtAccessSecret (cfg e)) time = Some q"
    and "toPositiveInt (obj_get q ''sub'') = Some (au_sub u)"
    by (auto simp: authorize_def bearer_def authenticate_def andThen_run split: prod.splits sum.splits option.splits
        elim!: jwt_validate_InrE)
  with assms have "net_blocked (au_sub u) i n"
    unfolding token_blocks_def tokens_stable_def by (metis option.inject)
  then have "blocked_by (au_sub u) i (gw_db (arrived sky n))" by (simp add: net_blocked_arrived)
  then have "chat_hasBlockBetweenUsers (au_sub u) i (gw_db (arrived sky n))"
    by (auto simp: chat_blocks.has_block_iff)
  then have "\<exists>x. fst (getOrCreateConversation e (au_sub u) i p (gw_db (arrived sky n))) = Inl x \<and> 400 \<le> http_status x"
    by (auto simp: getOrCreateConversation_def andThen_run unless_run assertUserExists_run forbiddenChatException_def
        http_status_def)
  with run have "\<exists>x. r = Inl x \<and> 400 \<le> http_status x"
    by (auto simp: with_user_def andThen_run createConversation_def on_db_run)
  with r show False by auto
qed

lemma server_keeps_blocks:
  assumes "tokens_stable e"
  shows "blocking_server (server_world e sky) (token_blocks e)"
proof
  fix tok i and n n' :: network and body
  show "wd_fetch (server_world e sky) (call_as tok (BlocksApi (BlockUser i))) n = (Answered 201 body, n') \<Longrightarrow>
      token_blocks e tok i n'"
    by (simp add: server_world_def block_call_blocks)
  show "i \<in> set (listed_ids (rows_of ''users'' body)) \<Longrightarrow> token_blocks e tok i n'"
    if "wd_fetch (server_world e sky) (call_as tok (BlocksApi (ListBlocked None None))) n = (Answered 200 body, n')"
    using blocked_list_unread that by (simp add: server_world_def listed_ids_def)
  show "token_blocks e tok i n \<Longrightarrow> spares_blocks (sc_request c) \<Longrightarrow> wd_fetch (server_world e sky) c n = (r, n') \<Longrightarrow>
      token_blocks e tok i n'" for c r
    by (rule token_blocks_keeps) (auto simp: server_world_def intro: net_blocked_fetch)
  show "token_blocks e tok i n \<Longrightarrow> token_blocks e tok i (wd_wait (server_world e sky) ms n)" for ms
    by (rule token_blocks_keeps) (simp_all add: server_world_def)
  have keeps: "keeps (token_blocks e tok i) m" if "\<And>u. keeps (net_blocked u i) m" for m :: "(network, 'a) act"
    by (rule keepsI) (rule token_blocks_keeps, use that in \<open>auto simp: keeps_def\<close>)
  show "keeps (token_blocks e tok i) (wd_connect (server_world e sky) t)" for t
    unfolding server_world_def by (simp add: keeps net_blocked_world)
  show "keeps (token_blocks e tok i) (wd_emit (server_world e sky) sid ev)" for sid ev
    unfolding server_world_def by (simp add: keeps net_blocked_world)
  show "token_blocks e tok i n \<Longrightarrow> token_blocks e tok i (wd_leave (server_world e sky) sid n)" for sid
    by (rule token_blocks_keeps)
      (use net_blocked_world(3) in \<open>auto simp: server_world_def keeps_def\<close>)
  show "token_blocks e tok i n \<Longrightarrow>
      wd_fetch (server_world e sky) (call_as tok (ChatApi (CreateConversation i p))) n \<noteq> (Answered 201 body, n')" for p
    unfolding server_world_def by (simp add: conversation_refused [OF assms])
qed

lemma token_env_stable: "tokens_stable token_env"
  by (simp add: tokens_stable_def token_env_def)

interpretation seeded_server: blocking_server "server_world token_env sky" "token_blocks token_env" for sky
  by (rule server_keeps_blocks [OF token_env_stable])

section \<open>A run that gets that far\<close>

text \<open>\<open>succeeds I m\<close>: from a state with \<open>I\<close>, \<open>m\<close> returns a value and leaves \<open>I\<close>.\<close>

definition succeeds :: "('s \<Rightarrow> bool) \<Rightarrow> ('s, 'a) act \<Rightarrow> bool" where
  "succeeds I m \<longleftrightarrow> (\<forall>s. I s \<longrightarrow> (\<exists>a t. m s = (Inr a, t) \<and> I t))"

lemma succeeds_andThen: "succeeds I m \<Longrightarrow> (\<And>a. succeeds I (k a)) \<Longrightarrow> succeeds I (andThen m k)"
  unfolding succeeds_def by (fastforce simp: andThen_run)

lemma succeeds_simple: "succeeds I (ret a)" "(\<And>s. I s \<Longrightarrow> I (f s)) \<Longrightarrow> succeeds I (modify f)"
  by (simp_all add: succeeds_def)

lemma succeeds_request:
  assumes "\<And>n. J n \<Longrightarrow> \<exists>st body n'. wd_fetch w c n = (Answered st body, n') \<and> st \<in> set expected \<and> J n'"
  shows "succeeds (\<lambda>cl. J (cl_net cl)) (request w c expected re)"
  unfolding succeeds_def
proof (intro allI impI)
  fix cl :: "'a client" assume "J (cl_net cl)"
  from assms [OF this] obtain st body n' where
    f: "wd_fetch w c (cl_net cl) = (Answered st body, n')" and "st \<in> set expected" "J n'" by blast
  then show "\<exists>a t. request w c expected re cl = (Inr a, t) \<and> J (cl_net t)"
    unfolding request_def
    by (subst request_loop.simps) (simp add: andThen_run exchange_def RETRY_ATTEMPTS_def Let_def)
qed

definition still_sky :: "nat \<Rightarrow> weather" where
  "still_sky k = \<lparr>we_lost = None, we_cut = None, we_over_limit = False, we_delay = 0\<rparr>"

abbreviation sampled :: "network \<Rightarrow> bool" where
  "sampled n \<equiv> users (gw_db (nw_gateway n)) = users sample_db"

lemma sample_call:
  assumes "sampled n" and "c = BlockUser 2 \<or> c = ListBlocked None None"
  shows "\<exists>st body n'. server_fetch token_env still_sky (call_as ''t'' (BlocksApi c)) n = (Answered st body, n') \<and>
    st = success_status (BlocksApi c) \<and> sampled n'"
proof -
  let ?g = "nw_gateway (pass_time 0 (next_turn n))"
  let ?c = "http_call_of False (call_as ''t'' (BlocksApi c))"
  have g: "users (gw_db ?g) = users sample_db" using assms(1) by (simp add: pass_time_def next_turn_def)
  then have "account_by_id 1 (gw_db ?g) = Some sample_user" using sample_accounts(1) by (simp add: account_by_id_def)
  then have "authorize token_env Jwt (Some ''t'') (gw_db ?g) = (Inr (Some token_user), gw_db ?g)"
    by (simp add: authorize_def andThen_run token_bearer sample_user_def)
  then have "handle_call token_env ?c ?g = controller token_env (Some token_user) (BlocksApi c) ?g"
    using assms(2) by (auto simp: handle_call_run http_call_of_def call_as_def ListBlockedUsersDto_ok_def optional_def)
  moreover have "\<exists>v g'. controller token_env (Some token_user) (BlocksApi c) ?g = (Inr v, g') \<and>
      users (gw_db g') = users sample_db"
    using assms(2) g
    by (auto simp: on_db_run with_user_def object_def andThen_run unless_run blockUser_def insert_block_def
        listBlockedUsers_def token_user_def live_user_def user_exists_def samples)
  ultimately obtain v g' where "handle_call token_env ?c ?g = (Inr v, g')" and g': "users (gw_db g') = users sample_db"
    by auto
  then have "serve token_env (http_request_of (call_as ''t'' (BlocksApi c))) ?c ?g =
      (Inr (success_status (BlocksApi c), envelope (Some (success_status (BlocksApi c)))
         (transformNode (resolveEntities token_env (collectIds v) (gw_db g')) v)), g')"
    by (simp add: serve_def andThen_run on_db_run respond_def expand_def http_call_of_def call_as_def)
  with g' show ?thesis by (simp add: server_fetch_def still_sky_def Let_def)
qed

definition sample_sessions :: sessions where
  "sample_sessions = map (\<lambda>key. (key, \<lparr>ss_def = seed_user key [] [] [] [] [], ss_id = 2, ss_accessToken = ''t'',
     ss_refreshToken = ''r'', ss_created = False\<rparr>)) [''user07'', ''user08'']"

lemma sample_blocks: "succeeds (\<lambda>cl. sampled (cl_net cl))
    (upsertBlocks (server_world token_env still_sky) sample_sessions BLOCK_DEFS (\<lambda>_. None))"
proof -
  let ?w = "server_world token_env still_sky"
  let ?I = "\<lambda>cl. sampled (cl_net cl)"
  have calls: "succeeds ?I (request ?w (call_as ''t'' (BlocksApi (BlockUser 2))) [201] re)"
    "succeeds ?I (request ?w (call_as ''t'' (BlocksApi (ListBlocked None None))) [200] re)" for re
    by (rule succeeds_request, use sample_call in \<open>fastforce simp: server_world_def success_status_def\<close>)+
  let ?s = "\<lambda>key. \<lparr>ss_def = seed_user key [] [] [] [] [], ss_id = 2, ss_accessToken = ''t'', ss_refreshToken = ''r'', ss_created = False\<rparr>"
  have known: "(session_of sample_sessions ''user07'' :: (network, _) seeding) = ret (?s ''user07'')"
    "(session_of sample_sessions ''user08'' :: (network, _) seeding) = ret (?s ''user08'')"
    by (simp_all add: session_of_def sample_sessions_def)
  have step: "succeeds ?I (upsertBlocks ?w sample_sessions (def # defs) sets)"
    if def: "def \<in> set BLOCK_DEFS" and rest: "\<And>sets. succeeds ?I (upsertBlocks ?w sample_sessions defs sets)" for def defs sets
  proof -
    have ids: "succeeds ?I (known_ids ?w (call_as ''t'' (BlocksApi (ListBlocked None None))) k key sets)" for k key
      unfolding known_ids_def by (cases "sets key") (simp_all add: succeeds_simple succeeds_andThen calls)
    have noted: "succeeds ?I (note_entity part key i st)" for part key i st
      unfolding note_entity_def by (rule succeeds_simple) simp
    from def have "(session_of sample_sessions (bf_blockerKey def) :: (network, _) seeding) = ret (?s (bf_blockerKey def))"
      "(session_of sample_sessions (bf_blockedKey def) :: (network, _) seeding) = ret (?s (bf_blockedKey def))"
      by (auto simp: BLOCK_DEFS_def known)
    then show ?thesis by (simp add: succeeds_andThen ids noted calls rest)
  qed
  have none: "succeeds ?I (upsertBlocks ?w sample_sessions [] sets)" for sets by (simp add: succeeds_simple)
  show ?thesis
    unfolding BLOCK_DEFS_def by (rule step, simp add: BLOCK_DEFS_def, rule step, simp add: BLOCK_DEFS_def, rule none)
qed

text \<open>
  C10. The development seeder never completes against the server. Its step \<open>upsertBlocks\<close> blocks user07 and user08 in
  both directions, and its step \<open>upsertConversations\<close> opens the conversation chat-04 between the two, which the
  server refuses from then on: whenever the first step ended, in whatever state of the server and over whatever
  network, the second throws, and so a run ends with an exception, never with its summary, and the script
  with exit code 1.
\<close>

theorem seeding_blocks_its_own_chat:
  assumes "tokens_stable e"
  shows "(\<forall>sessions c1 c2 n. upsertBlocks (server_world e sky) sessions BLOCK_DEFS (\<lambda>_. None) c1 = (Inr (), c2) \<longrightarrow>
        isl (fst (upsertConversations (server_world e sky) sessions CONVERSATION_DEFS n c2))) \<and>
    isl (fst (runDevSeed (server_world e sky) cwd input cl)) \<and> fst (seed_dev (server_world e sky) cwd penv cl) = 1"
proof (intro conjI)
  note server = server_keeps_blocks [OF assms, of sky]
  show run: "isl (fst (runDevSeed (server_world e sky) cwd input cl))" for input
    by (rule blocking_server.run_fails [OF server])
  have "\<exists>err. fst (runDevSeed (server_world e sky) cwd input cl) = Inl err" for input
    using run [of input] by (auto simp: isl_def)
  then show "fst (seed_dev (server_world e sky) cwd penv cl) = 1"
    by (auto simp: seed_dev_def split: sum.split) (metis Inl_Inr_False)
  show "\<forall>sessions c1 c2 n. upsertBlocks (server_world e sky) sessions BLOCK_DEFS (\<lambda>_. None) c1 = (Inr (), c2) \<longrightarrow>
      isl (fst (upsertConversations (server_world e sky) sessions CONVERSATION_DEFS n c2))"
    using blocking_server.conversations_after_blocks [OF server] by blast
qed

theorem seeding_blocks_its_own_chat_witness:
  "\<exists>c1 c2. upsertBlocks (server_world token_env still_sky) sample_sessions BLOCK_DEFS (\<lambda>_. None) c1 = (Inr (), c2) \<and>
     isl (fst (upsertConversations (server_world token_env still_sky) sample_sessions CONVERSATION_DEFS 0 c2)) \<and>
     fst (seed_dev (server_world token_env still_sky) ''/app'' [''ADMIN_PHONE'' \<mapsto> ''+201000000000''] c1) = 1"
proof -
  let ?c1 = "\<lparr>cl_net = \<lparr>nw_gateway = empty_gateway sample_db, nw_turn = 0\<rparr>, cl_logs = [], cl_sleeps = [],
    cl_entities = createEmptyEntityMap\<rparr>"
  obtain c2 where "upsertBlocks (server_world token_env still_sky) sample_sessions BLOCK_DEFS (\<lambda>_. None) ?c1 = (Inr (), c2)"
    using sample_blocks unfolding succeeds_def by (elim allE [where x = ?c1]) (auto simp: empty_gateway_def)
  then show ?thesis using seeding_blocks_its_own_chat [OF token_env_stable] by blast
qed

end
