(* ===== verification/ResponseDtos.thy ===== *)
theory ResponseDtos
  imports Api
begin

text \<open>
  What the documentation of the API promises of the answers: the response classes of the \<open>*.dto.ts\<close> files,
  as \<open>@nestjs/swagger\<close> reads them, and the class each route of the controllers names in its
  \<open>@ApiResponse\<close>. A class is the list of its properties; \<open>needs\<close> is \<open>@ApiProperty\<close>, \<open>may\<close> is
  \<open>@ApiPropertyOptional\<close>, and a class that \<open>extends\<close> another begins with the other's properties.
\<close>

section \<open>Schemas\<close>

datatype schema =
    Number
  | NumberIn int int
  | Text
  | OneOf "string list"
  | Boolean
  | AnyObject
  | EmptyObject
  | Nullable schema
  | ListOf schema
  | Object "(string \<times> bool \<times> schema) list"

definition needs :: "string \<Rightarrow> schema \<Rightarrow> string \<times> bool \<times> schema" where
  "needs k s = (k, True, s)"

definition may :: "string \<Rightarrow> schema \<Rightarrow> string \<times> bool \<times> schema" where
  "may k s = (k, False, s)"

text \<open>
  Whether a value that is sent is one of a schema. A property whose value is \<open>undefined\<close> is not sent;
  properties the schema does not name are allowed.
\<close>

fun conforms :: "schema \<Rightarrow> json \<Rightarrow> bool" where
  "conforms Number v = (case v of JNum _ \<Rightarrow> True | _ \<Rightarrow> False)"
| "conforms (NumberIn a b) v = (case v of JNum r \<Rightarrow> of_int a \<le> r \<and> r \<le> of_int b | _ \<Rightarrow> False)"
| "conforms Text v = (case v of JStr _ \<Rightarrow> True | _ \<Rightarrow> False)"
| "conforms (OneOf ts) v = (case v of JStr s \<Rightarrow> s \<in> set ts | _ \<Rightarrow> False)"
| "conforms Boolean v = (case v of JBool _ \<Rightarrow> True | _ \<Rightarrow> False)"
| "conforms AnyObject v = (case v of JObj _ \<Rightarrow> True | _ \<Rightarrow> False)"
| "conforms EmptyObject v = (v = JObj [])"
| "conforms (Nullable s) v = (v = JNull \<or> conforms s v)"
| "conforms (ListOf s) v = (case v of JArr vs \<Rightarrow> list_all (conforms s) vs | _ \<Rightarrow> False)"
| "conforms (Object ps) v =
     (case v of
        JObj kvs \<Rightarrow> list_all (\<lambda>(k, required, s).
          if obj_get kvs k = JUndef then \<not> required else conforms s (obj_get kvs k)) ps
      | _ \<Rightarrow> False)"

section \<open>common/dto\<close>

definition SuccessEnvelopeDto :: "(string \<times> bool \<times> schema) list" where
  "SuccessEnvelopeDto = [needs ''success'' Boolean, needs ''statusCode'' Number]"

text \<open>A class that extends the envelope by its \<open>data\<close>.\<close>

definition enveloped :: "schema \<Rightarrow> schema" where
  "enveloped dataDto = Object (SuccessEnvelopeDto @ [needs ''data'' dataDto])"

definition ErrorDetailDto :: schema where
  "ErrorDetailDto =
     Object [needs ''code'' Number, needs ''message'' Text, needs ''timestamp'' Text, needs ''path'' Text]"

text \<open>\<open>additionalProperties: false\<close> with no properties is the empty object.\<close>

definition ErrorResponseDto :: schema where
  "ErrorResponseDto =
     Object [needs ''success'' Boolean, needs ''statusCode'' Number, needs ''data'' (Nullable EmptyObject),
             needs ''error'' ErrorDetailDto]"

definition FILE_PURPOSES :: "string list" where
  "FILE_PURPOSES = [''avatar'', ''product_image'', ''chat_attachment'', ''document'']"

definition FILE_STATUSES :: "string list" where
  "FILE_STATUSES = [''pending'', ''uploaded'', ''failed'', ''deleted'']"

definition USER_STATUSES :: "string list" where
  "USER_STATUSES = [''active'', ''paused'', ''banned'']"

definition PRODUCT_STATUSES :: "string list" where
  "PRODUCT_STATUSES = [''available'', ''sold'', ''archived'']"

definition REPORT_STATUSES :: "string list" where
  "REPORT_STATUSES = [''open'', ''reviewing'', ''resolved'', ''rejected'']"

definition RelatedFileDto :: schema where
  "RelatedFileDto =
     Object [needs ''id'' Number, needs ''purpose'' (OneOf FILE_PURPOSES), needs ''object_key'' Text,
             may ''mime_type'' (Nullable Text), needs ''status'' (OneOf FILE_STATUSES), needs ''created_at'' Text,
             may ''uploaded_at'' (Nullable Text), needs ''url'' Text]"

definition RelatedUserDto :: schema where
  "RelatedUserDto =
     Object [needs ''id'' Number, needs ''name'' Text, needs ''phone'' Text,
             may ''profileState'' (Nullable (OneOf USER_STATUSES)), may ''rate'' (Nullable Text),
             may ''avatar'' (Nullable RelatedFileDto), may ''contactInfo'' (Nullable Text)]"

definition RelatedCategoryDto :: schema where
  "RelatedCategoryDto =
     Object [needs ''id'' Number, may ''parent_id'' (Nullable Number), needs ''name'' Text, needs ''created_at'' Text]"

definition RelatedProductDto :: schema where
  "RelatedProductDto =
     Object [needs ''id'' Number, may ''owner'' (Nullable RelatedUserDto), needs ''name'' Text, needs ''price'' Text,
             needs ''status'' (OneOf PRODUCT_STATUSES), needs ''city'' Text, needs ''created_at'' Text]"

definition RelatedMessageDto :: schema where
  "RelatedMessageDto =
     Object [needs ''id'' Number, needs ''message_text'' Text, needs ''sent_at'' Text, may ''read_at'' (Nullable Text)]"

definition RelatedConversationDto :: schema where
  "RelatedConversationDto = Object [needs ''id'' Number, needs ''created_at'' Text]"

section \<open>auth/dto/auth-response.dto.ts\<close>

definition AuthUserDto :: schema where
  "AuthUserDto = Object [needs ''id'' Number, needs ''phone'' Text]"

definition TokenDataDto :: schema where
  "TokenDataDto = Object [may ''user'' AuthUserDto, needs ''accessToken'' Text, needs ''refreshToken'' Text]"

definition TokenResponseDto :: schema where
  "TokenResponseDto = enveloped TokenDataDto"

definition OtpSentDataDto :: schema where
  "OtpSentDataDto = Object [needs ''message'' Text, may ''otp'' Text]"

definition OtpSentResponseDto :: schema where
  "OtpSentResponseDto = enveloped OtpSentDataDto"

definition LogoutDataDto :: schema where
  "LogoutDataDto = Object []"

definition LogoutResponseDto :: schema where
  "LogoutResponseDto = enveloped LogoutDataDto"

section \<open>products/dto/product-response.dto.ts\<close>

definition ProductImageDto :: schema where
  "ProductImageDto =
     Object [needs ''id'' Number, needs ''file'' (Nullable RelatedFileDto), needs ''sort_order'' Number,
             needs ''object_key'' Text, needs ''status'' (OneOf FILE_STATUSES)]"

definition ProductDto :: schema where
  "ProductDto =
     Object [needs ''id'' Number, needs ''owner'' (Nullable RelatedUserDto), needs ''category'' Text,
             may ''subcategory'' (Nullable Text), needs ''name'' Text, may ''description'' (Nullable Text),
             needs ''price'' Number, needs ''city'' Text, may ''address_text'' (Nullable Text),
             may ''details'' (Nullable AnyObject), needs ''status'' (OneOf PRODUCT_STATUSES),
             needs ''is_negotiable'' Boolean, needs ''preferred_contact_method'' (OneOf [''phone'', ''chat'', ''both'']),
             needs ''created_at'' Text, needs ''updated_at'' Text, may ''seller_rate'' (Nullable Text),
             may ''is_favorite'' (Nullable Boolean), needs ''images'' (ListOf ProductImageDto)]"

definition ProductDataDto :: schema where
  "ProductDataDto = Object [needs ''product'' ProductDto]"

definition ProductResponseDto :: schema where
  "ProductResponseDto = enveloped ProductDataDto"

definition ProductListDataDto :: schema where
  "ProductListDataDto = Object [needs ''items'' (ListOf ProductDto)]"

definition ProductListResponseDto :: schema where
  "ProductListResponseDto = enveloped ProductListDataDto"

definition ProductStatusDto :: schema where
  "ProductStatusDto =
     Object [needs ''id'' Number, needs ''status'' (OneOf PRODUCT_STATUSES), needs ''updated_at'' Text]"

definition ProductStatusDataDto :: schema where
  "ProductStatusDataDto = Object [needs ''product'' ProductStatusDto]"

definition ProductStatusResponseDto :: schema where
  "ProductStatusResponseDto = enveloped ProductStatusDataDto"

definition ProductDeleteDataDto :: schema where
  "ProductDeleteDataDto = Object [needs ''message'' Text]"

definition ProductDeleteResponseDto :: schema where
  "ProductDeleteResponseDto = enveloped ProductDeleteDataDto"

section \<open>users/dto/user-response.dto.ts\<close>

definition UserDto :: schema where
  "UserDto =
     Object [needs ''id'' Number, needs ''name'' Text, needs ''phone'' Text, needs ''status'' (OneOf USER_STATUSES),
             needs ''rate'' Text, may ''avatar'' (Nullable RelatedFileDto), may ''contactInfo'' (Nullable Text)]"

definition UserProfileDataDto :: schema where
  "UserProfileDataDto = Object [needs ''user'' UserDto]"

definition UserProfileResponseDto :: schema where
  "UserProfileResponseDto = enveloped UserProfileDataDto"

definition SuccessDataDto :: schema where
  "SuccessDataDto = Object [needs ''message'' Text]"

definition SuccessResponseDto :: schema where
  "SuccessResponseDto = enveloped SuccessDataDto"

definition PublicUserDto :: schema where
  "PublicUserDto =
     Object [needs ''id'' Number, needs ''name'' Text, needs ''member_since'' Text, needs ''ads_count'' Number,
             needs ''rate'' Text, may ''avatar'' (Nullable RelatedFileDto), may ''contactInfo'' (Nullable Text),
             may ''blocked_by_me'' (Nullable Boolean), may ''blocked_me'' (Nullable Boolean)]"

definition PublicUserProfileDataDto :: schema where
  "PublicUserProfileDataDto = Object [needs ''user'' PublicUserDto, needs ''products'' (ListOf ProductDto)]"

definition PublicUserProfileResponseDto :: schema where
  "PublicUserProfileResponseDto = enveloped PublicUserProfileDataDto"

section \<open>Blocks, categories, ratings, reports, health\<close>

definition BlockedUserDto :: schema where
  "BlockedUserDto = Object [needs ''id'' Number, needs ''name'' Text, needs ''phone'' Text, needs ''blocked_at'' Text]"

definition BlockedUsersListDataDto :: schema where
  "BlockedUsersListDataDto = Object [needs ''users'' (ListOf BlockedUserDto)]"

definition BlockedUsersListResponseDto :: schema where
  "BlockedUsersListResponseDto = enveloped BlockedUsersListDataDto"

definition CategoryDto :: schema where
  "CategoryDto =
     Object [needs ''id'' Number, may ''parent'' (Nullable RelatedCategoryDto), needs ''name'' Text, needs ''created_at'' Text]"

definition CategoriesListDataDto :: schema where
  "CategoriesListDataDto = Object [needs ''categories'' (ListOf CategoryDto)]"

definition CategoryDataDto :: schema where
  "CategoryDataDto = Object [needs ''category'' CategoryDto]"

definition CategoryResponseDto :: schema where
  "CategoryResponseDto = enveloped CategoryDataDto"

definition CategoriesListResponseDto :: schema where
  "CategoriesListResponseDto = enveloped CategoriesListDataDto"

definition RatingDto :: schema where
  "RatingDto =
     Object [needs ''id'' Number, needs ''rater'' (Nullable RelatedUserDto), needs ''rated_user'' (Nullable RelatedUserDto),
             needs ''rating_value'' (NumberIn 1 5), may ''comment'' (Nullable Text), needs ''created_at'' Text,
             needs ''updated_at'' Text]"

definition RatingDataDto :: schema where
  "RatingDataDto = Object [needs ''rating'' RatingDto]"

definition RatingResponseDto :: schema where
  "RatingResponseDto = enveloped RatingDataDto"

definition RatingSummaryDto :: schema where
  "RatingSummaryDto = Object [needs ''avg_rating'' Text, needs ''ratings_count'' Number]"

definition RatingSummaryDataDto :: schema where
  "RatingSummaryDataDto = Object [needs ''summary'' RatingSummaryDto, needs ''ratings'' (ListOf RatingDto)]"

definition RatingSummaryResponseDto :: schema where
  "RatingSummaryResponseDto = enveloped RatingSummaryDataDto"

definition ReportDto :: schema where
  "ReportDto =
     Object [needs ''id'' Number, needs ''reporter'' (Nullable RelatedUserDto),
             needs ''reported_user'' (Nullable RelatedUserDto), needs ''reason'' Text,
             needs ''status'' (OneOf REPORT_STATUSES), may ''reviewed_by'' (Nullable RelatedUserDto),
             may ''reviewed_at'' (Nullable Text), needs ''created_at'' Text, needs ''updated_at'' Text]"

definition ReportDataDto :: schema where
  "ReportDataDto = Object [needs ''report'' ReportDto]"

definition ReportResponseDto :: schema where
  "ReportResponseDto = enveloped ReportDataDto"

definition ReportsListDataDto :: schema where
  "ReportsListDataDto = Object [needs ''reports'' (ListOf ReportDto)]"

definition ReportsListResponseDto :: schema where
  "ReportsListResponseDto = enveloped ReportsListDataDto"

definition HealthDataDto :: schema where
  "HealthDataDto = Object [needs ''status'' Text]"

definition HealthResponseDto :: schema where
  "HealthResponseDto = enveloped HealthDataDto"

section \<open>chat/dto/chat-response.dto.ts\<close>

definition ConversationDto :: "(string \<times> bool \<times> schema) list" where
  "ConversationDto =
     [needs ''id'' Number, needs ''user_a'' (Nullable RelatedUserDto), needs ''user_b'' (Nullable RelatedUserDto),
      needs ''created_at'' Text, may ''product'' (Nullable RelatedProductDto)]"

definition ConversationDataDto :: schema where
  "ConversationDataDto = Object [needs ''conversation'' (Object ConversationDto)]"

definition ConversationResponseDto :: schema where
  "ConversationResponseDto = enveloped ConversationDataDto"

definition ConversationWithLastMessageDto :: schema where
  "ConversationWithLastMessageDto =
     Object (ConversationDto @
       [may ''last_message'' (Nullable RelatedMessageDto), may ''last_message_text'' (Nullable Text),
        may ''last_message_sent_at'' (Nullable Text), needs ''peer_user'' (Nullable RelatedUserDto),
        needs ''unread_count'' Number, may ''product_name'' (Nullable Text), may ''product_price'' (Nullable Number),
        may ''product_image'' (Nullable RelatedFileDto), may ''product_image_object_key'' (Nullable Text)])"

definition ConversationsListDataDto :: schema where
  "ConversationsListDataDto = Object [needs ''conversations'' (ListOf ConversationWithLastMessageDto)]"

definition ConversationsListResponseDto :: schema where
  "ConversationsListResponseDto = enveloped ConversationsListDataDto"

definition MessageDto :: schema where
  "MessageDto =
     Object [needs ''id'' Number, needs ''conversation'' (Nullable RelatedConversationDto),
             needs ''sender'' (Nullable RelatedUserDto), needs ''message_text'' Text, needs ''sent_at'' Text,
             may ''read_at'' (Nullable Text)]"

definition MessagesListDataDto :: schema where
  "MessagesListDataDto = Object [needs ''messages'' (ListOf MessageDto)]"

definition MessagesListResponseDto :: schema where
  "MessagesListResponseDto = enveloped MessagesListDataDto"

section \<open>files/dto/file-response.dto.ts\<close>

definition UploadIntentDto :: schema where
  "UploadIntentDto =
     Object [needs ''method'' Text, needs ''url'' Text, needs ''expiresAt'' Text, may ''headers'' AnyObject,
             may ''fields'' AnyObject]"

definition UploadIntentFileDto :: schema where
  "UploadIntentFileDto = Object [needs ''id'' Number, needs ''objectKey'' Text, needs ''status'' (OneOf FILE_STATUSES)]"

definition UploadIntentDataDto :: schema where
  "UploadIntentDataDto = Object [needs ''file'' UploadIntentFileDto, needs ''upload'' UploadIntentDto]"

definition UploadIntentResponseDto :: schema where
  "UploadIntentResponseDto = enveloped UploadIntentDataDto"

definition FileMarkUploadedDataDto :: schema where
  "FileMarkUploadedDataDto = Object [needs ''file'' UploadIntentFileDto]"

definition FileMarkUploadedResponseDto :: schema where
  "FileMarkUploadedResponseDto = enveloped FileMarkUploadedDataDto"

definition FileMetadataDto :: schema where
  "FileMetadataDto =
     Object [needs ''id'' Number, may ''uploader_user'' (Nullable RelatedUserDto),
             needs ''owner_type'' (OneOf [''user'', ''product'', ''message'']), may ''owner_id'' (Nullable Number),
             needs ''purpose'' (OneOf FILE_PURPOSES), needs ''object_key'' Text, may ''mime_type'' (Nullable Text),
             may ''file_size_bytes'' (Nullable Number), needs ''status'' (OneOf FILE_STATUSES),
             needs ''created_at'' Text, may ''uploaded_at'' (Nullable Text), needs ''readUrl'' Text]"

definition FileDataDto :: schema where
  "FileDataDto = Object [needs ''file'' FileMetadataDto]"

definition FileResponseDto :: schema where
  "FileResponseDto = enveloped FileDataDto"

section \<open>admin/dto/admin-response.dto.ts\<close>

definition AdminUserDto :: schema where
  "AdminUserDto =
     Object [needs ''id'' Number, needs ''name'' Text, needs ''phone'' Text, needs ''status'' (OneOf USER_STATUSES),
             needs ''is_admin'' Boolean, needs ''published_products_count'' Number, needs ''reports_count'' Number,
             needs ''created_at'' Text, needs ''updated_at'' Text]"

definition AdminUserDataDto :: schema where
  "AdminUserDataDto = Object [needs ''user'' AdminUserDto]"

definition AdminUserResponseDto :: schema where
  "AdminUserResponseDto = enveloped AdminUserDataDto"

definition AdminUsersListDataDto :: schema where
  "AdminUsersListDataDto = Object [needs ''users'' (ListOf AdminUserDto)]"

definition AdminUsersListResponseDto :: schema where
  "AdminUsersListResponseDto = enveloped AdminUsersListDataDto"

definition AdminAdminsListDataDto :: schema where
  "AdminAdminsListDataDto = Object [needs ''admins'' (ListOf AdminUserDto)]"

definition AdminAdminsListResponseDto :: schema where
  "AdminAdminsListResponseDto = enveloped AdminAdminsListDataDto"

definition WarningDto :: schema where
  "WarningDto =
     Object [needs ''id'' Number, needs ''admin'' (Nullable RelatedUserDto), needs ''target_user'' (Nullable RelatedUserDto),
             needs ''message'' Text, needs ''created_at'' Text]"

definition WarningDataDto :: schema where
  "WarningDataDto = Object [needs ''warning'' WarningDto]"

definition WarningResponseDto :: schema where
  "WarningResponseDto = enveloped WarningDataDto"

definition AdminReportDto :: schema where
  "AdminReportDto =
     Object [needs ''id'' Number, needs ''reporter'' (Nullable RelatedUserDto),
             needs ''reported_user'' (Nullable RelatedUserDto), needs ''reason'' Text,
             needs ''status'' (OneOf REPORT_STATUSES), may ''reviewed_by'' (Nullable RelatedUserDto),
             may ''reviewed_at'' (Nullable Text), needs ''created_at'' Text, needs ''updated_at'' Text]"

definition AdminReportDataDto :: schema where
  "AdminReportDataDto = Object [needs ''report'' AdminReportDto]"

definition AdminReportResponseDto :: schema where
  "AdminReportResponseDto = enveloped AdminReportDataDto"

definition AdminV1ReportDto :: schema where
  "AdminV1ReportDto =
     Object [needs ''id'' Number, needs ''description'' Text, needs ''reporter'' (Nullable RelatedUserDto),
             needs ''reported_user'' (Nullable RelatedUserDto), needs ''created_at'' Text]"

definition AdminReportsListDataDto :: schema where
  "AdminReportsListDataDto = Object [needs ''reports'' (ListOf AdminV1ReportDto)]"

definition AdminReportsListResponseDto :: schema where
  "AdminReportsListResponseDto = enveloped AdminReportsListDataDto"

definition AdminUserDetailsDto :: schema where
  "AdminUserDetailsDto =
     Object [needs ''id'' Number, needs ''name'' Text, needs ''phone'' Text, needs ''status'' (OneOf USER_STATUSES),
             needs ''profileState'' (OneOf USER_STATUSES), may ''avatar'' (Nullable RelatedFileDto),
             may ''contactInfo'' (Nullable Text), needs ''is_admin'' Boolean, needs ''created_at'' Text,
             needs ''updated_at'' Text]"

definition AdminUserDetailsDataDto :: schema where
  "AdminUserDetailsDataDto = Object [needs ''user'' AdminUserDetailsDto]"

definition AdminUserDetailsResponseDto :: schema where
  "AdminUserDetailsResponseDto = enveloped AdminUserDetailsDataDto"

definition AdminUserListingDto :: schema where
  "AdminUserListingDto =
     Object [needs ''id'' Number, needs ''name'' Text, needs ''price'' Text, needs ''status'' (OneOf [''available'', ''sold'']),
             needs ''city'' Text, needs ''created_at'' Text, may ''product_image'' (Nullable RelatedFileDto)]"

definition AdminUserListingsDataDto :: schema where
  "AdminUserListingsDataDto = Object [needs ''items'' (ListOf AdminUserListingDto)]"

definition AdminUserListingsResponseDto :: schema where
  "AdminUserListingsResponseDto = enveloped AdminUserListingsDataDto"

definition AdminUserReportsDataDto :: schema where
  "AdminUserReportsDataDto = Object [needs ''reports'' (ListOf AdminV1ReportDto)]"

definition AdminUserReportsResponseDto :: schema where
  "AdminUserReportsResponseDto = enveloped AdminUserReportsDataDto"

section \<open>The class of each route\<close>

text \<open>
  The \<open>type\<close> of the \<open>@ApiResponse\<close> of the success status; the routes of Akedly name none.
\<close>

fun auth_documented :: "auth_request \<Rightarrow> schema" where
  "auth_documented (RequestRegistration name phone password) = OtpSentResponseDto"
| "auth_documented (ResendRegistration phone) = OtpSentResponseDto"
| "auth_documented (RequestReset phone) = OtpSentResponseDto"
| "auth_documented (Logout t) = LogoutResponseDto"
| "auth_documented _ = TokenResponseDto"

fun users_documented :: "users_request \<Rightarrow> schema" where
  "users_documented GetMe = UserProfileResponseDto"
| "users_documented (UpdateMe body) = UserProfileResponseDto"
| "users_documented _ = SuccessResponseDto"

fun products_documented :: "products_request \<Rightarrow> schema" where
  "products_documented (DeleteProduct i) = ProductDeleteResponseDto"
| "products_documented (UpdateProductStatus i status) = ProductStatusResponseDto"
| "products_documented (ListMyProducts dto) = ProductListResponseDto"
| "products_documented (SearchProducts dto) = ProductListResponseDto"
| "products_documented _ = ProductResponseDto"

fun blocks_documented :: "blocks_request \<Rightarrow> schema" where
  "blocks_documented (ListBlocked limit offset) = BlockedUsersListResponseDto"
| "blocks_documented _ = SuccessResponseDto"

fun favorites_documented :: "favorites_request \<Rightarrow> schema" where
  "favorites_documented (ListFavorites sortBy sortDir limit offset) = ProductListResponseDto"
| "favorites_documented _ = SuccessResponseDto"

fun ratings_documented :: "ratings_request \<Rightarrow> schema" where
  "ratings_documented (RateUser i v comment) = RatingResponseDto"
| "ratings_documented (RatingSummary i) = RatingSummaryResponseDto"

fun reports_documented :: "reports_request \<Rightarrow> schema" where
  "reports_documented (CreateReport i reason) = ReportResponseDto"
| "reports_documented (MyReports limit offset) = ReportsListResponseDto"

fun files_documented :: "files_request \<Rightarrow> schema" where
  "files_documented (UploadIntent dto) = UploadIntentResponseDto"
| "files_documented (MarkUploaded i checksum) = FileMarkUploadedResponseDto"
| "files_documented (GetFile i) = FileResponseDto"

fun chat_documented :: "chat_request \<Rightarrow> schema" where
  "chat_documented (ListConversations scope limit offset) = ConversationsListResponseDto"
| "chat_documented (ListMessages i limit before) = MessagesListResponseDto"
| "chat_documented _ = ConversationResponseDto"

fun admin_documented :: "admin_request \<Rightarrow> schema" where
  "admin_documented (ListUsers status q limit offset) = AdminUsersListResponseDto"
| "admin_documented (UserDetails i) = AdminUserDetailsResponseDto"
| "admin_documented (UserListings i status limit offset) = AdminUserListingsResponseDto"
| "admin_documented (UserReports i limit offset) = AdminUserReportsResponseDto"
| "admin_documented (ListAdmins limit offset) = AdminAdminsListResponseDto"
| "admin_documented (DeleteUser i) = SuccessResponseDto"
| "admin_documented (CreateWarning target message) = WarningResponseDto"
| "admin_documented (ListReports limit offset) = AdminReportsListResponseDto"
| "admin_documented (UpdateReportStatus i status) = AdminReportResponseDto"
| "admin_documented (CreateCategory name parent) = CategoryResponseDto"
| "admin_documented (DeleteCategory i) = CategoryResponseDto"
| "admin_documented _ = AdminUserResponseDto"

fun documented :: "api_request \<Rightarrow> schema option" where
  "documented (AuthApi r) = Some (auth_documented r)"
| "documented (AkedlyApi r) = None"
| "documented (UsersApi r) = Some (users_documented r)"
| "documented (PublicUsersApi r) = Some PublicUserProfileResponseDto"
| "documented (ProductsApi r) = Some (products_documented r)"
| "documented (BlocksApi r) = Some (blocks_documented r)"
| "documented (FavoritesApi r) = Some (favorites_documented r)"
| "documented (RatingsApi r) = Some (ratings_documented r)"
| "documented (ReportsApi r) = Some (reports_documented r)"
| "documented (CategoriesApi r) = Some CategoriesListResponseDto"
| "documented (FilesApi r) = Some (files_documented r)"
| "documented (ChatApi r) = Some (chat_documented r)"
| "documented (AdminApi r) = Some (admin_documented r)"
| "documented (HealthApi r) = Some HealthResponseDto"

end
