(* ===== verification/ResponseProps.thy ===== *)
theory ResponseProps
  imports ResponseDtos StoreInvariant
begin

text \<open>
  Which routes answer as their documentation says. The envelope unwraps an answer of one property, the
  drivers read a \<open>BIGINT\<close> as a number or as a text, and the objects have the columns the statements
  select: a route keeps its promise, keeps it when identifiers are read as numbers, or never keeps it.
\<close>

section \<open>Values\<close>

definition numeric_ids :: "env \<Rightarrow> bool" where
  "numeric_ids e \<longleftrightarrow> int8_parse e = int8_as_number"

lemmas property_defs = needs_def may_def SuccessEnvelopeDto_def enveloped_def

lemma conforms_id: "int8_ok e \<Longrightarrow> conforms Number (int8_parse e n) \<longleftrightarrow> numeric_ids e"
  by (auto simp: int8_ok_def numeric_ids_def int8_as_number_def int8_as_string_def fun_eq_iff)

lemma conforms_jint [simp]: "conforms Number (jint n)" "conforms (NumberIn a b) (jint n) \<longleftrightarrow> a \<le> n \<and> n \<le> b"
  by (simp_all add: jint_def)

lemma numeric_id: "numeric_ids e \<Longrightarrow> int8_parse e n = JNum (of_int n)"
  by (simp add: numeric_ids_def int8_as_number_def)

text \<open>A nullable value is looked at by its shape.\<close>

declare conforms.simps(8,10) [simp del]

lemma object_conforms [simp]:
  "conforms (Object ps) (JObj kvs) \<longleftrightarrow> list_all (\<lambda>(k, required, s).
     if obj_get kvs k = JUndef then \<not> required else conforms s (obj_get kvs k)) ps"
  "\<not> conforms (Object ps) (JArr vs)" "\<not> conforms (Object ps) (JStr t)" "\<not> conforms (Object ps) JNull"
  "\<not> conforms (Object ps) JUndef" "\<not> conforms (Object ps) (JNum r)"
  by (simp_all add: conforms.simps(10))

lemma nullable [simp]:
  "conforms (Nullable s) JNull" "conforms (Nullable s) (JNum r) = conforms s (JNum r)"
  "conforms (Nullable s) (JStr t) = conforms s (JStr t)" "conforms (Nullable s) (JBool b) = conforms s (JBool b)"
  "conforms (Nullable s) (JObj kvs) = conforms s (JObj kvs)"
  "conforms (Nullable s) (jopt f v) \<longleftrightarrow> (\<forall>x. v = Some x \<longrightarrow> conforms (Nullable s) (f x))"
  by (cases v; simp add: conforms.simps(8))+

lemma jopt_sent [simp]: "jopt f v = JUndef \<longleftrightarrow> (\<exists>x. v = Some x \<and> f x = JUndef)"
  by (cases v) simp_all

lemma status_texts [simp]:
  "user_status_text us \<in> set USER_STATUSES" "product_status_text ps \<in> set PRODUCT_STATUSES"
  "report_status_text rs \<in> set REPORT_STATUSES" "file_status_text fs \<in> set FILE_STATUSES"
  "file_purpose_text fp \<in> set FILE_PURPOSES"
  subgoal by (cases us) (simp_all add: USER_STATUSES_def)
  subgoal by (cases ps) (simp_all add: PRODUCT_STATUSES_def)
  subgoal by (cases rs) (simp_all add: REPORT_STATUSES_def)
  subgoal by (cases fs) (simp_all add: FILE_STATUSES_def)
  subgoal by (cases fp) (simp_all add: FILE_PURPOSES_def)
  done

lemma nullable_id: "numeric_ids e \<Longrightarrow> conforms (Nullable Number) (int8_parse e n)"
  by (simp add: numeric_id)

section \<open>The related records\<close>

fun related :: "entity \<Rightarrow> schema" where
  "related EUser = RelatedUserDto"
| "related ECategory = RelatedCategoryDto"
| "related EProduct = RelatedProductDto"
| "related EMessage = RelatedMessageDto"
| "related EConversation = RelatedConversationDto"
| "related EFile = RelatedFileDto"

lemma avatar_conforms:
  assumes "numeric_ids e"
  shows "conforms (Nullable RelatedFileDto) (avatar_of e d u)"
proof (cases "u_avatar_file_id u")
  case (Some i)
  show ?thesis
  proof (cases "file_by_id i d")
    case (Some f)
    with \<open>u_avatar_file_id u = Some i\<close> assms show ?thesis
      by (simp add: avatar_of_def RelatedFileDto_def property_defs numeric_id coalesce_def obj_get_def Let_def)
  qed (use Some in \<open>simp add: avatar_of_def\<close>)
qed (simp add: avatar_of_def)

lemma avatar_sent [simp]: "avatar_of e d u \<noteq> JUndef"
  by (simp add: avatar_of_def Let_def)

lemma user_record_conforms: "numeric_ids e \<Longrightarrow> conforms RelatedUserDto (JObj (user_record e d u))"
  by (simp add: user_record_def mapToAppUser_def app_user_columns_def toNumber_def asString_def asNullableString_def
      coalesce_def numeric_id RelatedUserDto_def property_defs avatar_conforms)

lemma records_conform:
  assumes "numeric_ids e"
  shows "conforms RelatedFileDto (JObj (file_record e f))" "conforms RelatedCategoryDto (JObj (category_record e c))"
    "conforms RelatedMessageDto (JObj (message_record e m))" "conforms RelatedConversationDto (JObj (conversation_record e v))"
    "conforms RelatedProductDto (JObj (product_record e d p))"
  using assms user_record_conforms [OF assms]
  by (simp_all add: file_record_def category_record_def message_record_def conversation_record_def product_record_def
      RelatedFileDto_def RelatedCategoryDto_def RelatedMessageDto_def RelatedConversationDto_def RelatedProductDto_def
      property_defs numeric_id obj_get_def Let_def)

lemma resolved_conforms:
  assumes "numeric_ids e" and "resolveEntities e pairs d en i = Some r"
  shows "conforms (related en) (JObj r)"
proof -
  have "r \<in> set (fetch_entity e en (ids_of en pairs) d)"
    using assms(2) by (auto simp: resolveEntities_def resolver_map_def dest!: row_where_Some split: if_splits)
  with assms(1) show ?thesis
    by (cases en) (auto simp: fetch_entity_def fetchUsers_def fetchCategories_def fetchProducts_def fetchMessages_def
        fetchConversations_def fetchFiles_def records_conform user_record_conforms simp del: conforms.simps)
qed

definition relating :: "(entity \<Rightarrow> int \<Rightarrow> jobject option) \<Rightarrow> bool" where
  "relating maps \<longleftrightarrow> (\<forall>en i r. maps en i = Some r \<longrightarrow> conforms (related en) (JObj r))"

lemma expanded_conforms:
  assumes "relating maps"
  shows "conforms (Nullable (related en)) (expanded maps en v)"
  using assms by (simp add: relating_def expanded_def split: option.split)

section \<open>The expansion by keys\<close>

text \<open>Keys the expansion leaves, and the keys it replaces.\<close>

lemma plain_keys:
  "list_all (\<lambda>k. map_of FK_RULES k = None)
     [''id'', ''name'', ''phone'', ''profileState'', ''status'', ''rate'', ''contactInfo'', ''avatar'', ''user'',
      ''is_admin'', ''created_at'', ''updated_at'', ''token_version'', ''accessToken'', ''refreshToken'', ''message'',
      ''product'', ''category'', ''subcategory'', ''description'', ''price'', ''city'', ''address_text'', ''details'',
      ''is_negotiable'', ''preferred_contact_method'', ''is_favorite'', ''images'', ''rating_value'', ''comment'', ''rating'',
      ''summary'', ''ratings'', ''avg_rating'', ''ratings_count'', ''reason'', ''report'', ''reviewed_at'', ''warning'',
      ''file'', ''objectKey'', ''upload'', ''method'', ''url'', ''expiresAt'', ''headers'', ''fields'', ''owner_type'',
      ''purpose'', ''object_key'', ''mime_type'', ''file_size_bytes'', ''uploaded_at'', ''readUrl'', ''conversation'',
      ''items'', ''users'', ''admins'', ''reports'', ''categories'', ''conversations'', ''messages'', ''products'',
      ''ads_count'', ''blocked_by_me'', ''blocked_me'', ''last_message_text'', ''last_message_sent_at'', ''product_name'',
      ''product_price'', ''product_image_object_key'', ''unread_count'']"
  by (simp add: FK_RULES_def)

lemmas plain [simp] = plain_keys [simplified]

definition rule_gives :: "entity \<Rightarrow> string \<Rightarrow> string \<Rightarrow> bool" where
  "rule_gives en k k' \<longleftrightarrow> (\<exists>rule. map_of FK_RULES k = Some rule \<and> fr_entity rule = en \<and>
     \<not> fr_unless_owner_type rule \<and> output_key rule k = k')"

lemma replaced [simp]:
  "rule_gives EUser ''admin_id'' ''admin''" "rule_gives EUser ''target_user_id'' ''target_user''"
  "rule_gives EUser ''rater_id'' ''rater''" "rule_gives EUser ''rated_user_id'' ''rated_user''"
  "rule_gives EUser ''reporter_id'' ''reporter''" "rule_gives EUser ''reported_user_id'' ''reported_user''"
  "rule_gives EUser ''uploader_user_id'' ''uploader_user''" "rule_gives EUser ''peer_user_id'' ''peer_user''"
  "rule_gives EUser ''reviewed_by'' ''reviewed_by''" "rule_gives EFile ''avatar_file_id'' ''avatar_file''"
  "rule_gives EFile ''product_image_file_id'' ''product_image''" "rule_gives ECategory ''parent_id'' ''parent''"
  "rule_gives EProduct ''product_id'' ''product''" "rule_gives EMessage ''last_message_id'' ''last_message''"
  by (simp_all add: rule_gives_def FK_RULES_def output_key_def deriveOutputKey_def rule_of_def ends_with_def)

text \<open>A field as it is sent: the first of the fields that are sent under one key stays.\<close>

fun sent_field :: "(entity \<Rightarrow> int \<Rightarrow> jobject option) \<Rightarrow> jobject \<Rightarrow> string \<times> json \<Rightarrow> string \<times> json" where
  "sent_field maps node (k, v) =
     (case active_rule node k of
        None \<Rightarrow> (k, transformNode maps v)
      | Some rule \<Rightarrow> (output_key rule k, expanded maps (fr_entity rule) v))"

lemma sent_plain: "map_of FK_RULES k = None \<Longrightarrow> sent_field maps node (k, v) = (k, transformNode maps v)"
  by (simp add: active_rule_def)

lemma sent_replaced: "rule_gives en k k' \<Longrightarrow> sent_field maps node (k, v) = (k', expanded maps en v)"
  by (auto simp: rule_gives_def active_rule_def)

lemma sent_owner_id [simp]:
  "sent_field maps node (''owner_id'', v) =
     (if has_own node ''owner_type'' then (''owner_id'', transformNode maps v) else (''owner'', expanded maps EUser v))"
  by (simp add: active_rule_def FK_RULES_def rule_of_def output_key_def deriveOutputKey_def ends_with_def)

lemma map_of_sent:
  "map_of (transform_fields maps node kvs out) k =
     (case map_of out k of None \<Rightarrow> map_of (map (sent_field maps node) kvs) k | Some v \<Rightarrow> Some v)"
proof (induction kvs arbitrary: out)
  case (Cons kv kvs)
  have own: "has_own out k' \<longleftrightarrow> map_of out k' \<noteq> None" for k' by (simp add: has_own_def map_of_eq_None_iff)
  obtain a v where kv: "kv = (a, v)" by fastforce
  show ?case
    unfolding kv by (auto simp: Cons own Let_def map_add_def split: option.splits)
qed (auto split: option.split)

lemma sent_object: "conforms (Object ps) (transformNode maps (JObj kvs)) \<longleftrightarrow> conforms (Object ps) (JObj (map (sent_field maps kvs) kvs))"
  by (simp add: obj_get_def map_of_sent transformNode.simps(2))

lemmas sent_fields = sent_plain replaced [THEN sent_replaced]

declare sent_field.simps [simp del] sent_fields [simp] transformNode.simps(2) [simp del]

section \<open>Under the envelope\<close>

definition as_sent :: "nat \<Rightarrow> (entity \<Rightarrow> int \<Rightarrow> jobject option) \<Rightarrow> json \<Rightarrow> json" where
  "as_sent n maps v = envelope (Some n) (transformNode maps v)"

lemma enveloped_data:
  assumes "\<not> isAlreadyEnveloped w"
  shows "conforms (enveloped s) (envelope (Some n) w) \<longleftrightarrow> normalizeData w \<noteq> JUndef \<and> conforms s (normalizeData w)"
  using assms by (auto simp: envelope_def property_defs obj_get_def jint_def)

lemma one_property_open: "\<not> isAlreadyEnveloped (JObj [kv])"
  by (cases kv) (auto simp: isAlreadyEnveloped_def obj_get_def has_own_def split: if_splits)

text \<open>An answer of one property: a list or a text is sent bare, an object keeps the property.\<close>

lemma one_bare:
  assumes "map_of FK_RULES k = None" and "own_properties (transformNode maps v) = None"
  shows "conforms (enveloped s) (as_sent n maps (JObj [(k, v)])) \<longleftrightarrow>
    transformNode maps v \<noteq> JUndef \<and> conforms s (transformNode maps v)"
  using assms
  by (simp add: as_sent_def enveloped_data one_property_open normalizeData_def active_rule_def transformNode.simps(2))

lemma one_list [simp]: "map_of FK_RULES k = None \<Longrightarrow> \<not> conforms (enveloped (Object ps)) (as_sent n maps (JObj [(k, JArr vs)]))"
  by (simp add: one_bare)

lemma one_text [simp]: "map_of FK_RULES k = None \<Longrightarrow> \<not> conforms (enveloped (Object ps)) (as_sent n maps (JObj [(k, JStr t)]))"
  by (simp add: one_bare)

lemma one_null [simp]: "map_of FK_RULES k = None \<Longrightarrow> \<not> conforms (enveloped (Object ps)) (as_sent n maps (JObj [(k, JNull)]))"
  by (simp add: one_bare)

lemma one_object:
  assumes "map_of FK_RULES k = None"
  shows "conforms (enveloped (Object [needs k s])) (as_sent n maps (JObj [(k, JObj kvs)])) \<longleftrightarrow>
    conforms s (transformNode maps (JObj kvs))"
  using assms
  by (simp add: as_sent_def enveloped_data one_property_open normalizeData_def active_rule_def needs_def transformNode.simps(2))

text \<open>An answer of several properties, or none, is sent as it is.\<close>

definition plain_field :: "string \<times> json \<Rightarrow> bool" where
  "plain_field kv \<longleftrightarrow> map_of FK_RULES (fst kv) = None \<and> fst kv \<noteq> ''data''"

lemma transform_plain:
  assumes "list_all plain_field kvs" and "distinct (map fst (out @ kvs))"
  shows "transform_fields maps node kvs out = out @ map (\<lambda>(k, v). (k, transformNode maps v)) kvs"
  using assms
proof (induction kvs arbitrary: out)
  case (Cons kv kvs)
  obtain k v where kv: "kv = (k, v)" by fastforce
  have "\<not> has_own out k" using Cons.prems(2) by (auto simp: kv has_own_def)
  with Cons.prems Cons.IH [of "out @ [(k, transformNode maps v)]"] show ?case
    by (simp add: kv active_rule_def plain_field_def)
qed simp

lemma several:
  assumes "list_all plain_field kvs" and "distinct (map fst kvs)" and "length kvs \<noteq> 1"
  shows "conforms (enveloped s) (as_sent n maps (JObj kvs)) \<longleftrightarrow> conforms s (JObj (map (\<lambda>(k, v). (k, transformNode maps v)) kvs))"
proof -
  let ?w = "JObj (map (\<lambda>(k, v). (k, transformNode maps v)) kvs)"
  have w: "transformNode maps (JObj kvs) = ?w"
    using transform_plain [of kvs "[]" maps kvs] assms(1,2) by (simp add: transformNode.simps(2))
  have "\<not> isAlreadyEnveloped ?w"
    using assms(1) by (auto simp: isAlreadyEnveloped_def has_own_def plain_field_def list_all_iff image_iff)
  moreover have "normalizeData ?w = ?w"
    using assms(3) by (auto simp: normalizeData_def split: list.split)
  ultimately show ?thesis by (simp add: as_sent_def w enveloped_data)
qed

section \<open>The objects\<close>

text \<open>The fields of an object, whatever the object they stand in.\<close>

abbreviation fields_sent where
  "fields_sent maps node kvs \<equiv> JObj (map (sent_field maps node) kvs)"

lemma by_fields:
  "(\<And>node. conforms (Object ps) (fields_sent maps node kvs) \<longleftrightarrow> b) \<Longrightarrow> conforms (Object ps) (transformNode maps (JObj kvs)) \<longleftrightarrow> b"
  by (simp add: sent_object)

lemma all_fields:
  "(\<And>node. conforms (Object ps) (fields_sent maps node kvs)) \<Longrightarrow> conforms (Object ps) (transformNode maps (JObj kvs))"
  by (simp add: sent_object)

lemma wrong_field:
  assumes "map_of ps k = Some (True, s)"
    and "\<And>node. obj_get (map (sent_field maps node) kvs) k = JUndef \<or> \<not> conforms s (obj_get (map (sent_field maps node) kvs) k)"
  shows "\<not> conforms (Object ps) (transformNode maps (JObj kvs))"
proof
  assume "conforms (Object ps) (transformNode maps (JObj kvs))"
  then have "\<forall>x \<in> set ps. case x of (k, required, s) \<Rightarrow>
      if obj_get (map (sent_field maps kvs) kvs) k = JUndef then \<not> required
      else conforms s (obj_get (map (sent_field maps kvs) kvs) k)"
    by (simp add: sent_object list_all_iff)
  from bspec [OF this map_of_SomeD [OF assms(1)]] assms(2) [of kvs] show False
    by (simp split: if_splits)
qed

text \<open>What is missing or has another type in the objects that never are as documented.\<close>

lemma user_object_undocumented:
  "\<not> conforms UserDto (transformNode maps (JObj (user_record e d u)))"
  unfolding UserDto_def user_record_def mapToAppUser_def app_user_columns_def
  by (rule wrong_field [of _ "''status''"], simp add: property_defs, simp)

lemma admin_user_undocumented:
  "\<not> conforms AdminUserDto (transformNode maps (JObj (admin_user_object e u [])))"
  "\<not> conforms AdminUserDto (transformNode maps (JObj (admin_user_object e u [(''token_version'', v)])))"
  unfolding AdminUserDto_def admin_user_object_def mapToAppUser_def app_user_columns_def
  by (rule wrong_field [of _ "''status''"], simp add: property_defs, simp)+

lemma conversation_undocumented:
  "\<not> conforms (Object ConversationDto)
     (transformNode maps (JObj (normalizeConversationRow e (conversation_row_object e i d c))))"
  unfolding ConversationDto_def normalizeConversationRow_def conversation_row_object_def Let_def
  by (rule wrong_field [of _ "''user_a''"], simp add: property_defs, simp)

lemma product_undocumented:
  "\<not> conforms ProductDto (transformNode maps (JObj (spread (product_object e p) [(''is_favorite'', f), (''images'', i)])))"
  unfolding ProductDto_def product_object_def
  by (rule wrong_field [of _ "''price''"], simp add: property_defs, simp)

text \<open>What is documented as it is sent, or is when the identifiers are numbers.\<close>

lemma expanded_sent [simp]: "expanded maps en v \<noteq> JUndef"
  by (simp add: expanded_def split: option.split)

lemma transform_int8 [simp]: "int8_ok e \<Longrightarrow> transformNode maps (int8_parse e n) = int8_parse e n"
  by (auto simp: int8_ok_def int8_as_string_def int8_as_number_def)

lemma int8_sent [simp]: "int8_ok e \<Longrightarrow> int8_parse e n \<noteq> JUndef"
  by (auto simp: int8_ok_def int8_as_string_def int8_as_number_def)

lemma transform_jopt [simp]: "transformNode maps (jopt f v) = jopt (\<lambda>x. transformNode maps (f x)) v"
  by (cases v) simp_all

lemma transform_jint [simp]: "transformNode maps (jint n) = jint n" "jint n \<noteq> JUndef"
  by (simp_all add: jint_def)

text \<open>The maps of a server whose identifiers are numbers hold related records.\<close>

definition fitting :: "env \<Rightarrow> (entity \<Rightarrow> int \<Rightarrow> jobject option) \<Rightarrow> bool" where
  "fitting e maps \<longleftrightarrow> int8_ok e \<and> (numeric_ids e \<longrightarrow> relating maps)"

lemma fitting_ok: "fitting e maps \<Longrightarrow> int8_ok e"
  by (simp add: fitting_def)

lemma expanded_fits:
  "fitting e maps \<Longrightarrow> numeric_ids e \<Longrightarrow> conforms (Nullable RelatedUserDto) (expanded maps EUser v)"
  "fitting e maps \<Longrightarrow> numeric_ids e \<Longrightarrow> conforms (Nullable RelatedCategoryDto) (expanded maps ECategory v)"
  using expanded_conforms [of maps EUser v] expanded_conforms [of maps ECategory v] by (simp_all add: fitting_def)

lemma rating_documented:
  assumes "fitting e maps" and "1 \<le> rt_rating_value r" and "rt_rating_value r \<le> 5"
  shows "conforms RatingDto (transformNode maps (rating_object e r)) \<longleftrightarrow> numeric_ids e"
  unfolding rating_object_def RatingDto_def
  by (rule by_fields) (use assms fitting_ok [OF assms(1)] expanded_fits in
    \<open>auto simp: property_defs conforms_id simp del: conforms.simps(1,2)\<close>)

lemma report_documented:
  assumes "fitting e maps"
  shows "conforms ReportDto (transformNode maps (JObj (report_head e r @ report_times e r))) \<longleftrightarrow> numeric_ids e"
    and "conforms AdminReportDto (transformNode maps (JObj (report_head e r @
        [(''reviewed_by'', jopt (int8_parse e) (rp_reviewed_by r)), (''created_at'', JStr (ts_text e (rp_created_at r))),
         (''reviewed_at'', jopt (\<lambda>t. JStr (ts_text e t)) (rp_reviewed_at r)),
         (''updated_at'', JStr (ts_text e (rp_updated_at r)))]))) \<longleftrightarrow> numeric_ids e"
  unfolding report_head_def report_times_def ReportDto_def AdminReportDto_def
  by (rule by_fields; use assms fitting_ok [OF assms] expanded_fits in
    \<open>auto simp: property_defs conforms_id simp del: conforms.simps(1)\<close>)+

lemma warning_documented:
  assumes "fitting e maps"
  shows "conforms WarningDto (transformNode maps (warning_object e w)) \<longleftrightarrow> numeric_ids e"
  unfolding warning_object_def WarningDto_def
  by (rule by_fields) (use assms fitting_ok [OF assms] expanded_fits in
    \<open>auto simp: property_defs conforms_id simp del: conforms.simps(1)\<close>)

lemma category_documented:
  assumes "fitting e maps"
  shows "conforms CategoryDto (transformNode maps (category_object e c)) \<longleftrightarrow> numeric_ids e"
  unfolding category_object_def CategoryDto_def
  by (rule by_fields) (use assms fitting_ok [OF assms] expanded_fits in
    \<open>auto simp: property_defs conforms_id simp del: conforms.simps(1)\<close>)

lemma status_documented:
  assumes "fitting e maps"
  shows "conforms ProductStatusDto (transformNode maps (JObj [(''id'', int8_parse e (p_id p)),
      (''status'', JStr (product_status_text (p_status p))), (''updated_at'', JStr (ts_text e (p_updated_at p)))])) \<longleftrightarrow>
    numeric_ids e"
  unfolding ProductStatusDto_def
  by (rule by_fields) (use fitting_ok [OF assms] in \<open>auto simp: property_defs conforms_id simp del: conforms.simps(1)\<close>)

lemma file_documented:
  assumes "fitting e maps" and "f_owner_type f \<in> set OWNER_TYPES"
  shows "conforms FileMetadataDto (transformNode maps (JObj (spread (file_object e f) [(''readUrl'', JStr url)]))) \<longleftrightarrow> numeric_ids e"
proof -
  let ?kvs = "spread (file_object e f) [(''readUrl'', JStr url)]"
  have node: "has_own ?kvs ''owner_type''" by (simp add: file_object_def)
  have "conforms FileMetadataDto (fields_sent maps node ?kvs) \<longleftrightarrow> numeric_ids e" if "has_own node ''owner_type''" for node
    using that assms fitting_ok [OF assms(1)] expanded_fits
    by (auto simp: FileMetadataDto_def file_object_def property_defs conforms_id OWNER_TYPES_def nullable_id
        simp del: conforms.simps(1))
  from this [OF node] show ?thesis by (simp add: FileMetadataDto_def sent_object)
qed

lemma toNumber_any: "int8_ok e \<Longrightarrow> toNumber (int8_parse e n) = jint n"
  by (auto simp: int8_ok_def int8_as_string_def int8_as_number_def toNumber_def coalesce_def string_number_int_str jint_def)

lemma tokens_documented:
  assumes "int8_ok e"
  shows "conforms TokenResponseDto (as_sent n maps (JObj [(''accessToken'', JStr a), (''refreshToken'', JStr r)]))"
    and "conforms TokenResponseDto (as_sent n maps (JObj [(''message'', JStr t), (''accessToken'', JStr a), (''refreshToken'', JStr r)]))"
    and "conforms TokenResponseDto (as_sent n maps (JObj [(''user'', JObj (mapToAppUser e (user_object e u))),
      (''accessToken'', JStr a), (''refreshToken'', JStr r)]))"
proof -
  have user: "conforms AuthUserDto (transformNode maps (JObj (mapToAppUser e (user_object e u))))"
    using assms by (auto simp: AuthUserDto_def property_defs sent_object mapToAppUser_def user_object_def toNumber_any
        asString_def simp del: conforms.simps(1))
  show "conforms TokenResponseDto (as_sent n maps (JObj [(''accessToken'', JStr a), (''refreshToken'', JStr r)]))"
    "conforms TokenResponseDto (as_sent n maps (JObj [(''message'', JStr t), (''accessToken'', JStr a), (''refreshToken'', JStr r)]))"
    "conforms TokenResponseDto (as_sent n maps (JObj [(''user'', JObj (mapToAppUser e (user_object e u))),
      (''accessToken'', JStr a), (''refreshToken'', JStr r)]))"
    unfolding TokenResponseDto_def
    using user by (simp_all add: several plain_field_def TokenDataDto_def needs_def may_def)
qed

lemma logout_documented: "conforms LogoutResponseDto (as_sent n maps (JObj []))"
  by (simp add: LogoutResponseDto_def LogoutDataDto_def several)

lemma upload_documented:
  assumes "fitting e maps"
  shows "conforms UploadIntentResponseDto (as_sent n maps (JObj [
      (''file'', JObj [(''id'', int8_parse e i), (''objectKey'', JStr k), (''status'', JStr ''pending'')]),
      (''upload'', JObj (upload_object u))])) \<longleftrightarrow> numeric_ids e"
proof -
  have "conforms UploadIntentFileDto (transformNode maps
      (JObj [(''id'', int8_parse e i), (''objectKey'', JStr k), (''status'', JStr ''pending'')])) \<longleftrightarrow> numeric_ids e"
    unfolding UploadIntentFileDto_def
    by (rule by_fields) (use fitting_ok [OF assms] in
      \<open>simp add: property_defs conforms_id FILE_STATUSES_def del: conforms.simps(1)\<close>)
  moreover have "conforms UploadIntentDto (transformNode maps (JObj (upload_object u)))"
    unfolding UploadIntentDto_def
    by (rule all_fields) (auto simp: upload_object_def property_defs str_map_def transformNode.simps(2) split: option.split)
  ultimately show ?thesis
    by (simp add: UploadIntentResponseDto_def several plain_field_def UploadIntentDataDto_def needs_def may_def)
      (simp add: transformNode.simps(2))
qed

lemma marked_documented:
  "conforms FileMarkUploadedResponseDto (as_sent n maps (JObj [(''file'',
     JObj [(''id'', jint i), (''objectKey'', JStr k), (''status'', JStr ''uploaded'')])]))"
proof -
  have "conforms UploadIntentFileDto (transformNode maps
      (JObj [(''id'', jint i), (''objectKey'', JStr k), (''status'', JStr ''uploaded'')]))"
    unfolding UploadIntentFileDto_def
    by (rule all_fields) (simp add: property_defs FILE_STATUSES_def del: conforms.simps(1))
  then show ?thesis
    by (simp add: FileMarkUploadedResponseDto_def FileMarkUploadedDataDto_def one_object)
qed

lemma details_documented:
  assumes "int8_ok e"
  shows "conforms AdminUserDetailsDto (transformNode maps (JObj (spread (mapToAppUser e (app_user_columns e u))
      [(''status'', JStr (user_status_text (u_status u))),
       (''profileState'', obj_get (mapToAppUser e (app_user_columns e u)) ''profileState''),
       (''avatar_file_id'', jopt (int8_parse e) (u_avatar_file_id u)), (''contactInfo'', jopt JStr (u_contact_info u)),
       (''is_admin'', JBool (u_is_admin u)), (''created_at'', JStr (ts_text e (u_created_at u))),
       (''updated_at'', JStr (ts_text e (u_updated_at u)))])))"
  unfolding AdminUserDetailsDto_def mapToAppUser_def app_user_columns_def
  by (rule all_fields) (simp add: assms property_defs toNumber_any asString_def asNullableString_def coalesce_def del: conforms.simps(1))

lemma summary_documented:
  assumes "fitting e maps" and "numeric_ids e" and "\<And>r. r \<in> set rs \<Longrightarrow> rating_ok r"
  shows "conforms RatingSummaryResponseDto (as_sent n maps (JObj [
      (''summary'', JObj [(''avg_rating'', JStr t), (''ratings_count'', jint i)]),
      (''ratings'', JArr (map (rating_object e) rs))]))"
proof -
  have "conforms RatingSummaryDto (transformNode maps (JObj [(''avg_rating'', JStr t), (''ratings_count'', jint i)]))"
    unfolding RatingSummaryDto_def by (rule all_fields) (simp add: property_defs del: conforms.simps(1))
  moreover have "transform_list maps vs = map (transformNode maps) vs" for vs by (induction vs) simp_all
  ultimately show ?thesis
    using assms rating_documented [OF assms(1)]
    by (simp add: RatingSummaryResponseDto_def several plain_field_def RatingSummaryDataDto_def needs_def may_def
        list_all_iff rating_ok_def) (simp add: transformNode.simps(2))
qed

end
