(* ===== verification/ResponseRoutes.thy ===== *)
theory ResponseRoutes
  imports ResponseProps ServedProps
begin

text \<open>
  The verdict of every route: what its handler returns, sent under the envelope, against the class its
  documentation names.
\<close>

declare transformNode.simps(2) [simp del]

section \<open>Verdicts\<close>

datatype verdict = Kept | KeptWithNumericIds | KeptIffNumericIds | Broken | Undecided

fun verdict_of :: "api_request \<Rightarrow> verdict" where
  "verdict_of (AuthApi r) =
     (case r of RequestRegistration _ _ _ \<Rightarrow> Undecided | ResendRegistration _ \<Rightarrow> Undecided | RequestReset _ \<Rightarrow> Undecided
      | _ \<Rightarrow> Kept)"
| "verdict_of (AkedlyApi r) = Undecided"
| "verdict_of (ProductsApi r) = (case r of UpdateProductStatus _ _ \<Rightarrow> KeptIffNumericIds | _ \<Rightarrow> Broken)"
| "verdict_of (RatingsApi r) = (case r of RateUser _ _ _ \<Rightarrow> KeptIffNumericIds | RatingSummary _ \<Rightarrow> KeptWithNumericIds)"
| "verdict_of (ReportsApi r) = (case r of CreateReport _ _ \<Rightarrow> KeptIffNumericIds | _ \<Rightarrow> Broken)"
| "verdict_of (FilesApi r) = (case r of MarkUploaded _ _ \<Rightarrow> Kept | _ \<Rightarrow> KeptIffNumericIds)"
| "verdict_of (AdminApi r) =
     (case r of UserDetails _ \<Rightarrow> Kept | CreateWarning _ _ \<Rightarrow> KeptIffNumericIds | UpdateReportStatus _ _ \<Rightarrow> KeptIffNumericIds
      | CreateCategory _ _ \<Rightarrow> KeptIffNumericIds | DeleteCategory _ \<Rightarrow> KeptIffNumericIds | _ \<Rightarrow> Broken)"
| "verdict_of _ = Broken"

definition stands :: "env \<Rightarrow> verdict \<Rightarrow> bool \<Rightarrow> bool" where
  "stands e v ok \<longleftrightarrow>
     (case v of
        Kept \<Rightarrow> ok
      | KeptWithNumericIds \<Rightarrow> numeric_ids e \<longrightarrow> ok
      | KeptIffNumericIds \<Rightarrow> ok \<longleftrightarrow> numeric_ids e
      | Broken \<Rightarrow> \<not> ok
      | Undecided \<Rightarrow> True)"

lemma stands_simps [simp]:
  "stands e Kept ok \<longleftrightarrow> ok" "stands e KeptIffNumericIds ok \<longleftrightarrow> (ok \<longleftrightarrow> numeric_ids e)" "stands e Broken ok \<longleftrightarrow> \<not> ok"
  "stands e KeptWithNumericIds ok \<longleftrightarrow> (numeric_ids e \<longrightarrow> ok)" "stands e Undecided ok"
  by (simp_all add: stands_def)

text \<open>A value a handler may return under a verdict, whatever the status and the records around it.\<close>

definition right_value :: "env \<Rightarrow> verdict \<Rightarrow> schema \<Rightarrow> json \<Rightarrow> bool" where
  "right_value e w s v \<longleftrightarrow> (\<forall>n maps. fitting e maps \<longrightarrow> stands e w (conforms s (as_sent n maps v)))"

section \<open>What an action returns\<close>

definition gives :: "('a \<Rightarrow> bool) \<Rightarrow> ('s, 'a) act \<Rightarrow> bool" where
  "gives P m \<longleftrightarrow> (\<forall>s a s'. m s = (Inr a, s') \<longrightarrow> P a)"

lemma gives_simple [simp]:
  "gives P (ret a) \<longleftrightarrow> P a" "gives P (throw x)" "gives P (gets f) \<longleftrightarrow> (\<forall>s. P (f s))" "gives (\<lambda>_. True) m"
  by (simp_all add: gives_def)

lemma gives_after: "gives Q m \<Longrightarrow> (\<And>a. Q a \<Longrightarrow> gives P (k a)) \<Longrightarrow> gives P (andThen m k)"
  by (fastforce simp: gives_def andThen_run split: sum.splits prod.splits)

lemma gives_andThen: "(\<And>a. gives P (k a)) \<Longrightarrow> gives P (andThen m k)"
  by (rule gives_after [of "\<lambda>_. True"]) simp_all

lemma gives_tryCatch: "gives P m \<Longrightarrow> (\<And>x. gives P (h x)) \<Longrightarrow> gives P (tryCatch m h)"
  by (fastforce simp: gives_def tryCatch_run split: sum.splits prod.splits)

lemma gives_withTransaction: "gives P m \<Longrightarrow> gives P (withTransaction m)"
  by (fastforce simp: gives_def withTransaction_def split: sum.splits prod.splits)

lemma gives_cases:
  "(c \<Longrightarrow> gives P m) \<Longrightarrow> (\<not> c \<Longrightarrow> gives P n) \<Longrightarrow> gives P (if c then m else n)"
  "(v = None \<Longrightarrow> gives P m) \<Longrightarrow> (\<And>x. v = Some x \<Longrightarrow> gives P (f x)) \<Longrightarrow> gives P (case v of None \<Rightarrow> m | Some x \<Rightarrow> f x)"
  by (cases c, simp_all, cases v, simp_all)

lemma gives_object: "gives (\<lambda>kvs. P (JObj kvs)) m \<Longrightarrow> gives P (object m)"
  unfolding object_def by (rule gives_after) simp_all

lemma gives_with_user: "(\<And>u. gives P (f u)) \<Longrightarrow> gives P (with_user user f)"
  by (cases user) (simp_all add: with_user_def)

lemma gives_on_db: "gives P m \<Longrightarrow> gives P (on_db m)"
  by (auto simp: gives_def on_db_run) (metis prod.collapse)

lemmas giving = gives_tryCatch gives_withTransaction gives_cases gives_object gives_with_user gives_on_db

section \<open>Authentication\<close>

abbreviation keeps_tokens where
  "keeps_tokens e kvs \<equiv> right_value e Kept TokenResponseDto (JObj kvs)"

lemma gives_generateTokens:
  "gives (\<lambda>kvs. \<exists>a r. kvs = [(''accessToken'', JStr a), (''refreshToken'', JStr r)]) (generateTokens e i phone adm ver)"
  unfolding generateTokens_def Let_def by (intro gives_andThen) simp

lemmas tokens_right = tokens_documented [OF fitting_ok]

lemma gives_tokens:
  "gives (keeps_tokens e) (login e phone password)" "gives (keeps_tokens e) (refresh e t)"
  "gives (keeps_tokens e) (verifyRegistrationOtp e phone otp tr)"
  "gives (keeps_tokens e) (resetPassword e phone otp new confirm tr)"
  unfolding login_def refresh_def verifyRegistrationOtp_def completeRegistration_def resetPassword_def applyPasswordReset_def
  by (rule gives_andThen giving gives_after [OF gives_generateTokens] | auto simp: right_value_def tokens_right)+

section \<open>Answers that are never as documented\<close>

lemmas list_classes = SuccessResponseDto_def SuccessDataDto_def ProductDeleteResponseDto_def ProductDeleteDataDto_def
  ProductListResponseDto_def ProductListDataDto_def BlockedUsersListResponseDto_def BlockedUsersListDataDto_def
  CategoriesListResponseDto_def CategoriesListDataDto_def ReportsListResponseDto_def ReportsListDataDto_def
  ConversationsListResponseDto_def ConversationsListDataDto_def MessagesListResponseDto_def MessagesListDataDto_def
  AdminUsersListResponseDto_def AdminUsersListDataDto_def AdminAdminsListResponseDto_def AdminAdminsListDataDto_def
  AdminReportsListResponseDto_def AdminReportsListDataDto_def AdminUserListingsResponseDto_def AdminUserListingsDataDto_def
  AdminUserReportsResponseDto_def AdminUserReportsDataDto_def HealthResponseDto_def HealthDataDto_def

text \<open>Lists and texts under one property lose it.\<close>

lemma gives_lists:
  "gives (\<lambda>kvs. right_value e Broken ProductListResponseDto (JObj kvs)) (listMyProducts e u dto)"
  "gives (\<lambda>kvs. right_value e Broken ProductListResponseDto (JObj kvs)) (searchProducts e dto viewer)"
  "gives (\<lambda>kvs. right_value e Broken ProductListResponseDto (JObj kvs)) (listFavorites e u sb sd n k)"
  "gives (\<lambda>kvs. right_value e Broken BlockedUsersListResponseDto (JObj kvs)) (listBlockedUsers e u l f)"
  "gives (\<lambda>kvs. right_value e Broken CategoriesListResponseDto (JObj kvs)) (listCategories e l f)"
  "gives (\<lambda>kvs. right_value e Broken ReportsListResponseDto (JObj kvs)) (getMyReports e u l f)"
  "gives (\<lambda>kvs. right_value e Broken ConversationsListResponseDto (JObj kvs)) (listConversations e u scope l f)"
  "gives (\<lambda>kvs. right_value e Broken MessagesListResponseDto (JObj kvs)) (listMessages e u i l before)"
  "gives (\<lambda>kvs. right_value e Broken AdminUsersListResponseDto (JObj kvs)) (listUsers e st q n k)"
  "gives (\<lambda>kvs. right_value e Broken AdminAdminsListResponseDto (JObj kvs)) (listAdmins e n k)"
  "gives (\<lambda>kvs. right_value e Broken AdminReportsListResponseDto (JObj kvs)) (listReports e n k)"
  "gives (\<lambda>kvs. right_value e Broken AdminUserListingsResponseDto (JObj kvs)) (listUserListings e i ps n k)"
  "gives (\<lambda>kvs. right_value e Broken AdminUserReportsResponseDto (JObj kvs)) (listUserReports e i n k)"
  unfolding listMyProducts_def searchProducts_def listFavorites_def listBlockedUsers_def listCategories_def getMyReports_def
    listConversations_def listMessages_def listUsers_def listAdmins_def listReports_def listUserListings_def listUserReports_def
    Let_def
  by (rule gives_andThen giving | auto simp: right_value_def list_classes split: prod.split)+

lemma gives_messages:
  "gives (\<lambda>kvs. right_value e Broken SuccessResponseDto (JObj kvs)) (changePassword e u old new)"
  "gives (\<lambda>kvs. right_value e Broken SuccessResponseDto (JObj kvs)) (deleteMe u)"
  "gives (\<lambda>kvs. right_value e Broken SuccessResponseDto (JObj kvs)) (blockUser u v)"
  "gives (\<lambda>kvs. right_value e Broken SuccessResponseDto (JObj kvs)) (unblockUser u v)"
  "gives (\<lambda>kvs. right_value e Broken SuccessResponseDto (JObj kvs)) (addFavorite e u i)"
  "gives (\<lambda>kvs. right_value e Broken SuccessResponseDto (JObj kvs)) (removeFavorite u i)"
  "gives (\<lambda>kvs. right_value e Broken SuccessResponseDto (JObj kvs)) (deleteUser e u i)"
  "gives (\<lambda>kvs. right_value e Broken ProductDeleteResponseDto (JObj kvs)) (deleteProduct e u i)"
  unfolding changePassword_def deleteMe_def blockUser_def unblockUser_def addFavorite_def removeFavorite_def deleteUser_def
    deleteProduct_def
  by (rule gives_andThen giving | auto simp: right_value_def list_classes)+

text \<open>Objects that lack a property, or have one of another type.\<close>

lemma broken_user: "right_value e Broken UserProfileResponseDto (JObj [(''user'', JObj (user_record e d u))])"
  by (simp add: right_value_def UserProfileResponseDto_def UserProfileDataDto_def one_object user_object_undocumented)

lemma gives_getMe: "gives (\<lambda>kvs. right_value e Broken UserProfileResponseDto (JObj kvs)) (getMe e u)"
  by (auto simp: gives_def getMe_run broken_user split: option.splits)

lemma gives_updateMe: "gives (\<lambda>kvs. right_value e Broken UserProfileResponseDto (JObj kvs)) (updateMe e u dto)"
  unfolding updateMe_def by (intro gives_andThen gives_getMe)

lemma broken_admin_user:
  "right_value e Broken AdminUserResponseDto (JObj [(''user'', JObj (admin_user_object e u []))])"
  "right_value e Broken AdminUserResponseDto (JObj [(''user'', JObj (admin_user_object e u [(''token_version'', v)]))])"
  by (simp_all add: right_value_def AdminUserResponseDto_def AdminUserDataDto_def one_object admin_user_undocumented)

lemma gives_admin_users:
  "gives (\<lambda>kvs. right_value e Broken AdminUserResponseDto (JObj kvs)) (promoteAdmin e a i)"
  "gives (\<lambda>kvs. right_value e Broken AdminUserResponseDto (JObj kvs)) (demoteAdmin e a i)"
  "gives (\<lambda>kvs. right_value e Broken AdminUserResponseDto (JObj kvs)) (updateUserStatus e a i st)"
  unfolding promoteAdmin_def demoteAdmin_def updateUserStatus_def returned_admin_def
  by (rule gives_andThen giving | simp add: broken_admin_user)+

lemma broken_product: "right_value e Broken ProductResponseDto (JObj (product_response
    (Some (spread (product_object e p) [(''is_favorite'', f), (''images'', i)]))))"
  by (simp add: right_value_def ProductResponseDto_def ProductDataDto_def product_response_def one_object product_undocumented
      del: spread.simps)

lemma broken_no_product: "right_value e Broken ProductResponseDto (JObj (product_response None))"
  by (simp add: right_value_def ProductResponseDto_def ProductDataDto_def product_response_def)

lemma gives_fetch: "gives (\<lambda>found. right_value e Broken ProductResponseDto (JObj (product_response found)))
    (fetchProductWithImages e i viewer)"
  unfolding fetchProductWithImages_def by (auto simp: broken_product broken_no_product simp del: spread.simps split: option.split)

lemma gives_products:
  "gives (\<lambda>kvs. right_value e Broken ProductResponseDto (JObj kvs)) (createProduct e u dto)"
  "gives (\<lambda>kvs. right_value e Broken ProductResponseDto (JObj kvs)) (getProductById e i viewer)"
  "gives (\<lambda>kvs. right_value e Broken ProductResponseDto (JObj kvs)) (updateProduct e u i ud)"
  unfolding createProduct_def getProductById_def updateProduct_def Let_def
  by (rule gives_after [OF gives_fetch] gives_andThen giving | simp)+

lemma gives_conversations:
  "gives (\<lambda>kvs. right_value e Broken ConversationResponseDto (JObj kvs)) (getConversationById e u i)"
  "gives (\<lambda>kvs. right_value e Broken ConversationResponseDto (JObj kvs)) (getOrCreateConversation e u v p)"
  "gives (\<lambda>kvs. right_value e Broken ConversationResponseDto (JObj kvs)) (createConversation e u v p)"
proof -
  show get: "gives (\<lambda>kvs. right_value e Broken ConversationResponseDto (JObj kvs)) (getConversationById e u i)" for u i
  proof -
    have row: "right_value e Broken ConversationResponseDto
        (JObj [(''conversation'', JObj (normalizeConversationRow e (conversation_row_object e u d c)))])" for d c
      by (simp add: right_value_def ConversationResponseDto_def ConversationDataDto_def one_object conversation_undocumented)
    let ?rows = "\<lambda>d. map (conversation_row_object e u d)
        (filter (\<lambda>c. cv_id c = i \<and> user_exists d (peer_of u c)) (conversations d))"
    have rows: "gives (\<lambda>rows. \<forall>row \<in> set rows. \<exists>d c. row = conversation_row_object e u d c) (gets ?rows)"
      by auto
    show ?thesis
      unfolding getConversationById_def
      by (rule gives_andThen, rule gives_after [OF rows]) (auto simp: row split: list.split)
  qed
  then show opened: "gives (\<lambda>kvs. right_value e Broken ConversationResponseDto (JObj kvs)) (getOrCreateConversation e u v p)"
    unfolding getOrCreateConversation_def existing_or_new_def
    by (intro gives_andThen gives_cases)
  show "gives (\<lambda>kvs. right_value e Broken ConversationResponseDto (JObj kvs)) (createConversation e u v p)"
    unfolding createConversation_def
    by (rule gives_after [OF gives_on_db [OF opened]] gives_andThen | simp)+
qed

lemma gives_public: "gives (\<lambda>kvs. right_value e Broken PublicUserProfileResponseDto (JObj kvs)) (getPublicProfile e i n k viewer)"
proof -
  have "right_value e Broken PublicUserProfileResponseDto (JObj [(''user'', JObj (spread (mapToAppUser e (app_user_columns e row))
      [(''created_at'', ca), (''ads_count'', ac), (''rate'', ra), (''contactInfo'', ci), (''avatar'', av),
       (''blocked_by_me'', bb), (''blocked_me'', bm)])), (''products'', JArr ps)])" for row ca ac ra ci av bb bm ps
  proof -
    have "\<not> conforms PublicUserDto (transformNode maps (JObj (spread (mapToAppUser e (app_user_columns e row))
        [(''created_at'', ca), (''ads_count'', ac), (''rate'', ra), (''contactInfo'', ci), (''avatar'', av),
         (''blocked_by_me'', bb), (''blocked_me'', bm)])))" for maps
      unfolding PublicUserDto_def mapToAppUser_def
      by (rule wrong_field [of _ "''member_since''"], simp add: property_defs, simp)
    then show ?thesis
      by (simp add: right_value_def PublicUserProfileResponseDto_def several plain_field_def PublicUserProfileDataDto_def
          needs_def del: spread.simps)
  qed
  then show ?thesis
    unfolding getPublicProfile_def Let_def
    by (intro gives_andThen) (auto simp del: spread.simps split: prod.split option.split intro!: giving gives_andThen)
qed

section \<open>Answers that are as documented\<close>

lemma gives_category_value:
  "gives (\<lambda>kvs. right_value e KeptIffNumericIds CategoryResponseDto (JObj kvs)) (ret [(''category'', category_object e c)])"
proof -
  obtain fs where fs: "category_object e c = JObj fs" by (simp add: category_object_def)
  show ?thesis
    by (simp add: right_value_def CategoryResponseDto_def CategoryDataDto_def fs one_object)
      (simp add: fs [symmetric] category_documented)
qed

lemma gives_categories:
  "gives (\<lambda>kvs. right_value e KeptIffNumericIds CategoryResponseDto (JObj kvs)) (admin_createCategory e a name parent)"
  "gives (\<lambda>kvs. right_value e KeptIffNumericIds CategoryResponseDto (JObj kvs)) (admin_deleteCategory e a i)"
proof -
  have c: "gives (\<lambda>kvs. right_value e KeptIffNumericIds CategoryResponseDto (JObj kvs)) (createCategory e name parent)"
    unfolding createCategory_def by (intro gives_andThen gives_category_value)
  have d: "gives (\<lambda>kvs. right_value e KeptIffNumericIds CategoryResponseDto (JObj kvs)) (deleteCategory e i)"
    unfolding deleteCategory_def by (rule gives_andThen gives_category_value giving | simp)+
  show "gives (\<lambda>kvs. right_value e KeptIffNumericIds CategoryResponseDto (JObj kvs)) (admin_createCategory e a name parent)"
    unfolding admin_createCategory_def by (rule gives_after [OF c] gives_andThen | simp)+
  show "gives (\<lambda>kvs. right_value e KeptIffNumericIds CategoryResponseDto (JObj kvs)) (admin_deleteCategory e a i)"
    unfolding admin_deleteCategory_def by (rule gives_after [OF d] gives_andThen | simp)+
qed

lemma right_rating:
  assumes "rating_ok r"
  shows "right_value e KeptIffNumericIds RatingResponseDto (JObj [(''rating'', rating_object e r)])"
proof -
  obtain fs where fs: "rating_object e r = JObj fs" by (simp add: rating_object_def)
  show ?thesis
    using assms by (simp add: right_value_def RatingResponseDto_def RatingDataDto_def fs one_object)
      (simp add: fs [symmetric] rating_documented rating_ok_def)
qed

lemma gives_upsert: "gives rating_ok (upsert_rating a b v c)"
  unfolding upsert_rating_def
  by (rule gives_andThen) (auto simp: gives_def rating_ok_def Let_def dest: row_where_Some split: if_splits option.splits)

lemma gives_rateUser: "gives (\<lambda>kvs. right_value e KeptIffNumericIds RatingResponseDto (JObj kvs)) (rateUser e a b v c)"
proof -
  have row: "gives rating_ok (tryCatch (upsert_rating a b v c)
      (\<lambda>x. if isForeignKeyViolation x then throw (NotFound ''Rated user not found'') else throw x))"
    by (intro giving gives_upsert) simp_all
  show ?thesis
    unfolding rateUser_def by (rule gives_andThen, rule gives_andThen, rule gives_after [OF row]) (simp add: right_rating)
qed

lemma gives_report_values:
  "right_value e KeptIffNumericIds ReportResponseDto (JObj [(''report'', JObj (report_head e r @ report_times e r))])"
  "right_value e KeptIffNumericIds AdminReportResponseDto (JObj [(''report'', JObj (report_head e r @
        [(''reviewed_by'', jopt (int8_parse e) (rp_reviewed_by r)), (''created_at'', JStr (ts_text e (rp_created_at r))),
         (''reviewed_at'', jopt (\<lambda>t. JStr (ts_text e t)) (rp_reviewed_at r)),
         (''updated_at'', JStr (ts_text e (rp_updated_at r)))]))])"
  using report_documented
  by (simp_all add: right_value_def ReportResponseDto_def ReportDataDto_def AdminReportResponseDto_def AdminReportDataDto_def
      one_object)

lemma gives_reports:
  "gives (\<lambda>kvs. right_value e KeptIffNumericIds ReportResponseDto (JObj kvs)) (createReport e a b reason)"
  "gives (\<lambda>kvs. right_value e KeptIffNumericIds AdminReportResponseDto (JObj kvs)) (updateReportStatus e a i st)"
  unfolding createReport_def updateReportStatus_def Let_def
  by (rule gives_andThen giving | simp add: gives_report_values del: append.simps)+

lemma right_warning: "right_value e KeptIffNumericIds WarningResponseDto (JObj [(''warning'', warning_object e w)])"
proof -
  obtain fs where fs: "warning_object e w = JObj fs" by (simp add: warning_object_def)
  show ?thesis
    by (simp add: right_value_def WarningResponseDto_def WarningDataDto_def fs one_object)
      (simp add: fs [symmetric] warning_documented)
qed

lemma gives_warning: "gives (\<lambda>kvs. right_value e KeptIffNumericIds WarningResponseDto (JObj kvs)) (createWarning e a i t)"
  unfolding createWarning_def by (intro gives_andThen) (simp add: right_warning)

lemma gives_upload:
  "gives (\<lambda>kvs. right_value e KeptIffNumericIds UploadIntentResponseDto (JObj kvs)) (createUploadIntent e up u dto)"
  unfolding createUploadIntent_def by (intro gives_andThen) (simp add: right_value_def upload_documented)

lemma gives_marked: "gives (\<lambda>kvs. right_value e Kept FileMarkUploadedResponseDto (JObj kvs)) (markUploaded e u i t)"
  unfolding markUploaded_def
  by (rule gives_andThen giving | simp add: right_value_def marked_documented)+

lemma gives_details: "gives (\<lambda>kvs. right_value e Kept AdminUserDetailsResponseDto (JObj kvs)) (getUserDetails e i)"
  unfolding getUserDetails_def Let_def
  by (rule gives_andThen giving | simp add: right_value_def AdminUserDetailsResponseDto_def AdminUserDetailsDataDto_def
      one_object details_documented [OF fitting_ok] del: spread.simps)+

lemma gives_logout: "gives (\<lambda>kvs. right_value e Kept LogoutResponseDto (JObj kvs)) (logout e t)"
  unfolding logout_def
  by (rule gives_andThen giving | simp add: right_value_def logout_documented)+

text \<open>Three answers are right because of what the tables hold.\<close>

lemma right_summary:
  assumes "ratings_ok d" and "getUserRatingSummary e i d = (Inr kvs, d')"
  shows "right_value e KeptWithNumericIds RatingSummaryResponseDto (JObj kvs)"
proof -
  have ok: "rating_ok r" if "r \<in> set (page 20 0 (order_desc rt_created_at (filter (\<lambda>r. rt_rated_user_id r = i) (user_ratings d))))" for r
    using that assms(1) by (auto simp: ratings_ok_def page_def dest!: in_set_takeD in_set_dropD)
  show ?thesis
    using assms(2) summary_documented ok by (auto simp: getUserRatingSummary_def Let_def right_value_def)
qed

lemma right_file:
  assumes "files_ok d" and "getFile e u i d = (Inr kvs, d')"
  shows "right_value e KeptIffNumericIds FileResponseDto (JObj kvs)"
proof -
  from assms(2) obtain f url where f: "file_by_id i d = Some f"
    and kvs: "kvs = [(''file'', JObj (spread (file_object e f) [(''readUrl'', JStr url)]))]"
    by (auto simp: getFile_def andThen_run unless_run simp del: spread.simps split: option.splits if_splits)
  from f have "f \<in> set (files d)" by (auto simp: file_by_id_def dest: row_where_Some)
  with assms(1) have "f_owner_type f \<in> set OWNER_TYPES" by (auto simp: files_ok_def file_checks_def)
  then show ?thesis
    using file_documented by (simp add: right_value_def kvs FileResponseDto_def FileDataDto_def one_object del: spread.simps)
qed

lemma right_product_status:
  assumes "updateProductStatus e u i st d = (Inr kvs, d')"
  shows "right_value e KeptIffNumericIds ProductStatusResponseDto (JObj kvs)"
proof -
  have found: "\<exists>q. row_where (\<lambda>p. p_id p = i) (update_where (\<lambda>p. p_id p = i)
      (\<lambda>p. p\<lparr>p_status := st, p_updated_at := t\<rparr>) ps) = Some q" if "\<exists>p \<in> set ps. p_id p = i" for t ps
    using that by (induction ps) (auto simp: update_where_def)
  from updateProductStatus_Inr [OF assms] have "\<exists>p \<in> set (products d). p_id p = i"
    by (auto dest: live_product_Some)
  from found [OF this] obtain q where
    q: "row_where (\<lambda>p. p_id p = i) (update_where (\<lambda>p. p_id p = i)
      (\<lambda>p. p\<lparr>p_status := st, p_updated_at := clock d\<rparr>) (products d)) = Some q" by blast
  obtain p where p: "ownedProduct e u i d = (Inr p, d)"
    using assms by (auto simp: updateProductStatus_def withTransaction_Inr andThen_run dest: ownedProduct_Inr
        split: sum.splits prod.splits)
  have "kvs = [(''product'', JObj [(''id'', int8_parse e (p_id q)), (''status'', JStr (product_status_text (p_status q))),
      (''updated_at'', JStr (ts_text e (p_updated_at q)))])]"
    using assms p q by (simp add: updateProductStatus_def withTransaction_Inr andThen_run)
  then show ?thesis
    by (simp add: right_value_def ProductStatusResponseDto_def ProductStatusDataDto_def one_object status_documented)
qed

section \<open>Controllers\<close>

text \<open>A route that documents a class returns right values only.\<close>

definition returns_right :: "env \<Rightarrow> api_request \<Rightarrow> json \<Rightarrow> bool" where
  "returns_right e r v \<longleftrightarrow> (case documented r of None \<Rightarrow> True | Some s \<Rightarrow> right_value e (verdict_of r) s v)"

lemma gives_Inr: "gives P m \<Longrightarrow> m s = (Inr a, s') \<Longrightarrow> P a"
  by (auto simp: gives_def)

lemma undecided_right [simp]: "right_value e Undecided s v"
  by (simp add: right_value_def)

lemmas handler_answers = gives_tokens gives_logout gives_lists gives_messages gives_getMe gives_updateMe gives_admin_users
  gives_products gives_conversations gives_public gives_categories gives_rateUser gives_reports gives_warning gives_upload
  gives_marked gives_details

definition from_tables :: "api_request \<Rightarrow> bool" where
  "from_tables r \<longleftrightarrow>
     (case r of
        RatingsApi q \<Rightarrow> (case q of RatingSummary i \<Rightarrow> True | _ \<Rightarrow> False)
      | FilesApi q \<Rightarrow> (case q of GetFile i \<Rightarrow> True | _ \<Rightarrow> False)
      | ProductsApi q \<Rightarrow> (case q of UpdateProductStatus i st \<Rightarrow> True | _ \<Rightarrow> False)
      | _ \<Rightarrow> False)"

lemma accounts_right:
  "gives (returns_right e (AuthApi a)) (controller e user (AuthApi a))"
  "gives (returns_right e (AkedlyApi k)) (controller e user (AkedlyApi k))"
  "gives (returns_right e (UsersApi m)) (controller e user (UsersApi m))"
  "gives (returns_right e (PublicUsersApi p)) (controller e user (PublicUsersApi p))"
  "gives (returns_right e (AdminApi q)) (controller e user (AdminApi q))"
  subgoal by (cases a) (auto simp: returns_right_def intro!: giving handler_answers)
  subgoal by (simp add: gives_def returns_right_def)
  subgoal by (cases m) (auto simp: returns_right_def intro!: giving handler_answers)
  subgoal by (cases p) (auto simp: returns_right_def intro!: giving handler_answers)
  subgoal by (cases q) (auto simp: returns_right_def intro!: giving handler_answers)
  done

lemma market_right:
  "gives (returns_right e (BlocksApi b)) (controller e user (BlocksApi b))"
  "gives (returns_right e (FavoritesApi f)) (controller e user (FavoritesApi f))"
  "gives (returns_right e (ReportsApi r)) (controller e user (ReportsApi r))"
  "gives (returns_right e (CategoriesApi c)) (controller e user (CategoriesApi c))"
  "gives (returns_right e (ChatApi t)) (controller e user (ChatApi t))"
  "gives (returns_right e (HealthApi h)) (controller e user (HealthApi h))"
  "\<not> from_tables (ProductsApi p) \<Longrightarrow> gives (returns_right e (ProductsApi p)) (controller e user (ProductsApi p))"
  "\<not> from_tables (RatingsApi q) \<Longrightarrow> gives (returns_right e (RatingsApi q)) (controller e user (RatingsApi q))"
  "\<not> from_tables (FilesApi l) \<Longrightarrow> gives (returns_right e (FilesApi l)) (controller e user (FilesApi l))"
  subgoal by (cases b) (auto simp: returns_right_def intro!: giving handler_answers)
  subgoal by (cases f) (auto simp: returns_right_def intro!: giving handler_answers)
  subgoal by (cases r) (auto simp: returns_right_def intro!: giving handler_answers)
  subgoal by (cases c) (auto simp: returns_right_def intro!: giving handler_answers)
  subgoal by (cases t) (auto simp: returns_right_def intro!: giving handler_answers gives_after [OF gives_conversations(3)])
  subgoal by (auto simp: returns_right_def health_controller_def right_value_def list_classes intro!: giving)
  subgoal by (cases p) (auto simp: from_tables_def returns_right_def intro!: giving handler_answers)
  subgoal by (cases q) (auto simp: from_tables_def returns_right_def intro!: giving handler_answers)
  subgoal by (cases l) (auto simp: from_tables_def returns_right_def intro!: giving handler_answers)
  done

lemma controller_right:
  assumes "store_ok (gw_db g)" and run: "controller e user r g = (Inr v, g')"
  shows "returns_right e r v"
proof (cases "from_tables r")
  case True
  have ok: "ratings_ok (gw_db g)" "files_ok (gw_db g)" using assms(1) by (simp_all add: store_ok_def)
  from True show ?thesis
    using run right_summary [OF ok(1)] right_file [OF ok(2)] right_product_status
    by (auto simp: from_tables_def returns_right_def on_db_run object_def with_user_def andThen_run
        split: sum.splits prod.splits option.splits api_request.splits ratings_request.splits files_request.splits
          products_request.splits)
next
  case False
  then have "gives (returns_right e r) (controller e user r)"
    using accounts_right market_right by (cases r) simp_all
  from gives_Inr [OF this run] show ?thesis .
qed

section \<open>Requests\<close>

lemma fitting_resolved: "int8_ok e \<Longrightarrow> fitting e (resolveEntities e pairs d)"
  by (auto simp: fitting_def relating_def dest: resolved_conforms)

lemma error_conforms: "conforms ErrorResponseDto (snd (http_catch e rq now x))"
  by (cases x) (simp_all add: http_catch_def Let_def ErrorResponseDto_def ErrorDetailDto_def property_defs
      http_error_message_def http_error_body_def coalesce_def del: conforms.simps(1))


text \<open>A driver that reads \<open>BIGINT\<close> as a number.\<close>

definition numeric_env :: env where
  "numeric_env = token_env\<lparr>int8_parse := int8_as_number\<rparr>"

lemma numeric_env_ids: "int8_ok numeric_env" "numeric_ids numeric_env" "\<not> numeric_ids token_env"
proof -
  have "int8_as_string 0 \<noteq> int8_as_number 0" by (simp add: int8_as_string_def int8_as_number_def)
  then have "int8_as_string \<noteq> int8_as_number" by metis
  then show "int8_ok numeric_env" "numeric_ids numeric_env" "\<not> numeric_ids token_env"
    by (simp_all add: numeric_env_def int8_ok_def numeric_ids_def token_env_def sample_env_def)
qed

lemma numeric_bearer:
  assumes "account_by_id 1 d = Some row" and "u_token_version row = 0" and "u_phone row = ''+201''"
  shows "bearer numeric_env (Some ''t'') d = (Inr token_user, d)"
  using assms by (simp add: numeric_env_def bearer_def authenticate_def token_env_def jwt_validate_run is_number_def jint_def
      toPositiveInt_def string_number_digits js_trim_digits is_digit_def digits_nat_def digit_val_def token_user_def
      is_integer_def samples)

lemma numeric_admitted:
  "guard_of r = Jwt \<Longrightarrow> admitted numeric_env (token_call r) (gw_db (empty_gateway sample_db)) token_user"
  using numeric_bearer [OF sample_accounts(1)] by (simp add: admitted_def token_call_def empty_gateway_def sample_user_def)

text \<open>An admitted call whose handler succeeds is answered with the status of its route.\<close>

lemma success_served:
  assumes "admitted e c (gw_db g) u" and "dto_ok (hc_request c)" and "controller e (Some u) (hc_request c) g = (Inr v, g1)"
  obtains body g' where "serve e rq c g = (Inr (success_status (hc_request c), body), g')"
    and "fst (handle_call e c g) = Inr v"
  using assms admitted_run(1) [OF assms(1,2)] by (simp add: serve_def andThen_run on_db_run respond_def expand_def)


end
