(* ===== verification/Spec2Isabelle.thy ===== *)
theory Spec2Isabelle
  imports AuthProps ProductProps ListingProps SocialProps ChatProps FilesProps RelationsProps AdminProps
    GatewayFaults LoggingProps HttpProps SeedersProps AnswerProps RoutesProps DevSeedProps SeedOutcome
    ResponseRoutes
begin

text \<open>
  The market place backend: a NestJS server over PostgreSQL, Redis and socket.io, under \<open>src/src\<close>. This
  library models its services as executable functions on an explicit state and proves what makes them
  correct, and where they are not.

  \<^bold>\<open>How the program is modelled.\<close> An \<open>async\<close> method becomes a value of type \<open>('s, 'a) act\<close> (theory Prelude): a
  function from the state to a result or an exception, and the state left behind; an exception does not
  undo what was written before it, unless the code runs in \<open>withTransaction\<close>. The state of the services is
  the record \<open>db\<close> (theory World): the tables of \<open>src/db/schema.sql\<close> as lists of rows, the identity
  sequences, the clock, the number of random draws and the log of Redis commands. A SQL statement becomes
  a function on the tables with the constraints of the schema (uniqueness, checks, foreign keys) as error
  branches. JavaScript values that cross the borders of the program are the datatype \<open>json\<close>; \<open>Number\<close>,
  \<open>String\<close>, \<open>trim\<close>, \<open>hasOwnProperty\<close>, \<open>toISOString\<close> and the rest of the language the code relies on are
  definitions. A DTO is a record of fields that already have their declared types, and for the update DTOs the
  instance itself, because the services ask which own properties it has; the rules of the decorators on
  these fields are part of the model (Dtos), the conversion of a raw body to them is not.

  What is not code of the repository is a field of the record \<open>env\<close>: bcrypt, HMAC, SHA-1, JWT, the random
  source, the answers of Redis and of remote HTTP services, the driver's reading of \<open>BIGINT\<close> (the predicate
  \<open>int8_ok\<close>: always strings or always numbers), the text of timestamps, the full-text match and the
  collation of the database. Documented behaviour of these enters a theorem as a named hypothesis.

  \<^bold>\<open>The parts.\<close>
  Config: \<open>config/configuration.ts\<close> and \<open>common/cors\<close>, the checks on the environment and the CORS policies.
  Helpers, Taxonomy: \<open>common/helpers\<close>, \<open>common/mappers\<close> and \<open>products/product-taxonomy.ts\<close>; the locale
  \<open>id_reader\<close> is the contract of the ways a \<open>BIGINT\<close> comes back from the driver.
  AuthState, Otp, Auth, Guards: \<open>redis.service.ts\<close>, \<open>auth-state.store.ts\<close>, the two OTP senders with the
  cleanup task, \<open>auth.service.ts\<close>, \<open>jwt.strategy.ts\<close> and the guards.
  Products, Listing: \<open>products.service.ts\<close>, its search filters as lists of clauses with numbered parameters.
  Blocks, Social: \<open>blocks\<close>, \<open>favorites\<close>, \<open>ratings\<close>, \<open>reports\<close>, \<open>categories\<close>; the locale \<open>block_check\<close> is what each
  service's own query for a block promises.
  Chat: \<open>chat.service.ts\<close>. Sockets, Gateway: the registry of sockets, the gateway, its exception filter and
  \<open>POST /chat/conversations\<close>, with \<open>ws_step\<close>, the machine they make with the rest of the server.
  Files: uploads and their signatures; the locale \<open>storage_uploader\<close> is the interface of the storage.
  Relations: \<open>fk-expansion.service.ts\<close>, which replaces foreign keys in answers by objects.
  Users, Admin: \<open>users.service.ts\<close> and \<open>admin.service.ts\<close> with the audit log.
  Logging, Http: what reaches the log, and the way of an answer or an exception out of the server.
  Dtos, Api: the HTTP surface. A request is a method of a controller with its parameters; \<open>handle_call\<close> runs the
  throttler, the guards, the validation rules and the handler in the order of the framework, \<open>serve\<close> adds the
  way of the answer out.
  Writes, ServiceWrites, CallWrites: an abstract specification, the writes an actor (anyone, a member, an
  administrator) may make, and the refinement lemmas that every service and every call makes only these.
  StoreInvariant, SystemProps: the invariant of the whole store and the machine \<open>sys_step\<close> of the whole
  server: HTTP calls, socket events, the cleanup task and time.
  Seeders: \<open>admin-seeder.ts\<close>, \<open>prod-seeder.ts\<close> and their scripts.
  ResponseDtos: the classes of the \<open>*-response.dto.ts\<close> files as schemas, \<open>conforms\<close>, which reads them as OpenAPI does,
  and \<open>documented\<close>, the class each route names for its answer.
  Routes: the routing table of the controllers' decorators and the way from a URL to a handler.
  SeedClient, SeedData, DevSeed, DevSeedRun: \<open>dev/dev-seeder.ts\<close>, a client of the API. \<open>SeedClient\<close> has its input,
  the retrying client and the chat sockets over a record \<open>world\<close> of what the outside does; \<open>SeedData\<close> its data, checked
  against the validation rules in \<open>SeedDataValid\<close>; the other two its steps, the run and \<open>scripts/seed-dev.ts\<close>. \<open>SeedServer\<close>
  is the world in which the model of the server (\<open>serve\<close> and the gateway) answers, over a network that may lose
  requests and answers; the locale \<open>blocking_server\<close> of \<open>SeedBlocks\<close> is what a run relies on of blocks, and
  \<open>SeedOutcome\<close> shows that the server keeps it.
  Samples holds the concrete environment and tables on which the witnesses apply the theorems.

  \<^bold>\<open>What is proved.\<close>
  AuthLaws, AuthProps: refresh tokens are used once and end with a logout; an account needs the code that
  was sent; registration is atomic; accounts stay unique; a code sent is the code accepted.
  ProductProps, ListingProps: only owners change products, the catalog keeps its invariant, searches return
  exactly the matching page (the SQL filter refines the predicate of the request).
  SocialProps, ChatProps, GatewayProps: favourites, ratings and categories; one conversation per pair, blocks
  close it, messages and reading; in every reachable state of the chat server (rule induction over \<open>ws_step\<close>
  with Hoare triples for the handlers) rooms and their events reach participants only.
  FilesProps, RelationsProps: upload keys stay in their directory, batched expansion is per-identifier lookup.
  AdminProps: which account changes end access, and that every administrative change is logged once.
  LoggingProps, HttpProps, SeedersProps: the log keeps secrets and bounds, every request is answered by one
  envelope, seeding twice is seeding once.
  AccessProps: every route asks for what its decorators say, a call changes rows of its own user only, only
  administrators promote, \<open>GET\<close> requests only read, calls refine the abstract writes, the store invariant
  holds in every reachable state. ServedProps: what the validation rules let through fits the columns, so a
  valid product or rating is stored. AnswerProps: the only answers with status 500 are those of named
  causes (identifiers beyond \<open>BIGINT\<close>, dates the database cannot read, failures of Redis).
  RoutesProps: no route shadows another. ResponseProps, ResponseRoutes: which routes answer what their
  documentation says, and which never do, with the shape of what every handler returns. SeedClientProps, DevSeedProps: a request of the seeder ends after at most four
  attempts, and a run sends only calls that pass the validation rules. SeedOutcome: a run blocks two of its own
  accounts and then cannot open a conversation between them, so it never completes.
  The faults that came up are theorems too: a locked code stays valid and an old one can come back, a
  password reset keeps sessions, partial updates clear fields, a ban keeps API access, a deleted account
  keeps its chat, a socket that left early stays registered, password changes are logged in clear, a
  deleted administrator cannot be seeded again.

  \<^bold>\<open>Bounds.\<close> No definition runs on fuel: loops are recursion over lists or over the depth of a value, and the retry
  loop of the seeder's client ends by the measure of the attempts left. Numbers
  are exact (\<open>int\<close>, \<open>rat\<close>): integers beyond \<open>2^53\<close>, where a double rounds, and sequences beyond the range of
  \<open>BIGINT\<close> are not distinguished. Strings are lists of characters with codes below 256. A handler is one
  step, as if no other request ran between its awaits, except where the interleaving is the point: the
  verification of a socket's token is a step of its own.

  \<^bold>\<open>Not modelled.\<close> The wiring of modules and \<open>main.ts\<close>, the examples and descriptions of the
  documentation, the list of messages of the validation pipe and its conversion of raw bodies (whether a
  request converts is an input of a call, as is what the throttler has counted), the formats of date strings
  and fractional page limits, the storage of request identifiers, the connection pool, the Redis adapter of
  socket.io (one process is modelled), the files the development seeder writes (only their directory is), and
  the simulations and smoke tests, which are clients of the API. A connection lost between the status and the
  body of an answer counts as one lost before: the seeder logs it with status 0.
\<close>

end
